(* ===== verification/Prelude.thy ===== *)
theory Prelude
  imports Main "HOL-Library.Word"
begin

text \<open>
  The vocabulary shared by every component: machine integers, time, Go errors and the
  three ways a Go function can end (a value, an error, a panic), and the lemmas that let
  the simplifier follow the early returns of the source.
\<close>

section \<open>Machine integers, strings and bytes\<close>

type_synonym u8 = "8 word"
type_synonym u32 = "32 word"
type_synonym u64 = "64 word"
type_synonym bytes = "u8 list"

named_theorems plan_simps
  \<open>definitions and equations that evaluate the planning layer\<close>

named_theorems wire_simps
  \<open>equations that evaluate the wire encoders and decoders\<close>

text \<open>The decimal rendering of \<^verbatim>\<open>%d\<close> for unsigned integers.\<close>

fun decimal :: "nat \<Rightarrow> string" where
  "decimal n =
     (if n < 10 then [char_of (n + 48)]
      else decimal (n div 10) @ [char_of (n mod 10 + 48)])"

declare decimal.simps [simp del]

lemma decimal_nonempty: "decimal n \<noteq> []"
  by (subst decimal.simps) simp

text \<open>The number a rendering stands for, so a rendering determines its number.\<close>

definition decimal_value :: "string \<Rightarrow> nat" where
  "decimal_value s = foldl (\<lambda>a c. 10 * a + (of_char c - 48)) 0 s"

lemma decimal_value_decimal [simp]: "decimal_value (decimal n) = n"
proof (induction n rule: decimal.induct)
  case (1 n)
  show ?case
  proof (cases "n < 10")
    case True
    then show ?thesis
      by (subst decimal.simps) (simp add: decimal_value_def)
  next
    case False
    with 1 have "decimal_value (decimal (n div 10)) = n div 10" by simp
    with False show ?thesis
      by (subst decimal.simps) (simp add: decimal_value_def)
  qed
qed

lemma decimal_eq_iff [simp]: "decimal m = decimal n \<longleftrightarrow> m = n"
  by (metis decimal_value_decimal)

text \<open>
  The quoted rendering of \<^verbatim>\<open>%q\<close>: the double quote, the backslash and the control
  characters of ASCII are escaped, every other character (the bytes of printable UTF-8
  included) stands for itself.
\<close>

definition hex_digit :: "nat \<Rightarrow> char" where
  "hex_digit n = char_of (if n < 10 then n + 48 else n + 87)"

definition quote_char :: "char \<Rightarrow> string" where
  "quote_char c =
     (let n = of_char c :: nat; esc = (\<lambda>m :: nat. [char_of (92 :: nat), char_of m]) in
      if n = 34 then esc 34 else if n = 92 then esc 92
      else if n = 7 then esc 97 else if n = 8 then esc 98 else if n = 12 then esc 102
      else if n = 10 then esc 110 else if n = 13 then esc 114 else if n = 9 then esc 116
      else if n = 11 then esc 118
      else if n < 32 \<or> n = 127 then esc 120 @ [hex_digit (n div 16), hex_digit (n mod 16)]
      else [c])"

definition go_quote :: "string \<Rightarrow> string" where
  "go_quote s = [char_of (34 :: nat)] @ concat (map quote_char s) @ [char_of (34 :: nat)]"

section \<open>Time\<close>

text \<open>
  A \<^verbatim>\<open>time.Time\<close> is the number of nanoseconds since Go's zero time; \<^verbatim>\<open>IsZero\<close> is
  equality with 0. A \<^verbatim>\<open>time.Duration\<close> is an \<^verbatim>\<open>int64\<close> number of nanoseconds, and
  \<^verbatim>\<open>Sub\<close> saturates at its bounds, as the standard library documents.
  \<^verbatim>\<open>Milliseconds\<close> divides and truncates towards zero.
\<close>

type_synonym time = int
type_synonym duration = int

definition max_duration :: duration where
  "max_duration = 2 ^ 63 - 1"

definition min_duration :: duration where
  "min_duration = - (2 ^ 63)"

definition time_sub :: "time \<Rightarrow> time \<Rightarrow> duration" where
  "time_sub t u = max min_duration (min max_duration (t - u))"

definition milliseconds :: "duration \<Rightarrow> int" where
  "milliseconds d = sgn d * (\<bar>d\<bar> div 1000000)"

definition millisecond :: duration where
  "millisecond = 1000000"

lemma time_sub_bounds: "min_duration \<le> time_sub t u \<and> time_sub t u \<le> max_duration"
  by (simp add: time_sub_def min_duration_def max_duration_def)

lemma milliseconds_nonneg: "0 \<le> d \<Longrightarrow> milliseconds d = d div 1000000"
  by (cases "d = 0") (simp_all add: milliseconds_def)

lemma milliseconds_bounds:
  assumes "min_duration \<le> d" and "d \<le> max_duration"
  shows "\<bar>milliseconds d\<bar> \<le> 2 ^ 63 div 1000000"
proof -
  have "\<bar>milliseconds d\<bar> \<le> \<bar>d\<bar> div 1000000"
    by (auto simp: milliseconds_def abs_mult sgn_if pos_imp_zdiv_nonneg_iff)
  moreover have "\<bar>d\<bar> \<le> 2 ^ 63"
    using assms by (simp add: min_duration_def max_duration_def)
  then have "\<bar>d\<bar> div 1000000 \<le> 2 ^ 63 div 1000000"
    by (rule zdiv_mono1) simp
  ultimately show ?thesis by linarith
qed

section \<open>Errors\<close>

text \<open>
  The sentinel errors of the repository, and the library sentinels the source compares
  with \<^verbatim>\<open>errors.Is\<close>. A wrapped error \<^verbatim>\<open>fmt.Errorf("pre%wpost", e)\<close> is
  \<open>Wrapf pre e post\<close>; \<^verbatim>\<open>APIError\<close> is the error value of the JetStream API, read
  by \<^verbatim>\<open>errors.As\<close>.
\<close>

datatype sentinel =
    ErrWorkflowAlreadyRunning
  | ErrWorkflowRunNotFound
  | ErrRunTerminal
  | ErrWorkerUnreachable
  | ErrRunAlreadyCompleted
  | ErrStaleDirective
  | ErrRunStateNotFound
  | ErrWorkflowTypeNotRegistered
  | ErrUnknownAPICommand
  | ErrInvalidMessageType

datatype lib_sentinel =
    ErrMsgNotFound
  | ErrNoMessages
  | ErrNoResponders
  | ErrTimeout

datatype gerr =
    Errorf string
  | Sentinel sentinel
  | LibErr lib_sentinel string
  | APIError nat string
  | Wrapf string gerr string

fun sentinel_text :: "sentinel \<Rightarrow> string" where
  "sentinel_text ErrWorkflowAlreadyRunning = ''workflow already has an active run''"
| "sentinel_text ErrWorkflowRunNotFound = ''workflow run not found''"
| "sentinel_text ErrRunTerminal = ''workflow run is in a terminal state''"
| "sentinel_text ErrWorkerUnreachable = ''worker unreachable''"
| "sentinel_text ErrRunAlreadyCompleted = ''run is already completed''"
| "sentinel_text ErrStaleDirective = ''stale step timeout directive''"
| "sentinel_text ErrRunStateNotFound = ''run state not found''"
| "sentinel_text ErrWorkflowTypeNotRegistered = ''workflow type not registered''"
| "sentinel_text ErrUnknownAPICommand = ''unknown API command''"
| "sentinel_text ErrInvalidMessageType = ''message type does not match command kind''"

text \<open>\<^verbatim>\<open>err.Error()\<close>\<close>

fun err_text :: "gerr \<Rightarrow> string" where
  "err_text (Errorf s) = s"
| "err_text (Sentinel s) = sentinel_text s"
| "err_text (LibErr l s) = s"
| "err_text (APIError c s) = s"
| "err_text (Wrapf pre e post) = pre @ err_text e @ post"

text \<open>\<^verbatim>\<open>errors.Is\<close> against a repository or a library sentinel, and \<^verbatim>\<open>errors.As\<close>.\<close>

fun errors_is :: "gerr \<Rightarrow> sentinel \<Rightarrow> bool" where
  "errors_is (Sentinel t) s = (t = s)"
| "errors_is (Wrapf pre e post) s = errors_is e s"
| "errors_is _ s = False"

fun errors_is_lib :: "gerr \<Rightarrow> lib_sentinel \<Rightarrow> bool" where
  "errors_is_lib (LibErr l t) s = (l = s)"
| "errors_is_lib (Wrapf pre e post) s = errors_is_lib e s"
| "errors_is_lib _ s = False"

fun errors_as_api :: "gerr \<Rightarrow> (nat \<times> string) option" where
  "errors_as_api (APIError c s) = Some (c, s)"
| "errors_as_api (Wrapf pre e post) = errors_as_api e"
| "errors_as_api _ = None"

text \<open>An error chain ends in one leaf, so it matches at most one sentinel.\<close>

lemma errors_is_unique: "errors_is e s \<Longrightarrow> errors_is e t \<Longrightarrow> s = t"
  by (induction e) auto

section \<open>Results\<close>

text \<open>
  A Go function that returns \<^verbatim>\<open>(T, error)\<close> ends with a value, with an error, or in a
  panic (a nil dereference, a failed unchecked type assertion).
\<close>

datatype 'a res = Ok 'a | Err gerr | Panic string

text \<open>
  \<^verbatim>\<open>x, err := m; if err != nil { return nil, fmt.Errorf("ctx: %w", err) }\<close> is
  \<open>orErrorf ctx m k\<close>, and \<^verbatim>\<open>if err != nil { return nil, err }\<close> is \<open>andThen m k\<close>.
\<close>

fun orErrorf :: "string \<Rightarrow> 'a res \<Rightarrow> ('a \<Rightarrow> 'b res) \<Rightarrow> 'b res" where
  "orErrorf ctx (Ok x) k = k x"
| "orErrorf ctx (Err e) k = Err (Wrapf ctx e '''')"
| "orErrorf ctx (Panic p) k = Panic p"

fun andThen :: "'a res \<Rightarrow> ('a \<Rightarrow> 'b res) \<Rightarrow> 'b res" where
  "andThen (Ok x) k = k x"
| "andThen (Err e) k = Err e"
| "andThen (Panic p) k = Panic p"

text \<open>Dereferencing a pointer that may be nil.\<close>

fun deref :: "string \<Rightarrow> 'a option \<Rightarrow> 'a res" where
  "deref what None = Panic what"
| "deref what (Some x) = Ok x"

lemma orErrorf_Ok_iff [simp]:
  "(orErrorf ctx m k = Ok y) = (\<exists>x. m = Ok x \<and> k x = Ok y)"
  by (cases m) auto

lemma andThen_Ok_iff [simp]:
  "(andThen m k = Ok y) = (\<exists>x. m = Ok x \<and> k x = Ok y)"
  by (cases m) auto

lemma orErrorf_Panic_iff:
  "(orErrorf ctx m k = Panic p) = (m = Panic p \<or> (\<exists>x. m = Ok x \<and> k x = Panic p))"
  by (cases m) auto

lemma andThen_Panic_iff:
  "(andThen m k = Panic p) = (m = Panic p \<or> (\<exists>x. m = Ok x \<and> k x = Panic p))"
  by (cases m) auto

lemma orErrorf_Err_iff:
  "(orErrorf ctx m k = Err e) =
     ((\<exists>e'. m = Err e' \<and> e = Wrapf ctx e' []) \<or> (\<exists>x. m = Ok x \<and> k x = Err e))"
  by (cases m) auto

lemma andThen_Err_iff:
  "(andThen m k = Err e) = (m = Err e \<or> (\<exists>x. m = Ok x \<and> k x = Err e))"
  by (cases m) auto

lemma deref_Ok_iff [simp]: "(deref what p = Ok x) = (p = Some x)"
  by (cases p) auto

lemma deref_Panic_iff: "(deref what p = Panic q) = (p = None \<and> q = what)"
  by (cases p) auto

lemma deref_not_Err [simp]: "deref what p \<noteq> Err e"
  by (cases p) auto

lemmas panic_simps = orErrorf_Panic_iff andThen_Panic_iff deref_Panic_iff

end
