(* ===== verification/Runtime.thy ===== *)
theory Runtime
  imports Prelude
begin

text \<open>
  What the server code takes from outside the repository on every call: the clock
  (\<^verbatim>\<open>time.Now\<close>), the ULID generator (\<^verbatim>\<open>ulid.Make\<close>) and the msgpack library. They are
  one parameter, a record \<open>runtime\<close>, of every definition that uses them. Each call
  site of the clock and of the generator is a constructor of \<open>site\<close>, so two readings
  made by one call of a handler are independent of each other.
\<close>

section \<open>Msgpack values\<close>

text \<open>
  The value tree a msgpack document holds. It is also the model of a Go \<^verbatim>\<open>any\<close>: the
  payloads of users reach the server as decoded documents, and nil is \<open>MNil\<close>.
  A float is kept as its 64 bits.
\<close>

datatype mp =
    MNil
  | MBool bool
  | MInt int
  | MFloat u64
  | MStr string
  | MBin bytes
  | MTime time
  | MArr "mp list"
  | MMap "(string \<times> mp) list"

type_synonym go_any = mp

text \<open>
  Which trees the format can hold: integers between \<^verbatim>\<open>int64\<close> and \<^verbatim>\<open>uint64\<close>, and
  lengths that fit 32 bits.
\<close>

fun fits :: "mp \<Rightarrow> bool" where
  "fits (MInt i) \<longleftrightarrow> - (2 ^ 63) \<le> i \<and> i < 2 ^ 64"
| "fits (MStr s) \<longleftrightarrow> length s < 2 ^ 32"
| "fits (MBin b) \<longleftrightarrow> length b < 2 ^ 32"
| "fits (MArr vs) \<longleftrightarrow> length vs < 2 ^ 32 \<and> list_all fits vs"
| "fits (MMap kvs) \<longleftrightarrow> length kvs < 2 ^ 32 \<and>
     list_all (\<lambda>kv. length (fst kv) < 2 ^ 32 \<and> fits (snd kv)) kvs"
| "fits _ \<longleftrightarrow> True"

section \<open>Call sites of the clock and of the ULID generator\<close>

datatype site =
    At_planFromRunStart_startTime
  | At_deriveNextDirective_Timestamp
  | At_NewRunState_EnteredAt
  | At_CompleteRun_EnteredAt
  | At_TerminateRun_EnteredAt
  | At_CancelRun_EnteredAt
  | At_FailRun_EnteredAt
  | At_BuildUnexpectedFailure_ID
  | At_BuildUnexpectedFailure_Timestamp
  | At_Wait_RunInfo
  | At_Wait_EnteredAt
  | At_Wait_wakeTimestamp
  | At_createWaitTimeoutTimer_now
  | At_EventReceived_wakeTimestamp
  | At_EventStart_EnteredAt
  | At_WaitTimeout_stepTimestamp
  | At_WaitTimeout_failID
  | At_WaitTimeout_failTimestamp
  | At_StepStart_EnteredAt
  | At_StepTimeoutTimer_currentTime
  | At_StepTimeoutFailure_ID
  | At_StepTimeoutFailure_Timestamp
  | At_historyStepStarted_Timestamp
  | At_historyStepCompleted_Timestamp
  | At_historyStepFailed_Timestamp
  | At_historyStepTimedout_Since
  | At_historyStepTimedout_Timestamp
  | At_historyWaitTimedOut_Timestamp
  | At_historyWaitStarted_Timestamp
  | At_historyEventReceived_Timestamp
  | At_StartRun_ID
  | At_StartRun_Timestamp
  | At_Send_ID
  | At_Send_Timestamp
  | At_Terminate_ID
  | At_Terminate_Timestamp
  | At_Cancel_ID
  | At_Cancel_Timestamp
  | At_buildStepTimeoutDirective_ID
  | At_buildWaitTimeoutDirective_ID
  | At_applyFailure_ID
  | At_applyFailure_Timestamp
  | At_handleNotifyParentComplete_Timestamp
  | At_handleWorkerTerminateRun_ID
  | At_handleWorkerTerminateRun_Timestamp
  | At_PutTypes_registeredAt

section \<open>The runtime\<close>

record runtime =
  now :: "site \<Rightarrow> time"
  ulid :: "site \<Rightarrow> string"
  mp_marshal :: "mp \<Rightarrow> bytes res"
  mp_unmarshal :: "bytes \<Rightarrow> mp res"

text \<open>
  The documented behaviour of the msgpack library the server relies on: a value that fits
  the format is encoded without an error, and decoding gives it back.
\<close>

definition codec_ok :: "runtime \<Rightarrow> bool" where
  "codec_ok rt \<longleftrightarrow> (\<forall>v. fits v \<longrightarrow> (\<exists>b. mp_marshal rt v = Ok b \<and> mp_unmarshal rt b = Ok v))"

lemma codec_marshal:
  assumes "codec_ok rt" and "fits v"
  obtains b where "mp_marshal rt v = Ok b" and "mp_unmarshal rt b = Ok v"
  using assms by (auto simp: codec_ok_def)

end
