(* ===== verification/Types.thy ===== *)
theory Types
  imports Runtime
begin

text \<open>
  The data of the wire protocol and of the run state machine: \<^verbatim>\<open>src/types/external/v1\<close>
  and \<^verbatim>\<open>src/types\<close>. A Go struct is a record whose fields carry the struct's
  abbreviation as a prefix; a pointer field is an \<^verbatim>\<open>option\<close>; an interface value that
  may be nil is an \<^verbatim>\<open>option\<close> of the datatype of its implementations; a string enum is a
  datatype with one constructor per constant of the source and one for every other string.
\<close>

section \<open>Names (aliases.go, run\_info.go, directive.go, timer.go, command.go)\<close>

type_synonym WFID = string
type_synonym RunID = string
type_synonym WFType = string
type_synonym WorkerName = string
type_synonym WorkerID = string
type_synonym StepAttempt = u64
type_synonym DirectiveID = string
type_synonym TimerID = string
type_synonym CmdID = string

text \<open>Go maps, listed in the order an iteration visits them.\<close>

type_synonym KVUpdates = "(string \<times> go_any) list"

record ErrorDetails =
  ed_Message :: string
  ed_StackTrace :: string
  ed_Type :: string

section \<open>String enums\<close>

datatype DirectiveKind =
    DirectiveKindTerminate
  | DirectiveKindCancel
  | DirectiveKindStart
  | DirectiveKindEvent
  | DirectiveKindStepResult
  | DirectiveKindStepPickedUp
  | DirectiveKindFail
  | DirectiveKindFailStep
  | DirectiveKindComplete
  | DirectiveKindWait
  | DirectiveKindStep
  | DirectiveKindStepTimeout
  | DirectiveKindWaitTimeout
  | DirectiveKindWakeFromInbox
  | DirectiveKindOther string

fun directive_kind_str :: "DirectiveKind \<Rightarrow> string" where
  "directive_kind_str DirectiveKindTerminate = ''terminate''"
| "directive_kind_str DirectiveKindCancel = ''cancel''"
| "directive_kind_str DirectiveKindStart = ''start''"
| "directive_kind_str DirectiveKindEvent = ''event''"
| "directive_kind_str DirectiveKindStepResult = ''step_result''"
| "directive_kind_str DirectiveKindStepPickedUp = ''step_picked_up''"
| "directive_kind_str DirectiveKindFail = ''fail''"
| "directive_kind_str DirectiveKindFailStep = ''fail_step''"
| "directive_kind_str DirectiveKindComplete = ''complete''"
| "directive_kind_str DirectiveKindWait = ''wait''"
| "directive_kind_str DirectiveKindStep = ''step''"
| "directive_kind_str DirectiveKindStepTimeout = ''step_timeout''"
| "directive_kind_str DirectiveKindWaitTimeout = ''wait_timeout''"
| "directive_kind_str DirectiveKindWakeFromInbox = ''wake_from_inbox''"
| "directive_kind_str (DirectiveKindOther s) = s"

datatype RunStateKind =
    RunStateIdle
  | RunStateStart
  | RunStateStep
  | RunStateWait
  | RunStateComplete
  | RunStateFail
  | RunStateCancel
  | RunStateTerminate
  | RunStateOther string

fun run_state_kind_str :: "RunStateKind \<Rightarrow> string" where
  "run_state_kind_str RunStateIdle = ''idle''"
| "run_state_kind_str RunStateStart = ''start''"
| "run_state_kind_str RunStateStep = ''step''"
| "run_state_kind_str RunStateWait = ''wait''"
| "run_state_kind_str RunStateComplete = ''complete''"
| "run_state_kind_str RunStateFail = ''fail''"
| "run_state_kind_str RunStateCancel = ''cancel''"
| "run_state_kind_str RunStateTerminate = ''terminate''"
| "run_state_kind_str (RunStateOther s) = s"

datatype RunStatus =
    RunStatusPending
  | RunStatusScheduled
  | RunStatusRunning
  | RunStatusCompleted
  | RunStatusFailed
  | RunStatusCancelled
  | RunStatusTimedOut
  | RunStatusTerminated
  | RunStatusOther string

fun run_status_str :: "RunStatus \<Rightarrow> string" where
  "run_status_str RunStatusPending = ''pending''"
| "run_status_str RunStatusScheduled = ''scheduled''"
| "run_status_str RunStatusRunning = ''running''"
| "run_status_str RunStatusCompleted = ''completed''"
| "run_status_str RunStatusFailed = ''failed''"
| "run_status_str RunStatusCancelled = ''cancelled''"
| "run_status_str RunStatusTimedOut = ''timed_out''"
| "run_status_str RunStatusTerminated = ''terminated''"
| "run_status_str (RunStatusOther s) = s"

definition RunStatus_IsTerminal :: "RunStatus \<Rightarrow> bool" where
  "RunStatus_IsTerminal s \<longleftrightarrow>
     s = RunStatusCompleted \<or>
     s = RunStatusFailed \<or>
     s = RunStatusCancelled \<or>
     s = RunStatusTimedOut \<or>
     s = RunStatusTerminated"

datatype TimerKind =
    TimerKindWaitTimeout
  | TimerKindStepTimeout
  | TimerKindOther string

fun timer_kind_str :: "TimerKind \<Rightarrow> string" where
  "timer_kind_str TimerKindWaitTimeout = ''wait_timeout''"
| "timer_kind_str TimerKindStepTimeout = ''step_timeout''"
| "timer_kind_str (TimerKindOther s) = s"

datatype BackgroundTaskKind =
    BackgroundTaskKindDeleteTimer
  | BackgroundTaskKindDeleteInboxEvent
  | BackgroundTaskKindPurgeRunResidue
  | BackgroundTaskKindNotifyParentComplete
  | BackgroundTaskKindWorkerTerminateRun
  | BackgroundTaskKindOther string

fun bg_task_kind_str :: "BackgroundTaskKind \<Rightarrow> string" where
  "bg_task_kind_str BackgroundTaskKindDeleteTimer = ''delete_timer''"
| "bg_task_kind_str BackgroundTaskKindDeleteInboxEvent = ''delete_inbox_event''"
| "bg_task_kind_str BackgroundTaskKindPurgeRunResidue = ''purge_run_residue''"
| "bg_task_kind_str BackgroundTaskKindNotifyParentComplete = ''notify_parent_complete''"
| "bg_task_kind_str BackgroundTaskKindWorkerTerminateRun = ''worker_terminate_run''"
| "bg_task_kind_str (BackgroundTaskKindOther s) = s"

datatype CmdKind =
    CmdKindRunCancel
  | CmdKindRunDescribe
  | CmdKindRunEvent
  | CmdKindRunStart
  | CmdKindRunTerminate
  | CmdKindWorkerRegister
  | CmdKindWorkerTerminateRun
  | CmdKindOther string

fun cmd_kind_str :: "CmdKind \<Rightarrow> string" where
  "cmd_kind_str CmdKindRunCancel = ''run.cancel''"
| "cmd_kind_str CmdKindRunDescribe = ''run.describe''"
| "cmd_kind_str CmdKindRunEvent = ''run.event''"
| "cmd_kind_str CmdKindRunStart = ''run.start''"
| "cmd_kind_str CmdKindRunTerminate = ''run.terminate''"
| "cmd_kind_str CmdKindWorkerRegister = ''worker.register''"
| "cmd_kind_str CmdKindWorkerTerminateRun = ''worker.terminate_run''"
| "cmd_kind_str (CmdKindOther s) = s"

section \<open>RunInfo (run\_info.go)\<close>

record RunInfo =
  ri_ID :: RunID
  ri_WFID :: WFID
  ri_WFType :: WFType
  ri_Status :: RunStatus
  ri_WorkerName :: WorkerName
  ri_ParentWFID :: "WFID option"
  ri_ParentWFType :: "WFType option"
  ri_ParentRunID :: "RunID option"
  ri_ParentCallbackStep :: "string option"
  ri_Timeout :: "duration option"
  ri_CreatedAt :: time
  ri_ScheduledAt :: "time option"
  ri_StartedAt :: "time option"
  ri_CompletedAt :: "time option"
  ri_HistorySeqID :: u64

definition RunInfo_zero :: RunInfo where
  "RunInfo_zero =
     \<lparr>ri_ID = '''', ri_WFID = '''', ri_WFType = '''', ri_Status = RunStatusOther '''',
      ri_WorkerName = '''', ri_ParentWFID = None, ri_ParentWFType = None,
      ri_ParentRunID = None, ri_ParentCallbackStep = None, ri_Timeout = None,
      ri_CreatedAt = 0, ri_ScheduledAt = None, ri_StartedAt = None,
      ri_CompletedAt = None, ri_HistorySeqID = 0\<rparr>"

definition RunInfo_IsTerminal :: "RunInfo \<Rightarrow> bool" where
  "RunInfo_IsTerminal ri = RunStatus_IsTerminal (ri_Status ri)"

text \<open>\<^verbatim>\<open>if ri.CreatedAt.IsZero() { ri.CreatedAt = timestamp }\<close>\<close>

definition touch_created :: "RunInfo \<Rightarrow> time \<Rightarrow> RunInfo" where
  "touch_created ri timestamp =
     (if ri_CreatedAt ri = 0 then ri\<lparr>ri_CreatedAt := timestamp\<rparr> else ri)"

definition RunInfo_Pending :: "RunInfo \<Rightarrow> time \<Rightarrow> RunInfo res" where
  "RunInfo_Pending ri timestamp =
     (let ri = touch_created ri timestamp in Ok (ri\<lparr>ri_Status := RunStatusPending\<rparr>))"

definition RunInfo_Schedule :: "RunInfo \<Rightarrow> time \<Rightarrow> RunInfo res" where
  "RunInfo_Schedule ri timestamp =
     (let ri = touch_created ri timestamp
      in Ok (ri\<lparr>ri_Status := RunStatusScheduled, ri_ScheduledAt := Some timestamp\<rparr>))"

definition RunInfo_Start :: "RunInfo \<Rightarrow> time \<Rightarrow> RunInfo res" where
  "RunInfo_Start ri timestamp =
     (let ri = touch_created ri timestamp
      in Ok (ri\<lparr>ri_Status := RunStatusRunning, ri_StartedAt := Some timestamp\<rparr>))"

definition RunInfo_StartStep :: "RunInfo \<Rightarrow> string \<Rightarrow> time \<Rightarrow> RunInfo res" where
  "RunInfo_StartStep ri stepName timestamp =
     (let ri = touch_created ri timestamp in Ok (ri\<lparr>ri_Status := RunStatusRunning\<rparr>))"

definition RunInfo_Wait :: "RunInfo \<Rightarrow> time \<Rightarrow> RunInfo res" where
  "RunInfo_Wait ri timestamp = Ok (ri\<lparr>ri_Status := RunStatusRunning\<rparr>)"

definition RunInfo_StartEvent :: "RunInfo \<Rightarrow> string \<Rightarrow> time \<Rightarrow> RunInfo res" where
  "RunInfo_StartEvent ri eventName timestamp =
     (let ri = touch_created ri timestamp in Ok (ri\<lparr>ri_Status := RunStatusRunning\<rparr>))"

definition RunInfo_Complete :: "RunInfo \<Rightarrow> time \<Rightarrow> RunInfo res" where
  "RunInfo_Complete ri timestamp =
     (if ri_StartedAt ri = None then Err (Errorf ''cannot complete run without start time'')
      else Ok (ri\<lparr>ri_Status := RunStatusCompleted, ri_CompletedAt := Some timestamp\<rparr>))"

definition RunInfo_Fail :: "RunInfo \<Rightarrow> time \<Rightarrow> RunInfo res" where
  "RunInfo_Fail ri timestamp =
     (if ri_StartedAt ri = None then Err (Errorf ''cannot complete run without start time'')
      else Ok (ri\<lparr>ri_Status := RunStatusFailed, ri_CompletedAt := Some timestamp\<rparr>))"

definition RunInfo_Cancel :: "RunInfo \<Rightarrow> time \<Rightarrow> RunInfo res" where
  "RunInfo_Cancel ri timestamp =
     Ok (ri\<lparr>ri_Status := RunStatusCancelled, ri_CompletedAt := Some timestamp\<rparr>)"

definition RunInfo_Terminate :: "RunInfo \<Rightarrow> time \<Rightarrow> RunInfo res" where
  "RunInfo_Terminate ri timestamp =
     Ok (ri\<lparr>ri_Status := RunStatusTerminated, ri_CompletedAt := Some timestamp\<rparr>)"

definition RunInfo_MarkTimedOut :: "RunInfo \<Rightarrow> time \<Rightarrow> RunInfo res" where
  "RunInfo_MarkTimedOut ri timestamp =
     (if ri_StartedAt ri = None then Err (Errorf ''cannot complete run without start time'')
      else Ok (ri\<lparr>ri_Status := RunStatusTimedOut, ri_CompletedAt := Some timestamp\<rparr>))"

lemma touch_created_frame [simp]:
  "ri_ID (touch_created ri t) = ri_ID ri"
  "ri_WFID (touch_created ri t) = ri_WFID ri"
  "ri_WFType (touch_created ri t) = ri_WFType ri"
  "ri_Status (touch_created ri t) = ri_Status ri"
  "ri_ParentWFID (touch_created ri t) = ri_ParentWFID ri"
  "ri_ParentCallbackStep (touch_created ri t) = ri_ParentCallbackStep ri"
  "ri_StartedAt (touch_created ri t) = ri_StartedAt ri"
  "ri_CompletedAt (touch_created ri t) = ri_CompletedAt ri"
  "ri_HistorySeqID (touch_created ri t) = ri_HistorySeqID ri"
  by (simp_all add: touch_created_def)

lemmas RunInfo_ops =
  RunInfo_Pending_def RunInfo_Schedule_def RunInfo_Start_def RunInfo_StartStep_def
  RunInfo_Wait_def RunInfo_StartEvent_def RunInfo_Complete_def RunInfo_Fail_def
  RunInfo_Cancel_def RunInfo_Terminate_def RunInfo_MarkTimedOut_def

section \<open>Directives (directive.go)\<close>

text \<open>
  The implementations of \<^verbatim>\<open>DirectiveMessage\<close>. \<^verbatim>\<open>StepResult\<close> nests two messages.
\<close>

datatype DirectiveMessage =
    Start (start_Input: go_any) (start_Timeout: u32)
  | Step (step_Name: string) (step_Timeout: u32)
  | StepTimeout (stepTimeout_StepName: string) (stepTimeout_OriginalDirectiveID: DirectiveID)
  | FailStep (failStep_StepName: string) (failStep_Error: ErrorDetails)
  | Wait (wait_Timeout: u32) (wait_TimeoutStepName: string)
  | WaitTimeout (waitTimeout_TimeoutStepName: string)
      (waitTimeout_OriginalDirectiveID: DirectiveID)
  | WakeFromInbox
  | Cancel (cancel_Reason: string)
  | Terminate (terminate_Reason: string)
  | Event (event_EventSeqID: "u64 option") (event_EventName: string)
      (event_Payload: go_any) (event_Timeout: u32)
  | Complete (complete_Result: go_any)
  | Fail (fail_Error: ErrorDetails)
  | StepPickedUp (stepPickedUp_StepName: string) (stepPickedUp_WorkerID: WorkerID)
      (stepPickedUp_Timestamp: time)
  | StepResult (sr_ProcessedMsgKind: DirectiveKind)
      (sr_ProcessedMsg: "DirectiveMessage option") (sr_WorkerID: "WorkerID option")
      (sr_DurationMS: int) (sr_KVUpdates: "KVUpdates option")
      (sr_NextMsgKind: DirectiveKind) (sr_NextMsg: "DirectiveMessage option")

record Directive =
  d_ID :: DirectiveID
  d_Timestamp :: time
  d_Kind :: DirectiveKind
  d_RunInfo :: RunInfo
  d_Attempt :: StepAttempt
  d_Msg :: "DirectiveMessage option"

definition Directive_zero :: Directive where
  "Directive_zero =
     \<lparr>d_ID = '''', d_Timestamp = 0, d_Kind = DirectiveKindOther '''',
      d_RunInfo = RunInfo_zero, d_Attempt = 0, d_Msg = None\<rparr>"

definition DeriveNextDirectiveID :: "DirectiveID \<Rightarrow> DirectiveID" where
  "DeriveNextDirectiveID parentID = ''next.'' @ parentID"

text \<open>
  The interface \<^verbatim>\<open>DispatchableMessage\<close> (methods \<^verbatim>\<open>StepName\<close> and \<^verbatim>\<open>TimeoutMS\<close>) is
  implemented by \<^verbatim>\<open>Start\<close>, \<^verbatim>\<open>Step\<close> and \<^verbatim>\<open>Event\<close>; the type assertion yields both
  method results.
\<close>

fun as_DispatchableMessage :: "DirectiveMessage option \<Rightarrow> (string \<times> u32) option" where
  "as_DispatchableMessage (Some (Start inp timeout)) = Some (''start'', timeout)"
| "as_DispatchableMessage (Some (Step name timeout)) = Some (name, timeout)"
| "as_DispatchableMessage (Some (Event seq name payload timeout)) = Some (name, timeout)"
| "as_DispatchableMessage _ = None"

text \<open>
  The checked type assertions \<^verbatim>\<open>msg, ok := d.Msg.(*ext.X)\<close>: the fields of the message, or
  \<open>None\<close> where \<^verbatim>\<open>ok\<close> is false. \<^verbatim>\<open>StepResult\<close> is asserted as a whole, its fields are read
  by the selectors \<open>sr_\<dots>\<close>.
\<close>

fun as_Start :: "DirectiveMessage option \<Rightarrow> (go_any \<times> u32) option" where
  "as_Start (Some (Start inp timeout)) = Some (inp, timeout)"
| "as_Start _ = None"

fun as_Step :: "DirectiveMessage option \<Rightarrow> (string \<times> u32) option" where
  "as_Step (Some (Step name timeout)) = Some (name, timeout)"
| "as_Step _ = None"

fun as_StepTimeout :: "DirectiveMessage option \<Rightarrow> (string \<times> DirectiveID) option" where
  "as_StepTimeout (Some (StepTimeout stepName originalID)) = Some (stepName, originalID)"
| "as_StepTimeout _ = None"

fun as_FailStep :: "DirectiveMessage option \<Rightarrow> (string \<times> ErrorDetails) option" where
  "as_FailStep (Some (FailStep stepName e)) = Some (stepName, e)"
| "as_FailStep _ = None"

fun as_Wait :: "DirectiveMessage option \<Rightarrow> (u32 \<times> string) option" where
  "as_Wait (Some (Wait timeout timeoutStepName)) = Some (timeout, timeoutStepName)"
| "as_Wait _ = None"

fun as_WaitTimeout :: "DirectiveMessage option \<Rightarrow> (string \<times> DirectiveID) option" where
  "as_WaitTimeout (Some (WaitTimeout timeoutStepName originalID)) = Some (timeoutStepName, originalID)"
| "as_WaitTimeout _ = None"

fun as_Cancel :: "DirectiveMessage option \<Rightarrow> (string) option" where
  "as_Cancel (Some (Cancel reason)) = Some reason"
| "as_Cancel _ = None"

fun as_Terminate :: "DirectiveMessage option \<Rightarrow> (string) option" where
  "as_Terminate (Some (Terminate reason)) = Some reason"
| "as_Terminate _ = None"

fun as_Event :: "DirectiveMessage option \<Rightarrow> (u64 option \<times> string \<times> go_any \<times> u32) option" where
  "as_Event (Some (Event seq name payload timeout)) = Some (seq, name, payload, timeout)"
| "as_Event _ = None"

fun as_Complete :: "DirectiveMessage option \<Rightarrow> (go_any) option" where
  "as_Complete (Some (Complete result)) = Some result"
| "as_Complete _ = None"

fun as_Fail :: "DirectiveMessage option \<Rightarrow> (ErrorDetails) option" where
  "as_Fail (Some (Fail e)) = Some e"
| "as_Fail _ = None"

fun as_StepPickedUp :: "DirectiveMessage option \<Rightarrow> (string \<times> WorkerID \<times> time) option" where
  "as_StepPickedUp (Some (StepPickedUp stepName workerID timestamp)) = Some (stepName, workerID, timestamp)"
| "as_StepPickedUp _ = None"

fun as_StepResult :: "DirectiveMessage option \<Rightarrow> DirectiveMessage option" where
  "as_StepResult (Some (StepResult pk pm w n kvs nk nm)) = Some (StepResult pk pm w n kvs nk nm)"
| "as_StepResult _ = None"

lemma as_Start_iff [simp]: "as_Start m = Some x \<longleftrightarrow> (\<exists>inp timeout. x = (inp, timeout) \<and> m = Some (Start inp timeout))"
  by (cases m rule: as_Start.cases) auto

lemma as_Step_iff [simp]: "as_Step m = Some x \<longleftrightarrow> (\<exists>name timeout. x = (name, timeout) \<and> m = Some (Step name timeout))"
  by (cases m rule: as_Step.cases) auto

lemma as_StepTimeout_iff [simp]: "as_StepTimeout m = Some x \<longleftrightarrow> (\<exists>stepName originalID. x = (stepName, originalID) \<and> m = Some (StepTimeout stepName originalID))"
  by (cases m rule: as_StepTimeout.cases) auto

lemma as_FailStep_iff [simp]: "as_FailStep m = Some x \<longleftrightarrow> (\<exists>stepName e. x = (stepName, e) \<and> m = Some (FailStep stepName e))"
  by (cases m rule: as_FailStep.cases) auto

lemma as_Wait_iff [simp]: "as_Wait m = Some x \<longleftrightarrow> (\<exists>timeout timeoutStepName. x = (timeout, timeoutStepName) \<and> m = Some (Wait timeout timeoutStepName))"
  by (cases m rule: as_Wait.cases) auto

lemma as_WaitTimeout_iff [simp]: "as_WaitTimeout m = Some x \<longleftrightarrow> (\<exists>timeoutStepName originalID. x = (timeoutStepName, originalID) \<and> m = Some (WaitTimeout timeoutStepName originalID))"
  by (cases m rule: as_WaitTimeout.cases) auto

lemma as_Cancel_iff [simp]: "as_Cancel m = Some x \<longleftrightarrow> (\<exists>reason. x = reason \<and> m = Some (Cancel reason))"
  by (cases m rule: as_Cancel.cases) auto

lemma as_Terminate_iff [simp]: "as_Terminate m = Some x \<longleftrightarrow> (\<exists>reason. x = reason \<and> m = Some (Terminate reason))"
  by (cases m rule: as_Terminate.cases) auto

lemma as_Event_iff [simp]: "as_Event m = Some x \<longleftrightarrow> (\<exists>seq name payload timeout. x = (seq, name, payload, timeout) \<and> m = Some (Event seq name payload timeout))"
  by (cases m rule: as_Event.cases) auto

lemma as_Complete_iff [simp]: "as_Complete m = Some x \<longleftrightarrow> (\<exists>result. x = result \<and> m = Some (Complete result))"
  by (cases m rule: as_Complete.cases) auto

lemma as_Fail_iff [simp]: "as_Fail m = Some x \<longleftrightarrow> (\<exists>e. x = e \<and> m = Some (Fail e))"
  by (cases m rule: as_Fail.cases) auto

lemma as_StepPickedUp_iff [simp]: "as_StepPickedUp m = Some x \<longleftrightarrow> (\<exists>stepName workerID timestamp. x = (stepName, workerID, timestamp) \<and> m = Some (StepPickedUp stepName workerID timestamp))"
  by (cases m rule: as_StepPickedUp.cases) auto

lemma as_StepResult_iff [simp]:
  "as_StepResult m = Some x \<longleftrightarrow> m = Some x \<and> (\<exists>pk pm w n kvs nk nm. x = StepResult pk pm w n kvs nk nm)"
  by (cases m rule: as_StepResult.cases) auto

text \<open>The type names printed by \<^verbatim>\<open>%T\<close>.\<close>

fun go_type :: "DirectiveMessage option \<Rightarrow> string" where
  "go_type None = ''<nil>''"
| "go_type (Some (Start _ _)) = ''*external.Start''"
| "go_type (Some (Step _ _)) = ''*external.Step''"
| "go_type (Some (StepTimeout _ _)) = ''*external.StepTimeout''"
| "go_type (Some (FailStep _ _)) = ''*external.FailStep''"
| "go_type (Some (Wait _ _)) = ''*external.Wait''"
| "go_type (Some (WaitTimeout _ _)) = ''*external.WaitTimeout''"
| "go_type (Some WakeFromInbox) = ''*external.WakeFromInbox''"
| "go_type (Some (Cancel _)) = ''*external.Cancel''"
| "go_type (Some (Terminate _)) = ''*external.Terminate''"
| "go_type (Some (Event _ _ _ _)) = ''*external.Event''"
| "go_type (Some (Complete _)) = ''*external.Complete''"
| "go_type (Some (Fail _)) = ''*external.Fail''"
| "go_type (Some (StepPickedUp _ _ _)) = ''*external.StepPickedUp''"
| "go_type (Some (StepResult _ _ _ _ _ _ _)) = ''*external.StepResult''"

text \<open>\<^verbatim>\<open>StepResult.ProcStepName\<close>\<close>

definition ProcStepName :: "DirectiveMessage option \<Rightarrow> string res" where
  "ProcStepName processedMsg =
     (case as_DispatchableMessage processedMsg of
        None \<Rightarrow> Err (Errorf
          (''wrong message type. Processed message should be DispatchableMessage: ''
             @ go_type processedMsg))
      | Some (stepName, _) \<Rightarrow> Ok stepName)"

section \<open>RunState (run\_state.go)\<close>

record RunState =
  rs_WFID :: WFID
  rs_RunID :: RunID
  rs_Kind :: RunStateKind
  rs_EnteredAt :: time
  rs_StartedAt :: "time option"
  rs_LastEventSeqID :: u64
  rs_ActiveDirectiveID :: DirectiveID
  rs_WorkerID :: "WorkerID option"
  rs_PendingCancel :: "Directive option"
  rs_SeqID :: u64

definition RunState_zero :: RunState where
  "RunState_zero =
     \<lparr>rs_WFID = '''', rs_RunID = '''', rs_Kind = RunStateOther '''', rs_EnteredAt = 0,
      rs_StartedAt = None, rs_LastEventSeqID = 0, rs_ActiveDirectiveID = '''',
      rs_WorkerID = None, rs_PendingCancel = None, rs_SeqID = 0\<rparr>"

definition terminal_kind :: "RunStateKind \<Rightarrow> bool" where
  "terminal_kind k \<longleftrightarrow>
     k = RunStateComplete \<or> k = RunStateFail \<or> k = RunStateCancel \<or> k = RunStateTerminate"

definition RunState_IsTerminal :: "RunState \<Rightarrow> bool" where
  "RunState_IsTerminal s = terminal_kind (rs_Kind s)"

definition NewRunState :: "runtime \<Rightarrow> Directive \<Rightarrow> RunStateKind \<Rightarrow> RunState" where
  "NewRunState rt d kind =
     RunState_zero
       \<lparr>rs_WFID := ri_WFID (d_RunInfo d),
        rs_RunID := ri_ID (d_RunInfo d),
        rs_Kind := kind,
        rs_EnteredAt := now rt At_NewRunState_EnteredAt\<rparr>"

lemma terminal_kind_simps [simp]:
  "terminal_kind RunStateComplete" "terminal_kind RunStateFail"
  "terminal_kind RunStateCancel" "terminal_kind RunStateTerminate"
  "\<not> terminal_kind RunStateIdle" "\<not> terminal_kind RunStateStart"
  "\<not> terminal_kind RunStateStep" "\<not> terminal_kind RunStateWait"
  "\<not> terminal_kind (RunStateOther s)"
  by (simp_all add: terminal_kind_def)

section \<open>Commands (command.go)\<close>

record EventDef =
  evd_Name :: string
  evd_TimeoutMS :: u32

record WorkflowTypeDef =
  wtd_Type :: WFType
  wtd_StartStep :: string
  wtd_Steps :: "string list"
  wtd_Events :: "EventDef list"
  wtd_Queries :: "string list"
  wtd_StartStepTimeoutMS :: u32

text \<open>The field \<^verbatim>\<open>*any\<close>: a nil pointer is \<open>None\<close>.\<close>

datatype CommandMessage =
    StartCmd (startCmd_RunInfo: RunInfo) (startCmd_Input: "go_any option")
  | CancelCmd (cancelCmd_WFID: WFID) (cancelCmd_Reason: string)
  | TerminateCmd (terminateCmd_WFID: WFID) (terminateCmd_Reason: string)
  | DescribeCmd (describeCmd_WFID: WFID)
  | EventCmd (eventCmd_WFID: WFID) (eventCmd_EventName: string)
      (eventCmd_Payload: "go_any option")
  | RegisterCmd (registerCmd_WorkerID: string) (registerCmd_Types: "WorkflowTypeDef list")
  | WorkerTerminateRunCmd (workerTerminateRunCmd_RunID: RunID)

record Command =
  c_ID :: CmdID
  c_Kind :: CmdKind
  c_Timestamp :: time
  c_Msg :: "CommandMessage option"
  c_SenderID :: string

definition Command_zero :: Command where
  "Command_zero =
     \<lparr>c_ID = '''', c_Kind = CmdKindOther '''', c_Timestamp = 0, c_Msg = None,
      c_SenderID = ''''\<rparr>"

section \<open>Timers (timer.go)\<close>

record Timer =
  t_ID :: TimerID
  t_Kind :: TimerKind
  t_WFID :: WFID
  t_CreatedAt :: time
  t_ExpiresAt :: time
  t_StepName :: string
  t_Directive :: Directive
  t_Command :: Command

text \<open>\<^verbatim>\<open>fmt.Sprintf("%s.%s", kind, directiveID)\<close>\<close>

definition DeriveTimerID :: "DirectiveID \<Rightarrow> TimerKind \<Rightarrow> TimerID" where
  "DeriveTimerID directiveID kind = timer_kind_str kind @ ''.'' @ directiveID"

definition Timer_zero :: Timer where
  "Timer_zero =
     \<lparr>t_ID = '''', t_Kind = TimerKindOther '''', t_WFID = '''', t_CreatedAt = 0,
      t_ExpiresAt = 0, t_StepName = '''', t_Directive = Directive_zero,
      t_Command = Command_zero\<rparr>"

end
