(* ===== verification/Msgpack.thy ===== *)
theory Msgpack
  imports Types
begin

text \<open>
  How a Go struct and a msgpack document correspond through the \<^verbatim>\<open>msgpack:"..."\<close> tags
  of the source: a struct is a map from tag to field, a field tagged \<^verbatim>\<open>omitempty\<close> is
  left out when it is zero, and decoding leaves a field that the document does not mention
  (or mentions as nil) at its zero value, ignores keys that no tag names, takes the last of
  several entries for one key, and fails on a value of another type. The combinators below
  are what every encoder and decoder of the wire theories is made of.
\<close>

section \<open>Encoding\<close>

type_synonym fields = "(string \<times> mp) list"

definition enc_u :: "'a::len word \<Rightarrow> mp" where
  "enc_u w = MInt (uint w)"

fun enc_opt :: "('a \<Rightarrow> mp) \<Rightarrow> 'a option \<Rightarrow> mp" where
  "enc_opt f None = MNil"
| "enc_opt f (Some x) = f x"

text \<open>Fields with the tag option \<^verbatim>\<open>omitempty\<close>.\<close>

fun omit_nil :: "string \<Rightarrow> ('a \<Rightarrow> mp) \<Rightarrow> 'a option \<Rightarrow> fields" where
  "omit_nil tag f None = []"
| "omit_nil tag f (Some x) = [(tag, f x)]"

definition omit_str :: "string \<Rightarrow> string \<Rightarrow> fields" where
  "omit_str tag s = (if s = '''' then [] else [(tag, MStr s)])"

definition omit_u :: "string \<Rightarrow> 'a::len word \<Rightarrow> fields" where
  "omit_u tag w = (if w = 0 then [] else [(tag, enc_u w)])"

definition omit_any :: "string \<Rightarrow> go_any \<Rightarrow> fields" where
  "omit_any tag v = (if v = MNil then [] else [(tag, v)])"

section \<open>Decoding\<close>

definition lookup_field :: "fields \<Rightarrow> string \<Rightarrow> mp" where
  "lookup_field fs tag = (case map_of (rev fs) tag of None \<Rightarrow> MNil | Some v \<Rightarrow> v)"

definition decode_error :: "'a res" where
  "decode_error = Err (Errorf ''msgpack: invalid code'')"

text \<open>Decoding nil into a struct leaves it at its zero value.\<close>

fun dec_map :: "mp \<Rightarrow> fields res" where
  "dec_map (MMap fs) = Ok fs"
| "dec_map MNil = Ok []"
| "dec_map _ = decode_error"

fun dec_str :: "mp \<Rightarrow> string res" where
  "dec_str (MStr s) = Ok s"
| "dec_str MNil = Ok ''''"
| "dec_str _ = decode_error"

fun dec_u :: "mp \<Rightarrow> 'a::len word res" where
  "dec_u (MInt i) = Ok (word_of_int i)"
| "dec_u MNil = Ok 0"
| "dec_u _ = decode_error"

fun dec_int :: "mp \<Rightarrow> int res" where
  "dec_int (MInt i) = Ok i"
| "dec_int MNil = Ok 0"
| "dec_int _ = decode_error"

fun dec_bool :: "mp \<Rightarrow> bool res" where
  "dec_bool (MBool b) = Ok b"
| "dec_bool MNil = Ok False"
| "dec_bool _ = decode_error"

fun dec_float :: "mp \<Rightarrow> u64 res" where
  "dec_float (MFloat b) = Ok b"
| "dec_float MNil = Ok 0"
| "dec_float _ = decode_error"

fun dec_bin :: "mp \<Rightarrow> bytes res" where
  "dec_bin (MBin b) = Ok b"
| "dec_bin MNil = Ok []"
| "dec_bin _ = decode_error"

fun dec_time :: "mp \<Rightarrow> time res" where
  "dec_time (MTime t) = Ok t"
| "dec_time MNil = Ok 0"
| "dec_time _ = decode_error"

fun dec_any :: "mp \<Rightarrow> go_any res" where
  "dec_any v = Ok v"

text \<open>A pointer field: nil stays nil.\<close>

definition dec_opt :: "(mp \<Rightarrow> 'a res) \<Rightarrow> mp \<Rightarrow> 'a option res" where
  "dec_opt f v = (if v = MNil then Ok None else andThen (f v) (\<lambda>x. Ok (Some x)))"

fun dec_list_items :: "(mp \<Rightarrow> 'a res) \<Rightarrow> mp list \<Rightarrow> 'a list res" where
  "dec_list_items f [] = Ok []"
| "dec_list_items f (v # vs) =
     andThen (f v) (\<lambda>x. andThen (dec_list_items f vs) (\<lambda>xs. Ok (x # xs)))"

fun dec_list :: "(mp \<Rightarrow> 'a res) \<Rightarrow> mp \<Rightarrow> 'a list res" where
  "dec_list f (MArr vs) = dec_list_items f vs"
| "dec_list f MNil = Ok []"
| "dec_list f _ = decode_error"

section \<open>Laws\<close>

lemma lookup_field_Nil [simp]: "lookup_field [] tag = MNil"
  by (simp add: lookup_field_def)

lemma dec_u_enc_u [simp]: "dec_u (enc_u w) = Ok w"
  by (simp add: enc_u_def)

lemma enc_u_not_nil [simp]: "enc_u w \<noteq> MNil"
  by (simp add: enc_u_def)

text \<open>Whether a document mentions a tag.\<close>

definition has_tag :: "fields \<Rightarrow> string \<Rightarrow> bool" where
  "has_tag fs tag \<longleftrightarrow> tag \<in> fst ` set fs"

lemma map_of_rev_None: "(map_of (rev fs) tag = None) = (\<not> has_tag fs tag)"
  by (simp add: map_of_eq_None_iff has_tag_def)

lemma lookup_field_append:
  "lookup_field (fs @ gs) tag =
     (if has_tag gs tag then lookup_field gs tag else lookup_field fs tag)"
proof (cases "has_tag gs tag")
  case True
  then obtain v where "map_of (rev gs) tag = Some v"
    using map_of_rev_None [of gs tag] by auto
  with True show ?thesis by (simp add: lookup_field_def map_add_def)
next
  case False
  then have "map_of (rev gs) tag = None"
    by (simp only: map_of_rev_None) simp
  with False show ?thesis by (simp add: lookup_field_def map_add_def)
qed

lemma lookup_field_Cons:
  "lookup_field ((k, v) # fs) tag =
     (if has_tag fs tag then lookup_field fs tag else if k = tag then v else MNil)"
  using lookup_field_append [of "[(k, v)]" fs tag] by (simp add: lookup_field_def)

lemma has_tag_Nil: "\<not> has_tag [] tag"
  by (simp add: has_tag_def)

lemma has_tag_Cons: "has_tag ((k, v) # fs) tag \<longleftrightarrow> k = tag \<or> has_tag fs tag"
  by (auto simp: has_tag_def)

lemma has_tag_append: "has_tag (fs @ gs) tag \<longleftrightarrow> has_tag fs tag \<or> has_tag gs tag"
  by (auto simp: has_tag_def)

lemma has_tag_omit_nil: "has_tag (omit_nil tag f p) t \<longleftrightarrow> t = tag \<and> p \<noteq> None"
  by (cases p) (auto simp: has_tag_def)

lemma has_tag_omit_str: "has_tag (omit_str tag s) t \<longleftrightarrow> t = tag \<and> s \<noteq> ''''"
  by (auto simp: has_tag_def omit_str_def)

lemma has_tag_omit_u: "has_tag (omit_u tag w) t \<longleftrightarrow> t = tag \<and> w \<noteq> 0"
  by (auto simp: has_tag_def omit_u_def)

lemma has_tag_omit_any: "has_tag (omit_any tag v) t \<longleftrightarrow> t = tag \<and> v \<noteq> MNil"
  by (auto simp: has_tag_def omit_any_def)

text \<open>
  A segment that is left out at its zero value answers for its tag as the zero value does,
  so the conditions of the lookups disappear when the field is decoded.
\<close>

lemma lookup_omit_nil:
  "lookup_field (omit_nil tag f p) t = (if t = tag then enc_opt f p else MNil)"
  by (cases p) (auto simp: lookup_field_def)

lemma lookup_omit_str:
  "lookup_field (omit_str tag s) t = (if t = tag \<and> s \<noteq> '''' then MStr s else MNil)"
  by (auto simp: lookup_field_def omit_str_def)

lemma lookup_omit_u:
  "lookup_field (omit_u tag w) t = (if t = tag \<and> w \<noteq> 0 then enc_u w else MNil)"
  by (auto simp: lookup_field_def omit_u_def)

lemma lookup_omit_any:
  "lookup_field (omit_any tag v) t = (if t = tag then v else MNil)"
  by (auto simp: lookup_field_def omit_any_def)

lemma if_omitted [simp]:
  "(if p \<noteq> None then enc_opt f p else MNil) = enc_opt f p"
  "(if \<exists>y. p = Some y then enc_opt f p else MNil) = enc_opt f p"
  "(if v = MNil then MNil else v) = v"
  "dec_u (if w = 0 then MNil else enc_u w) = Ok w"
  "dec_str (if s = '''' then MNil else MStr s) = Ok s"
  by (cases p; simp)+

lemmas field_lookup_simps =
  lookup_field_append lookup_field_Cons lookup_omit_nil lookup_omit_str lookup_omit_u
  lookup_omit_any has_tag_Nil has_tag_Cons has_tag_append has_tag_omit_nil has_tag_omit_str
  has_tag_omit_u has_tag_omit_any

declare field_lookup_simps [wire_simps]

lemma dec_u_opt [simp]: "dec_u (if w \<noteq> 0 then enc_u w else MNil) = Ok w"
  by simp

lemma dec_str_opt [simp]: "dec_str (if s \<noteq> '''' then MStr s else MNil) = Ok s"
  by simp

lemma dec_opt_nil [simp]: "dec_opt f MNil = Ok None"
  by (simp add: dec_opt_def)

text \<open>A pointer survives the round trip when no pointee is encoded as nil.\<close>

lemma dec_opt_enc_opt:
  assumes "\<And>x. p = Some x \<Longrightarrow> f x \<noteq> MNil \<and> g (f x) = Ok x"
  shows "dec_opt g (enc_opt f p) = Ok p"
  using assms by (cases p) (auto simp: dec_opt_def)

lemma dec_opt_str [simp]: "dec_opt dec_str (enc_opt MStr p) = Ok p"
  by (rule dec_opt_enc_opt) simp

lemma dec_opt_time [simp]: "dec_opt dec_time (enc_opt MTime p) = Ok p"
  by (rule dec_opt_enc_opt) simp

lemma dec_opt_int [simp]: "dec_opt dec_int (enc_opt MInt p) = Ok p"
  by (rule dec_opt_enc_opt) simp

lemma dec_opt_u [simp]: "dec_opt dec_u (enc_opt enc_u p) = Ok p"
  by (rule dec_opt_enc_opt) simp

text \<open>
  Long field lists are looked up through a table of optional values instead: with distinct
  tags the document answers as the table does.
\<close>

definition segs :: "(string \<times> mp option) list \<Rightarrow> fields" where
  "segs ss = concat (map (\<lambda>(t, p). case p of None \<Rightarrow> [] | Some v \<Rightarrow> [(t, v)]) ss)"

definition seg_value :: "(string \<times> mp option) list \<Rightarrow> string \<Rightarrow> mp" where
  "seg_value ss tag = (case map_of ss tag of Some (Some v) \<Rightarrow> v | _ \<Rightarrow> MNil)"

lemma segs_Cons: "segs ((t, p) # ss) = (case p of None \<Rightarrow> [] | Some v \<Rightarrow> [(t, v)]) @ segs ss"
  by (simp add: segs_def)

lemma lookup_no_tag: "\<not> has_tag fs tag \<Longrightarrow> lookup_field fs tag = MNil"
  using map_of_rev_None [of fs tag] by (simp add: lookup_field_def)

lemma has_tag_segs: "has_tag (segs ss) tag \<Longrightarrow> tag \<in> fst ` set ss"
  by (induction ss) (auto simp: segs_def has_tag_def split: option.splits)

lemma lookup_segs:
  "distinct (map fst ss) \<Longrightarrow> lookup_field (segs ss) tag = seg_value ss tag"
proof (induction ss)
  case Nil
  then show ?case by (simp add: segs_def seg_value_def)
next
  case (Cons s ss)
  obtain t p where s: "s = (t, p)" by (cases s)
  show ?case
  proof (cases "tag = t")
    case True
    with Cons.prems s have "\<not> has_tag (segs ss) tag"
      by (auto dest: has_tag_segs)
    with True s show ?thesis
      by (cases p) (auto simp: segs_Cons seg_value_def lookup_field_append lookup_field_Cons
          lookup_no_tag has_tag_Nil)
  next
    case False
    with Cons s show ?thesis
      by (cases p) (auto simp: segs_Cons seg_value_def lookup_field_append lookup_field_Cons
          has_tag_Nil has_tag_Cons lookup_no_tag)
  qed
qed

lemma seg_value_simps:
  "seg_value [] tag = MNil"
  "seg_value ((t, p) # ss) tag =
     (if t = tag then (case p of None \<Rightarrow> MNil | Some v \<Rightarrow> v) else seg_value ss tag)"
  by (auto simp: seg_value_def split: option.splits)

lemma segs_of_omit:
  "segs [] = []"
  "segs ((t, map_option f q) # ss) = omit_nil t f q @ segs ss"
  "segs ((t, Some v) # ss) = (t, v) # segs ss"
  "segs ((t, if s = '''' then None else Some (MStr s)) # ss) = omit_str t s @ segs ss"
  "segs ((t, if w = 0 then None else Some (enc_u w)) # ss) = omit_u t w @ segs ss"
  by (cases q; simp add: segs_def omit_str_def omit_u_def)+

lemma seg_pointer:
  "(case map_option f p of None \<Rightarrow> MNil | Some v \<Rightarrow> v) = enc_opt f p"
  "dec_str (case if s = '''' then None else Some (MStr s) of None \<Rightarrow> MNil | Some v \<Rightarrow> v) = Ok s"
  "dec_u (case if w = 0 then None else Some (enc_u w) of None \<Rightarrow> MNil | Some v \<Rightarrow> v) = Ok w"
  by (cases p; simp)+

lemma dec_list_items_map:
  assumes "\<And>x. x \<in> set xs \<Longrightarrow> g (f x) = Ok x"
  shows "dec_list_items g (map f xs) = Ok xs"
  using assms by (induction xs) auto

lemma fits_enc_u [simp]:
  assumes "LENGTH('a::len) \<le> 64"
  shows "fits (enc_u (w :: 'a word))"
proof -
  have "uint w < 2 ^ LENGTH('a)" by (rule uint_lt2p)
  also have "(2::int) ^ LENGTH('a) \<le> 2 ^ 64" using assms by (intro power_increasing) auto
  finally have "uint w < 2 ^ 64" .
  moreover have "- (2 ^ 63) \<le> uint w"
    by (rule order_trans [of _ 0]) simp_all
  ultimately show ?thesis by (simp add: enc_u_def)
qed

end
