(* ===== verification/Tasks.thy ===== *)
theory Tasks
  imports Msgpack
begin

text \<open>
  Background tasks (\<^verbatim>\<open>src/types/external/v1/background_task.go\<close>): their payloads, the
  constructors that encode a payload and derive the deduplication ID from the directive
  that asks for the task, and the payload decoders of the task handlers.
\<close>

section \<open>Tasks and payloads\<close>

record BackgroundTask =
  bt_Kind :: BackgroundTaskKind
  bt_DeduplicationID :: DirectiveID
  bt_Payload :: bytes

record DeleteTimerPayload =
  dtp_WFID :: WFID
  dtp_Kind :: TimerKind
  dtp_TimerID :: TimerID

record DeleteInboxEventPayload =
  diep_SeqID :: u64

record PurgeRunResiduePayload =
  prrp_WFID :: WFID

record NotifyParentCompletePayload =
  npcp_ParentWFID :: WFID
  npcp_StepName :: string
  npcp_ChildWFID :: WFID
  npcp_Status :: RunStatus
  npcp_Result :: go_any
  npcp_Error :: "ErrorDetails option"

record WorkerTerminateRunPayload =
  wtrp_WorkerID :: WorkerID
  wtrp_RunID :: RunID

section \<open>Decoding string enums\<close>

definition timer_kind_of :: "string \<Rightarrow> TimerKind" where
  "timer_kind_of s =
     (if s = ''wait_timeout'' then TimerKindWaitTimeout
      else if s = ''step_timeout'' then TimerKindStepTimeout
      else TimerKindOther s)"

definition run_status_of :: "string \<Rightarrow> RunStatus" where
  "run_status_of s =
     (if s = ''pending'' then RunStatusPending
      else if s = ''scheduled'' then RunStatusScheduled
      else if s = ''running'' then RunStatusRunning
      else if s = ''completed'' then RunStatusCompleted
      else if s = ''failed'' then RunStatusFailed
      else if s = ''cancelled'' then RunStatusCancelled
      else if s = ''timed_out'' then RunStatusTimedOut
      else if s = ''terminated'' then RunStatusTerminated
      else RunStatusOther s)"

definition bg_task_kind_of :: "string \<Rightarrow> BackgroundTaskKind" where
  "bg_task_kind_of s =
     (if s = ''delete_timer'' then BackgroundTaskKindDeleteTimer
      else if s = ''delete_inbox_event'' then BackgroundTaskKindDeleteInboxEvent
      else if s = ''purge_run_residue'' then BackgroundTaskKindPurgeRunResidue
      else if s = ''notify_parent_complete'' then BackgroundTaskKindNotifyParentComplete
      else if s = ''worker_terminate_run'' then BackgroundTaskKindWorkerTerminateRun
      else BackgroundTaskKindOther s)"

text \<open>
  An enum value is in canonical form when it is the value its own string decodes to: the
  catch-all constructor is only used for strings that no constant has.
\<close>

definition canonical_timer_kind :: "TimerKind \<Rightarrow> bool" where
  "canonical_timer_kind k \<longleftrightarrow> timer_kind_of (timer_kind_str k) = k"

definition canonical_run_status :: "RunStatus \<Rightarrow> bool" where
  "canonical_run_status s \<longleftrightarrow> run_status_of (run_status_str s) = s"

definition canonical_bg_task_kind :: "BackgroundTaskKind \<Rightarrow> bool" where
  "canonical_bg_task_kind k \<longleftrightarrow> bg_task_kind_of (bg_task_kind_str k) = k"

lemma canonical_run_status_consts [simp]:
  "canonical_run_status RunStatusPending" "canonical_run_status RunStatusScheduled"
  "canonical_run_status RunStatusRunning" "canonical_run_status RunStatusCompleted"
  "canonical_run_status RunStatusFailed" "canonical_run_status RunStatusCancelled"
  "canonical_run_status RunStatusTimedOut" "canonical_run_status RunStatusTerminated"
  "canonical_run_status (RunStatusOther '''')"
  by (simp_all add: canonical_run_status_def run_status_of_def)

lemma canonical_timer_kind_consts [simp]:
  "canonical_timer_kind TimerKindWaitTimeout" "canonical_timer_kind TimerKindStepTimeout"
  "canonical_timer_kind (TimerKindOther '''')"
  by (simp_all add: canonical_timer_kind_def timer_kind_of_def)

lemma canonical_bg_task_kind_consts [simp]:
  "canonical_bg_task_kind BackgroundTaskKindDeleteTimer"
  "canonical_bg_task_kind BackgroundTaskKindDeleteInboxEvent"
  "canonical_bg_task_kind BackgroundTaskKindPurgeRunResidue"
  "canonical_bg_task_kind BackgroundTaskKindNotifyParentComplete"
  "canonical_bg_task_kind BackgroundTaskKindWorkerTerminateRun"
  by (simp_all add: canonical_bg_task_kind_def bg_task_kind_of_def)

lemma run_status_str_of [simp]: "run_status_str (run_status_of s) = s"
  by (simp add: run_status_of_def)

lemma timer_kind_str_of [simp]: "timer_kind_str (timer_kind_of s) = s"
  by (simp add: timer_kind_of_def)

lemma bg_task_kind_str_of [simp]: "bg_task_kind_str (bg_task_kind_of s) = s"
  by (simp add: bg_task_kind_of_def)

section \<open>Struct encodings\<close>

definition enc_ErrorDetails :: "ErrorDetails \<Rightarrow> mp" where
  "enc_ErrorDetails e = MMap
     [(''message'', MStr (ed_Message e)),
      (''stack_trace'', MStr (ed_StackTrace e)),
      (''type'', MStr (ed_Type e))]"

definition dec_ErrorDetails :: "mp \<Rightarrow> ErrorDetails res" where
  "dec_ErrorDetails v =
     andThen (dec_map v) (\<lambda>fs.
     andThen (dec_str (lookup_field fs ''message'')) (\<lambda>m.
     andThen (dec_str (lookup_field fs ''stack_trace'')) (\<lambda>st.
     andThen (dec_str (lookup_field fs ''type'')) (\<lambda>t.
     Ok \<lparr>ed_Message = m, ed_StackTrace = st, ed_Type = t\<rparr>))))"

definition enc_DeleteTimerPayload :: "DeleteTimerPayload \<Rightarrow> mp" where
  "enc_DeleteTimerPayload p = MMap
     [(''wf_id'', MStr (dtp_WFID p)),
      (''kind'', MStr (timer_kind_str (dtp_Kind p))),
      (''timer_id'', MStr (dtp_TimerID p))]"

definition dec_DeleteTimerPayload :: "mp \<Rightarrow> DeleteTimerPayload res" where
  "dec_DeleteTimerPayload v =
     andThen (dec_map v) (\<lambda>fs.
     andThen (dec_str (lookup_field fs ''wf_id'')) (\<lambda>w.
     andThen (dec_str (lookup_field fs ''kind'')) (\<lambda>k.
     andThen (dec_str (lookup_field fs ''timer_id'')) (\<lambda>t.
     Ok \<lparr>dtp_WFID = w, dtp_Kind = timer_kind_of k, dtp_TimerID = t\<rparr>))))"

definition enc_DeleteInboxEventPayload :: "DeleteInboxEventPayload \<Rightarrow> mp" where
  "enc_DeleteInboxEventPayload p = MMap [(''seq_id'', enc_u (diep_SeqID p))]"

definition dec_DeleteInboxEventPayload :: "mp \<Rightarrow> DeleteInboxEventPayload res" where
  "dec_DeleteInboxEventPayload v =
     andThen (dec_map v) (\<lambda>fs.
     andThen (dec_u (lookup_field fs ''seq_id'')) (\<lambda>n. Ok \<lparr>diep_SeqID = n\<rparr>))"

definition enc_PurgeRunResiduePayload :: "PurgeRunResiduePayload \<Rightarrow> mp" where
  "enc_PurgeRunResiduePayload p = MMap [(''wf_id'', MStr (prrp_WFID p))]"

definition dec_PurgeRunResiduePayload :: "mp \<Rightarrow> PurgeRunResiduePayload res" where
  "dec_PurgeRunResiduePayload v =
     andThen (dec_map v) (\<lambda>fs.
     andThen (dec_str (lookup_field fs ''wf_id'')) (\<lambda>w. Ok \<lparr>prrp_WFID = w\<rparr>))"

definition enc_NotifyParentCompletePayload :: "NotifyParentCompletePayload \<Rightarrow> mp" where
  "enc_NotifyParentCompletePayload p = MMap
     ([(''parent_wf_id'', MStr (npcp_ParentWFID p)),
       (''step_name'', MStr (npcp_StepName p)),
       (''child_wf_id'', MStr (npcp_ChildWFID p)),
       (''status'', MStr (run_status_str (npcp_Status p)))]
      @ omit_any ''result'' (npcp_Result p)
      @ omit_nil ''error'' enc_ErrorDetails (npcp_Error p))"

definition dec_NotifyParentCompletePayload :: "mp \<Rightarrow> NotifyParentCompletePayload res" where
  "dec_NotifyParentCompletePayload v =
     andThen (dec_map v) (\<lambda>fs.
     andThen (dec_str (lookup_field fs ''parent_wf_id'')) (\<lambda>p.
     andThen (dec_str (lookup_field fs ''step_name'')) (\<lambda>s.
     andThen (dec_str (lookup_field fs ''child_wf_id'')) (\<lambda>c.
     andThen (dec_str (lookup_field fs ''status'')) (\<lambda>st.
     andThen (dec_any (lookup_field fs ''result'')) (\<lambda>r.
     andThen (dec_opt dec_ErrorDetails (lookup_field fs ''error'')) (\<lambda>e.
     Ok \<lparr>npcp_ParentWFID = p, npcp_StepName = s, npcp_ChildWFID = c,
         npcp_Status = run_status_of st, npcp_Result = r, npcp_Error = e\<rparr>)))))))"

definition enc_WorkerTerminateRunPayload :: "WorkerTerminateRunPayload \<Rightarrow> mp" where
  "enc_WorkerTerminateRunPayload p = MMap
     [(''worker_id'', MStr (wtrp_WorkerID p)), (''run_id'', MStr (wtrp_RunID p))]"

definition dec_WorkerTerminateRunPayload :: "mp \<Rightarrow> WorkerTerminateRunPayload res" where
  "dec_WorkerTerminateRunPayload v =
     andThen (dec_map v) (\<lambda>fs.
     andThen (dec_str (lookup_field fs ''worker_id'')) (\<lambda>w.
     andThen (dec_str (lookup_field fs ''run_id'')) (\<lambda>r.
     Ok \<lparr>wtrp_WorkerID = w, wtrp_RunID = r\<rparr>)))"

definition enc_BackgroundTask :: "BackgroundTask \<Rightarrow> mp" where
  "enc_BackgroundTask t = MMap
     [(''kind'', MStr (bg_task_kind_str (bt_Kind t))),
      (''deduplication_id'', MStr (bt_DeduplicationID t)),
      (''payload'', MBin (bt_Payload t))]"

definition dec_BackgroundTask :: "mp \<Rightarrow> BackgroundTask res" where
  "dec_BackgroundTask v =
     andThen (dec_map v) (\<lambda>fs.
     andThen (dec_str (lookup_field fs ''kind'')) (\<lambda>k.
     andThen (dec_str (lookup_field fs ''deduplication_id'')) (\<lambda>i.
     andThen (dec_bin (lookup_field fs ''payload'')) (\<lambda>p.
     Ok \<lparr>bt_Kind = bg_task_kind_of k, bt_DeduplicationID = i, bt_Payload = p\<rparr>))))"

section \<open>Constructors\<close>

text \<open>\<^verbatim>\<open>fmt.Sprintf("bg.%s.%s", taskKind, parentID)\<close>\<close>

definition DeriveBgTaskID :: "DirectiveID \<Rightarrow> BackgroundTaskKind \<Rightarrow> DirectiveID" where
  "DeriveBgTaskID parentID taskKind = ''bg.'' @ bg_task_kind_str taskKind @ ''.'' @ parentID"

definition NewDeleteTimerTask ::
  "runtime \<Rightarrow> DirectiveID \<Rightarrow> WFID \<Rightarrow> TimerKind \<Rightarrow> TimerID \<Rightarrow> BackgroundTask res" where
  "NewDeleteTimerTask rt parentID wfID kind timerID =
     orErrorf ''failed to marshal delete timer payload: ''
       (mp_marshal rt (enc_DeleteTimerPayload
          \<lparr>dtp_WFID = wfID, dtp_Kind = kind, dtp_TimerID = timerID\<rparr>))
       (\<lambda>payload. Ok
          \<lparr>bt_Kind = BackgroundTaskKindDeleteTimer,
           bt_DeduplicationID = DeriveBgTaskID parentID BackgroundTaskKindDeleteTimer,
           bt_Payload = payload\<rparr>)"

definition NewDeleteInboxEventTask ::
  "runtime \<Rightarrow> DirectiveID \<Rightarrow> u64 \<Rightarrow> BackgroundTask res" where
  "NewDeleteInboxEventTask rt parentID seqID =
     orErrorf ''failed to marshal delete inbox event payload: ''
       (mp_marshal rt (enc_DeleteInboxEventPayload \<lparr>diep_SeqID = seqID\<rparr>))
       (\<lambda>payload. Ok
          \<lparr>bt_Kind = BackgroundTaskKindDeleteInboxEvent,
           bt_DeduplicationID = DeriveBgTaskID parentID BackgroundTaskKindDeleteInboxEvent,
           bt_Payload = payload\<rparr>)"

definition NewPurgeRunResidueTask ::
  "runtime \<Rightarrow> DirectiveID \<Rightarrow> WFID \<Rightarrow> BackgroundTask res" where
  "NewPurgeRunResidueTask rt parentID wfID =
     orErrorf ''failed to marshal purge run residue payload: ''
       (mp_marshal rt (enc_PurgeRunResiduePayload \<lparr>prrp_WFID = wfID\<rparr>))
       (\<lambda>payload. Ok
          \<lparr>bt_Kind = BackgroundTaskKindPurgeRunResidue,
           bt_DeduplicationID = DeriveBgTaskID parentID BackgroundTaskKindPurgeRunResidue,
           bt_Payload = payload\<rparr>)"

definition NewWorkerTerminateRunTask ::
  "runtime \<Rightarrow> DirectiveID \<Rightarrow> WorkerID \<Rightarrow> RunID \<Rightarrow> BackgroundTask res" where
  "NewWorkerTerminateRunTask rt parentID workerID runID =
     orErrorf ''failed to marshal worker terminate run payload: ''
       (mp_marshal rt (enc_WorkerTerminateRunPayload
          \<lparr>wtrp_WorkerID = workerID, wtrp_RunID = runID\<rparr>))
       (\<lambda>payload. Ok
          \<lparr>bt_Kind = BackgroundTaskKindWorkerTerminateRun,
           bt_DeduplicationID = DeriveBgTaskID parentID BackgroundTaskKindWorkerTerminateRun,
           bt_Payload = payload\<rparr>)"

definition NewNotifyParentCompleteTask ::
  "runtime \<Rightarrow> DirectiveID \<Rightarrow> NotifyParentCompletePayload \<Rightarrow> BackgroundTask res" where
  "NewNotifyParentCompleteTask rt parentID payload =
     orErrorf ''failed to marshal notify parent complete payload: ''
       (mp_marshal rt (enc_NotifyParentCompletePayload payload))
       (\<lambda>encoded. Ok
          \<lparr>bt_Kind = BackgroundTaskKindNotifyParentComplete,
           bt_DeduplicationID = DeriveBgTaskID parentID BackgroundTaskKindNotifyParentComplete,
           bt_Payload = encoded\<rparr>)"

section \<open>Round trips and kinds\<close>

lemma dec_enc_ErrorDetails [simp]: "dec_ErrorDetails (enc_ErrorDetails e) = Ok e"
  by (simp add: dec_ErrorDetails_def enc_ErrorDetails_def wire_simps)

lemma enc_ErrorDetails_not_nil [simp]: "enc_ErrorDetails e \<noteq> MNil"
  by (simp add: enc_ErrorDetails_def)

lemma dec_opt_ErrorDetails [simp]:
  "dec_opt dec_ErrorDetails (enc_opt enc_ErrorDetails p) = Ok p"
  by (rule dec_opt_enc_opt) simp

lemma dec_enc_DeleteTimerPayload:
  "canonical_timer_kind (dtp_Kind p) \<Longrightarrow> dec_DeleteTimerPayload (enc_DeleteTimerPayload p) = Ok p"
  by (simp add: dec_DeleteTimerPayload_def enc_DeleteTimerPayload_def wire_simps
      canonical_timer_kind_def)

lemma dec_enc_DeleteInboxEventPayload:
  "dec_DeleteInboxEventPayload (enc_DeleteInboxEventPayload p) = Ok p"
  by (simp add: dec_DeleteInboxEventPayload_def enc_DeleteInboxEventPayload_def wire_simps)

lemma dec_enc_PurgeRunResiduePayload:
  "dec_PurgeRunResiduePayload (enc_PurgeRunResiduePayload p) = Ok p"
  by (simp add: dec_PurgeRunResiduePayload_def enc_PurgeRunResiduePayload_def wire_simps)

lemma dec_enc_NotifyParentCompletePayload:
  "canonical_run_status (npcp_Status p) \<Longrightarrow>
   dec_NotifyParentCompletePayload (enc_NotifyParentCompletePayload p) = Ok p"
  by (cases p) (simp add: dec_NotifyParentCompletePayload_def enc_NotifyParentCompletePayload_def
      wire_simps canonical_run_status_def)

lemma dec_enc_WorkerTerminateRunPayload:
  "dec_WorkerTerminateRunPayload (enc_WorkerTerminateRunPayload p) = Ok p"
  by (simp add: dec_WorkerTerminateRunPayload_def enc_WorkerTerminateRunPayload_def wire_simps)

lemma dec_enc_BackgroundTask:
  "canonical_bg_task_kind (bt_Kind t) \<Longrightarrow> dec_BackgroundTask (enc_BackgroundTask t) = Ok t"
  by (simp add: dec_BackgroundTask_def enc_BackgroundTask_def wire_simps
      canonical_bg_task_kind_def)

lemmas task_defs =
  NewDeleteTimerTask_def NewDeleteInboxEventTask_def NewPurgeRunResidueTask_def
  NewWorkerTerminateRunTask_def NewNotifyParentCompleteTask_def

lemma task_kinds:
  "NewDeleteTimerTask rt i w k t = Ok b \<Longrightarrow> bt_Kind b = BackgroundTaskKindDeleteTimer"
  "NewPurgeRunResidueTask rt i w = Ok b \<Longrightarrow> bt_Kind b = BackgroundTaskKindPurgeRunResidue"
  "NewWorkerTerminateRunTask rt i wk r = Ok b \<Longrightarrow> bt_Kind b = BackgroundTaskKindWorkerTerminateRun"
  "NewNotifyParentCompleteTask rt i p = Ok b \<Longrightarrow> bt_Kind b = BackgroundTaskKindNotifyParentComplete"
  by (auto simp: task_defs)

lemma task_not_Panic:
  assumes "\<And>v p. mp_marshal rt v \<noteq> Panic p"
  shows "NewDeleteTimerTask rt i w k t \<noteq> Panic q"
    and "NewPurgeRunResidueTask rt i w \<noteq> Panic q"
    and "NewWorkerTerminateRunTask rt i wk r \<noteq> Panic q"
    and "NewNotifyParentCompleteTask rt i pl \<noteq> Panic q"
  using assms by (auto simp: task_defs panic_simps)

end
