(* ===== verification/HistoryTypes.thy ===== *)
theory HistoryTypes
  imports Tasks
begin

text \<open>
  History events (\<^verbatim>\<open>src/types/external/v1/history.go\<close>): the event kinds, the messages,
  the envelope, and the custom msgpack encoding that stores the message as nested bytes and
  picks the decoder of the message by the kind of the envelope.
\<close>

section \<open>Kinds and messages\<close>

datatype HistoryKind =
    HistoryKindRunScheduled
  | HistoryKindRunStarted
  | HistoryKindRunTimeout
  | HistoryKindRunCancelReceived
  | HistoryKindRunCancelled
  | HistoryKindRunCompleted
  | HistoryKindRunFailed
  | HistoryKindRunTerminated
  | HistoryKindStepCancelled
  | HistoryKindStepCompleted
  | HistoryKindStepFailed
  | HistoryKindStepStarted
  | HistoryKindStepTimeout
  | HistoryKindWaitStarted
  | HistoryKindWaitTimedOut
  | HistoryKindEventReceived
  | HistoryKindTaskCancelled
  | HistoryKindTaskCompleted
  | HistoryKindTaskFailed
  | HistoryKindTaskAttemptFailed
  | HistoryKindTaskStarted
  | HistoryKindTimestampRecorded
  | HistoryKindRandomRecorded
  | HistoryKindUUIDRecorded
  | HistoryKindSleepRecorded
  | HistoryKindChildStarted
  | HistoryKindParentEventSent
  | HistoryKindOther string

fun history_kind_str :: "HistoryKind \<Rightarrow> string" where
  "history_kind_str HistoryKindRunScheduled = ''run.scheduled''"
| "history_kind_str HistoryKindRunStarted = ''run.started''"
| "history_kind_str HistoryKindRunTimeout = ''run.timeout''"
| "history_kind_str HistoryKindRunCancelReceived = ''run.cancel_received''"
| "history_kind_str HistoryKindRunCancelled = ''run.cancelled''"
| "history_kind_str HistoryKindRunCompleted = ''run.completed''"
| "history_kind_str HistoryKindRunFailed = ''run.failed''"
| "history_kind_str HistoryKindRunTerminated = ''run.terminated''"
| "history_kind_str HistoryKindStepCancelled = ''step.cancelled''"
| "history_kind_str HistoryKindStepCompleted = ''step.completed''"
| "history_kind_str HistoryKindStepFailed = ''step.failed''"
| "history_kind_str HistoryKindStepStarted = ''step.started''"
| "history_kind_str HistoryKindStepTimeout = ''step.timeout''"
| "history_kind_str HistoryKindWaitStarted = ''wait.started''"
| "history_kind_str HistoryKindWaitTimedOut = ''wait.timed_out''"
| "history_kind_str HistoryKindEventReceived = ''event.received''"
| "history_kind_str HistoryKindTaskCancelled = ''task.cancelled''"
| "history_kind_str HistoryKindTaskCompleted = ''task.completed''"
| "history_kind_str HistoryKindTaskFailed = ''task.failed''"
| "history_kind_str HistoryKindTaskAttemptFailed = ''task.attempt_failed''"
| "history_kind_str HistoryKindTaskStarted = ''task.started''"
| "history_kind_str HistoryKindTimestampRecorded = ''timestamp.recorded''"
| "history_kind_str HistoryKindRandomRecorded = ''random.recorded''"
| "history_kind_str HistoryKindUUIDRecorded = ''uuid.recorded''"
| "history_kind_str HistoryKindSleepRecorded = ''sleep.recorded''"
| "history_kind_str HistoryKindChildStarted = ''child.started''"
| "history_kind_str HistoryKindParentEventSent = ''parent.event_sent''"
| "history_kind_str (HistoryKindOther s) = s"

definition history_kind_of :: "string \<Rightarrow> HistoryKind" where
  "history_kind_of s =
     (if s = ''run.scheduled'' then HistoryKindRunScheduled
      else if s = ''run.started'' then HistoryKindRunStarted
      else if s = ''run.timeout'' then HistoryKindRunTimeout
      else if s = ''run.cancel_received'' then HistoryKindRunCancelReceived
      else if s = ''run.cancelled'' then HistoryKindRunCancelled
      else if s = ''run.completed'' then HistoryKindRunCompleted
      else if s = ''run.failed'' then HistoryKindRunFailed
      else if s = ''run.terminated'' then HistoryKindRunTerminated
      else if s = ''step.cancelled'' then HistoryKindStepCancelled
      else if s = ''step.completed'' then HistoryKindStepCompleted
      else if s = ''step.failed'' then HistoryKindStepFailed
      else if s = ''step.started'' then HistoryKindStepStarted
      else if s = ''step.timeout'' then HistoryKindStepTimeout
      else if s = ''wait.started'' then HistoryKindWaitStarted
      else if s = ''wait.timed_out'' then HistoryKindWaitTimedOut
      else if s = ''event.received'' then HistoryKindEventReceived
      else if s = ''task.cancelled'' then HistoryKindTaskCancelled
      else if s = ''task.completed'' then HistoryKindTaskCompleted
      else if s = ''task.failed'' then HistoryKindTaskFailed
      else if s = ''task.attempt_failed'' then HistoryKindTaskAttemptFailed
      else if s = ''task.started'' then HistoryKindTaskStarted
      else if s = ''timestamp.recorded'' then HistoryKindTimestampRecorded
      else if s = ''random.recorded'' then HistoryKindRandomRecorded
      else if s = ''uuid.recorded'' then HistoryKindUUIDRecorded
      else if s = ''sleep.recorded'' then HistoryKindSleepRecorded
      else if s = ''child.started'' then HistoryKindChildStarted
      else if s = ''parent.event_sent'' then HistoryKindParentEventSent
      else HistoryKindOther s)"

datatype HistoryMessage =
    RunScheduled
  | RunStarted (hRunStarted_Input: go_any)
  | RunCompleted (hRunCompleted_Result: go_any) (hRunCompleted_DurationMS: int)
  | RunFailed (hRunFailed_Error: ErrorDetails) (hRunFailed_DurationMS: int)
  | RunCancelReceived
  | RunCancelled (hRunCancelled_Reason: string) (hRunCancelled_DurationMS: int)
  | RunTerminated (hRunTerminated_Reason: string) (hRunTerminated_DurationMS: int)
  | RunTimeout (hRunTimeout_DurationMS: int)
  | StepStarted (hStepStarted_StepName: string) (hStepStarted_WorkerID: string)
  | StepCompleted (hStepCompleted_StepName: string) (hStepCompleted_WorkerID: string) (hStepCompleted_DurationMS: int)
  | StepFailed (hStepFailed_StepName: string) (hStepFailed_Error: ErrorDetails) (hStepFailed_DurationMS: int)
  | StepCancelled (hStepCancelled_StepName: string)
  | StepTimedout (hStepTimedout_StepName: string) (hStepTimedout_DurationMS: int)
  | WaitStarted (hWaitStarted_DirectiveID: string) (hWaitStarted_Timeout: u32) (hWaitStarted_TimeoutStepName: string)
  | WaitTimedOut (hWaitTimedOut_OriginalDirectiveID: string) (hWaitTimedOut_TimeoutStepName: string)
  | EventReceived (hEventReceived_EventName: string) (hEventReceived_Payload: go_any)
  | TaskStarted (hTaskStarted_TaskID: string) (hTaskStarted_TaskName: string) (hTaskStarted_Args: go_any) (hTaskStarted_StepName: string)
  | TaskCompleted (hTaskCompleted_TaskID: string) (hTaskCompleted_TaskName: string) (hTaskCompleted_Output: go_any) (hTaskCompleted_StepName: string) (hTaskCompleted_DurationMS: int)
  | TaskFailed (hTaskFailed_TaskID: string) (hTaskFailed_TaskName: string) (hTaskFailed_StepName: string) (hTaskFailed_Error: ErrorDetails) (hTaskFailed_DurationMS: int)
  | TaskAttemptFailed (hTaskAttemptFailed_TaskID: string) (hTaskAttemptFailed_TaskName: string) (hTaskAttemptFailed_StepName: string) (hTaskAttemptFailed_Attempt: int) (hTaskAttemptFailed_MaxAttempts: int) (hTaskAttemptFailed_Error: ErrorDetails) (hTaskAttemptFailed_NextRetryDelayMS: int) (hTaskAttemptFailed_DurationMS: int)
  | TaskCancelled (hTaskCancelled_TaskID: string) (hTaskCancelled_TaskName: string) (hTaskCancelled_StepName: string) (hTaskCancelled_DurationMS: int)
  | TimestampRecorded (hTimestampRecorded_Value: time)
  | RandomRecorded (hRandomRecorded_Value: u64)
  | UUIDRecorded (hUUIDRecorded_Value: string)
  | SleepRecorded (hSleepRecorded_DurationMS: int)
  | ChildWorkflowStarted (hChildWorkflowStarted_RunID: string) (hChildWorkflowStarted_WFType: string) (hChildWorkflowStarted_WFID: string) (hChildWorkflowStarted_Input: go_any)
  | ParentEventSent (hParentEventSent_EventName: string) (hParentEventSent_Payload: go_any) (hParentEventSent_ParentWFType: string) (hParentEventSent_ParentWFID: string)

record HistoryEvent =
  he_WFID :: WFID
  he_RunID :: RunID
  he_WorkerID :: WorkerID
  he_Timestamp :: time
  he_Kind :: HistoryKind
  he_Msg :: "HistoryMessage option"

text \<open>
  \<^verbatim>\<open>historyMessageFactories\<close> read backwards: the kind under which a message type is
  registered.
\<close>

fun history_kind_of_msg :: "HistoryMessage \<Rightarrow> HistoryKind" where
  "history_kind_of_msg (RunScheduled) = HistoryKindRunScheduled"
| "history_kind_of_msg (RunStarted _) = HistoryKindRunStarted"
| "history_kind_of_msg (RunCompleted _ _) = HistoryKindRunCompleted"
| "history_kind_of_msg (RunFailed _ _) = HistoryKindRunFailed"
| "history_kind_of_msg (RunCancelReceived) = HistoryKindRunCancelReceived"
| "history_kind_of_msg (RunCancelled _ _) = HistoryKindRunCancelled"
| "history_kind_of_msg (RunTerminated _ _) = HistoryKindRunTerminated"
| "history_kind_of_msg (RunTimeout _) = HistoryKindRunTimeout"
| "history_kind_of_msg (StepStarted _ _) = HistoryKindStepStarted"
| "history_kind_of_msg (StepCompleted _ _ _) = HistoryKindStepCompleted"
| "history_kind_of_msg (StepFailed _ _ _) = HistoryKindStepFailed"
| "history_kind_of_msg (StepCancelled _) = HistoryKindStepCancelled"
| "history_kind_of_msg (StepTimedout _ _) = HistoryKindStepTimeout"
| "history_kind_of_msg (WaitStarted _ _ _) = HistoryKindWaitStarted"
| "history_kind_of_msg (WaitTimedOut _ _) = HistoryKindWaitTimedOut"
| "history_kind_of_msg (EventReceived _ _) = HistoryKindEventReceived"
| "history_kind_of_msg (TaskStarted _ _ _ _) = HistoryKindTaskStarted"
| "history_kind_of_msg (TaskCompleted _ _ _ _ _) = HistoryKindTaskCompleted"
| "history_kind_of_msg (TaskFailed _ _ _ _ _) = HistoryKindTaskFailed"
| "history_kind_of_msg (TaskAttemptFailed _ _ _ _ _ _ _ _) = HistoryKindTaskAttemptFailed"
| "history_kind_of_msg (TaskCancelled _ _ _ _) = HistoryKindTaskCancelled"
| "history_kind_of_msg (TimestampRecorded _) = HistoryKindTimestampRecorded"
| "history_kind_of_msg (RandomRecorded _) = HistoryKindRandomRecorded"
| "history_kind_of_msg (UUIDRecorded _) = HistoryKindUUIDRecorded"
| "history_kind_of_msg (SleepRecorded _) = HistoryKindSleepRecorded"
| "history_kind_of_msg (ChildWorkflowStarted _ _ _ _) = HistoryKindChildStarted"
| "history_kind_of_msg (ParentEventSent _ _ _ _) = HistoryKindParentEventSent"

section \<open>Encoding\<close>

fun enc_HistoryMessage :: "HistoryMessage \<Rightarrow> mp" where
  "enc_HistoryMessage (RunScheduled) = MMap
     []"
| "enc_HistoryMessage (RunStarted x1) = MMap
     [(''input'', x1)]"
| "enc_HistoryMessage (RunCompleted x1 x2) = MMap
     [(''result'', x1), (''duration_ms'', MInt x2)]"
| "enc_HistoryMessage (RunFailed x1 x2) = MMap
     [(''error'', enc_ErrorDetails x1), (''duration_ms'', MInt x2)]"
| "enc_HistoryMessage (RunCancelReceived) = MMap
     []"
| "enc_HistoryMessage (RunCancelled x1 x2) = MMap
     [(''reason'', MStr x1), (''duration_ms'', MInt x2)]"
| "enc_HistoryMessage (RunTerminated x1 x2) = MMap
     [(''reason'', MStr x1), (''duration_ms'', MInt x2)]"
| "enc_HistoryMessage (RunTimeout x1) = MMap
     [(''duration_ms'', MInt x1)]"
| "enc_HistoryMessage (StepStarted x1 x2) = MMap
     [(''step_name'', MStr x1), (''worker_id'', MStr x2)]"
| "enc_HistoryMessage (StepCompleted x1 x2 x3) = MMap
     [(''step_name'', MStr x1), (''worker_id'', MStr x2), (''duration_ms'', MInt x3)]"
| "enc_HistoryMessage (StepFailed x1 x2 x3) = MMap
     [(''step_name'', MStr x1), (''error'', enc_ErrorDetails x2), (''duration_ms'', MInt x3)]"
| "enc_HistoryMessage (StepCancelled x1) = MMap
     [(''step_name'', MStr x1)]"
| "enc_HistoryMessage (StepTimedout x1 x2) = MMap
     [(''step_name'', MStr x1), (''duration_ms'', MInt x2)]"
| "enc_HistoryMessage (WaitStarted x1 x2 x3) = MMap
     [(''directive_id'', MStr x1), (''timeout_ms'', enc_u x2), (''timeout_step_name'', MStr x3)]"
| "enc_HistoryMessage (WaitTimedOut x1 x2) = MMap
     [(''original_directive_id'', MStr x1), (''timeout_step_name'', MStr x2)]"
| "enc_HistoryMessage (EventReceived x1 x2) = MMap
     [(''event_name'', MStr x1), (''payload'', x2)]"
| "enc_HistoryMessage (TaskStarted x1 x2 x3 x4) = MMap
     [(''task_id'', MStr x1), (''task_name'', MStr x2), (''args'', x3), (''step_name'', MStr x4)]"
| "enc_HistoryMessage (TaskCompleted x1 x2 x3 x4 x5) = MMap
     [(''task_id'', MStr x1), (''task_name'', MStr x2), (''output'', x3), (''step_name'', MStr x4), (''duration_ms'', MInt x5)]"
| "enc_HistoryMessage (TaskFailed x1 x2 x3 x4 x5) = MMap
     [(''task_id'', MStr x1), (''task_name'', MStr x2), (''step_name'', MStr x3), (''error'', enc_ErrorDetails x4), (''duration_ms'', MInt x5)]"
| "enc_HistoryMessage (TaskAttemptFailed x1 x2 x3 x4 x5 x6 x7 x8) = MMap
     [(''task_id'', MStr x1), (''task_name'', MStr x2), (''step_name'', MStr x3), (''attempt'', MInt x4), (''max_attempts'', MInt x5), (''error'', enc_ErrorDetails x6), (''next_retry_delay_ms'', MInt x7), (''duration_ms'', MInt x8)]"
| "enc_HistoryMessage (TaskCancelled x1 x2 x3 x4) = MMap
     [(''task_id'', MStr x1), (''task_name'', MStr x2), (''step_name'', MStr x3), (''duration_ms'', MInt x4)]"
| "enc_HistoryMessage (TimestampRecorded x1) = MMap
     [(''value'', MTime x1)]"
| "enc_HistoryMessage (RandomRecorded x1) = MMap
     [(''value'', MFloat x1)]"
| "enc_HistoryMessage (UUIDRecorded x1) = MMap
     [(''value'', MStr x1)]"
| "enc_HistoryMessage (SleepRecorded x1) = MMap
     [(''duration_ms'', MInt x1)]"
| "enc_HistoryMessage (ChildWorkflowStarted x1 x2 x3 x4) = MMap
     ([(''run_id'', MStr x1), (''wf_type'', MStr x2), (''wf_id'', MStr x3)] @ omit_any ''input'' x4)"
| "enc_HistoryMessage (ParentEventSent x1 x2 x3 x4) = MMap
     ([(''event_name'', MStr x1), (''payload'', x2)] @ omit_str ''parent_wf_type'' x3 @ omit_str ''parent_wf_id'' x4)"

text \<open>
  The factory of each kind together with the decoding of the message it allocates; a kind
  that is not registered is an error.
\<close>

fun dec_HistoryMessage :: "HistoryKind \<Rightarrow> mp \<Rightarrow> HistoryMessage res" where
  "dec_HistoryMessage HistoryKindRunScheduled v =
     andThen (dec_map v) (\<lambda>fs.
     Ok RunScheduled)"
| "dec_HistoryMessage HistoryKindRunStarted v =
     andThen (dec_map v) (\<lambda>fs.
     andThen (dec_any (lookup_field fs ''input'')) (\<lambda>x1.
     Ok (RunStarted x1)))"
| "dec_HistoryMessage HistoryKindRunCompleted v =
     andThen (dec_map v) (\<lambda>fs.
     andThen (dec_any (lookup_field fs ''result'')) (\<lambda>x1.
     andThen (dec_int (lookup_field fs ''duration_ms'')) (\<lambda>x2.
     Ok (RunCompleted x1 x2))))"
| "dec_HistoryMessage HistoryKindRunFailed v =
     andThen (dec_map v) (\<lambda>fs.
     andThen (dec_ErrorDetails (lookup_field fs ''error'')) (\<lambda>x1.
     andThen (dec_int (lookup_field fs ''duration_ms'')) (\<lambda>x2.
     Ok (RunFailed x1 x2))))"
| "dec_HistoryMessage HistoryKindRunCancelReceived v =
     andThen (dec_map v) (\<lambda>fs.
     Ok RunCancelReceived)"
| "dec_HistoryMessage HistoryKindRunCancelled v =
     andThen (dec_map v) (\<lambda>fs.
     andThen (dec_str (lookup_field fs ''reason'')) (\<lambda>x1.
     andThen (dec_int (lookup_field fs ''duration_ms'')) (\<lambda>x2.
     Ok (RunCancelled x1 x2))))"
| "dec_HistoryMessage HistoryKindRunTerminated v =
     andThen (dec_map v) (\<lambda>fs.
     andThen (dec_str (lookup_field fs ''reason'')) (\<lambda>x1.
     andThen (dec_int (lookup_field fs ''duration_ms'')) (\<lambda>x2.
     Ok (RunTerminated x1 x2))))"
| "dec_HistoryMessage HistoryKindRunTimeout v =
     andThen (dec_map v) (\<lambda>fs.
     andThen (dec_int (lookup_field fs ''duration_ms'')) (\<lambda>x1.
     Ok (RunTimeout x1)))"
| "dec_HistoryMessage HistoryKindStepStarted v =
     andThen (dec_map v) (\<lambda>fs.
     andThen (dec_str (lookup_field fs ''step_name'')) (\<lambda>x1.
     andThen (dec_str (lookup_field fs ''worker_id'')) (\<lambda>x2.
     Ok (StepStarted x1 x2))))"
| "dec_HistoryMessage HistoryKindStepCompleted v =
     andThen (dec_map v) (\<lambda>fs.
     andThen (dec_str (lookup_field fs ''step_name'')) (\<lambda>x1.
     andThen (dec_str (lookup_field fs ''worker_id'')) (\<lambda>x2.
     andThen (dec_int (lookup_field fs ''duration_ms'')) (\<lambda>x3.
     Ok (StepCompleted x1 x2 x3)))))"
| "dec_HistoryMessage HistoryKindStepFailed v =
     andThen (dec_map v) (\<lambda>fs.
     andThen (dec_str (lookup_field fs ''step_name'')) (\<lambda>x1.
     andThen (dec_ErrorDetails (lookup_field fs ''error'')) (\<lambda>x2.
     andThen (dec_int (lookup_field fs ''duration_ms'')) (\<lambda>x3.
     Ok (StepFailed x1 x2 x3)))))"
| "dec_HistoryMessage HistoryKindStepCancelled v =
     andThen (dec_map v) (\<lambda>fs.
     andThen (dec_str (lookup_field fs ''step_name'')) (\<lambda>x1.
     Ok (StepCancelled x1)))"
| "dec_HistoryMessage HistoryKindStepTimeout v =
     andThen (dec_map v) (\<lambda>fs.
     andThen (dec_str (lookup_field fs ''step_name'')) (\<lambda>x1.
     andThen (dec_int (lookup_field fs ''duration_ms'')) (\<lambda>x2.
     Ok (StepTimedout x1 x2))))"
| "dec_HistoryMessage HistoryKindWaitStarted v =
     andThen (dec_map v) (\<lambda>fs.
     andThen (dec_str (lookup_field fs ''directive_id'')) (\<lambda>x1.
     andThen (dec_u (lookup_field fs ''timeout_ms'')) (\<lambda>x2.
     andThen (dec_str (lookup_field fs ''timeout_step_name'')) (\<lambda>x3.
     Ok (WaitStarted x1 x2 x3)))))"
| "dec_HistoryMessage HistoryKindWaitTimedOut v =
     andThen (dec_map v) (\<lambda>fs.
     andThen (dec_str (lookup_field fs ''original_directive_id'')) (\<lambda>x1.
     andThen (dec_str (lookup_field fs ''timeout_step_name'')) (\<lambda>x2.
     Ok (WaitTimedOut x1 x2))))"
| "dec_HistoryMessage HistoryKindEventReceived v =
     andThen (dec_map v) (\<lambda>fs.
     andThen (dec_str (lookup_field fs ''event_name'')) (\<lambda>x1.
     andThen (dec_any (lookup_field fs ''payload'')) (\<lambda>x2.
     Ok (EventReceived x1 x2))))"
| "dec_HistoryMessage HistoryKindTaskStarted v =
     andThen (dec_map v) (\<lambda>fs.
     andThen (dec_str (lookup_field fs ''task_id'')) (\<lambda>x1.
     andThen (dec_str (lookup_field fs ''task_name'')) (\<lambda>x2.
     andThen (dec_any (lookup_field fs ''args'')) (\<lambda>x3.
     andThen (dec_str (lookup_field fs ''step_name'')) (\<lambda>x4.
     Ok (TaskStarted x1 x2 x3 x4))))))"
| "dec_HistoryMessage HistoryKindTaskCompleted v =
     andThen (dec_map v) (\<lambda>fs.
     andThen (dec_str (lookup_field fs ''task_id'')) (\<lambda>x1.
     andThen (dec_str (lookup_field fs ''task_name'')) (\<lambda>x2.
     andThen (dec_any (lookup_field fs ''output'')) (\<lambda>x3.
     andThen (dec_str (lookup_field fs ''step_name'')) (\<lambda>x4.
     andThen (dec_int (lookup_field fs ''duration_ms'')) (\<lambda>x5.
     Ok (TaskCompleted x1 x2 x3 x4 x5)))))))"
| "dec_HistoryMessage HistoryKindTaskFailed v =
     andThen (dec_map v) (\<lambda>fs.
     andThen (dec_str (lookup_field fs ''task_id'')) (\<lambda>x1.
     andThen (dec_str (lookup_field fs ''task_name'')) (\<lambda>x2.
     andThen (dec_str (lookup_field fs ''step_name'')) (\<lambda>x3.
     andThen (dec_ErrorDetails (lookup_field fs ''error'')) (\<lambda>x4.
     andThen (dec_int (lookup_field fs ''duration_ms'')) (\<lambda>x5.
     Ok (TaskFailed x1 x2 x3 x4 x5)))))))"
| "dec_HistoryMessage HistoryKindTaskAttemptFailed v =
     andThen (dec_map v) (\<lambda>fs.
     andThen (dec_str (lookup_field fs ''task_id'')) (\<lambda>x1.
     andThen (dec_str (lookup_field fs ''task_name'')) (\<lambda>x2.
     andThen (dec_str (lookup_field fs ''step_name'')) (\<lambda>x3.
     andThen (dec_int (lookup_field fs ''attempt'')) (\<lambda>x4.
     andThen (dec_int (lookup_field fs ''max_attempts'')) (\<lambda>x5.
     andThen (dec_ErrorDetails (lookup_field fs ''error'')) (\<lambda>x6.
     andThen (dec_int (lookup_field fs ''next_retry_delay_ms'')) (\<lambda>x7.
     andThen (dec_int (lookup_field fs ''duration_ms'')) (\<lambda>x8.
     Ok (TaskAttemptFailed x1 x2 x3 x4 x5 x6 x7 x8))))))))))"
| "dec_HistoryMessage HistoryKindTaskCancelled v =
     andThen (dec_map v) (\<lambda>fs.
     andThen (dec_str (lookup_field fs ''task_id'')) (\<lambda>x1.
     andThen (dec_str (lookup_field fs ''task_name'')) (\<lambda>x2.
     andThen (dec_str (lookup_field fs ''step_name'')) (\<lambda>x3.
     andThen (dec_int (lookup_field fs ''duration_ms'')) (\<lambda>x4.
     Ok (TaskCancelled x1 x2 x3 x4))))))"
| "dec_HistoryMessage HistoryKindTimestampRecorded v =
     andThen (dec_map v) (\<lambda>fs.
     andThen (dec_time (lookup_field fs ''value'')) (\<lambda>x1.
     Ok (TimestampRecorded x1)))"
| "dec_HistoryMessage HistoryKindRandomRecorded v =
     andThen (dec_map v) (\<lambda>fs.
     andThen (dec_float (lookup_field fs ''value'')) (\<lambda>x1.
     Ok (RandomRecorded x1)))"
| "dec_HistoryMessage HistoryKindUUIDRecorded v =
     andThen (dec_map v) (\<lambda>fs.
     andThen (dec_str (lookup_field fs ''value'')) (\<lambda>x1.
     Ok (UUIDRecorded x1)))"
| "dec_HistoryMessage HistoryKindSleepRecorded v =
     andThen (dec_map v) (\<lambda>fs.
     andThen (dec_int (lookup_field fs ''duration_ms'')) (\<lambda>x1.
     Ok (SleepRecorded x1)))"
| "dec_HistoryMessage HistoryKindChildStarted v =
     andThen (dec_map v) (\<lambda>fs.
     andThen (dec_str (lookup_field fs ''run_id'')) (\<lambda>x1.
     andThen (dec_str (lookup_field fs ''wf_type'')) (\<lambda>x2.
     andThen (dec_str (lookup_field fs ''wf_id'')) (\<lambda>x3.
     andThen (dec_any (lookup_field fs ''input'')) (\<lambda>x4.
     Ok (ChildWorkflowStarted x1 x2 x3 x4))))))"
| "dec_HistoryMessage HistoryKindParentEventSent v =
     andThen (dec_map v) (\<lambda>fs.
     andThen (dec_str (lookup_field fs ''event_name'')) (\<lambda>x1.
     andThen (dec_any (lookup_field fs ''payload'')) (\<lambda>x2.
     andThen (dec_str (lookup_field fs ''parent_wf_type'')) (\<lambda>x3.
     andThen (dec_str (lookup_field fs ''parent_wf_id'')) (\<lambda>x4.
     Ok (ParentEventSent x1 x2 x3 x4))))))"
| "dec_HistoryMessage (HistoryKindOther s) v = Err (Errorf (''unknown history kind: '' @ s))"

text \<open>Whether \<^verbatim>\<open>historyMessageFactories\<close> has an entry for the kind.\<close>

fun history_registered :: "HistoryKind \<Rightarrow> bool" where
  "history_registered (HistoryKindOther s) = False"
| "history_registered _ = True"

text \<open>\<^verbatim>\<open>HistoryEvent.EncodeMsgpack\<close>: the document of the wire struct.\<close>

definition HistoryEvent_EncodeMsgpack :: "runtime \<Rightarrow> HistoryEvent \<Rightarrow> mp res" where
  "HistoryEvent_EncodeMsgpack rt e =
     (case he_Msg e of
        None \<Rightarrow> Err (Errorf ''history message cannot be nil'')
      | Some m \<Rightarrow>
          orErrorf ''failed to marshal message: '' (mp_marshal rt (enc_HistoryMessage m))
            (\<lambda>msgBytes. Ok (MMap
               [(''w'', MStr (he_WFID e)),
                (''r'', MStr (he_RunID e)),
                (''wo'', MStr (he_WorkerID e)),
                (''ts'', MTime (he_Timestamp e)),
                (''k'', MStr (history_kind_str (he_Kind e))),
                (''m'', MBin msgBytes)])))"

text \<open>
  \<^verbatim>\<open>HistoryEvent.DecodeMsgpack\<close>. The kind is looked up before the nested bytes are
  decoded.
\<close>

definition HistoryEvent_DecodeMsgpack :: "runtime \<Rightarrow> mp \<Rightarrow> HistoryEvent res" where
  "HistoryEvent_DecodeMsgpack rt v =
     orErrorf ''failed to decode history: ''
       (andThen (dec_map v) (\<lambda>fs.
        andThen (dec_str (lookup_field fs ''w'')) (\<lambda>w.
        andThen (dec_str (lookup_field fs ''r'')) (\<lambda>r.
        andThen (dec_str (lookup_field fs ''wo'')) (\<lambda>wo.
        andThen (dec_time (lookup_field fs ''ts'')) (\<lambda>ts.
        andThen (dec_str (lookup_field fs ''k'')) (\<lambda>k.
        andThen (dec_bin (lookup_field fs ''m'')) (\<lambda>m.
        Ok (w, r, wo, ts, history_kind_of k, m)))))))))
       (\<lambda>(w, r, wo, ts, kind, m).
          if \<not> history_registered kind
          then Err (Errorf (''unknown history kind: '' @ history_kind_str kind))
          else
            orErrorf (''failed to unmarshal message for kind '' @ history_kind_str kind @ '': '')
              (andThen (mp_unmarshal rt m) (dec_HistoryMessage kind))
              (\<lambda>msg. Ok \<lparr>he_WFID = w, he_RunID = r, he_WorkerID = wo, he_Timestamp = ts,
                         he_Kind = kind, he_Msg = Some msg\<rparr>))"

definition marshal_HistoryEvent :: "runtime \<Rightarrow> HistoryEvent \<Rightarrow> bytes res" where
  "marshal_HistoryEvent rt e = andThen (HistoryEvent_EncodeMsgpack rt e) (mp_marshal rt)"

definition unmarshal_HistoryEvent :: "runtime \<Rightarrow> bytes \<Rightarrow> HistoryEvent res" where
  "unmarshal_HistoryEvent rt b = andThen (mp_unmarshal rt b) (HistoryEvent_DecodeMsgpack rt)"

section \<open>Round trip\<close>

lemma dec_enc_HistoryMessage: "dec_HistoryMessage (history_kind_of_msg m) (enc_HistoryMessage m) = Ok m"
  by (cases m) (simp_all add: wire_simps)

lemma history_kind_str_of [simp]: "history_kind_str (history_kind_of s) = s"
  by (simp add: history_kind_of_def)

lemma history_kind_of_str_msg [simp]:
  "history_kind_of (history_kind_str (history_kind_of_msg m)) = history_kind_of_msg m"
  by (cases m) (simp_all add: history_kind_of_def)

lemma history_registered_msg [simp]: "history_registered (history_kind_of_msg m)"
  by (cases m) simp_all

lemma HistoryEvent_roundtrip_doc:
  assumes "codec_ok rt" and "he_Msg e = Some m" and "he_Kind e = history_kind_of_msg m"
    and "fits (enc_HistoryMessage m)"
  obtains v where "HistoryEvent_EncodeMsgpack rt e = Ok v"
    and "HistoryEvent_DecodeMsgpack rt v = Ok e"
proof -
  obtain b where b: "mp_marshal rt (enc_HistoryMessage m) = Ok b"
      "mp_unmarshal rt b = Ok (enc_HistoryMessage m)"
    using codec_marshal [OF assms(1,4)] .
  let ?v = "MMap
     [(''w'', MStr (he_WFID e)), (''r'', MStr (he_RunID e)), (''wo'', MStr (he_WorkerID e)),
      (''ts'', MTime (he_Timestamp e)), (''k'', MStr (history_kind_str (he_Kind e))),
      (''m'', MBin b)]"
  have enc: "HistoryEvent_EncodeMsgpack rt e = Ok ?v"
    by (simp add: HistoryEvent_EncodeMsgpack_def assms b)
  have "HistoryEvent_DecodeMsgpack rt ?v = Ok e"
    using assms(2,3) by (cases e)
      (simp add: HistoryEvent_DecodeMsgpack_def wire_simps b dec_enc_HistoryMessage)
  with enc show ?thesis by (rule that)
qed

end
