(* ===== verification/SampleRuntime.thy ===== *)
theory SampleRuntime
  imports Types
begin

text \<open>
  A concrete runtime: a clock that stands still, one identifier per kind of call site, and a
  small self-delimiting codec for value trees that satisfies the law \<open>codec_ok\<close>. The
  statements of the development hold for every runtime with that law; this one shows that
  there is one, and the concrete runs of the development are evaluated in it.
\<close>

section \<open>A self-delimiting codec\<close>

definition put_nat :: "nat \<Rightarrow> bytes" where
  "put_nat n = replicate n 1 @ [0]"

fun get_nat :: "bytes \<Rightarrow> (nat \<times> bytes) option" where
  "get_nat [] = None"
| "get_nat (b # bs) =
     (if b = 0 then Some (0, bs)
      else case get_nat bs of None \<Rightarrow> None | Some (n, r) \<Rightarrow> Some (Suc n, r))"

definition put_bytes :: "bytes \<Rightarrow> bytes" where
  "put_bytes bs = put_nat (length bs) @ bs"

definition get_bytes :: "bytes \<Rightarrow> (bytes \<times> bytes) option" where
  "get_bytes bs = (case get_nat bs of None \<Rightarrow> None | Some (n, r) \<Rightarrow> Some (take n r, drop n r))"

definition put_int :: "int \<Rightarrow> bytes" where
  "put_int i = (if i < 0 then 1 else 0) # put_nat (nat \<bar>i\<bar>)"

fun get_int :: "bytes \<Rightarrow> (int \<times> bytes) option" where
  "get_int [] = None"
| "get_int (s # bs) =
     (case get_nat bs of None \<Rightarrow> None
      | Some (n, r) \<Rightarrow> Some (if s = 0 then int n else - int n, r))"

definition char_bytes :: "string \<Rightarrow> bytes" where
  "char_bytes s = map (\<lambda>c. of_nat (of_char c)) s"

definition bytes_chars :: "bytes \<Rightarrow> string" where
  "bytes_chars bs = map (\<lambda>b. char_of (unat b)) bs"

fun put_mp :: "mp \<Rightarrow> bytes" where
  "put_mp MNil = [0]"
| "put_mp (MBool b) = [1, if b then 1 else 0]"
| "put_mp (MInt i) = 2 # put_int i"
| "put_mp (MFloat w) = 3 # put_nat (unat w)"
| "put_mp (MStr s) = 4 # put_bytes (char_bytes s)"
| "put_mp (MBin b) = 5 # put_bytes b"
| "put_mp (MTime t) = 6 # put_int t"
| "put_mp (MArr vs) = 7 # concat (map (\<lambda>v. 1 # put_mp v) vs) @ [0]"
| "put_mp (MMap kvs) =
     8 # concat (map (\<lambda>(k, v). 1 # put_bytes (char_bytes k) @ put_mp v) kvs) @ [0]"

text \<open>The first argument bounds the depth of the recursion; the length of the input is enough.\<close>

fun get_mp :: "nat \<Rightarrow> bytes \<Rightarrow> (mp \<times> bytes) option"
and get_items :: "nat \<Rightarrow> bytes \<Rightarrow> (mp list \<times> bytes) option"
and get_pairs :: "nat \<Rightarrow> bytes \<Rightarrow> ((string \<times> mp) list \<times> bytes) option" where
  "get_mp 0 bs = None"
| "get_mp (Suc n) [] = None"
| "get_mp (Suc n) (t # bs) =
     (if t = 0 then Some (MNil, bs)
      else if t = 1 then (case bs of [] \<Rightarrow> None | b # r \<Rightarrow> Some (MBool (b = 1), r))
      else if t = 2 then map_option (\<lambda>(i, r). (MInt i, r)) (get_int bs)
      else if t = 3 then map_option (\<lambda>(i, r). (MFloat (of_nat i), r)) (get_nat bs)
      else if t = 4 then map_option (\<lambda>(i, r). (MStr (bytes_chars i), r)) (get_bytes bs)
      else if t = 5 then map_option (\<lambda>(i, r). (MBin i, r)) (get_bytes bs)
      else if t = 6 then map_option (\<lambda>(i, r). (MTime i, r)) (get_int bs)
      else if t = 7 then map_option (\<lambda>(i, r). (MArr i, r)) (get_items n bs)
      else if t = 8 then map_option (\<lambda>(i, r). (MMap i, r)) (get_pairs n bs)
      else None)"
| "get_items 0 bs = None"
| "get_items (Suc n) [] = None"
| "get_items (Suc n) (t # bs) =
     (if t = 0 then Some ([], bs)
      else case get_mp n bs of None \<Rightarrow> None
      | Some (v, r) \<Rightarrow> map_option (\<lambda>(vs, r'). (v # vs, r')) (get_items n r))"
| "get_pairs 0 bs = None"
| "get_pairs (Suc n) [] = None"
| "get_pairs (Suc n) (t # bs) =
     (if t = 0 then Some ([], bs)
      else case get_bytes bs of None \<Rightarrow> None
      | Some (k, r) \<Rightarrow>
        (case get_mp n r of None \<Rightarrow> None
         | Some (v, r') \<Rightarrow>
             map_option (\<lambda>(kvs, r''). ((bytes_chars k, v) # kvs, r'')) (get_pairs n r')))"

definition unput_mp :: "bytes \<Rightarrow> mp res" where
  "unput_mp bs =
     (case get_mp (Suc (length bs)) bs of
        Some (v, []) \<Rightarrow> Ok v
      | _ \<Rightarrow> Err (Errorf ''malformed document''))"

lemma get_nat_put [simp]: "get_nat (put_nat n @ r) = Some (n, r)"
  by (induction n) (auto simp: put_nat_def)

lemma get_bytes_put [simp]: "get_bytes (put_bytes b @ r) = Some (b, r)"
  by (simp add: get_bytes_def put_bytes_def)

lemma get_int_put [simp]: "get_int (put_int i @ r) = Some (i, r)"
  by (simp add: put_int_def)

lemma bytes_chars_bytes [simp]: "bytes_chars (char_bytes s) = s"
proof -
  have "char_of (unat (of_nat (of_char c) :: u8)) = c" for c :: char
    using nat_of_char_less_256 [of c] by (simp add: unsigned_of_nat take_bit_nat_eq_self)
  then show ?thesis
    by (simp add: bytes_chars_def char_bytes_def map_idI)
qed

lemma get_items_put:
  assumes "\<And>v n r. v \<in> set vs \<Longrightarrow> length (put_mp v) < n \<Longrightarrow> get_mp n (put_mp v @ r) = Some (v, r)"
    and "length (concat (map (\<lambda>v. 1 # put_mp v) vs)) < n"
  shows "get_items n (concat (map (\<lambda>v. 1 # put_mp v) vs) @ 0 # r) = Some (vs, r)"
  using assms
proof (induction vs arbitrary: n)
  case Nil
  then show ?case by (cases n) auto
next
  case (Cons v vs)
  then obtain m where n: "n = Suc m" by (cases n) auto
  with Cons.prems(2) have "length (put_mp v) < m"
      "length (concat (map (\<lambda>v. 1 # put_mp v) vs)) < m"
    by auto
  with Cons n show ?case by (auto simp del: length_concat)
qed

lemma get_pairs_put:
  assumes "\<And>kv n r. kv \<in> set kvs \<Longrightarrow> length (put_mp (snd kv)) < n \<Longrightarrow>
      get_mp n (put_mp (snd kv) @ r) = Some (snd kv, r)"
    and "length (concat (map (\<lambda>(k, v). 1 # put_bytes (char_bytes k) @ put_mp v) kvs)) < n"
  shows "get_pairs n (concat (map (\<lambda>(k, v). 1 # put_bytes (char_bytes k) @ put_mp v) kvs) @ 0 # r)
    = Some (kvs, r)"
  using assms
proof (induction kvs arbitrary: n)
  case Nil
  then show ?case by (cases n) auto
next
  case (Cons kv kvs)
  obtain k v where kv: "kv = (k, v)" by (cases kv)
  from Cons.prems(2) obtain m where n: "n = Suc m" by (cases n) auto
  with Cons.prems(2) kv have "length (put_mp v) < m"
      "length (concat (map (\<lambda>(k, v). 1 # put_bytes (char_bytes k) @ put_mp v) kvs)) < m"
    by auto
  have v: "get_mp m (put_mp v @ r') = Some (v, r')" for r'
    using Cons.prems(1) [of kv m r'] kv \<open>length (put_mp v) < m\<close> by simp
  have "get_pairs m (concat (map (\<lambda>(k, v). 1 # put_bytes (char_bytes k) @ put_mp v) kvs) @ 0 # r)
      = Some (kvs, r)"
    by (rule Cons.IH [OF Cons.prems(1)]) (simp, assumption, fact)
  with v n kv show ?case by simp
qed

lemma get_mp_put: "length (put_mp v) < n \<Longrightarrow> get_mp n (put_mp v @ r) = Some (v, r)"
proof (induction v arbitrary: n r rule: put_mp.induct)
  case (8 vs)
  then obtain m where n: "n = Suc m" by (cases n) auto
  from 8 n show ?case by (simp add: get_items_put)
next
  case (9 kvs)
  then obtain m where n: "n = Suc m" by (cases n) auto
  have "get_pairs m (concat (map (\<lambda>(k, v). 1 # put_bytes (char_bytes k) @ put_mp v) kvs) @ 0 # r)
      = Some (kvs, r)"
    by (rule get_pairs_put) (use 9 n in \<open>auto simp del: length_concat\<close>)
  with n show ?case by simp
qed (case_tac n; simp)+

section \<open>The runtime\<close>

definition sample_rt :: runtime where
  "sample_rt =
     \<lparr>now = (\<lambda>s. 5), ulid = (\<lambda>s. ''01J''), mp_marshal = (\<lambda>v. Ok (put_mp v)),
      mp_unmarshal = unput_mp\<rparr>"

lemma codec_ok_sample [simp]: "codec_ok sample_rt"
  using get_mp_put [where r = "[]"]
  by (auto simp: codec_ok_def sample_rt_def unput_mp_def)

text \<open>The lengths of encodings, to bound them without computing them.\<close>

lemma put_lengths:
  "length (put_nat n) = Suc n" "length (put_bytes b) = Suc (2 * length b)"
  "length (put_int i) = Suc (Suc (nat \<bar>i\<bar>))" "length (char_bytes s) = length s"
  by (simp_all add: put_nat_def put_bytes_def put_int_def char_bytes_def)

section \<open>A sample run\<close>

definition sample_ri :: RunInfo where
  "sample_ri = RunInfo_zero
     \<lparr>ri_ID := ''r1'', ri_WFID := ''w1'', ri_WFType := ''order'', ri_CreatedAt := 1,
      ri_StartedAt := Some 2, ri_ParentWFID := Some ''p1'', ri_ParentCallbackStep := Some ''done''\<rparr>"

definition sample_d :: "DirectiveID \<Rightarrow> DirectiveKind \<Rightarrow> DirectiveMessage \<Rightarrow> Directive" where
  "sample_d i k m =
     \<lparr>d_ID = i, d_Timestamp = 7, d_Kind = k, d_RunInfo = sample_ri, d_Attempt = 0, d_Msg = Some m\<rparr>"

definition sample_state :: "RunStateKind \<Rightarrow> RunState" where
  "sample_state k = RunState_zero
     \<lparr>rs_WFID := ''w1'', rs_RunID := ''r1'', rs_Kind := k, rs_EnteredAt := 3,
      rs_StartedAt := Some 2, rs_ActiveDirectiveID := ''d1'', rs_WorkerID := Some ''wk'', rs_SeqID := 4\<rparr>"

end
