(* ===== verification/Wire.thy ===== *)
theory Wire
  imports HistoryTypes SampleRuntime
begin

text \<open>
  The wire format of directives, commands, run infos, run states and timers: the msgpack
  tags of the structs in \<^verbatim>\<open>src/types/external/v1\<close> and the custom encoders and decoders of
  \<^verbatim>\<open>Directive\<close>, \<^verbatim>\<open>StepResult\<close> and \<^verbatim>\<open>Command\<close>. A nil slice and an empty slice are both the
  empty list.
\<close>

section \<open>String enums\<close>

definition directive_kind_of :: "string \<Rightarrow> DirectiveKind" where
  "directive_kind_of s =
     (if s = ''terminate'' then DirectiveKindTerminate
      else if s = ''cancel'' then DirectiveKindCancel
      else if s = ''start'' then DirectiveKindStart
      else if s = ''event'' then DirectiveKindEvent
      else if s = ''step_result'' then DirectiveKindStepResult
      else if s = ''step_picked_up'' then DirectiveKindStepPickedUp
      else if s = ''fail'' then DirectiveKindFail
      else if s = ''fail_step'' then DirectiveKindFailStep
      else if s = ''complete'' then DirectiveKindComplete
      else if s = ''wait'' then DirectiveKindWait
      else if s = ''step'' then DirectiveKindStep
      else if s = ''step_timeout'' then DirectiveKindStepTimeout
      else if s = ''wait_timeout'' then DirectiveKindWaitTimeout
      else if s = ''wake_from_inbox'' then DirectiveKindWakeFromInbox
      else DirectiveKindOther s)"

definition run_state_kind_of :: "string \<Rightarrow> RunStateKind" where
  "run_state_kind_of s =
     (if s = ''idle'' then RunStateIdle
      else if s = ''start'' then RunStateStart
      else if s = ''step'' then RunStateStep
      else if s = ''wait'' then RunStateWait
      else if s = ''complete'' then RunStateComplete
      else if s = ''fail'' then RunStateFail
      else if s = ''cancel'' then RunStateCancel
      else if s = ''terminate'' then RunStateTerminate
      else RunStateOther s)"

definition cmd_kind_of :: "string \<Rightarrow> CmdKind" where
  "cmd_kind_of s =
     (if s = ''run.cancel'' then CmdKindRunCancel
      else if s = ''run.describe'' then CmdKindRunDescribe
      else if s = ''run.event'' then CmdKindRunEvent
      else if s = ''run.start'' then CmdKindRunStart
      else if s = ''run.terminate'' then CmdKindRunTerminate
      else if s = ''worker.register'' then CmdKindWorkerRegister
      else if s = ''worker.terminate_run'' then CmdKindWorkerTerminateRun
      else CmdKindOther s)"

definition canonical_run_state_kind :: "RunStateKind \<Rightarrow> bool" where
  "canonical_run_state_kind k \<longleftrightarrow> run_state_kind_of (run_state_kind_str k) = k"

lemma directive_kind_str_of [simp]: "directive_kind_str (directive_kind_of s) = s"
  by (simp add: directive_kind_of_def)

lemma run_state_kind_str_of [simp]: "run_state_kind_str (run_state_kind_of s) = s"
  by (simp add: run_state_kind_of_def)

lemma cmd_kind_str_of [simp]: "cmd_kind_str (cmd_kind_of s) = s"
  by (simp add: cmd_kind_of_def)

lemma canonical_run_state_kinds [simp]:
  "canonical_run_state_kind RunStateIdle" "canonical_run_state_kind RunStateStart"
  "canonical_run_state_kind RunStateStep" "canonical_run_state_kind RunStateWait"
  "canonical_run_state_kind RunStateComplete" "canonical_run_state_kind RunStateFail"
  "canonical_run_state_kind RunStateCancel" "canonical_run_state_kind RunStateTerminate"
  by (simp_all add: canonical_run_state_kind_def run_state_kind_of_def)

section \<open>RunInfo\<close>

definition enc_RunInfo :: "RunInfo \<Rightarrow> mp" where
  "enc_RunInfo ri = MMap
     ([(''id'', MStr (ri_ID ri)),
       (''wf_id'', MStr (ri_WFID ri)),
       (''wf_type'', MStr (ri_WFType ri))]
      @ omit_str ''status'' (run_status_str (ri_Status ri))
      @ omit_str ''worker_name'' (ri_WorkerName ri)
      @ omit_nil ''parent_wf_id'' MStr (ri_ParentWFID ri)
      @ omit_nil ''parent_wf_type'' MStr (ri_ParentWFType ri)
      @ omit_nil ''parent_run_id'' MStr (ri_ParentRunID ri)
      @ omit_nil ''parent_callback_step'' MStr (ri_ParentCallbackStep ri)
      @ omit_nil ''timeout'' MInt (ri_Timeout ri)
      @ [(''created_at'', MTime (ri_CreatedAt ri))]
      @ omit_nil ''scheduled_at'' MTime (ri_ScheduledAt ri)
      @ omit_nil ''started_at'' MTime (ri_StartedAt ri)
      @ omit_nil ''completed_at'' MTime (ri_CompletedAt ri)
      @ omit_u ''history_seq_id'' (ri_HistorySeqID ri))"

definition dec_RunInfo :: "mp \<Rightarrow> RunInfo res" where
  "dec_RunInfo v =
     andThen (dec_map v) (\<lambda>fs.
     andThen (dec_str (lookup_field fs ''id'')) (\<lambda>f1.
     andThen (dec_str (lookup_field fs ''wf_id'')) (\<lambda>f2.
     andThen (dec_str (lookup_field fs ''wf_type'')) (\<lambda>f3.
     andThen (dec_str (lookup_field fs ''status'')) (\<lambda>f4.
     andThen (dec_str (lookup_field fs ''worker_name'')) (\<lambda>f5.
     andThen (dec_opt dec_str (lookup_field fs ''parent_wf_id'')) (\<lambda>f6.
     andThen (dec_opt dec_str (lookup_field fs ''parent_wf_type'')) (\<lambda>f7.
     andThen (dec_opt dec_str (lookup_field fs ''parent_run_id'')) (\<lambda>f8.
     andThen (dec_opt dec_str (lookup_field fs ''parent_callback_step'')) (\<lambda>f9.
     andThen (dec_opt dec_int (lookup_field fs ''timeout'')) (\<lambda>f10.
     andThen (dec_time (lookup_field fs ''created_at'')) (\<lambda>f11.
     andThen (dec_opt dec_time (lookup_field fs ''scheduled_at'')) (\<lambda>f12.
     andThen (dec_opt dec_time (lookup_field fs ''started_at'')) (\<lambda>f13.
     andThen (dec_opt dec_time (lookup_field fs ''completed_at'')) (\<lambda>f14.
     andThen (dec_u (lookup_field fs ''history_seq_id'')) (\<lambda>f15.
     Ok \<lparr>ri_ID = f1, ri_WFID = f2, ri_WFType = f3, ri_Status = run_status_of f4,
         ri_WorkerName = f5, ri_ParentWFID = f6, ri_ParentWFType = f7, ri_ParentRunID = f8,
         ri_ParentCallbackStep = f9, ri_Timeout = f10, ri_CreatedAt = f11,
         ri_ScheduledAt = f12, ri_StartedAt = f13, ri_CompletedAt = f14,
         ri_HistorySeqID = f15\<rparr>))))))))))))))))"

definition RunInfo_segs :: "RunInfo \<Rightarrow> (string \<times> mp option) list" where
  "RunInfo_segs ri =
     [(''id'', Some (MStr (ri_ID ri))), (''wf_id'', Some (MStr (ri_WFID ri))),
      (''wf_type'', Some (MStr (ri_WFType ri))),
      (''status'', if run_status_str (ri_Status ri) = [] then None
                   else Some (MStr (run_status_str (ri_Status ri)))),
      (''worker_name'', if ri_WorkerName ri = [] then None else Some (MStr (ri_WorkerName ri))),
      (''parent_wf_id'', map_option MStr (ri_ParentWFID ri)),
      (''parent_wf_type'', map_option MStr (ri_ParentWFType ri)),
      (''parent_run_id'', map_option MStr (ri_ParentRunID ri)),
      (''parent_callback_step'', map_option MStr (ri_ParentCallbackStep ri)),
      (''timeout'', map_option MInt (ri_Timeout ri)),
      (''created_at'', Some (MTime (ri_CreatedAt ri))),
      (''scheduled_at'', map_option MTime (ri_ScheduledAt ri)),
      (''started_at'', map_option MTime (ri_StartedAt ri)),
      (''completed_at'', map_option MTime (ri_CompletedAt ri)),
      (''history_seq_id'', if ri_HistorySeqID ri = 0 then None else Some (enc_u (ri_HistorySeqID ri)))]"

lemma enc_RunInfo_segs: "enc_RunInfo ri = MMap (segs (RunInfo_segs ri))"
  by (simp add: enc_RunInfo_def RunInfo_segs_def segs_of_omit)

lemma RunInfo_segs_distinct: "distinct (map fst (RunInfo_segs ri))"
  by (simp add: RunInfo_segs_def)

lemma RunInfo_values:
  "seg_value (RunInfo_segs ri) ''id'' = MStr (ri_ID ri)"
  "seg_value (RunInfo_segs ri) ''wf_id'' = MStr (ri_WFID ri)"
  "seg_value (RunInfo_segs ri) ''wf_type'' = MStr (ri_WFType ri)"
  "dec_str (seg_value (RunInfo_segs ri) ''status'') = Ok (run_status_str (ri_Status ri))"
  "dec_str (seg_value (RunInfo_segs ri) ''worker_name'') = Ok (ri_WorkerName ri)"
  "seg_value (RunInfo_segs ri) ''parent_wf_id'' = enc_opt MStr (ri_ParentWFID ri)"
  "seg_value (RunInfo_segs ri) ''parent_wf_type'' = enc_opt MStr (ri_ParentWFType ri)"
  "seg_value (RunInfo_segs ri) ''parent_run_id'' = enc_opt MStr (ri_ParentRunID ri)"
  "seg_value (RunInfo_segs ri) ''parent_callback_step'' = enc_opt MStr (ri_ParentCallbackStep ri)"
  "seg_value (RunInfo_segs ri) ''timeout'' = enc_opt MInt (ri_Timeout ri)"
  "seg_value (RunInfo_segs ri) ''created_at'' = MTime (ri_CreatedAt ri)"
  "seg_value (RunInfo_segs ri) ''scheduled_at'' = enc_opt MTime (ri_ScheduledAt ri)"
  "seg_value (RunInfo_segs ri) ''started_at'' = enc_opt MTime (ri_StartedAt ri)"
  "seg_value (RunInfo_segs ri) ''completed_at'' = enc_opt MTime (ri_CompletedAt ri)"
  "dec_u (seg_value (RunInfo_segs ri) ''history_seq_id'') = Ok (ri_HistorySeqID ri)"
  by (simp_all add: RunInfo_segs_def seg_value_simps seg_pointer
      del: case_map_option split del: if_split)

lemma dec_enc_RunInfo:
  "canonical_run_status (ri_Status ri) \<Longrightarrow> dec_RunInfo (enc_RunInfo ri) = Ok ri"
  by (simp add: dec_RunInfo_def enc_RunInfo_segs lookup_segs [OF RunInfo_segs_distinct]
      RunInfo_values canonical_run_status_def)

lemma enc_RunInfo_not_nil [simp]: "enc_RunInfo ri \<noteq> MNil"
  by (simp add: enc_RunInfo_def)

section \<open>Directive messages\<close>

text \<open>A Go map read from a document: the last entry of a key wins.\<close>

fun last_wins :: "(string \<times> mp) list \<Rightarrow> (string \<times> mp) list" where
  "last_wins [] = []"
| "last_wins ((k, v) # kvs) = (if has_tag kvs k then last_wins kvs else (k, v) # last_wins kvs)"

fun dec_kv :: "mp \<Rightarrow> KVUpdates res" where
  "dec_kv (MMap kvs) = Ok (last_wins kvs)"
| "dec_kv MNil = Ok []"
| "dec_kv _ = decode_error"

lemma last_wins_distinct: "distinct (map fst kvs) \<Longrightarrow> last_wins kvs = kvs"
  by (induction kvs rule: last_wins.induct) (auto simp: has_tag_def)

text \<open>The kind under which each message is registered in \<^verbatim>\<open>DirectiveFactories\<close>.\<close>

fun directive_kind_of_msg :: "DirectiveMessage \<Rightarrow> DirectiveKind" where
  "directive_kind_of_msg (Start _ _) = DirectiveKindStart"
| "directive_kind_of_msg (Step _ _) = DirectiveKindStep"
| "directive_kind_of_msg (StepTimeout _ _) = DirectiveKindStepTimeout"
| "directive_kind_of_msg (FailStep _ _) = DirectiveKindFailStep"
| "directive_kind_of_msg (Wait _ _) = DirectiveKindWait"
| "directive_kind_of_msg (WaitTimeout _ _) = DirectiveKindWaitTimeout"
| "directive_kind_of_msg WakeFromInbox = DirectiveKindWakeFromInbox"
| "directive_kind_of_msg (Cancel _) = DirectiveKindCancel"
| "directive_kind_of_msg (Terminate _) = DirectiveKindTerminate"
| "directive_kind_of_msg (Event _ _ _ _) = DirectiveKindEvent"
| "directive_kind_of_msg (Complete _) = DirectiveKindComplete"
| "directive_kind_of_msg (Fail _) = DirectiveKindFail"
| "directive_kind_of_msg (StepPickedUp _ _ _) = DirectiveKindStepPickedUp"
| "directive_kind_of_msg (StepResult _ _ _ _ _ _ _) = DirectiveKindStepResult"

text \<open>
  The document of a message. The two nested messages of a \<^verbatim>\<open>StepResult\<close> are
  \<^verbatim>\<open>msgpack.RawMessage\<close> fields: their documents stand in the outer one as they are.
\<close>

fun doc_DirectiveMessage :: "DirectiveMessage \<Rightarrow> mp" where
  "doc_DirectiveMessage (Start inp timeout) =
     MMap [(''input'', inp), (''timeout_ms'', enc_u timeout)]"
| "doc_DirectiveMessage (Step name timeout) =
     MMap [(''step_name'', MStr name), (''timeout_ms'', enc_u timeout)]"
| "doc_DirectiveMessage (StepTimeout name oid) =
     MMap ([(''step_name'', MStr name)] @ omit_str ''original_directive_id'' oid)"
| "doc_DirectiveMessage (FailStep name e) =
     MMap [(''step_name'', MStr name), (''error'', enc_ErrorDetails e)]"
| "doc_DirectiveMessage (Wait timeout name) =
     MMap [(''timeout_ms'', enc_u timeout), (''timeout_step_name'', MStr name)]"
| "doc_DirectiveMessage (WaitTimeout name oid) =
     MMap [(''timeout_step_name'', MStr name), (''original_directive_id'', MStr oid)]"
| "doc_DirectiveMessage WakeFromInbox = MMap []"
| "doc_DirectiveMessage (Cancel reason) = MMap [(''reason'', MStr reason)]"
| "doc_DirectiveMessage (Terminate reason) = MMap [(''reason'', MStr reason)]"
| "doc_DirectiveMessage (Event seq name payload timeout) =
     MMap (omit_nil ''event_seq_id'' enc_u seq
       @ [(''event_name'', MStr name), (''payload'', payload), (''timeout_ms'', enc_u timeout)])"
| "doc_DirectiveMessage (Complete result) = MMap [(''result'', result)]"
| "doc_DirectiveMessage (Fail e) = MMap [(''error'', enc_ErrorDetails e)]"
| "doc_DirectiveMessage (StepPickedUp name worker timestamp) =
     MMap [(''step_name'', MStr name), (''worker_id'', MStr worker), (''timestamp'', MTime timestamp)]"
| "doc_DirectiveMessage (StepResult pk pm w n kvs nk nm) =
     MMap ([(''processed_msg_kind'', MStr (directive_kind_str pk)),
            (''processed_msg'', case pm of None \<Rightarrow> MNil | Some m \<Rightarrow> doc_DirectiveMessage m),
            (''worker_id'', enc_opt MStr w),
            (''duration_ms'', MInt n)]
       @ omit_nil ''kv_updates'' MMap kvs
       @ [(''next_msg_kind'', MStr (directive_kind_str nk)),
          (''next_msg'', case nm of None \<Rightarrow> MNil | Some m \<Rightarrow> doc_DirectiveMessage m)])"

text \<open>
  \<^verbatim>\<open>StepResult.EncodeMsgpack\<close> marshals the nested messages on their own first, which can
  fail; the other messages have no encoder of their own.
\<close>

fun enc_DirectiveMessage :: "runtime \<Rightarrow> DirectiveMessage \<Rightarrow> mp res" where
  "enc_DirectiveMessage rt (StepResult pk pm w n kvs nk nm) =
     orErrorf ''failed to marshal ProcessedMsg: ''
       (case pm of None \<Rightarrow> mp_marshal rt MNil
        | Some m \<Rightarrow> andThen (enc_DirectiveMessage rt m) (mp_marshal rt)) (\<lambda>pmBytes.
     orErrorf ''failed to marshal NextMsg: ''
       (case nm of None \<Rightarrow> mp_marshal rt MNil
        | Some m \<Rightarrow> andThen (enc_DirectiveMessage rt m) (mp_marshal rt)) (\<lambda>nmBytes.
     Ok (doc_DirectiveMessage (StepResult pk pm w n kvs nk nm))))"
| "enc_DirectiveMessage rt m = Ok (doc_DirectiveMessage m)"

text \<open>A \<^verbatim>\<open>RawMessage\<close> field: the document under the tag; a missing one is empty input.\<close>

definition raw_field :: "fields \<Rightarrow> string \<Rightarrow> mp res" where
  "raw_field fs tag = (if has_tag fs tag then Ok (lookup_field fs tag) else Err (Errorf ''EOF''))"

lemma lookup_field_size: "size (lookup_field fs tag) < size (MMap fs)"
proof (cases "map_of (rev fs) tag")
  case (Some v)
  then have "(tag, v) \<in> set fs"
    using map_of_SomeD [of "rev fs" tag v] by simp
  then have "size v < Suc (size_list (size_prod (\<lambda>x. 0) size) fs)"
    by (induction fs) auto
  with Some show ?thesis by (simp add: lookup_field_def)
qed (simp add: lookup_field_def)

text \<open>
  Decoding: the kind chooses the message type (\<^verbatim>\<open>DirectiveFactories\<close>), the document fills
  its fields. The nested messages of a \<^verbatim>\<open>StepResult\<close> are decoded by their own kinds.
\<close>

definition directive_registered :: "DirectiveKind \<Rightarrow> bool" where
  "directive_registered k \<longleftrightarrow> (case k of DirectiveKindOther s \<Rightarrow> False | _ \<Rightarrow> True)"

definition dec_flat_message :: "DirectiveKind \<Rightarrow> fields \<Rightarrow> DirectiveMessage res" where
  "dec_flat_message k fs =
     (let str = (\<lambda>tag. dec_str (lookup_field fs tag));
          ms = dec_u (lookup_field fs ''timeout_ms'');
          err = dec_ErrorDetails (lookup_field fs ''error'')
      in case k of
        DirectiveKindStart \<Rightarrow>
          andThen (dec_any (lookup_field fs ''input'')) (\<lambda>i. andThen ms (\<lambda>t. Ok (Start i t)))
      | DirectiveKindStep \<Rightarrow> andThen (str ''step_name'') (\<lambda>n. andThen ms (\<lambda>t. Ok (Step n t)))
      | DirectiveKindStepTimeout \<Rightarrow>
          andThen (str ''step_name'') (\<lambda>n.
          andThen (str ''original_directive_id'') (\<lambda>i. Ok (StepTimeout n i)))
      | DirectiveKindFailStep \<Rightarrow>
          andThen (str ''step_name'') (\<lambda>n. andThen err (\<lambda>e. Ok (FailStep n e)))
      | DirectiveKindWait \<Rightarrow>
          andThen ms (\<lambda>t. andThen (str ''timeout_step_name'') (\<lambda>n. Ok (Wait t n)))
      | DirectiveKindWaitTimeout \<Rightarrow>
          andThen (str ''timeout_step_name'') (\<lambda>n.
          andThen (str ''original_directive_id'') (\<lambda>i. Ok (WaitTimeout n i)))
      | DirectiveKindWakeFromInbox \<Rightarrow> Ok WakeFromInbox
      | DirectiveKindCancel \<Rightarrow> andThen (str ''reason'') (\<lambda>r. Ok (Cancel r))
      | DirectiveKindTerminate \<Rightarrow> andThen (str ''reason'') (\<lambda>r. Ok (Terminate r))
      | DirectiveKindEvent \<Rightarrow>
          andThen (dec_opt dec_u (lookup_field fs ''event_seq_id'')) (\<lambda>q.
          andThen (str ''event_name'') (\<lambda>n.
          andThen (dec_any (lookup_field fs ''payload'')) (\<lambda>p.
          andThen ms (\<lambda>t. Ok (Event q n p t)))))
      | DirectiveKindComplete \<Rightarrow>
          andThen (dec_any (lookup_field fs ''result'')) (\<lambda>r. Ok (Complete r))
      | DirectiveKindFail \<Rightarrow> andThen err (\<lambda>e. Ok (Fail e))
      | DirectiveKindStepPickedUp \<Rightarrow>
          andThen (str ''step_name'') (\<lambda>n.
          andThen (str ''worker_id'') (\<lambda>w.
          andThen (dec_time (lookup_field fs ''timestamp'')) (\<lambda>t. Ok (StepPickedUp n w t))))
      | _ \<Rightarrow> decode_error)"

text \<open>\<^verbatim>\<open>stepResultWire\<close>: the fields of a step result before its messages are decoded.\<close>

definition dec_stepResultWire ::
  "mp \<Rightarrow> (DirectiveKind \<times> mp res \<times> WorkerID option \<times> int \<times> KVUpdates option \<times> DirectiveKind \<times> mp res) res" where
  "dec_stepResultWire v =
     andThen (dec_map v) (\<lambda>fs.
     andThen (dec_str (lookup_field fs ''processed_msg_kind'')) (\<lambda>pk.
     andThen (dec_opt dec_str (lookup_field fs ''worker_id'')) (\<lambda>w.
     andThen (dec_int (lookup_field fs ''duration_ms'')) (\<lambda>n.
     andThen (dec_opt dec_kv (lookup_field fs ''kv_updates'')) (\<lambda>kvs.
     andThen (dec_str (lookup_field fs ''next_msg_kind'')) (\<lambda>nk.
     Ok (directive_kind_of pk, raw_field fs ''processed_msg'', w, n, kvs,
         directive_kind_of nk, raw_field fs ''next_msg'')))))))"

lemma dec_stepResultWire_size:
  assumes "dec_stepResultWire v = Ok (pk, pr, w, n, kvs, nk, nr)"
  shows "pr = Ok p \<Longrightarrow> size p < size v" and "nr = Ok q \<Longrightarrow> size q < size v"
proof -
  from assms obtain fs where fs: "dec_map v = Ok fs"
      "pr = raw_field fs ''processed_msg''" "nr = raw_field fs ''next_msg''"
    by (auto simp: dec_stepResultWire_def)
  have "has_tag fs t \<Longrightarrow> size (lookup_field fs t) < size v" for t
    using fs(1) lookup_field_size [of fs t] by (cases v) (auto simp: has_tag_Nil decode_error_def)
  with fs(2,3) show "pr = Ok p \<Longrightarrow> size p < size v" "nr = Ok q \<Longrightarrow> size q < size v"
    by (auto simp: raw_field_def split: if_splits)
qed

function dec_DirectiveMessage :: "DirectiveKind \<Rightarrow> mp \<Rightarrow> DirectiveMessage res" where
  "dec_DirectiveMessage k v =
     (if k = DirectiveKindStepResult
      then
        (case dec_stepResultWire v of
           Err e \<Rightarrow> Err (Wrapf ''failed to decode step result: '' e '''')
         | Panic p \<Rightarrow> Panic p
         | Ok (pk, pr, w, n, kvs, nk, nr) \<Rightarrow>
             if \<not> directive_registered pk
             then Err (Errorf (''unknown processed msg kind: '' @ directive_kind_str pk))
             else
               orErrorf ''failed to unmarshal ProcessedMsg: ''
                 (case pr of Ok p \<Rightarrow> dec_DirectiveMessage pk p | Err e \<Rightarrow> Err e | Panic q \<Rightarrow> Panic q)
                 (\<lambda>processedMsg.
               if \<not> directive_registered nk
               then Err (Errorf (''unknown next msg kind: '' @ directive_kind_str nk))
               else
                 orErrorf ''failed to unmarshal NextMsg: ''
                   (case nr of Ok p \<Rightarrow> dec_DirectiveMessage nk p | Err e \<Rightarrow> Err e | Panic q \<Rightarrow> Panic q)
                   (\<lambda>nextMsg.
                 Ok (StepResult pk (Some processedMsg) w n kvs nk (Some nextMsg)))))
      else andThen (dec_map v) (dec_flat_message k))"
  by pat_completeness auto

termination
  by (relation "measure (\<lambda>(k, v). size v)") (auto dest: dec_stepResultWire_size)

declare dec_DirectiveMessage.simps [simp del]

section \<open>Directives\<close>

text \<open>\<^verbatim>\<open>Directive.EncodeMsgpack\<close>: a directive without an identifier is the zero wire struct.\<close>

definition enc_directiveWire :: "Directive \<Rightarrow> mp \<Rightarrow> mp" where
  "enc_directiveWire d m = MMap
     [(''id'', MStr (d_ID d)),
      (''k'', MStr (directive_kind_str (d_Kind d))),
      (''t'', MTime (d_Timestamp d)),
      (''r'', enc_RunInfo (d_RunInfo d)),
      (''a'', enc_u (d_Attempt d)),
      (''m'', m)]"

definition Directive_EncodeMsgpack :: "runtime \<Rightarrow> Directive \<Rightarrow> mp res" where
  "Directive_EncodeMsgpack rt d =
     (if d_ID d = '''' then Ok (enc_directiveWire Directive_zero MNil)
      else case d_Msg d of
        None \<Rightarrow> Err (Errorf ''directive message cannot be nil'')
      | Some m \<Rightarrow>
          orErrorf ''failed to marshal message: ''
            (andThen (enc_DirectiveMessage rt m) (mp_marshal rt))
            (\<lambda>nxBytes. Ok (enc_directiveWire d (MBin nxBytes))))"

definition Directive_DecodeMsgpack :: "runtime \<Rightarrow> mp \<Rightarrow> Directive res" where
  "Directive_DecodeMsgpack rt v =
     orErrorf ''failed to decode directive: ''
       (andThen (dec_map v) (\<lambda>fs.
        andThen (dec_str (lookup_field fs ''id'')) (\<lambda>i.
        andThen (dec_str (lookup_field fs ''k'')) (\<lambda>k.
        andThen (dec_time (lookup_field fs ''t'')) (\<lambda>t.
        andThen (dec_RunInfo (lookup_field fs ''r'')) (\<lambda>r.
        andThen (dec_u (lookup_field fs ''a'')) (\<lambda>a.
        andThen (dec_bin (lookup_field fs ''m'')) (\<lambda>m.
        Ok (i, directive_kind_of k, t, r, a, m)))))))))
       (\<lambda>(i, k, t, r, a, m).
          if i = '''' then Ok Directive_zero
          else if \<not> directive_registered k
          then Err (Errorf (''unknown directive kind: '' @ directive_kind_str k))
          else
            orErrorf (''failed to unmarshal message for kind '' @ directive_kind_str k @ '': '')
              (andThen (mp_unmarshal rt m) (dec_DirectiveMessage k))
              (\<lambda>msg. Ok \<lparr>d_ID = i, d_Timestamp = t, d_Kind = k, d_RunInfo = r, d_Attempt = a,
                         d_Msg = Some msg\<rparr>))"

definition marshal_Directive :: "runtime \<Rightarrow> Directive \<Rightarrow> bytes res" where
  "marshal_Directive rt d = andThen (Directive_EncodeMsgpack rt d) (mp_marshal rt)"

definition unmarshal_Directive :: "runtime \<Rightarrow> bytes \<Rightarrow> Directive res" where
  "unmarshal_Directive rt b = andThen (mp_unmarshal rt b) (Directive_DecodeMsgpack rt)"

text \<open>
  The messages that survive the wire: in a step result both messages are present, carry the
  kinds they are registered under, and the keys of the updates are distinct.
\<close>

fun wf_msg :: "DirectiveMessage \<Rightarrow> bool" where
  "wf_msg (StepResult pk pm w n kvs nk nm) \<longleftrightarrow>
     (case pm of None \<Rightarrow> False | Some p \<Rightarrow> pk = directive_kind_of_msg p \<and> wf_msg p) \<and>
     (case nm of None \<Rightarrow> False | Some q \<Rightarrow> nk = directive_kind_of_msg q \<and> wf_msg q) \<and>
     (case kvs of None \<Rightarrow> True | Some l \<Rightarrow> distinct (map fst l))"
| "wf_msg _ \<longleftrightarrow> True"

lemma directive_registered_msg [simp]: "directive_registered (directive_kind_of_msg m)"
  by (cases m) (simp_all add: directive_registered_def)

lemma directive_kind_of_str_msg [simp]:
  "directive_kind_of (directive_kind_str (directive_kind_of_msg m)) = directive_kind_of_msg m"
  by (cases m) (simp_all add: directive_kind_of_def)

lemma dec_opt_kv:
  "(case kvs of None \<Rightarrow> True | Some l \<Rightarrow> distinct (map fst l)) \<Longrightarrow>
   dec_opt dec_kv (enc_opt MMap kvs) = Ok kvs"
  by (rule dec_opt_enc_opt) (simp add: last_wins_distinct)

lemma dec_stepResultWire_doc:
  assumes "case kvs of None \<Rightarrow> True | Some l \<Rightarrow> distinct (map fst l)"
  shows "dec_stepResultWire
      (doc_DirectiveMessage (StepResult (directive_kind_of_msg p) (Some p) w n kvs
         (directive_kind_of_msg q) (Some q))) =
    Ok (directive_kind_of_msg p, Ok (doc_DirectiveMessage p), w, n, kvs,
        directive_kind_of_msg q, Ok (doc_DirectiveMessage q))"
  using dec_opt_kv [OF assms]
  by (simp add: dec_stepResultWire_def raw_field_def wire_simps)

lemma dec_doc_DirectiveMessage:
  "wf_msg m \<Longrightarrow> dec_DirectiveMessage (directive_kind_of_msg m) (doc_DirectiveMessage m) = Ok m"
proof (induction m rule: wf_msg.induct)
  case (1 pk pm w n kvs nk nm)
  then obtain p q where "pm = Some p" "nm = Some q" "pk = directive_kind_of_msg p"
      "nk = directive_kind_of_msg q" "wf_msg p" "wf_msg q"
      "case kvs of None \<Rightarrow> True | Some l \<Rightarrow> distinct (map fst l)"
    by (auto split: option.splits)
  with 1 dec_stepResultWire_doc [of kvs p w n q] show ?case
    by (subst dec_DirectiveMessage.simps) simp
qed (subst dec_DirectiveMessage.simps, simp add: dec_flat_message_def wire_simps)+

lemma enc_DirectiveMessage_doc:
  "codec_ok rt \<Longrightarrow> fits (doc_DirectiveMessage m) \<Longrightarrow> wf_msg m \<Longrightarrow>
   enc_DirectiveMessage rt m = Ok (doc_DirectiveMessage m)"
proof (induction m rule: wf_msg.induct)
  case (1 pk pm w n kvs nk nm)
  then obtain p q where pq: "pm = Some p" "nm = Some q" "wf_msg p" "wf_msg q"
    by (auto split: option.splits)
  with 1 have *: "fits (doc_DirectiveMessage p)" "fits (doc_DirectiveMessage q)"
    by auto
  obtain bp bq where "mp_marshal rt (doc_DirectiveMessage p) = Ok bp"
      "mp_marshal rt (doc_DirectiveMessage q) = Ok bq"
    using codec_marshal [OF 1(3) *(1)] codec_marshal [OF 1(3) *(2)] by metis
  with 1 pq * show ?case by simp
qed simp_all

text \<open>A directive as the server stores it: named, with a message of its own kind.\<close>

definition wf_directive :: "Directive \<Rightarrow> bool" where
  "wf_directive d \<longleftrightarrow>
     d_ID d \<noteq> '''' \<and> canonical_run_status (ri_Status (d_RunInfo d)) \<and>
     (case d_Msg d of None \<Rightarrow> False | Some m \<Rightarrow> d_Kind d = directive_kind_of_msg m \<and> wf_msg m)"

definition fits_directive :: "runtime \<Rightarrow> Directive \<Rightarrow> bool" where
  "fits_directive rt d \<longleftrightarrow>
     (case d_Msg d of None \<Rightarrow> False | Some m \<Rightarrow> fits (doc_DirectiveMessage m)) \<and>
     (case Directive_EncodeMsgpack rt d of Ok v \<Rightarrow> fits v | _ \<Rightarrow> False)"

lemma Directive_roundtrip_doc:
  assumes "codec_ok rt" and "wf_directive d" and "d_Msg d = Some m" and "fits (doc_DirectiveMessage m)"
  shows "\<exists>v. Directive_EncodeMsgpack rt d = Ok v \<and> Directive_DecodeMsgpack rt v = Ok d \<and> v \<noteq> MNil"
proof -
  from assms have wf: "wf_msg m" "d_Kind d = directive_kind_of_msg m" "d_ID d \<noteq> ''''"
      "canonical_run_status (ri_Status (d_RunInfo d))"
    by (auto simp: wf_directive_def)
  obtain b where b: "mp_marshal rt (doc_DirectiveMessage m) = Ok b"
      "mp_unmarshal rt b = Ok (doc_DirectiveMessage m)"
    using codec_marshal [OF assms(1,4)] .
  have "Directive_EncodeMsgpack rt d = Ok (enc_directiveWire d (MBin b))"
    using wf assms b enc_DirectiveMessage_doc by (simp add: Directive_EncodeMsgpack_def)
  moreover have "Directive_DecodeMsgpack rt (enc_directiveWire d (MBin b)) = Ok d"
    using wf assms(3) b
    by (cases d) (simp add: Directive_DecodeMsgpack_def enc_directiveWire_def wire_simps
        dec_enc_RunInfo dec_doc_DirectiveMessage)
  ultimately show ?thesis by (simp add: enc_directiveWire_def)
qed

lemma Directive_zero_roundtrip:
  "Directive_EncodeMsgpack rt Directive_zero = Ok (enc_directiveWire Directive_zero MNil)"
  "Directive_DecodeMsgpack rt (enc_directiveWire Directive_zero MNil) = Ok Directive_zero"
proof -
  have "canonical_run_status (ri_Status RunInfo_zero)"
    by (simp add: RunInfo_zero_def canonical_run_status_def run_status_of_def)
  then show "Directive_DecodeMsgpack rt (enc_directiveWire Directive_zero MNil) = Ok Directive_zero"
    by (simp add: Directive_DecodeMsgpack_def enc_directiveWire_def wire_simps Directive_zero_def
        dec_enc_RunInfo)
qed (simp add: Directive_EncodeMsgpack_def Directive_zero_def)

lemma Directive_survives:
  assumes "codec_ok rt" and "wf_directive d" and "fits_directive rt d"
  shows "\<exists>b. marshal_Directive rt d = Ok b \<and> unmarshal_Directive rt b = Ok d"
proof -
  obtain m where m: "d_Msg d = Some m" "fits (doc_DirectiveMessage m)"
    using assms(3) by (auto simp: fits_directive_def split: option.splits)
  obtain v where v: "Directive_EncodeMsgpack rt d = Ok v" "Directive_DecodeMsgpack rt v = Ok d"
    using Directive_roundtrip_doc [OF assms(1,2) m] by blast
  with assms(3) have "fits v" by (simp add: fits_directive_def)
  with assms(1) obtain b where "mp_marshal rt v = Ok b" "mp_unmarshal rt b = Ok v"
    by (rule codec_marshal)
  with v show ?thesis by (simp add: marshal_Directive_def unmarshal_Directive_def)
qed

lemma Directive_decoded:
  "codec_ok rt \<Longrightarrow> wf_directive d \<Longrightarrow> fits_directive rt d \<Longrightarrow> marshal_Directive rt d = Ok b \<Longrightarrow>
   unmarshal_Directive rt b = Ok d"
  using Directive_survives [of rt d] by auto

text \<open>
  C24. A directive survives the wire: encoding succeeds, and decoding the bytes gives the same
  directive - through the compact field names, the message stored as nested bytes, the
  choice of its type by the kind, and the nested messages of a step result.
\<close>

theorem Directive_wire_roundtrip:
  assumes "codec_ok rt" and "wf_directive d" and "fits_directive rt d"
  shows "\<exists>b. marshal_Directive rt d = Ok b \<and> unmarshal_Directive rt b = Ok d"
  using assms by (rule Directive_survives)

lemmas wire_eval =
  wf_directive_def fits_directive_def Directive_EncodeMsgpack_def enc_directiveWire_def
  sample_d_def sample_ri_def sample_rt_def RunInfo_zero_def enc_RunInfo_def omit_str_def omit_u_def
  canonical_run_status_def run_status_of_def put_lengths enc_u_def codec_ok_sample [unfolded sample_rt_def]

theorem Directive_wire_roundtrip_witness:
  "\<exists>b. marshal_Directive sample_rt
        (sample_d ''d1'' DirectiveKindStepResult
           (StepResult DirectiveKindStep (Some (Step ''pay'' 0)) (Some ''wk'') 3 (Some [(''k'', MInt 1)])
              DirectiveKindComplete (Some (Complete (MStr ''ok''))))) = Ok b \<and>
     unmarshal_Directive sample_rt b =
        Ok (sample_d ''d1'' DirectiveKindStepResult
           (StepResult DirectiveKindStep (Some (Step ''pay'' 0)) (Some ''wk'') 3 (Some [(''k'', MInt 1)])
              DirectiveKindComplete (Some (Complete (MStr ''ok'')))))"
  by (rule Directive_wire_roundtrip)
    (simp_all add: wire_eval)

text \<open>Only a directive of kind \<^verbatim>\<open>event\<close> decodes to one with an event message.\<close>

lemma dec_DirectiveMessage_Event:
  assumes "dec_DirectiveMessage k v = Ok msg" and "as_Event (Some msg) = Some x"
  shows "k = DirectiveKindEvent"
proof (cases "k = DirectiveKindStepResult")
  case True
  with assms show ?thesis
    by (auto simp: dec_DirectiveMessage.simps [of DirectiveKindStepResult] split: res.splits prod.splits if_splits)
next
  case False
  with assms(1) obtain fs where "dec_flat_message k fs = Ok msg"
    by (auto simp: dec_DirectiveMessage.simps [of k v])
  with assms(2) show ?thesis
    by (cases k) (auto simp: dec_flat_message_def Let_def decode_error_def)
qed

lemma Directive_DecodeMsgpack_Event:
  assumes "Directive_DecodeMsgpack rt v = Ok d" and "as_Event (d_Msg d) = Some x"
  shows "d_Kind d = DirectiveKindEvent"
  using assms dec_DirectiveMessage_Event
  by (fastforce simp: Directive_DecodeMsgpack_def Directive_zero_def split: if_splits)

section \<open>Commands\<close>

definition enc_EventDef :: "EventDef \<Rightarrow> mp" where
  "enc_EventDef e = MMap [(''name'', MStr (evd_Name e)), (''timeout_ms'', enc_u (evd_TimeoutMS e))]"

definition dec_EventDef :: "mp \<Rightarrow> EventDef res" where
  "dec_EventDef v =
     andThen (dec_map v) (\<lambda>fs.
     andThen (dec_str (lookup_field fs ''name'')) (\<lambda>n.
     andThen (dec_u (lookup_field fs ''timeout_ms'')) (\<lambda>t.
     Ok \<lparr>evd_Name = n, evd_TimeoutMS = t\<rparr>)))"

definition WorkflowTypeDef_fields :: "WorkflowTypeDef \<Rightarrow> fields" where
  "WorkflowTypeDef_fields w =
     [(''type'', MStr (wtd_Type w)),
      (''start_step'', MStr (wtd_StartStep w)),
      (''steps'', MArr (map MStr (wtd_Steps w))),
      (''events'', MArr (map enc_EventDef (wtd_Events w))),
      (''queries'', MArr (map MStr (wtd_Queries w))),
      (''start_step_timeout_ms'', enc_u (wtd_StartStepTimeoutMS w))]"

definition WorkflowTypeDef_of_fields :: "fields \<Rightarrow> WorkflowTypeDef res" where
  "WorkflowTypeDef_of_fields fs =
     andThen (dec_str (lookup_field fs ''type'')) (\<lambda>t.
     andThen (dec_str (lookup_field fs ''start_step'')) (\<lambda>s.
     andThen (dec_list dec_str (lookup_field fs ''steps'')) (\<lambda>ss.
     andThen (dec_list dec_EventDef (lookup_field fs ''events'')) (\<lambda>es.
     andThen (dec_list dec_str (lookup_field fs ''queries'')) (\<lambda>qs.
     andThen (dec_u (lookup_field fs ''start_step_timeout_ms'')) (\<lambda>ms.
     Ok \<lparr>wtd_Type = t, wtd_StartStep = s, wtd_Steps = ss, wtd_Events = es, wtd_Queries = qs,
         wtd_StartStepTimeoutMS = ms\<rparr>))))))"

definition enc_WorkflowTypeDef :: "WorkflowTypeDef \<Rightarrow> mp" where
  "enc_WorkflowTypeDef w = MMap (WorkflowTypeDef_fields w)"

definition dec_WorkflowTypeDef :: "mp \<Rightarrow> WorkflowTypeDef res" where
  "dec_WorkflowTypeDef v = andThen (dec_map v) WorkflowTypeDef_of_fields"

fun cmd_kind_of_msg :: "CommandMessage \<Rightarrow> CmdKind" where
  "cmd_kind_of_msg (StartCmd _ _) = CmdKindRunStart"
| "cmd_kind_of_msg (CancelCmd _ _) = CmdKindRunCancel"
| "cmd_kind_of_msg (TerminateCmd _ _) = CmdKindRunTerminate"
| "cmd_kind_of_msg (DescribeCmd _) = CmdKindRunDescribe"
| "cmd_kind_of_msg (EventCmd _ _ _) = CmdKindRunEvent"
| "cmd_kind_of_msg (RegisterCmd _ _) = CmdKindWorkerRegister"
| "cmd_kind_of_msg (WorkerTerminateRunCmd _) = CmdKindWorkerTerminateRun"

fun enc_CommandMessage :: "CommandMessage \<Rightarrow> mp" where
  "enc_CommandMessage (StartCmd ri inp) =
     MMap [(''run_info'', enc_RunInfo ri), (''input'', enc_opt id inp)]"
| "enc_CommandMessage (CancelCmd w reason) = MMap [(''wf_id'', MStr w), (''reason'', MStr reason)]"
| "enc_CommandMessage (TerminateCmd w reason) = MMap [(''wf_id'', MStr w), (''reason'', MStr reason)]"
| "enc_CommandMessage (DescribeCmd w) = MMap [(''wf_id'', MStr w)]"
| "enc_CommandMessage (EventCmd w name payload) =
     MMap [(''wf_id'', MStr w), (''event_name'', MStr name), (''payload'', enc_opt id payload)]"
| "enc_CommandMessage (RegisterCmd worker types) =
     MMap [(''worker_id'', MStr worker), (''types'', MArr (map enc_WorkflowTypeDef types))]"
| "enc_CommandMessage (WorkerTerminateRunCmd r) = MMap [(''run_id'', MStr r)]"

definition cmd_registered :: "CmdKind \<Rightarrow> bool" where
  "cmd_registered k \<longleftrightarrow> (case k of CmdKindOther s \<Rightarrow> False | _ \<Rightarrow> True)"

definition dec_CommandMessage :: "CmdKind \<Rightarrow> mp \<Rightarrow> CommandMessage res" where
  "dec_CommandMessage k v =
     andThen (dec_map v) (\<lambda>fs.
     (let str = (\<lambda>tag. dec_str (lookup_field fs tag)) in
      case k of
        CmdKindRunStart \<Rightarrow>
          andThen (dec_RunInfo (lookup_field fs ''run_info'')) (\<lambda>ri.
          andThen (dec_opt dec_any (lookup_field fs ''input'')) (\<lambda>i. Ok (StartCmd ri i)))
      | CmdKindRunCancel \<Rightarrow> andThen (str ''wf_id'') (\<lambda>w. andThen (str ''reason'') (\<lambda>r. Ok (CancelCmd w r)))
      | CmdKindRunTerminate \<Rightarrow>
          andThen (str ''wf_id'') (\<lambda>w. andThen (str ''reason'') (\<lambda>r. Ok (TerminateCmd w r)))
      | CmdKindRunDescribe \<Rightarrow> andThen (str ''wf_id'') (\<lambda>w. Ok (DescribeCmd w))
      | CmdKindRunEvent \<Rightarrow>
          andThen (str ''wf_id'') (\<lambda>w. andThen (str ''event_name'') (\<lambda>n.
          andThen (dec_opt dec_any (lookup_field fs ''payload'')) (\<lambda>p. Ok (EventCmd w n p))))
      | CmdKindWorkerRegister \<Rightarrow>
          andThen (str ''worker_id'') (\<lambda>w.
          andThen (dec_list dec_WorkflowTypeDef (lookup_field fs ''types'')) (\<lambda>ts. Ok (RegisterCmd w ts)))
      | CmdKindWorkerTerminateRun \<Rightarrow> andThen (str ''run_id'') (\<lambda>r. Ok (WorkerTerminateRunCmd r))
      | CmdKindOther s \<Rightarrow> decode_error))"

text \<open>\<^verbatim>\<open>DecodeCmd\<close>\<close>

definition DecodeCmd :: "runtime \<Rightarrow> CmdKind \<Rightarrow> bytes \<Rightarrow> CommandMessage res" where
  "DecodeCmd rt kind data =
     (if \<not> cmd_registered kind then Err (Errorf (''unknown command kind: '' @ cmd_kind_str kind))
      else andThen (mp_unmarshal rt data) (dec_CommandMessage kind))"

definition enc_commandWire :: "Command \<Rightarrow> mp \<Rightarrow> mp" where
  "enc_commandWire c m = MMap
     [(''id'', MStr (c_ID c)),
      (''k'', MStr (cmd_kind_str (c_Kind c))),
      (''m'', m),
      (''t'', MTime (c_Timestamp c)),
      (''s'', MStr (c_SenderID c))]"

definition Command_EncodeMsgpack :: "runtime \<Rightarrow> Command \<Rightarrow> mp res" where
  "Command_EncodeMsgpack rt c =
     (if c_ID c = '''' then Ok (enc_commandWire Command_zero MNil)
      else case c_Msg c of
        None \<Rightarrow> Err (Errorf ''command message cannot be nil'')
      | Some m \<Rightarrow>
          if c_SenderID c = '''' then Err (Errorf ''command sender ID cannot be empty'')
          else
            orErrorf ''failed to marshal message: '' (mp_marshal rt (enc_CommandMessage m))
              (\<lambda>msgBytes. Ok (enc_commandWire c (MBin msgBytes))))"

definition Command_DecodeMsgpack :: "runtime \<Rightarrow> mp \<Rightarrow> Command res" where
  "Command_DecodeMsgpack rt v =
     orErrorf ''failed to decode command: ''
       (andThen (dec_map v) (\<lambda>fs.
        andThen (dec_str (lookup_field fs ''id'')) (\<lambda>i.
        andThen (dec_str (lookup_field fs ''k'')) (\<lambda>k.
        andThen (dec_bin (lookup_field fs ''m'')) (\<lambda>m.
        andThen (dec_time (lookup_field fs ''t'')) (\<lambda>t.
        andThen (dec_str (lookup_field fs ''s'')) (\<lambda>s.
        Ok (i, cmd_kind_of k, m, t, s))))))))
       (\<lambda>(i, k, m, t, s).
          if i = '''' then Ok Command_zero
          else
            orErrorf (''failed to decode command message for kind '' @ cmd_kind_str k @ '': '')
              (DecodeCmd rt k m)
              (\<lambda>msg. Ok \<lparr>c_ID = i, c_Kind = k, c_Timestamp = t, c_Msg = Some msg, c_SenderID = s\<rparr>))"

definition marshal_Command :: "runtime \<Rightarrow> Command \<Rightarrow> bytes res" where
  "marshal_Command rt c = andThen (Command_EncodeMsgpack rt c) (mp_marshal rt)"

definition unmarshal_Command :: "runtime \<Rightarrow> bytes \<Rightarrow> Command res" where
  "unmarshal_Command rt b = andThen (mp_unmarshal rt b) (Command_DecodeMsgpack rt)"

text \<open>Pointers to a nil value arrive as nil pointers, so they are excluded.\<close>

fun wf_cmd_msg :: "CommandMessage \<Rightarrow> bool" where
  "wf_cmd_msg (StartCmd ri inp) \<longleftrightarrow> canonical_run_status (ri_Status ri) \<and> inp \<noteq> Some MNil"
| "wf_cmd_msg (EventCmd w name payload) \<longleftrightarrow> payload \<noteq> Some MNil"
| "wf_cmd_msg _ \<longleftrightarrow> True"

lemma dec_enc_EventDef: "dec_EventDef (enc_EventDef e) = Ok e"
  by (simp add: dec_EventDef_def enc_EventDef_def wire_simps)

lemma dec_enc_WorkflowTypeDef: "dec_WorkflowTypeDef (enc_WorkflowTypeDef w) = Ok w"
  by (simp add: dec_WorkflowTypeDef_def enc_WorkflowTypeDef_def WorkflowTypeDef_fields_def
      WorkflowTypeDef_of_fields_def wire_simps dec_list_items_map dec_enc_EventDef)

lemma dec_opt_any: "p \<noteq> Some MNil \<Longrightarrow> dec_opt dec_any (enc_opt id p) = Ok p"
  by (rule dec_opt_enc_opt) auto

lemma dec_enc_CommandMessage:
  "wf_cmd_msg m \<Longrightarrow> dec_CommandMessage (cmd_kind_of_msg m) (enc_CommandMessage m) = Ok m"
  by (cases m) (simp_all add: dec_CommandMessage_def wire_simps dec_enc_RunInfo dec_opt_any
      dec_list_items_map dec_enc_WorkflowTypeDef Let_def)

lemma cmd_kind_of_str_msg [simp]: "cmd_kind_of (cmd_kind_str (cmd_kind_of_msg m)) = cmd_kind_of_msg m"
  by (cases m) (simp_all add: cmd_kind_of_def)

lemma cmd_registered_msg [simp]: "cmd_registered (cmd_kind_of_msg m)"
  by (cases m) (simp_all add: cmd_registered_def)

definition wf_command :: "Command \<Rightarrow> bool" where
  "wf_command c \<longleftrightarrow> c_ID c \<noteq> '''' \<and> c_SenderID c \<noteq> '''' \<and>
     (case c_Msg c of None \<Rightarrow> False | Some m \<Rightarrow> c_Kind c = cmd_kind_of_msg m \<and> wf_cmd_msg m)"

definition fits_command :: "runtime \<Rightarrow> Command \<Rightarrow> bool" where
  "fits_command rt c \<longleftrightarrow>
     (case c_Msg c of None \<Rightarrow> False | Some m \<Rightarrow> fits (enc_CommandMessage m)) \<and>
     (case Command_EncodeMsgpack rt c of Ok v \<Rightarrow> fits v | _ \<Rightarrow> False)"

lemma Command_roundtrip_doc:
  assumes "codec_ok rt" and "wf_command c" and "c_Msg c = Some m" and "fits (enc_CommandMessage m)"
  shows "\<exists>v. Command_EncodeMsgpack rt c = Ok v \<and> Command_DecodeMsgpack rt v = Ok c"
proof -
  obtain b where b: "mp_marshal rt (enc_CommandMessage m) = Ok b"
      "mp_unmarshal rt b = Ok (enc_CommandMessage m)"
    using codec_marshal [OF assms(1,4)] .
  have "Command_EncodeMsgpack rt c = Ok (enc_commandWire c (MBin b))"
    using assms b by (simp add: Command_EncodeMsgpack_def wf_command_def)
  moreover have "Command_DecodeMsgpack rt (enc_commandWire c (MBin b)) = Ok c"
    using assms(2,3) b
    by (cases c) (simp add: Command_DecodeMsgpack_def enc_commandWire_def wire_simps DecodeCmd_def
        wf_command_def dec_enc_CommandMessage)
  ultimately show ?thesis by blast
qed

lemma Command_zero_roundtrip:
  "Command_EncodeMsgpack rt Command_zero = Ok (enc_commandWire Command_zero MNil)"
  "Command_DecodeMsgpack rt (enc_commandWire Command_zero MNil) = Ok Command_zero"
  by (simp_all add: Command_EncodeMsgpack_def Command_DecodeMsgpack_def enc_commandWire_def
      Command_zero_def wire_simps)

text \<open>
  A command survives the wire, and one without an identifier or a sender does not reach
  it as a command: without a sender encoding is refused, without an identifier the receiver
  sees the zero command.
\<close>

lemma Command_wire_roundtrip:
  assumes "codec_ok rt" and "wf_command c" and "fits_command rt c"
  shows "(\<exists>b. marshal_Command rt c = Ok b \<and> unmarshal_Command rt b = Ok c) \<and>
    (\<exists>e. Command_EncodeMsgpack rt (c\<lparr>c_SenderID := ''''\<rparr>) = Err e) \<and>
    (\<exists>v. Command_EncodeMsgpack rt (c\<lparr>c_ID := ''''\<rparr>) = Ok v \<and> Command_DecodeMsgpack rt v = Ok Command_zero)"
proof (intro conjI)
  obtain m where m: "c_Msg c = Some m" "fits (enc_CommandMessage m)"
    using assms(3) by (auto simp: fits_command_def split: option.splits)
  obtain v where v: "Command_EncodeMsgpack rt c = Ok v" "Command_DecodeMsgpack rt v = Ok c"
    using Command_roundtrip_doc [OF assms(1,2) m] by blast
  with assms(3) have "fits v" by (simp add: fits_command_def)
  with assms(1) obtain b where "mp_marshal rt v = Ok b" "mp_unmarshal rt b = Ok v"
    by (rule codec_marshal)
  with v show "\<exists>b. marshal_Command rt c = Ok b \<and> unmarshal_Command rt b = Ok c"
    by (simp add: marshal_Command_def unmarshal_Command_def)
  show "\<exists>e. Command_EncodeMsgpack rt (c\<lparr>c_SenderID := ''''\<rparr>) = Err e"
    using assms(2) by (auto simp: wf_command_def Command_EncodeMsgpack_def split: option.splits)
  show "\<exists>v. Command_EncodeMsgpack rt (c\<lparr>c_ID := ''''\<rparr>) = Ok v \<and> Command_DecodeMsgpack rt v = Ok Command_zero"
    by (simp add: Command_EncodeMsgpack_def Command_zero_roundtrip)
qed

lemma Command_wire_roundtrip_witness:
  "\<exists>b. marshal_Command sample_rt
        \<lparr>c_ID = ''c1'', c_Kind = CmdKindRunEvent, c_Timestamp = 3,
         c_Msg = Some (EventCmd ''w1'' ''paid'' (Some (MInt 1))), c_SenderID = ''cli''\<rparr> = Ok b \<and>
     unmarshal_Command sample_rt b =
        Ok \<lparr>c_ID = ''c1'', c_Kind = CmdKindRunEvent, c_Timestamp = 3,
            c_Msg = Some (EventCmd ''w1'' ''paid'' (Some (MInt 1))), c_SenderID = ''cli''\<rparr>"
  by (rule Command_wire_roundtrip [THEN conjunct1])
    (simp_all add: wf_command_def fits_command_def Command_EncodeMsgpack_def enc_commandWire_def wire_eval)

section \<open>Run states\<close>

text \<open>\<^verbatim>\<open>SeqID\<close> has the tag \<^verbatim>\<open>"-"\<close>: it is not part of the document.\<close>

definition RunState_segs :: "RunState \<Rightarrow> mp option \<Rightarrow> (string \<times> mp option) list" where
  "RunState_segs s pc =
     [(''wf_id'', Some (MStr (rs_WFID s))), (''run_id'', Some (MStr (rs_RunID s))),
      (''kind'', Some (MStr (run_state_kind_str (rs_Kind s)))),
      (''entered_at'', Some (MTime (rs_EnteredAt s))),
      (''started_at'', map_option MTime (rs_StartedAt s)),
      (''last_event_seq_id'', Some (enc_u (rs_LastEventSeqID s))),
      (''active_directive_id'',
         if rs_ActiveDirectiveID s = '''' then None else Some (MStr (rs_ActiveDirectiveID s))),
      (''worker_id'', map_option MStr (rs_WorkerID s)),
      (''pending_cancel'', pc)]"

definition enc_RunState :: "runtime \<Rightarrow> RunState \<Rightarrow> mp res" where
  "enc_RunState rt s =
     (case rs_PendingCancel s of
        None \<Rightarrow> Ok (MMap (segs (RunState_segs s None)))
      | Some d \<Rightarrow>
          andThen (Directive_EncodeMsgpack rt d) (\<lambda>v. Ok (MMap (segs (RunState_segs s (Some v))))))"

definition dec_RunState :: "runtime \<Rightarrow> mp \<Rightarrow> RunState res" where
  "dec_RunState rt v =
     andThen (dec_map v) (\<lambda>fs.
     andThen (dec_str (lookup_field fs ''wf_id'')) (\<lambda>f1.
     andThen (dec_str (lookup_field fs ''run_id'')) (\<lambda>f2.
     andThen (dec_str (lookup_field fs ''kind'')) (\<lambda>f3.
     andThen (dec_time (lookup_field fs ''entered_at'')) (\<lambda>f4.
     andThen (dec_opt dec_time (lookup_field fs ''started_at'')) (\<lambda>f5.
     andThen (dec_u (lookup_field fs ''last_event_seq_id'')) (\<lambda>f6.
     andThen (dec_str (lookup_field fs ''active_directive_id'')) (\<lambda>f7.
     andThen (dec_opt dec_str (lookup_field fs ''worker_id'')) (\<lambda>f8.
     andThen (dec_opt (Directive_DecodeMsgpack rt) (lookup_field fs ''pending_cancel'')) (\<lambda>f9.
     Ok \<lparr>rs_WFID = f1, rs_RunID = f2, rs_Kind = run_state_kind_of f3, rs_EnteredAt = f4,
         rs_StartedAt = f5, rs_LastEventSeqID = f6, rs_ActiveDirectiveID = f7, rs_WorkerID = f8,
         rs_PendingCancel = f9, rs_SeqID = 0\<rparr>))))))))))"

definition marshal_RunState :: "runtime \<Rightarrow> RunState \<Rightarrow> bytes res" where
  "marshal_RunState rt s = andThen (enc_RunState rt s) (mp_marshal rt)"

definition unmarshal_RunState :: "runtime \<Rightarrow> bytes \<Rightarrow> RunState res" where
  "unmarshal_RunState rt b = andThen (mp_unmarshal rt b) (dec_RunState rt)"

lemma RunState_segs_distinct: "distinct (map fst (RunState_segs s pc))"
  by (simp add: RunState_segs_def)

lemma RunState_values:
  "seg_value (RunState_segs s pc) ''wf_id'' = MStr (rs_WFID s)"
  "seg_value (RunState_segs s pc) ''run_id'' = MStr (rs_RunID s)"
  "seg_value (RunState_segs s pc) ''kind'' = MStr (run_state_kind_str (rs_Kind s))"
  "seg_value (RunState_segs s pc) ''entered_at'' = MTime (rs_EnteredAt s)"
  "seg_value (RunState_segs s pc) ''started_at'' = enc_opt MTime (rs_StartedAt s)"
  "seg_value (RunState_segs s pc) ''last_event_seq_id'' = enc_u (rs_LastEventSeqID s)"
  "dec_str (seg_value (RunState_segs s pc) ''active_directive_id'') = Ok (rs_ActiveDirectiveID s)"
  "seg_value (RunState_segs s pc) ''worker_id'' = enc_opt MStr (rs_WorkerID s)"
  "seg_value (RunState_segs s pc) ''pending_cancel'' = (case pc of None \<Rightarrow> MNil | Some v \<Rightarrow> v)"
  by (simp_all add: RunState_segs_def seg_value_simps seg_pointer
      del: case_map_option split del: if_split)

definition wf_run_state :: "RunState \<Rightarrow> bool" where
  "wf_run_state s \<longleftrightarrow> canonical_run_state_kind (rs_Kind s) \<and>
     (case rs_PendingCancel s of None \<Rightarrow> True | Some d \<Rightarrow> wf_directive d)"

definition fits_run_state :: "runtime \<Rightarrow> RunState \<Rightarrow> bool" where
  "fits_run_state rt s \<longleftrightarrow>
     (case rs_PendingCancel s of None \<Rightarrow> True | Some d \<Rightarrow> fits_directive rt d) \<and>
     (case enc_RunState rt s of Ok v \<Rightarrow> fits v | _ \<Rightarrow> False)"

lemma RunState_roundtrip_doc:
  assumes "codec_ok rt" and "wf_run_state s"
    and "case rs_PendingCancel s of None \<Rightarrow> True | Some d \<Rightarrow> fits_directive rt d"
  shows "\<exists>v. enc_RunState rt s = Ok v \<and> dec_RunState rt v = Ok (s\<lparr>rs_SeqID := 0\<rparr>)"
proof (cases "rs_PendingCancel s")
  case None
  with assms(2) show ?thesis
    by (simp add: enc_RunState_def dec_RunState_def lookup_segs [OF RunState_segs_distinct]
        RunState_values wf_run_state_def canonical_run_state_kind_def)
next
  case (Some d)
  with assms(3) obtain m where "d_Msg d = Some m" "fits (doc_DirectiveMessage m)"
    by (auto simp: fits_directive_def split: option.splits)
  then obtain v where "Directive_EncodeMsgpack rt d = Ok v" "Directive_DecodeMsgpack rt v = Ok d" "v \<noteq> MNil"
    using Directive_roundtrip_doc [OF assms(1)] Some assms(2) by (auto simp: wf_run_state_def)
  moreover from this have "dec_opt (Directive_DecodeMsgpack rt) v = Ok (Some d)"
    by (simp add: dec_opt_def)
  ultimately show ?thesis
    using Some assms(2)
    by (simp add: enc_RunState_def dec_RunState_def lookup_segs [OF RunState_segs_distinct]
        RunState_values wf_run_state_def canonical_run_state_kind_def)
qed

lemma RunState_wire_roundtrip:
  assumes "codec_ok rt" and "wf_run_state s" and "fits_run_state rt s"
  shows "\<exists>b. marshal_RunState rt s = Ok b \<and> unmarshal_RunState rt b = Ok (s\<lparr>rs_SeqID := 0\<rparr>)"
proof -
  from assms(3) have "case rs_PendingCancel s of None \<Rightarrow> True | Some d \<Rightarrow> fits_directive rt d"
    by (simp add: fits_run_state_def)
  from RunState_roundtrip_doc [OF assms(1,2) this] obtain v where
    v: "enc_RunState rt s = Ok v" "dec_RunState rt v = Ok (s\<lparr>rs_SeqID := 0\<rparr>)" by blast
  with assms(3) have "fits v" by (simp add: fits_run_state_def)
  with assms(1) obtain b where "mp_marshal rt v = Ok b" "mp_unmarshal rt b = Ok v"
    by (rule codec_marshal)
  with v show ?thesis by (simp add: marshal_RunState_def unmarshal_RunState_def)
qed

section \<open>Timers\<close>

definition enc_Timer :: "runtime \<Rightarrow> Timer \<Rightarrow> mp res" where
  "enc_Timer rt t =
     andThen (Directive_EncodeMsgpack rt (t_Directive t)) (\<lambda>d.
     andThen (Command_EncodeMsgpack rt (t_Command t)) (\<lambda>c.
     Ok (MMap
       ([(''id'', MStr (t_ID t)),
         (''k'', MStr (timer_kind_str (t_Kind t))),
         (''wfid'', MStr (t_WFID t)),
         (''created'', MTime (t_CreatedAt t)),
         (''expires'', MTime (t_ExpiresAt t))]
        @ omit_str ''step'' (t_StepName t)
        @ [(''d'', d), (''c'', c)]))))"

definition dec_Timer :: "runtime \<Rightarrow> mp \<Rightarrow> Timer res" where
  "dec_Timer rt v =
     andThen (dec_map v) (\<lambda>fs.
     andThen (dec_str (lookup_field fs ''id'')) (\<lambda>i.
     andThen (dec_str (lookup_field fs ''k'')) (\<lambda>k.
     andThen (dec_str (lookup_field fs ''wfid'')) (\<lambda>w.
     andThen (dec_time (lookup_field fs ''created'')) (\<lambda>cr.
     andThen (dec_time (lookup_field fs ''expires'')) (\<lambda>ex.
     andThen (dec_str (lookup_field fs ''step'')) (\<lambda>st.
     andThen (Directive_DecodeMsgpack rt (lookup_field fs ''d'')) (\<lambda>d.
     andThen (Command_DecodeMsgpack rt (lookup_field fs ''c'')) (\<lambda>c.
     Ok \<lparr>t_ID = i, t_Kind = timer_kind_of k, t_WFID = w, t_CreatedAt = cr, t_ExpiresAt = ex,
         t_StepName = st, t_Directive = d, t_Command = c\<rparr>)))))))))"

definition marshal_Timer :: "runtime \<Rightarrow> Timer \<Rightarrow> bytes res" where
  "marshal_Timer rt t = andThen (enc_Timer rt t) (mp_marshal rt)"

definition unmarshal_Timer :: "runtime \<Rightarrow> bytes \<Rightarrow> Timer res" where
  "unmarshal_Timer rt b = andThen (mp_unmarshal rt b) (dec_Timer rt)"

definition fits_timer :: "runtime \<Rightarrow> Timer \<Rightarrow> bool" where
  "fits_timer rt t \<longleftrightarrow> (case enc_Timer rt t of Ok v \<Rightarrow> fits v | _ \<Rightarrow> False)"

text \<open>A timer survives the wire with the directive it carries.\<close>

lemma Timer_wire_roundtrip:
  assumes "codec_ok rt" and "canonical_timer_kind (t_Kind t)"
    and "wf_directive (t_Directive t)" and "fits_directive rt (t_Directive t)"
    and "t_Command t = Command_zero" and "fits_timer rt t"
  shows "\<exists>b. marshal_Timer rt t = Ok b \<and> unmarshal_Timer rt b = Ok t"
proof -
  obtain m where "d_Msg (t_Directive t) = Some m" "fits (doc_DirectiveMessage m)"
    using assms(4) by (auto simp: fits_directive_def split: option.splits)
  then obtain d where d: "Directive_EncodeMsgpack rt (t_Directive t) = Ok d"
      "Directive_DecodeMsgpack rt d = Ok (t_Directive t)"
    using Directive_roundtrip_doc [OF assms(1,3)] by blast
  then obtain v where v: "enc_Timer rt t = Ok v" "dec_Timer rt v = Ok t"
    using assms(2,5) Command_zero_roundtrip [of rt]
    by (cases t) (simp add: enc_Timer_def dec_Timer_def wire_simps canonical_timer_kind_def)
  with assms(6) have "fits v" by (simp add: fits_timer_def)
  with assms(1) obtain b where "mp_marshal rt v = Ok b" "mp_unmarshal rt b = Ok v"
    by (rule codec_marshal)
  with v show ?thesis by (simp add: marshal_Timer_def unmarshal_Timer_def)
qed

definition marshal_RunInfo :: "runtime \<Rightarrow> RunInfo \<Rightarrow> bytes res" where
  "marshal_RunInfo rt ri = mp_marshal rt (enc_RunInfo ri)"

definition unmarshal_RunInfo :: "runtime \<Rightarrow> bytes \<Rightarrow> RunInfo res" where
  "unmarshal_RunInfo rt b = andThen (mp_unmarshal rt b) dec_RunInfo"

lemma RunInfo_wire_roundtrip:
  assumes "codec_ok rt" and "canonical_run_status (ri_Status ri)" and "fits (enc_RunInfo ri)"
  shows "\<exists>b. marshal_RunInfo rt ri = Ok b \<and> unmarshal_RunInfo rt b = Ok ri"
  using codec_marshal [OF assms(1,3)] dec_enc_RunInfo [OF assms(2)]
  by (metis andThen.simps(1) marshal_RunInfo_def unmarshal_RunInfo_def)

end
