(* ===== verification/GoStrings.thy ===== *)
theory GoStrings
  imports Prelude
begin

text \<open>
  The functions of Go's package \<^verbatim>\<open>strings\<close> the server uses, on strings as lists of bytes.
\<close>

section \<open>Prefixes, suffixes, substrings\<close>

definition HasPrefix :: "string \<Rightarrow> string \<Rightarrow> bool" where
  "HasPrefix s p \<longleftrightarrow> take (length p) s = p"

definition HasSuffix :: "string \<Rightarrow> string \<Rightarrow> bool" where
  "HasSuffix s p \<longleftrightarrow> HasPrefix (rev s) (rev p)"

definition TrimSuffix :: "string \<Rightarrow> string \<Rightarrow> string" where
  "TrimSuffix s p = (if HasSuffix s p then take (length s - length p) s else s)"

fun Contains :: "string \<Rightarrow> string \<Rightarrow> bool" where
  "Contains [] p = (p = [])"
| "Contains (c # cs) p = (HasPrefix (c # cs) p \<or> Contains cs p)"

text \<open>\<^verbatim>\<open>ToLower\<close> on ASCII letters.\<close>

definition lower_char :: "char \<Rightarrow> char" where
  "lower_char c = (let n = of_char c :: nat in if 65 \<le> n \<and> n \<le> 90 then char_of (n + 32) else c)"

definition ToLower :: "string \<Rightarrow> string" where
  "ToLower s = map lower_char s"

text \<open>\<^verbatim>\<open>TrimSpace\<close> on the white space of ASCII.\<close>

definition is_space :: "char \<Rightarrow> bool" where
  "is_space c \<longleftrightarrow> (let n = of_char c :: nat in n = 32 \<or> (9 \<le> n \<and> n \<le> 13))"

definition TrimSpace :: "string \<Rightarrow> string" where
  "TrimSpace s = rev (dropWhile is_space (rev (dropWhile is_space s)))"

fun Join :: "string list \<Rightarrow> string \<Rightarrow> string" where
  "Join [] sep = []"
| "Join [s] sep = s"
| "Join (s # ss) sep = s @ sep @ Join ss sep"

section \<open>ReplaceAll\<close>

text \<open>
  \<^verbatim>\<open>ReplaceAll(s, old, new)\<close> for a nonempty \<^verbatim>\<open>old\<close>, the only way it is called: the
  occurrences are replaced from the left and do not overlap.
\<close>

function ReplaceAll :: "string \<Rightarrow> string \<Rightarrow> string \<Rightarrow> string" where
  "ReplaceAll s old new =
     (case s of
        [] \<Rightarrow> []
      | c # cs \<Rightarrow>
          if old \<noteq> [] \<and> HasPrefix s old then new @ ReplaceAll (drop (length old) s) old new
          else c # ReplaceAll cs old new)"
  by pat_completeness auto

termination
  by (relation "measure (\<lambda>(s, old, new). length s)") auto

declare ReplaceAll.simps [simp del]

lemma HasPrefix_append [simp]: "HasPrefix (p @ s) p"
  by (simp add: HasPrefix_def)

lemma HasPrefix_Nil [simp]: "HasPrefix s []"
  by (simp add: HasPrefix_def)

lemma HasPrefix_Cons [simp]:
  "HasPrefix (c # s) (d # p) \<longleftrightarrow> c = d \<and> HasPrefix s p"
  "\<not> HasPrefix [] (d # p)"
  by (auto simp: HasPrefix_def)

lemma HasPrefix_comparable: "HasPrefix s p \<Longrightarrow> HasPrefix s q \<Longrightarrow> HasPrefix p q \<or> HasPrefix q p"
proof (induction p arbitrary: s q)
  case (Cons c p)
  then show ?case by (cases s; cases q) auto
qed simp

lemma HasSuffix_append [simp]: "HasSuffix (s @ p) p"
  by (simp add: HasSuffix_def)

lemma TrimSuffix_append [simp]: "TrimSuffix (s @ p) p = s"
  by (simp add: TrimSuffix_def)

lemma ReplaceAll_Nil [simp]: "ReplaceAll [] old new = []"
  by (subst ReplaceAll.simps) simp

lemma ReplaceAll_occurrence:
  "old \<noteq> [] \<Longrightarrow> ReplaceAll (old @ s) old new = new @ ReplaceAll s old new"
  by (cases old) (simp_all add: ReplaceAll.simps [of "_ # _"])

lemma ReplaceAll_Cons_other:
  "c \<noteq> d \<Longrightarrow> ReplaceAll (c # s) (d # p) new = c # ReplaceAll s (d # p) new"
  by (subst ReplaceAll.simps) simp

text \<open>Text without the first character of \<open>old\<close> is copied.\<close>

lemma ReplaceAll_skip:
  "d \<notin> set t \<Longrightarrow> ReplaceAll (t @ s) (d # p) new = t @ ReplaceAll s (d # p) new"
  by (induction t) (auto simp: ReplaceAll_Cons_other)

lemma ReplaceAll_absent: "d \<notin> set t \<Longrightarrow> ReplaceAll t (d # p) new = t"
  using ReplaceAll_skip [of d t "[]" p new] by simp

lemma ReplaceAll_mismatch:
  "\<not> HasPrefix (c # s) old \<Longrightarrow> ReplaceAll (c # s) old new = c # ReplaceAll s old new"
  by (subst ReplaceAll.simps) simp

lemma ReplaceAll_self: "old \<noteq> [] \<Longrightarrow> ReplaceAll s old old = s"
proof (induction "length s" arbitrary: s rule: less_induct)
  case less
  show ?case
  proof (cases s)
    case (Cons c cs)
    show ?thesis
    proof (cases "HasPrefix s old")
      case True
      then obtain r where s: "s = old @ r"
        by (metis HasPrefix_def append_take_drop_id)
      with less have "ReplaceAll r old old = r" by (cases old) auto
      with s less.prems show ?thesis by (simp add: ReplaceAll_occurrence)
    next
      case False
      with Cons less show ?thesis by (simp add: ReplaceAll_mismatch)
    qed
  qed simp
qed

section \<open>Trimming\<close>

lemma TrimSpace_blank: "TrimSpace s = [] \<longleftrightarrow> (\<forall>c\<in>set s. is_space c)"
proof -
  have "TrimSpace s = [] \<longleftrightarrow> (\<forall>c\<in>set (dropWhile is_space s). is_space c)"
    by (simp add: TrimSpace_def dropWhile_eq_Nil_conv)
  also have "\<dots> \<longleftrightarrow> dropWhile is_space s = []"
    using hd_dropWhile [of is_space s] by (metis empty_iff hd_in_set list.set(1))
  also have "\<dots> \<longleftrightarrow> (\<forall>c\<in>set s. is_space c)"
    by (simp add: dropWhile_eq_Nil_conv)
  finally show ?thesis .
qed

text \<open>\<^verbatim>\<open>strconv.Itoa\<close>.\<close>

definition Itoa :: "int \<Rightarrow> string" where
  "Itoa n = (if n < 0 then ''-'' @ decimal (nat (- n)) else decimal (nat n))"

end
