(* ===== verification/Natsreg.thy ===== *)
theory Natsreg
  imports Types GoStrings "HOL-Library.Multiset"
begin

text \<open>
  The subject manifest (\<^verbatim>\<open>src/natsreg\<close>): the embedded YAML file as data, the lookups in
  it, and the functions that build the subjects of the state stream from workflow and run
  identifiers. Methods of \<^verbatim>\<open>NATSManifest\<close> take the configuration \<open>m\<close> as an argument; the
  singleton \<^verbatim>\<open>natsreg.Manifest\<close> is \<open>Manifest\<close>.
\<close>

section \<open>Configuration\<close>

text \<open>Go maps are association lists; a missing key reads as the zero value.\<close>

record consumerConfig =
  cc_Name :: string
  cc_Subject :: string

record streamConfig =
  sc_Name :: string
  sc_Type :: string
  sc_Consumers :: "(string \<times> consumerConfig) list"
  sc_Consumer :: "(string \<times> consumerConfig) list"

record subjectConfig =
  sj_Stream :: "string option"
  sj_SubjectPattern :: string
  sj_ListenerPattern :: string
  sj_Patterns :: "(string \<times> string) list"

record manifestConfig =
  mc_Version :: int
  mc_Streams :: "(string \<times> streamConfig) list"
  mc_Subjects :: "(string \<times> subjectConfig) list"

definition subject_entry :: "string option \<Rightarrow> (string \<times> string) list \<Rightarrow> subjectConfig" where
  "subject_entry stream patterns =
     \<lparr>sj_Stream = stream, sj_SubjectPattern = '''', sj_ListenerPattern = '''',
      sj_Patterns = patterns\<rparr>"

text \<open>The contents of \<^verbatim>\<open>nats_manifest.yaml\<close>.\<close>

definition Manifest :: manifestConfig where
  "Manifest =
     \<lparr>mc_Version = 1,
      mc_Streams =
        [(''state'',
          \<lparr>sc_Name = ''grctl_state'', sc_Type = ''limit'', sc_Consumers = [],
           sc_Consumer =
             [(''grctl_timer_fired'',
                \<lparr>cc_Name = ''grctl_timer_fired_cons'', cc_Subject = ''grctl_timer_fired.>''\<rparr>),
              (''grctl_directive'',
                \<lparr>cc_Name = ''grctl_directive_cons'', cc_Subject = ''grctl_directive.>''\<rparr>),
              (''grctl_bg_task'',
                \<lparr>cc_Name = ''grctl_bg_task_cons'', cc_Subject = ''grctl_bg_task''\<rparr>)]\<rparr>)],
      mc_Subjects =
        [(''directive'', subject_entry (Some ''grctl_directive'')
            [(''publish'', ''grctl_directive.{wf_type}.{wf_id}.{run_id}''),
             (''listen'', ''grctl_directive.>''),
             (''purge'', ''grctl_directive.*.{wf_id}.>'')]),
         (''history'', subject_entry (Some ''grctl_state'')
            [(''publish'', ''grctl_history.{wf_id}.{run_id}''),
             (''listen'', ''grctl_history.>'')]),
         (''timer'', subject_entry (Some ''grctl_state'')
            [(''publish'', ''grctl_timers.{wf_id}.{kind}.{timer_id}''),
             (''listen'', ''grctl_timers.>''),
             (''purge'', ''grctl_timers.{wf_id}.>'')]),
         (''timer_fired'', subject_entry (Some ''grctl_state'')
            [(''publish'', ''grctl_timers_fired''),
             (''listen'', ''grctl_timers_fired'')]),
         (''run_store'', subject_entry (Some ''grctl_state'')
            [(''info'', ''grctl_run.{wf_type}.{wf_id}.{run_id}.info''),
             (''input'', ''grctl_run.{wf_id}.{run_id}.input''),
             (''output'', ''grctl_run.{wf_id}.{run_id}.output''),
             (''error'', ''grctl_run.{wf_id}.{run_id}.error'')]),
         (''kv_store'', subject_entry (Some ''grctl_state'')
            [(''kv'', ''grctl_wf_kv.{wf_id}.{run_id}.{key}'')]),
         (''cancel'', subject_entry (Some ''grctl_state'')
            [(''publish'', ''grctl_cancel.{wf_id}''),
             (''listen'', ''grctl_cancel.>''),
             (''purge'', ''grctl_cancel.{wf_id}'')]),
         (''events'', subject_entry (Some ''grctl_state'')
            [(''publish'', ''grctl_events.{wf_id}''),
             (''listen'', ''grctl_events.>''),
             (''purge'', ''grctl_events.{wf_id}'')]),
         (''run_state'', subject_entry (Some ''grctl_state'')
            [(''publish'', ''grctl_state.run_state.{wf_id}.{run_id}''),
             (''listen'', ''grctl_state.run_state.>'')]),
         (''worker_task'', subject_entry (Some ''grctl_state'')
            [(''publish'', ''grctl_worker_task.{wf_type}.{wf_id}.{run_id}''),
             (''listen'', ''grctl_worker_task.>''),
             (''queue_group'', ''grctl_worker_{wf_type}''),
             (''purge'', ''grctl_worker_task.*.{wf_id}.>'')]),
         (''bg_task'', subject_entry (Some ''grctl_state'')
            [(''publish'', ''grctl_bg_task''),
             (''listen'', ''grctl_bg_task'')]),
         (''workflow_type_registry'', subject_entry (Some ''grctl_state'')
            [(''publish'', ''grctl_registry.{wf_type}''),
             (''listen'', ''grctl_registry.>'')]),
         (''api'', subject_entry None
            [(''publish'', ''grctl_api.workflow.{wf_id}''),
             (''listen'', ''grctl_api.>''),
             (''worker'', ''grctl_api.worker'')]),
         (''worker_cmd'', subject_entry None
            [(''publish'', ''grctl_worker_cmd.{worker_id}''),
             (''listen'', ''grctl_worker_cmd.{worker_id}'')])]\<rparr>"

section \<open>Lookups\<close>

definition str_lookup :: "(string \<times> string) list \<Rightarrow> string \<Rightarrow> string" where
  "str_lookup kvs k = (case map_of kvs k of None \<Rightarrow> '''' | Some v \<Rightarrow> v)"

definition streamConsumers :: "manifestConfig \<Rightarrow> string \<Rightarrow> (string \<times> consumerConfig) list" where
  "streamConsumers m streamKey =
     (case map_of (mc_Streams m) streamKey of
        None \<Rightarrow> []
      | Some stream \<Rightarrow> if length (sc_Consumers stream) > 0 then sc_Consumers stream else sc_Consumer stream)"

definition subjectPattern :: "manifestConfig \<Rightarrow> string \<Rightarrow> string \<Rightarrow> string" where
  "subjectPattern m subjectKey patternKey =
     (case map_of (mc_Subjects m) subjectKey of
        None \<Rightarrow> ''''
      | Some subject \<Rightarrow>
          if length (sj_Patterns subject) > 0 then str_lookup (sj_Patterns subject) patternKey
          else if patternKey = ''publish'' then sj_SubjectPattern subject
          else if patternKey = ''listen'' then sj_ListenerPattern subject
          else '''')"

definition subjectStream :: "manifestConfig \<Rightarrow> string \<Rightarrow> string" where
  "subjectStream m subjectKey =
     (case map_of (mc_Subjects m) subjectKey of
        None \<Rightarrow> ''''
      | Some subject \<Rightarrow> (case sj_Stream subject of None \<Rightarrow> '''' | Some stream \<Rightarrow> stream))"

text \<open>
  \<^verbatim>\<open>substituteParams\<close> iterates over a Go map; the list stands for the parameters in the
  order in which the iteration visits them.
\<close>

fun substituteParams :: "string \<Rightarrow> (string \<times> string) list \<Rightarrow> string" where
  "substituteParams pattern [] = pattern"
| "substituteParams pattern ((key, value) # params) =
     substituteParams (ReplaceAll pattern (''{'' @ key @ ''}'') value) params"

section \<open>Streams and consumers\<close>

definition consumer_name :: "manifestConfig \<Rightarrow> string \<Rightarrow> string" where
  "consumer_name m key =
     (case map_of (streamConsumers m ''state'') key of None \<Rightarrow> '''' | Some c \<Rightarrow> cc_Name c)"

definition DirectiveStreamName :: "manifestConfig \<Rightarrow> string" where
  "DirectiveStreamName m = subjectStream m ''directive''"

definition StateStreamName :: "manifestConfig \<Rightarrow> string" where
  "StateStreamName m =
     (case map_of (mc_Streams m) ''state'' of None \<Rightarrow> '''' | Some stream \<Rightarrow> sc_Name stream)"

definition TimerStreamName :: "manifestConfig \<Rightarrow> string" where
  "TimerStreamName m = subjectStream m ''timer''"

definition DirectiveConsumerName :: "manifestConfig \<Rightarrow> string" where
  "DirectiveConsumerName m = consumer_name m ''grctl_directive''"

definition TimerFiredConsumerName :: "manifestConfig \<Rightarrow> string" where
  "TimerFiredConsumerName m = consumer_name m ''grctl_timer_fired''"

definition BgTaskConsumerName :: "manifestConfig \<Rightarrow> string" where
  "BgTaskConsumerName m = consumer_name m ''grctl_bg_task''"

section \<open>Subjects\<close>

definition DirectiveSubject :: "manifestConfig \<Rightarrow> WFType \<Rightarrow> WFID \<Rightarrow> RunID \<Rightarrow> string" where
  "DirectiveSubject m wfType wfID runID =
     substituteParams (subjectPattern m ''directive'' ''publish'')
       [(''wf_type'', wfType), (''wf_id'', wfID), (''run_id'', runID)]"

definition DirectiveWFTypeFilterSubject :: "manifestConfig \<Rightarrow> WFType \<Rightarrow> string" where
  "DirectiveWFTypeFilterSubject m wfType = ''grctl_directive.'' @ wfType @ ''.>''"

definition DirectiveListenerPattern :: "manifestConfig \<Rightarrow> string" where
  "DirectiveListenerPattern m = subjectPattern m ''directive'' ''listen''"

definition HistorySubject :: "manifestConfig \<Rightarrow> WFID \<Rightarrow> RunID \<Rightarrow> string" where
  "HistorySubject m wfID runID =
     substituteParams (subjectPattern m ''history'' ''publish'')
       [(''wf_id'', wfID), (''run_id'', runID)]"

definition HistoryListenerPattern :: "manifestConfig \<Rightarrow> string" where
  "HistoryListenerPattern m = subjectPattern m ''history'' ''listen''"

definition APISubject :: "manifestConfig \<Rightarrow> WFID \<Rightarrow> string" where
  "APISubject m wfID = substituteParams (subjectPattern m ''api'' ''publish'') [(''wf_id'', wfID)]"

definition APISubjectListener :: "manifestConfig \<Rightarrow> string" where
  "APISubjectListener m = subjectPattern m ''api'' ''listen''"

definition WorkerCommandSubject :: "manifestConfig \<Rightarrow> string" where
  "WorkerCommandSubject m = subjectPattern m ''api'' ''worker''"

definition WorkerCmdSubject :: "manifestConfig \<Rightarrow> string \<Rightarrow> string" where
  "WorkerCmdSubject m workerID =
     substituteParams (subjectPattern m ''worker_cmd'' ''publish'') [(''worker_id'', workerID)]"

definition WorkflowTypeRegistrySubject :: "manifestConfig \<Rightarrow> WFType \<Rightarrow> string" where
  "WorkflowTypeRegistrySubject m wfType =
     substituteParams (subjectPattern m ''workflow_type_registry'' ''publish'') [(''wf_type'', wfType)]"

definition WorkflowTypeRegistryListenerPattern :: "manifestConfig \<Rightarrow> string" where
  "WorkflowTypeRegistryListenerPattern m = subjectPattern m ''workflow_type_registry'' ''listen''"

definition RunInfoKey :: "manifestConfig \<Rightarrow> WFType \<Rightarrow> WFID \<Rightarrow> RunID \<Rightarrow> string" where
  "RunInfoKey m wfType wfID runID =
     substituteParams (subjectPattern m ''run_store'' ''info'')
       [(''wf_type'', wfType), (''wf_id'', wfID), (''run_id'', runID)]"

definition ListRunInfoByWFIDPattern :: "manifestConfig \<Rightarrow> WFType \<Rightarrow> WFID \<Rightarrow> string" where
  "ListRunInfoByWFIDPattern m wfType wfID =
     substituteParams (subjectPattern m ''run_store'' ''info'')
       [(''wf_type'', wfType), (''wf_id'', wfID), (''run_id'', ''*'')]"

definition ListRunInfoByRunIDPattern :: "manifestConfig \<Rightarrow> RunID \<Rightarrow> string" where
  "ListRunInfoByRunIDPattern m runID =
     substituteParams (subjectPattern m ''run_store'' ''info'')
       [(''wf_type'', ''*''), (''wf_id'', ''*''), (''run_id'', runID)]"

definition RunInputKey :: "manifestConfig \<Rightarrow> WFID \<Rightarrow> RunID \<Rightarrow> string" where
  "RunInputKey m wfID runID =
     substituteParams (subjectPattern m ''run_store'' ''input'') [(''wf_id'', wfID), (''run_id'', runID)]"

definition RunOutputKey :: "manifestConfig \<Rightarrow> WFID \<Rightarrow> RunID \<Rightarrow> string" where
  "RunOutputKey m wfID runID =
     substituteParams (subjectPattern m ''run_store'' ''output'') [(''wf_id'', wfID), (''run_id'', runID)]"

definition RunErrorKey :: "manifestConfig \<Rightarrow> WFID \<Rightarrow> RunID \<Rightarrow> string" where
  "RunErrorKey m wfID runID =
     substituteParams (subjectPattern m ''run_store'' ''error'') [(''wf_id'', wfID), (''run_id'', runID)]"

definition WfKVPrefix :: "manifestConfig \<Rightarrow> WFID \<Rightarrow> string" where
  "WfKVPrefix m wfID =
     TrimSuffix
       (substituteParams (subjectPattern m ''kv_store'' ''kv'')
          [(''wf_id'', wfID), (''run_id'', ''{run_id}''), (''key'', ''{key}'')])
       ''.{run_id}.{key}''"

definition WfRunKVPrefix :: "manifestConfig \<Rightarrow> WFID \<Rightarrow> RunID \<Rightarrow> string" where
  "WfRunKVPrefix m wfID runID =
     TrimSuffix
       (substituteParams (subjectPattern m ''kv_store'' ''kv'')
          [(''wf_id'', wfID), (''run_id'', runID), (''key'', ''{key}'')])
       ''.{key}''"

definition WfKVKey :: "manifestConfig \<Rightarrow> WFID \<Rightarrow> RunID \<Rightarrow> string \<Rightarrow> string" where
  "WfKVKey m wfID runID key =
     substituteParams (subjectPattern m ''kv_store'' ''kv'')
       [(''wf_id'', wfID), (''run_id'', runID), (''key'', key)]"

definition TimerSubject :: "manifestConfig \<Rightarrow> WFID \<Rightarrow> TimerKind \<Rightarrow> TimerID \<Rightarrow> string" where
  "TimerSubject m wfID kind timerID =
     substituteParams (subjectPattern m ''timer'' ''publish'')
       [(''wf_id'', wfID), (''kind'', timer_kind_str kind), (''timer_id'', timerID)]"

definition TimerFiredSubject :: "manifestConfig \<Rightarrow> string" where
  "TimerFiredSubject m = subjectPattern m ''timer_fired'' ''publish''"

definition TimerListenerPattern :: "manifestConfig \<Rightarrow> string" where
  "TimerListenerPattern m = subjectPattern m ''timer'' ''listen''"

definition EventInboxSubject :: "manifestConfig \<Rightarrow> WFID \<Rightarrow> string" where
  "EventInboxSubject m wfID =
     substituteParams (subjectPattern m ''events'' ''publish'') [(''wf_id'', wfID)]"

definition EventInboxListenerPattern :: "manifestConfig \<Rightarrow> string" where
  "EventInboxListenerPattern m = subjectPattern m ''events'' ''listen''"

definition RunStateSubject :: "manifestConfig \<Rightarrow> WFID \<Rightarrow> RunID \<Rightarrow> string" where
  "RunStateSubject m wfID runID =
     substituteParams (subjectPattern m ''run_state'' ''publish'')
       [(''wf_id'', wfID), (''run_id'', runID)]"

definition RunStateListenerPattern :: "manifestConfig \<Rightarrow> string" where
  "RunStateListenerPattern m = subjectPattern m ''run_state'' ''listen''"

definition AllRunsInfoKeyPattern :: "manifestConfig \<Rightarrow> string" where
  "AllRunsInfoKeyPattern m =
     (let pattern = subjectPattern m ''run_store'' ''info'';
          pattern = ReplaceAll pattern ''{wf_type}'' ''*'';
          pattern = ReplaceAll pattern ''{wf_id}'' ''*''
      in ReplaceAll pattern ''{run_id}'' ''*'')"

definition AllRunsInputKeyPattern :: "manifestConfig \<Rightarrow> string" where
  "AllRunsInputKeyPattern m =
     (let pattern = subjectPattern m ''run_store'' ''input'';
          pattern = ReplaceAll pattern ''{wf_id}'' ''*''
      in ReplaceAll pattern ''{run_id}'' ''*'')"

definition AllRunsOutputKeyPattern :: "manifestConfig \<Rightarrow> string" where
  "AllRunsOutputKeyPattern m =
     (let pattern = subjectPattern m ''run_store'' ''output'';
          pattern = ReplaceAll pattern ''{wf_id}'' ''*''
      in ReplaceAll pattern ''{run_id}'' ''*'')"

definition AllRunsErrorKeyPattern :: "manifestConfig \<Rightarrow> string" where
  "AllRunsErrorKeyPattern m =
     (let pattern = subjectPattern m ''run_store'' ''error'';
          pattern = ReplaceAll pattern ''{wf_id}'' ''*''
      in ReplaceAll pattern ''{run_id}'' ''*'')"

definition AllWfKVKeyPattern :: "manifestConfig \<Rightarrow> string" where
  "AllWfKVKeyPattern m =
     (let pattern = subjectPattern m ''kv_store'' ''kv'';
          pattern = ReplaceAll pattern ''{wf_id}'' ''*'';
          pattern = ReplaceAll pattern ''{run_id}'' ''*''
      in ReplaceAll pattern ''{key}'' ''*'')"

definition WorkerTaskSubject :: "manifestConfig \<Rightarrow> WFType \<Rightarrow> WFID \<Rightarrow> RunID \<Rightarrow> string" where
  "WorkerTaskSubject m wfType wfID runID =
     substituteParams (subjectPattern m ''worker_task'' ''publish'')
       [(''wf_type'', wfType), (''wf_id'', wfID), (''run_id'', runID)]"

definition WorkerTaskListenerPattern :: "manifestConfig \<Rightarrow> string" where
  "WorkerTaskListenerPattern m = subjectPattern m ''worker_task'' ''listen''"

definition DirectivePurgePattern :: "manifestConfig \<Rightarrow> WFID \<Rightarrow> string" where
  "DirectivePurgePattern m wfID =
     substituteParams (subjectPattern m ''directive'' ''purge'') [(''wf_id'', wfID)]"

definition TimerPurgePattern :: "manifestConfig \<Rightarrow> WFID \<Rightarrow> string" where
  "TimerPurgePattern m wfID =
     substituteParams (subjectPattern m ''timer'' ''purge'') [(''wf_id'', wfID)]"

definition EventInboxPurgePattern :: "manifestConfig \<Rightarrow> WFID \<Rightarrow> string" where
  "EventInboxPurgePattern m wfID =
     substituteParams (subjectPattern m ''events'' ''purge'') [(''wf_id'', wfID)]"

definition WorkerTaskPurgePattern :: "manifestConfig \<Rightarrow> WFID \<Rightarrow> string" where
  "WorkerTaskPurgePattern m wfID =
     substituteParams (subjectPattern m ''worker_task'' ''purge'') [(''wf_id'', wfID)]"

definition BgTaskSubject :: "manifestConfig \<Rightarrow> string" where
  "BgTaskSubject m = subjectPattern m ''bg_task'' ''publish''"

section \<open>Patterns as templates\<close>

text \<open>
  A pattern of the manifest is a sequence of literal pieces and placeholders. On such a
  template \<^verbatim>\<open>substituteParams\<close> fills in every placeholder at once, provided that no value
  contains an opening brace: the order of the iteration over the Go map does not matter then.
\<close>

datatype piece = Lit string | Var string

fun render :: "piece \<Rightarrow> string" where
  "render (Lit s) = s"
| "render (Var k) = ''{'' @ k @ ''}''"

definition plain :: "string \<Rightarrow> bool" where
  "plain s \<longleftrightarrow> CHR ''{'' \<notin> set s"

definition brace_free :: "string \<Rightarrow> bool" where
  "brace_free s \<longleftrightarrow> CHR ''{'' \<notin> set s \<and> CHR ''}'' \<notin> set s"

fun wf_piece :: "piece \<Rightarrow> bool" where
  "wf_piece (Lit s) = plain s"
| "wf_piece (Var k) = brace_free k"

definition expand :: "(string \<times> string) list \<Rightarrow> piece \<Rightarrow> piece" where
  "expand ps p =
     (case p of Lit s \<Rightarrow> Lit s
      | Var k \<Rightarrow> (case map_of ps k of None \<Rightarrow> Var k | Some v \<Rightarrow> Lit v))"

definition renders :: "piece list \<Rightarrow> string" where
  "renders ts = concat (map render ts)"

lemma renders_simps [simp]:
  "renders [] = []" "renders (p # ps) = render p @ renders ps"
  by (simp_all add: renders_def)

lemma brace_key_prefix:
  "brace_free k \<Longrightarrow> brace_free k' \<Longrightarrow> HasPrefix (k' @ CHR ''}'' # s) (k @ ''}'') \<Longrightarrow> k = k'"
proof (induction k arbitrary: k')
  case Nil
  then show ?case by (cases k') (auto simp: brace_free_def)
next
  case (Cons c k)
  then show ?case by (cases k') (auto simp: brace_free_def)
qed

lemma ReplaceAll_renders:
  assumes "list_all wf_piece ts" and "brace_free k"
  shows "ReplaceAll (renders ts) (''{'' @ k @ ''}'') v =
    concat (map (\<lambda>t. if t = Var k then v else render t) ts)"
  using assms(1)
proof (induction ts)
  case (Cons t ts)
  show ?case
  proof (cases t)
    case (Lit s)
    with Cons show ?thesis
      by (simp add: plain_def ReplaceAll_skip)
  next
    case (Var k')
    show ?thesis
    proof (cases "k' = k")
      case True
      with Var Cons show ?thesis
        using ReplaceAll_occurrence [of "''{'' @ k @ ''}''" "renders ts" v] by simp
    next
      case False
      with Var Cons have k': "brace_free k'" by simp
      with False assms(2) have "\<not> HasPrefix (k' @ CHR ''}'' # renders ts) (k @ ''}'')"
        using brace_key_prefix by metis
      then have "ReplaceAll (CHR ''{'' # k' @ CHR ''}'' # renders ts) (''{'' @ k @ ''}'') v =
          CHR ''{'' # ReplaceAll ((k' @ ''}'') @ renders ts) (''{'' @ k @ ''}'') v"
        by (subst ReplaceAll_mismatch) simp_all
      also have "\<dots> = CHR ''{'' # (k' @ ''}'') @ ReplaceAll (renders ts) (''{'' @ k @ ''}'') v"
        using k' ReplaceAll_skip [of "CHR ''{''" "k' @ ''}''" "renders ts" "k @ ''}''" v]
        by (simp add: brace_free_def)
      finally show ?thesis
        using Var False Cons by simp
    qed
  qed
qed simp

lemma substituteParams_renders:
  assumes "list_all wf_piece ts" and "\<forall>(k, v)\<in>set ps. brace_free k \<and> plain v"
  shows "substituteParams (renders ts) ps = renders (map (expand ps) ts)"
  using assms
proof (induction ps arbitrary: ts)
  case Nil
  have "map (expand []) ts = ts"
    by (rule map_idI) (auto simp: expand_def split: piece.splits)
  then show ?case by simp
next
  case (Cons kv ps)
  obtain k v where kv: "kv = (k, v)" by (cases kv)
  let ?s = "\<lambda>t. if t = Var k then Lit v else t"
  from Cons.prems kv have *: "brace_free k" "plain v" by auto
  have "concat (map (\<lambda>t. if t = Var k then v else render t) ts) = renders (map ?s ts)"
    by (induction ts) auto
  moreover have "list_all wf_piece (map ?s ts)"
    using Cons.prems(1) * by (auto simp: list_all_iff)
  moreover have "map (expand ps \<circ> ?s) ts = map (expand ((k, v) # ps)) ts"
    by (auto simp: expand_def split: piece.splits)
  ultimately show ?case
    using Cons kv * ReplaceAll_renders [OF Cons.prems(1), of k v] by (simp del: map_eq_conv)
qed

section \<open>The subjects, spelled out\<close>

definition pattern_of :: "piece list \<Rightarrow> string" where
  "pattern_of ts = renders ts"

lemma substituteParams_pattern_of:
  "list_all wf_piece ts \<Longrightarrow> \<forall>(k, v)\<in>set ps. brace_free k \<and> plain v \<Longrightarrow>
   substituteParams (pattern_of ts) ps = renders (map (expand ps) ts)"
  by (simp add: pattern_of_def substituteParams_renders)

lemma manifest_patterns:
  "subjectPattern Manifest ''directive'' ''publish'' =
     pattern_of [Lit ''grctl_directive.'', Var ''wf_type'', Lit ''.'', Var ''wf_id'', Lit ''.'', Var ''run_id'']"
  "subjectPattern Manifest ''history'' ''publish'' =
     pattern_of [Lit ''grctl_history.'', Var ''wf_id'', Lit ''.'', Var ''run_id'']"
  "subjectPattern Manifest ''timer'' ''publish'' =
     pattern_of [Lit ''grctl_timers.'', Var ''wf_id'', Lit ''.'', Var ''kind'', Lit ''.'', Var ''timer_id'']"
  "subjectPattern Manifest ''run_store'' ''info'' =
     pattern_of [Lit ''grctl_run.'', Var ''wf_type'', Lit ''.'', Var ''wf_id'', Lit ''.'', Var ''run_id'', Lit ''.info'']"
  "subjectPattern Manifest ''run_store'' ''input'' =
     pattern_of [Lit ''grctl_run.'', Var ''wf_id'', Lit ''.'', Var ''run_id'', Lit ''.input'']"
  "subjectPattern Manifest ''run_store'' ''output'' =
     pattern_of [Lit ''grctl_run.'', Var ''wf_id'', Lit ''.'', Var ''run_id'', Lit ''.output'']"
  "subjectPattern Manifest ''run_store'' ''error'' =
     pattern_of [Lit ''grctl_run.'', Var ''wf_id'', Lit ''.'', Var ''run_id'', Lit ''.error'']"
  "subjectPattern Manifest ''kv_store'' ''kv'' =
     pattern_of [Lit ''grctl_wf_kv.'', Var ''wf_id'', Lit ''.'', Var ''run_id'', Lit ''.'', Var ''key'']"
  "subjectPattern Manifest ''events'' ''publish'' = pattern_of [Lit ''grctl_events.'', Var ''wf_id'']"
  "subjectPattern Manifest ''run_state'' ''publish'' =
     pattern_of [Lit ''grctl_state.run_state.'', Var ''wf_id'', Lit ''.'', Var ''run_id'']"
  "subjectPattern Manifest ''worker_task'' ''publish'' =
     pattern_of [Lit ''grctl_worker_task.'', Var ''wf_type'', Lit ''.'', Var ''wf_id'', Lit ''.'', Var ''run_id'']"
  "subjectPattern Manifest ''workflow_type_registry'' ''publish'' =
     pattern_of [Lit ''grctl_registry.'', Var ''wf_type'']"
  "subjectPattern Manifest ''worker_cmd'' ''publish'' =
     pattern_of [Lit ''grctl_worker_cmd.'', Var ''worker_id'']"
  "subjectPattern Manifest ''directive'' ''purge'' =
     pattern_of [Lit ''grctl_directive.*.'', Var ''wf_id'', Lit ''.>'']"
  "subjectPattern Manifest ''timer'' ''purge'' = pattern_of [Lit ''grctl_timers.'', Var ''wf_id'', Lit ''.>'']"
  "subjectPattern Manifest ''events'' ''purge'' = pattern_of [Lit ''grctl_events.'', Var ''wf_id'']"
  "subjectPattern Manifest ''worker_task'' ''purge'' =
     pattern_of [Lit ''grctl_worker_task.*.'', Var ''wf_id'', Lit ''.>'']"
  by (simp_all add: pattern_of_def Manifest_def subjectPattern_def subject_entry_def str_lookup_def)

lemma subjects:
  "plain t \<Longrightarrow> plain w \<Longrightarrow> plain r \<Longrightarrow> DirectiveSubject Manifest t w r = ''grctl_directive.'' @ t @ ''.'' @ w @ ''.'' @ r"
  "plain w \<Longrightarrow> plain r \<Longrightarrow> HistorySubject Manifest w r = ''grctl_history.'' @ w @ ''.'' @ r"
  "plain t \<Longrightarrow> plain w \<Longrightarrow> plain r \<Longrightarrow> RunInfoKey Manifest t w r = ''grctl_run.'' @ t @ ''.'' @ w @ ''.'' @ r @ ''.info''"
  "plain w \<Longrightarrow> plain r \<Longrightarrow> RunInputKey Manifest w r = ''grctl_run.'' @ w @ ''.'' @ r @ ''.input''"
  "plain w \<Longrightarrow> plain r \<Longrightarrow> RunOutputKey Manifest w r = ''grctl_run.'' @ w @ ''.'' @ r @ ''.output''"
  "plain w \<Longrightarrow> plain r \<Longrightarrow> RunErrorKey Manifest w r = ''grctl_run.'' @ w @ ''.'' @ r @ ''.error''"
  "plain w \<Longrightarrow> plain r \<Longrightarrow> RunStateSubject Manifest w r = ''grctl_state.run_state.'' @ w @ ''.'' @ r"
  "plain t \<Longrightarrow> plain w \<Longrightarrow> plain r \<Longrightarrow> WorkerTaskSubject Manifest t w r = ''grctl_worker_task.'' @ t @ ''.'' @ w @ ''.'' @ r"
  "plain w \<Longrightarrow> plain (timer_kind_str k) \<Longrightarrow> plain i \<Longrightarrow>
     TimerSubject Manifest w k i = ''grctl_timers.'' @ w @ ''.'' @ timer_kind_str k @ ''.'' @ i"
  "plain w \<Longrightarrow> plain r \<Longrightarrow> plain k' \<Longrightarrow>
     WfKVKey Manifest w r k' = ''grctl_wf_kv.'' @ w @ ''.'' @ r @ ''.'' @ k'"
  "plain i \<Longrightarrow> WorkerCmdSubject Manifest i = ''grctl_worker_cmd.'' @ i"
  "plain w \<Longrightarrow> EventInboxSubject Manifest w = ''grctl_events.'' @ w"
  "plain t \<Longrightarrow> WorkflowTypeRegistrySubject Manifest t = ''grctl_registry.'' @ t"
  "plain t \<Longrightarrow> plain w \<Longrightarrow> ListRunInfoByWFIDPattern Manifest t w = ''grctl_run.'' @ t @ ''.'' @ w @ ''.*.info''"
  "plain r \<Longrightarrow> ListRunInfoByRunIDPattern Manifest r = ''grctl_run.*.*.'' @ r @ ''.info''"
  "plain w \<Longrightarrow> DirectivePurgePattern Manifest w = ''grctl_directive.*.'' @ w @ ''.>''"
  "plain w \<Longrightarrow> TimerPurgePattern Manifest w = ''grctl_timers.'' @ w @ ''.>''"
  "plain w \<Longrightarrow> EventInboxPurgePattern Manifest w = ''grctl_events.'' @ w"
  "plain w \<Longrightarrow> WorkerTaskPurgePattern Manifest w = ''grctl_worker_task.*.'' @ w @ ''.>''"
  by (simp_all add: TimerSubject_def WfKVKey_def WorkerCmdSubject_def DirectiveSubject_def HistorySubject_def RunInfoKey_def RunInputKey_def
      RunOutputKey_def RunErrorKey_def RunStateSubject_def WorkerTaskSubject_def
      EventInboxSubject_def WorkflowTypeRegistrySubject_def ListRunInfoByWFIDPattern_def
      ListRunInfoByRunIDPattern_def DirectivePurgePattern_def TimerPurgePattern_def
      EventInboxPurgePattern_def WorkerTaskPurgePattern_def manifest_patterns
      substituteParams_pattern_of expand_def plain_def brace_free_def
      del: substituteParams.simps)

section \<open>Prefixes and fixed subjects\<close>

text \<open>Whatever the values are, the text before the first placeholder stays in front.\<close>

lemma substituteParams_prefix: "plain p \<Longrightarrow> \<exists>z. substituteParams (p @ x) ps = p @ z"
proof (induction ps arbitrary: x)
  case (Cons kv ps)
  obtain k v where "kv = (k, v)" by (cases kv)
  with Cons show ?case
    by (simp add: ReplaceAll_skip plain_def)
qed simp

lemma substituteParams_HasPrefix:
  "plain p \<Longrightarrow> HasPrefix (substituteParams (pattern_of (Lit p # ts)) ps) p"
  using substituteParams_prefix [of p "renders ts" ps] by (auto simp: pattern_of_def)

lemma subject_prefixes:
  "HasPrefix (DirectiveSubject Manifest t w r) ''grctl_directive.''"
  "HasPrefix (HistorySubject Manifest w r) ''grctl_history.''"
  "HasPrefix (RunInfoKey Manifest t w r) ''grctl_run.''"
  "HasPrefix (RunInputKey Manifest w r) ''grctl_run.''"
  "HasPrefix (RunOutputKey Manifest w r) ''grctl_run.''"
  "HasPrefix (RunErrorKey Manifest w r) ''grctl_run.''"
  "HasPrefix (RunStateSubject Manifest w r) ''grctl_state.run_state.''"
  "HasPrefix (WorkerTaskSubject Manifest t w r) ''grctl_worker_task.''"
  "HasPrefix (TimerSubject Manifest w k i) ''grctl_timers.''"
  "HasPrefix (WfKVKey Manifest w r key) ''grctl_wf_kv.''"
  "HasPrefix (EventInboxSubject Manifest w) ''grctl_events.''"
  "HasPrefix (WorkflowTypeRegistrySubject Manifest t) ''grctl_registry.''"
  by (simp_all add: DirectiveSubject_def HistorySubject_def RunInfoKey_def RunInputKey_def
      RunOutputKey_def RunErrorKey_def RunStateSubject_def WorkerTaskSubject_def TimerSubject_def
      WfKVKey_def EventInboxSubject_def WorkflowTypeRegistrySubject_def manifest_patterns
      substituteParams_HasPrefix plain_def del: substituteParams.simps)

lemma fixed_subjects:
  "DirectiveListenerPattern Manifest = ''grctl_directive.>''"
  "HistoryListenerPattern Manifest = ''grctl_history.>''"
  "TimerListenerPattern Manifest = ''grctl_timers.>''"
  "TimerFiredSubject Manifest = ''grctl_timers_fired''"
  "EventInboxListenerPattern Manifest = ''grctl_events.>''"
  "RunStateListenerPattern Manifest = ''grctl_state.run_state.>''"
  "WorkerTaskListenerPattern Manifest = ''grctl_worker_task.>''"
  "WorkflowTypeRegistryListenerPattern Manifest = ''grctl_registry.>''"
  "BgTaskSubject Manifest = ''grctl_bg_task''"
  by (simp_all add: DirectiveListenerPattern_def HistoryListenerPattern_def TimerListenerPattern_def
      TimerFiredSubject_def EventInboxListenerPattern_def RunStateListenerPattern_def
      WorkerTaskListenerPattern_def WorkflowTypeRegistryListenerPattern_def BgTaskSubject_def
      Manifest_def subjectPattern_def subject_entry_def str_lookup_def)

lemma wildcard_subjects:
  "AllRunsInfoKeyPattern Manifest = ''grctl_run.*.*.*.info''"
  "AllRunsInputKeyPattern Manifest = ''grctl_run.*.*.input''"
  "AllRunsOutputKeyPattern Manifest = ''grctl_run.*.*.output''"
  "AllRunsErrorKeyPattern Manifest = ''grctl_run.*.*.error''"
  "AllWfKVKeyPattern Manifest = ''grctl_wf_kv.*.*.*''"
  by code_simp+

section \<open>The order of substitution\<close>

text \<open>Reading a pattern back into pieces, and the check that nothing is lost.\<close>

function template :: "string \<Rightarrow> piece list" where
  "template [] = []"
| "template (c # cs) =
     (if c = CHR ''{''
      then Var (takeWhile (\<lambda>x. x \<noteq> CHR ''}'') cs)
             # template (drop (Suc (length (takeWhile (\<lambda>x. x \<noteq> CHR ''}'') cs))) cs)
      else Lit [c] # template cs)"
  by pat_completeness auto

termination
  by (relation "measure length") auto

definition well_formed :: "string \<Rightarrow> bool" where
  "well_formed p \<longleftrightarrow> renders (template p) = p \<and> list_all wf_piece (template p)"

definition all_patterns :: "manifestConfig \<Rightarrow> string list" where
  "all_patterns m =
     concat (map (\<lambda>(k, sj). sj_SubjectPattern sj # sj_ListenerPattern sj # map snd (sj_Patterns sj))
       (mc_Subjects m))"

lemma subjectPattern_cases:
  "subjectPattern m sk pk = '''' \<or> subjectPattern m sk pk \<in> set (all_patterns m)"
proof (cases "map_of (mc_Subjects m) sk")
  case None
  then show ?thesis by (simp add: subjectPattern_def)
next
  case (Some sj)
  then have mem: "(sk, sj) \<in> set (mc_Subjects m)" by (rule map_of_SomeD)
  show ?thesis
  proof (cases "map_of (sj_Patterns sj) pk")
    case None
    with Some mem show ?thesis
      by (force simp: subjectPattern_def str_lookup_def all_patterns_def)
  next
    case (Some v)
    then have "v \<in> snd ` set (sj_Patterns sj)"
      by (metis imageI map_of_SomeD snd_conv)
    with Some \<open>map_of (mc_Subjects m) sk = Some sj\<close> mem show ?thesis
      by (auto simp: subjectPattern_def str_lookup_def all_patterns_def intro!: bexI [of _ "(sk, sj)"])
  qed
qed

lemma manifest_well_formed_all: "list_all well_formed ('''' # all_patterns Manifest)"
  by (simp add: well_formed_def all_patterns_def Manifest_def subject_entry_def plain_def brace_free_def)

lemma manifest_well_formed: "well_formed (subjectPattern Manifest sk pk)"
  using subjectPattern_cases [of Manifest sk pk] manifest_well_formed_all
  by (auto simp: list_all_iff)

text \<open>
  C28. The subjects do not depend on the order in which Go iterates over the map of
  parameters: for every pattern of the manifest and values without an opening brace, every
  order of the substitutions gives the same subject.
\<close>

theorem substitution_order_irrelevant:
  assumes "distinct (map fst ps)" and "mset qs = mset ps"
    and "\<forall>(k, v)\<in>set ps. brace_free k \<and> plain v"
  shows "substituteParams (subjectPattern Manifest sk pk) qs =
    substituteParams (subjectPattern Manifest sk pk) ps"
proof -
  let ?p = "subjectPattern Manifest sk pk"
  have wf: "renders (template ?p) = ?p" "list_all wf_piece (template ?p)"
    using manifest_well_formed by (auto simp: well_formed_def)
  have sets: "set qs = set ps"
    using assms(2) by (rule mset_eq_setD)
  have "distinct (map fst qs)"
    using assms(1,2) by (metis mset_eq_imp_distinct_iff mset_map)
  with assms(1) sets have "map_of qs = map_of ps"
    using map_of_inject_set by blast
  then have "expand qs = expand ps"
    by (intro ext) (simp add: expand_def split: piece.split)
  with wf assms(3) sets show ?thesis
    using substituteParams_renders [of "template ?p" qs] substituteParams_renders [of "template ?p" ps]
    by simp
qed

theorem substitution_order_irrelevant_witness:
  "substituteParams (subjectPattern Manifest ''history'' ''publish'')
     [(''run_id'', ''r1''), (''wf_id'', ''w1'')] =
   substituteParams (subjectPattern Manifest ''history'' ''publish'')
     [(''wf_id'', ''w1''), (''run_id'', ''r1'')]"
  by (rule substitution_order_irrelevant) (simp_all add: brace_free_def plain_def)

section \<open>Distinct runs have distinct subjects\<close>

definition dot_free :: "string \<Rightarrow> bool" where
  "dot_free s \<longleftrightarrow> CHR ''.'' \<notin> set s"

lemma dot_cancel:
  "dot_free a \<Longrightarrow> dot_free a' \<Longrightarrow> a @ CHR ''.'' # b = a' @ CHR ''.'' # b' \<longleftrightarrow> a = a' \<and> b = b'"
proof (induction a arbitrary: a')
  case Nil
  then show ?case by (cases a') (auto simp: dot_free_def)
next
  case (Cons c a)
  then show ?case by (cases a') (auto simp: dot_free_def)
qed

text \<open>
  C29. Two runs never share a subject: for identifiers without braces and dots, the state, the
  history, the directives, the worker tasks and the run info of different runs are on
  different subjects.
\<close>

theorem subjects_injective:
  assumes "\<forall>s\<in>{t, w, r, t', w', r'}. plain s \<and> dot_free s"
  shows "(RunStateSubject Manifest w r = RunStateSubject Manifest w' r' \<longleftrightarrow> w = w' \<and> r = r') \<and>
    (HistorySubject Manifest w r = HistorySubject Manifest w' r' \<longleftrightarrow> w = w' \<and> r = r') \<and>
    (DirectiveSubject Manifest t w r = DirectiveSubject Manifest t' w' r' \<longleftrightarrow> t = t' \<and> w = w' \<and> r = r') \<and>
    (WorkerTaskSubject Manifest t w r = WorkerTaskSubject Manifest t' w' r' \<longleftrightarrow> t = t' \<and> w = w' \<and> r = r') \<and>
    (RunInfoKey Manifest t w r = RunInfoKey Manifest t' w' r' \<longleftrightarrow> t = t' \<and> w = w' \<and> r = r')"
  using assms
  by (simp add: subjects dot_cancel)

theorem subjects_injective_witness:
  "RunStateSubject Manifest ''w1'' ''r1'' \<noteq> RunStateSubject Manifest ''w1'' ''r2''"
  using subjects_injective [of "''t''" "''w1''" "''r1''" "''t''" "''w1''" "''r2''"]
  by (simp add: plain_def dot_free_def)

end
