(* ===== verification/JetStream.thy ===== *)
theory JetStream
  imports Wire Natsreg
begin

text \<open>
  The state stream as the server sees it. NATS JetStream and its Go client are not part of
  the repository: they are the record \<open>jetstream\<close> of operations over a state \<open>'s\<close> and batch
  handles \<open>'b\<close>, a parameter of every definition that talks to the stream. What the server
  relies on is the locale \<open>state_stream\<close>: a view of the state as a sequence of stored
  messages, and the documented effect of each operation on it. The operations may fail at
  any time; a failure without an answer of the API leaves it open whether a write was done.
\<close>

section \<open>Subjects\<close>

text \<open>Tokens are separated by dots; \<^verbatim>\<open>*\<close> matches one token, a final \<^verbatim>\<open>>\<close> one or more.\<close>

fun split_dots :: "string \<Rightarrow> string list" where
  "split_dots [] = [[]]"
| "split_dots (c # cs) =
     (if c = CHR ''.'' then [] # split_dots cs
      else case split_dots cs of [] \<Rightarrow> [[c]] | t # ts \<Rightarrow> (c # t) # ts)"

fun match_tokens :: "string list \<Rightarrow> string list \<Rightarrow> bool" where
  "match_tokens [] ts = (ts = [])"
| "match_tokens (p # ps) [] = False"
| "match_tokens (p # ps) (t # ts) =
     (if p = ''>'' \<and> ps = [] then True else (p = ''*'' \<or> p = t) \<and> match_tokens ps ts)"

lemma match_tokens_rest [simp]: "match_tokens [''>''] ts \<longleftrightarrow> ts \<noteq> []"
  by (cases ts) simp_all

definition subject_matches :: "string \<Rightarrow> string \<Rightarrow> bool" where
  "subject_matches pattern subject = match_tokens (split_dots pattern) (split_dots subject)"

lemma split_dots_nonempty [simp]: "split_dots s \<noteq> []"
  by (induction s) (auto split: list.splits)

lemma split_dots_dot: "split_dots (a @ CHR ''.'' # b) = split_dots a @ split_dots b"
  by (induction a) (auto split: list.splits)

lemma split_dots_token: "dot_free t \<Longrightarrow> split_dots t = [t]"
  by (induction t) (auto simp: dot_free_def)

lemma split_dots_length: "length (split_dots s) = Suc (count_list s (CHR ''.''))"
proof (induction s)
  case (Cons c cs)
  then show ?case by (cases "split_dots cs") simp_all
qed simp

lemma split_dots_join:
  "dot_free t \<Longrightarrow> split_dots (t @ CHR ''.'' # s) = t # split_dots s"
  by (simp add: split_dots_dot split_dots_token)

text \<open>A subject without wildcards matches itself and nothing else.\<close>

definition literal :: "string \<Rightarrow> bool" where
  "literal s \<longleftrightarrow> list_all (\<lambda>t. t \<noteq> ''*'' \<and> t \<noteq> ''>'') (split_dots s)"

fun join_dots :: "string list \<Rightarrow> string" where
  "join_dots [] = []"
| "join_dots [t] = t"
| "join_dots (t # ts) = t @ CHR ''.'' # join_dots ts"

lemma join_split_dots: "join_dots (split_dots s) = s"
proof (induction s)
  case (Cons c cs)
  then show ?case
    by (cases "split_dots cs" rule: join_dots.cases) auto
qed simp

lemma match_tokens_literal:
  "list_all (\<lambda>t. t \<noteq> ''*'' \<and> t \<noteq> ''>'') ps \<Longrightarrow> match_tokens ps ts \<longleftrightarrow> ps = ts"
  by (induction ps ts rule: match_tokens.induct) auto

lemma subject_matches_literal: "literal p \<Longrightarrow> subject_matches p s \<longleftrightarrow> p = s"
  by (metis join_split_dots literal_def match_tokens_literal subject_matches_def)

section \<open>The tokens of the subjects\<close>

text \<open>An identifier that is one token of a subject and no wildcard.\<close>

definition token :: "string \<Rightarrow> bool" where
  "token s \<longleftrightarrow> plain s \<and> dot_free s \<and> s \<noteq> ''*'' \<and> s \<noteq> ''>''"

lemma tokenD: "token s \<Longrightarrow> plain s" "token s \<Longrightarrow> dot_free s" "token s \<Longrightarrow> s \<noteq> ''*'' \<and> s \<noteq> ''>''"
  by (simp_all add: token_def)

lemma star_plain: "plain ''*''" "dot_free ''*''"
  by (simp_all add: plain_def dot_free_def)

lemma subject_tokens:
  "plain t \<Longrightarrow> dot_free t \<Longrightarrow> plain w \<Longrightarrow> dot_free w \<Longrightarrow> plain r \<Longrightarrow> dot_free r \<Longrightarrow>
     split_dots (DirectiveSubject Manifest t w r) = [''grctl_directive'', t, w, r]"
  "plain w \<Longrightarrow> dot_free w \<Longrightarrow> plain r \<Longrightarrow> dot_free r \<Longrightarrow>
     split_dots (HistorySubject Manifest w r) = [''grctl_history'', w, r]"
  "plain t \<Longrightarrow> dot_free t \<Longrightarrow> plain w \<Longrightarrow> dot_free w \<Longrightarrow> plain r \<Longrightarrow> dot_free r \<Longrightarrow>
     split_dots (RunInfoKey Manifest t w r) = [''grctl_run'', t, w, r, ''info'']"
  "plain w \<Longrightarrow> dot_free w \<Longrightarrow> plain r \<Longrightarrow> dot_free r \<Longrightarrow>
     split_dots (RunInputKey Manifest w r) = [''grctl_run'', w, r, ''input'']"
  "plain w \<Longrightarrow> dot_free w \<Longrightarrow> plain r \<Longrightarrow> dot_free r \<Longrightarrow>
     split_dots (RunOutputKey Manifest w r) = [''grctl_run'', w, r, ''output'']"
  "plain w \<Longrightarrow> dot_free w \<Longrightarrow> plain r \<Longrightarrow> dot_free r \<Longrightarrow>
     split_dots (RunErrorKey Manifest w r) = [''grctl_run'', w, r, ''error'']"
  "plain w \<Longrightarrow> dot_free w \<Longrightarrow> plain r \<Longrightarrow> dot_free r \<Longrightarrow>
     split_dots (RunStateSubject Manifest w r) = [''grctl_state'', ''run_state'', w, r]"
  "plain t \<Longrightarrow> dot_free t \<Longrightarrow> plain w \<Longrightarrow> dot_free w \<Longrightarrow> plain r \<Longrightarrow> dot_free r \<Longrightarrow>
     split_dots (WorkerTaskSubject Manifest t w r) = [''grctl_worker_task'', t, w, r]"
  "plain w \<Longrightarrow> dot_free w \<Longrightarrow> plain (timer_kind_str k) \<Longrightarrow> dot_free (timer_kind_str k) \<Longrightarrow> plain i \<Longrightarrow>
     split_dots (TimerSubject Manifest w k i) = ''grctl_timers'' # w # timer_kind_str k # split_dots i"
  "plain w \<Longrightarrow> dot_free w \<Longrightarrow> plain r \<Longrightarrow> dot_free r \<Longrightarrow> plain i \<Longrightarrow>
     split_dots (WfKVKey Manifest w r i) = ''grctl_wf_kv'' # w # r # split_dots i"
  "plain w \<Longrightarrow> dot_free w \<Longrightarrow> split_dots (EventInboxSubject Manifest w) = [''grctl_events'', w]"
  "plain t \<Longrightarrow> dot_free t \<Longrightarrow> split_dots (WorkflowTypeRegistrySubject Manifest t) = [''grctl_registry'', t]"
  "plain t \<Longrightarrow> dot_free t \<Longrightarrow> plain w \<Longrightarrow> dot_free w \<Longrightarrow>
     split_dots (ListRunInfoByWFIDPattern Manifest t w) = [''grctl_run'', t, w, ''*'', ''info'']"
  "plain r \<Longrightarrow> dot_free r \<Longrightarrow>
     split_dots (ListRunInfoByRunIDPattern Manifest r) = [''grctl_run'', ''*'', ''*'', r, ''info'']"
  "plain w \<Longrightarrow> dot_free w \<Longrightarrow>
     split_dots (DirectivePurgePattern Manifest w) = [''grctl_directive'', ''*'', w, ''>'']"
  "plain w \<Longrightarrow> dot_free w \<Longrightarrow>
     split_dots (TimerPurgePattern Manifest w) = [''grctl_timers'', w, ''>'']"
  "plain w \<Longrightarrow> dot_free w \<Longrightarrow> split_dots (EventInboxPurgePattern Manifest w) = [''grctl_events'', w]"
  "plain w \<Longrightarrow> dot_free w \<Longrightarrow>
     split_dots (WorkerTaskPurgePattern Manifest w) = [''grctl_worker_task'', ''*'', w, ''>'']"
  "split_dots (BgTaskSubject Manifest) = [''grctl_bg_task'']"
  by (simp_all add: subjects split_dots_join split_dots_token fixed_subjects)

lemma subject_literals:
  "token w \<Longrightarrow> token r \<Longrightarrow> literal (RunStateSubject Manifest w r)"
  "token w \<Longrightarrow> token r \<Longrightarrow> literal (HistorySubject Manifest w r)"
  "token w \<Longrightarrow> literal (EventInboxSubject Manifest w)"
  "token t \<Longrightarrow> literal (WorkflowTypeRegistrySubject Manifest t)"
  "token t \<Longrightarrow> token w \<Longrightarrow> token r \<Longrightarrow> literal (RunInfoKey Manifest t w r)"
  by (simp_all add: literal_def subject_tokens token_def)

section \<open>Messages and the stream\<close>

type_synonym header = "(string \<times> string) list"

record nats_msg =
  nm_Subject :: string
  nm_Header :: header
  nm_Data :: bytes

record stored =
  sm_Sequence :: u64
  sm_Subject :: string
  sm_Header :: header
  sm_Data :: bytes

text \<open>
  The view of a stream: the messages it holds, in order; the last sequence number it has
  assigned; the message identifiers it remembers.
\<close>

record stream =
  st_msgs :: "stored list"
  st_last :: nat
  st_ids :: "string list"

definition stream_empty :: stream where
  "stream_empty = \<lparr>st_msgs = [], st_last = 0, st_ids = []\<rparr>"

definition last_match :: "stream \<Rightarrow> string \<Rightarrow> stored option" where
  "last_match st pattern =
     (let ms = filter (\<lambda>m. subject_matches pattern (sm_Subject m)) (st_msgs st)
      in if ms = [] then None else Some (last ms))"

text \<open>The last sequence number of one subject; 0 when it has no message.\<close>

definition last_subject_seq :: "stream \<Rightarrow> string \<Rightarrow> u64" where
  "last_subject_seq st subject =
     (let ms = filter (\<lambda>m. sm_Subject m = subject) (st_msgs st)
      in if ms = [] then 0 else sm_Sequence (last ms))"

definition from_seq :: "stream \<Rightarrow> string \<Rightarrow> u64 option \<Rightarrow> stored list" where
  "from_seq st pattern start =
     filter (\<lambda>m. subject_matches pattern (sm_Subject m) \<and>
               (case start of None \<Rightarrow> True | Some q \<Rightarrow> q \<le> sm_Sequence m)) (st_msgs st)"

text \<open>The last message of every subject that matches.\<close>

fun last_per_subject :: "stored list \<Rightarrow> stored list" where
  "last_per_subject [] = []"
| "last_per_subject (m # ms) =
     (if list_ex (\<lambda>n. sm_Subject n = sm_Subject m) ms then last_per_subject ms
      else m # last_per_subject ms)"

definition lasts_match :: "stream \<Rightarrow> string \<Rightarrow> stored list" where
  "lasts_match st pattern =
     last_per_subject (filter (\<lambda>m. subject_matches pattern (sm_Subject m)) (st_msgs st))"

abbreviation "hdr_expected \<equiv> ''Nats-Expected-Last-Subject-Sequence''"
abbreviation "hdr_msg_id \<equiv> ''Nats-Msg-Id''"
abbreviation "hdr_rollup \<equiv> ''Nats-Rollup''"
abbreviation "hdr_schedule \<equiv> ''Nats-Schedule''"
abbreviation "hdr_schedule_target \<equiv> ''Nats-Schedule-Target''"

text \<open>Storing one message: a rollup of the subject removes its earlier messages.\<close>

definition store_msg :: "stream \<Rightarrow> nats_msg \<Rightarrow> stream" where
  "store_msg st m =
     (let kept = (if map_of (nm_Header m) hdr_rollup = Some ''sub''
                  then filter (\<lambda>n. sm_Subject n \<noteq> nm_Subject m) (st_msgs st) else st_msgs st);
          seq = Suc (st_last st)
      in \<lparr>st_msgs = kept @
            [\<lparr>sm_Sequence = of_nat seq, sm_Subject = nm_Subject m, sm_Header = nm_Header m,
              sm_Data = nm_Data m\<rparr>],
          st_last = seq,
          st_ids = (case map_of (nm_Header m) hdr_msg_id of
                      None \<Rightarrow> st_ids st | Some i \<Rightarrow> i # st_ids st)\<rparr>)"

definition store_batch :: "stream \<Rightarrow> nats_msg list \<Rightarrow> stream" where
  "store_batch st ms = fold (\<lambda>m st. store_msg st m) ms st"

text \<open>
  The conditions under which a batch is taken: every expected sequence number is the last
  one of the subject, no message identifier is known, and there are numbers left.
\<close>

definition expectation_met :: "stream \<Rightarrow> nats_msg \<Rightarrow> bool" where
  "expectation_met st m \<longleftrightarrow>
     (case map_of (nm_Header m) hdr_expected of
        None \<Rightarrow> True
      | Some n \<Rightarrow> n = decimal (unat (last_subject_seq st (nm_Subject m))))"

definition is_duplicate :: "stream \<Rightarrow> nats_msg \<Rightarrow> bool" where
  "is_duplicate st m \<longleftrightarrow>
     (case map_of (nm_Header m) hdr_msg_id of None \<Rightarrow> False | Some i \<Rightarrow> i \<in> set (st_ids st))"

definition batch_accepted :: "stream \<Rightarrow> nats_msg list \<Rightarrow> bool" where
  "batch_accepted st ms \<longleftrightarrow>
     list_all (expectation_met st) ms \<and> \<not> list_ex (is_duplicate st) ms \<and>
     st_last st + length ms < 2 ^ 64"

text \<open>A single publish: a duplicate is acknowledged and dropped.\<close>

definition publish_msg :: "stream \<Rightarrow> nats_msg \<Rightarrow> stream" where
  "publish_msg st m = (if is_duplicate st m then st else store_msg st m)"

definition publish_accepted :: "stream \<Rightarrow> nats_msg \<Rightarrow> bool" where
  "publish_accepted st m \<longleftrightarrow> is_duplicate st m \<or> expectation_met st m \<and> Suc (st_last st) < 2 ^ 64"

definition delete_seq :: "stream \<Rightarrow> u64 \<Rightarrow> stream" where
  "delete_seq st q = st\<lparr>st_msgs := filter (\<lambda>m. sm_Sequence m \<noteq> q) (st_msgs st)\<rparr>"

definition purge_subject :: "stream \<Rightarrow> string \<Rightarrow> stream" where
  "purge_subject st pattern =
     st\<lparr>st_msgs := filter (\<lambda>m. \<not> subject_matches pattern (sm_Subject m)) (st_msgs st)\<rparr>"

section \<open>Well-formed streams\<close>

text \<open>
  The messages stand in the order of their sequence numbers, which are positive, distinct
  and at most the last one assigned; the last one assigned fits its type.
\<close>

definition seqs :: "stream \<Rightarrow> nat list" where
  "seqs st = map (\<lambda>m. unat (sm_Sequence m)) (st_msgs st)"

definition wf_stream :: "stream \<Rightarrow> bool" where
  "wf_stream st \<longleftrightarrow>
     sorted_wrt (<) (seqs st) \<and> list_all (\<lambda>n. 0 < n \<and> n \<le> st_last st) (seqs st) \<and>
     st_last st < 2 ^ 64"

fun assign :: "nat \<Rightarrow> nats_msg list \<Rightarrow> stored list" where
  "assign n [] = []"
| "assign n (m # ms) =
     \<lparr>sm_Sequence = of_nat (Suc n), sm_Subject = nm_Subject m, sm_Header = nm_Header m,
      sm_Data = nm_Data m\<rparr> # assign (Suc n) ms"

definition no_rollup :: "nats_msg \<Rightarrow> bool" where
  "no_rollup m \<longleftrightarrow> map_of (nm_Header m) hdr_rollup = None"

lemma unat_of_nat_small: "n < 2 ^ 64 \<Longrightarrow> unat (of_nat n :: u64) = n"
  by (simp add: unat_of_nat take_bit_nat_eq_self)

lemma sorted_wrt_filter_map:
  "sorted_wrt (<) (map f xs) \<Longrightarrow> sorted_wrt (<) (map f (filter P xs))"
  by (induction xs) auto

lemma wf_stream_filter:
  "wf_stream st \<Longrightarrow> wf_stream (st\<lparr>st_msgs := filter P (st_msgs st)\<rparr>)"
  by (auto simp: wf_stream_def seqs_def sorted_wrt_filter_map list_all_iff)

lemma wf_stream_delete: "wf_stream st \<Longrightarrow> wf_stream (delete_seq st q)"
  by (simp add: delete_seq_def wf_stream_filter)

lemma wf_stream_purge: "wf_stream st \<Longrightarrow> wf_stream (purge_subject st p)"
  by (simp add: purge_subject_def wf_stream_filter)

lemma wf_stream_store_msg:
  assumes "wf_stream st" and "Suc (st_last st) < 2 ^ 64"
  shows "wf_stream (store_msg st m)"
proof -
  have "wf_stream (st\<lparr>st_msgs := filter P (st_msgs st)\<rparr>)" for P
    using assms(1) by (rule wf_stream_filter)
  from this [of "\<lambda>n. True"] this [of "\<lambda>n. sm_Subject n \<noteq> nm_Subject m"] assms(2)
  show ?thesis
    by (auto simp: wf_stream_def store_msg_def Let_def seqs_def list_all_iff sorted_wrt_append
        unat_of_nat_small less_Suc_eq_le simp del: of_nat_Suc)
qed

lemma store_batch_simps [simp]:
  "store_batch st [] = st" "store_batch st (m # ms) = store_batch (store_msg st m) ms"
  by (simp_all add: store_batch_def)

lemma st_last_store_msg [simp]: "st_last (store_msg st m) = Suc (st_last st)"
  by (simp add: store_msg_def Let_def)

lemma st_last_store_batch [simp]: "st_last (store_batch st ms) = st_last st + length ms"
  by (induction ms arbitrary: st) auto

lemma wf_stream_store_batch:
  "wf_stream st \<Longrightarrow> st_last st + length ms < 2 ^ 64 \<Longrightarrow> wf_stream (store_batch st ms)"
  by (induction ms arbitrary: st) (auto simp: wf_stream_store_msg)

lemma store_msg_msgs:
  "no_rollup m \<Longrightarrow> st_msgs (store_msg st m) = st_msgs st @ assign (st_last st) [m]"
  by (simp add: store_msg_def no_rollup_def)

lemma store_batch_msgs:
  "list_all no_rollup ms \<Longrightarrow> st_msgs (store_batch st ms) = st_msgs st @ assign (st_last st) ms"
  by (induction ms arbitrary: st) (simp_all add: store_msg_msgs)

lemma store_batch_ids:
  "set (st_ids st) \<subseteq> set (st_ids (store_batch st ms)) \<and>
   (m \<in> set ms \<longrightarrow> map_of (nm_Header m) hdr_msg_id = Some i \<longrightarrow> i \<in> set (st_ids (store_batch st ms)))"
proof (induction ms arbitrary: st)
  case (Cons m' ms)
  have "set (st_ids st) \<subseteq> set (st_ids (store_msg st m'))"
    by (auto simp: store_msg_def Let_def split: option.splits)
  moreover have "map_of (nm_Header m') hdr_msg_id = Some i \<Longrightarrow> i \<in> set (st_ids (store_msg st m'))"
    by (simp add: store_msg_def Let_def)
  ultimately show ?case using Cons [of "store_msg st m'"] by auto
qed simp

lemma wf_stream_publish: "wf_stream st \<Longrightarrow> publish_accepted st m \<Longrightarrow> wf_stream (publish_msg st m)"
  by (auto simp: publish_msg_def publish_accepted_def wf_stream_store_msg)

lemma wf_stream_empty: "wf_stream stream_empty"
  by (simp add: wf_stream_def stream_empty_def seqs_def)

text \<open>In a well-formed stream the sequence number determines the message.\<close>

lemma wf_stream_unique:
  assumes "wf_stream st" and "m \<in> set (st_msgs st)" and "n \<in> set (st_msgs st)"
    and "sm_Sequence m = sm_Sequence n"
  shows "m = n"
proof -
  have "distinct (seqs st)"
    using assms(1) by (auto simp: wf_stream_def strict_sorted_iff)
  with assms(2-4) show ?thesis
    by (auto simp: seqs_def distinct_map inj_on_def)
qed

lemma last_match_literal:
  assumes "literal p"
  shows "last_subject_seq st p = (case last_match st p of None \<Rightarrow> 0 | Some m \<Rightarrow> sm_Sequence m)"
proof -
  have "filter (\<lambda>m. subject_matches p (sm_Subject m)) (st_msgs st) =
      filter (\<lambda>m. sm_Subject m = p) (st_msgs st)"
    by (rule filter_cong) (simp_all add: subject_matches_literal [OF assms] eq_commute)
  then show ?thesis
    by (simp add: last_subject_seq_def last_match_def Let_def)
qed

lemma last_match_SomeD:
  "last_match st p = Some m \<Longrightarrow> m \<in> set (st_msgs st) \<and> subject_matches p (sm_Subject m)"
  using last_in_set [of "filter (\<lambda>m. subject_matches p (sm_Subject m)) (st_msgs st)"]
  by (simp add: last_match_def Let_def split: if_splits)

lemma last_match_append:
  assumes "st_msgs st' = st_msgs st @ xs"
  shows "last_match st' p =
    (let ms = filter (\<lambda>m. subject_matches p (sm_Subject m)) xs
     in if ms = [] then last_match st p else Some (last ms))"
  using assms by (simp add: last_match_def Let_def)

section \<open>Histories of a stream\<close>

text \<open>
  What any client of the stream may do to it, one operation at a time, and what it has done
  to it after a while.
\<close>

inductive stream_step :: "stream \<Rightarrow> stream \<Rightarrow> bool" where
  publish: "publish_accepted st m \<Longrightarrow> stream_step st (publish_msg st m)"
| batch: "batch_accepted st ms \<Longrightarrow> stream_step st (store_batch st ms)"
| delete: "stream_step st (delete_seq st q)"
| purge: "stream_step st (purge_subject st p)"

inductive_cases stream_step_cases: "stream_step st st'"

abbreviation stream_evolves :: "stream \<Rightarrow> stream \<Rightarrow> bool" where
  "stream_evolves \<equiv> stream_step\<^sup>*\<^sup>*"

lemmas one_step = stream_step.intros [THEN r_into_rtranclp [of stream_step]]

lemma store_msg_old:
  assumes "n \<in> set (st_msgs (store_msg st m))" and "unat (sm_Sequence n) \<le> st_last st"
    and "Suc (st_last st) < 2 ^ 64"
  shows "n \<in> set (st_msgs st)"
  using assms
  by (auto simp: store_msg_def Let_def unat_of_nat_small simp del: of_nat_Suc split: if_splits)

lemma store_batch_old:
  "n \<in> set (st_msgs (store_batch st ms)) \<Longrightarrow> unat (sm_Sequence n) \<le> st_last st \<Longrightarrow>
   st_last st + length ms < 2 ^ 64 \<Longrightarrow> n \<in> set (st_msgs st)"
proof (induction ms arbitrary: st)
  case (Cons m ms)
  then have "n \<in> set (st_msgs (store_msg st m))" by simp
  with Cons.prems show ?case by (auto intro: store_msg_old)
qed simp

lemma stream_step_old:
  assumes "stream_step st st'" and "n \<in> set (st_msgs st')" and "unat (sm_Sequence n) \<le> st_last st"
  shows "n \<in> set (st_msgs st)"
  using assms
proof cases
  case (publish m)
  with assms(2,3) show ?thesis
    by (auto simp: publish_msg_def publish_accepted_def intro: store_msg_old split: if_splits)
next
  case (batch ms)
  with assms(2,3) show ?thesis
    by (auto simp: batch_accepted_def intro: store_batch_old)
qed (use assms(2) in \<open>auto simp: delete_seq_def purge_subject_def\<close>)

lemma stream_step_wf:
  assumes "stream_step st st'" and "wf_stream st"
  shows "wf_stream st' \<and> st_last st \<le> st_last st'"
  using assms
proof cases
  case (publish m)
  with assms(2) show ?thesis
    using wf_stream_publish [of st m] by (auto simp: publish_msg_def)
next
  case (batch ms)
  with assms(2) show ?thesis
    by (auto simp: wf_stream_store_batch batch_accepted_def)
qed (use assms(2) in
  \<open>auto simp: wf_stream_delete wf_stream_purge\<close>, auto simp: delete_seq_def purge_subject_def)

text \<open>A message with an old number was there before, whatever happened in between.\<close>

lemma stream_evolves_old:
  assumes "stream_evolves st st'" and "wf_stream st"
  shows "wf_stream st' \<and> st_last st \<le> st_last st' \<and>
    (\<forall>n \<in> set (st_msgs st'). unat (sm_Sequence n) \<le> st_last st \<longrightarrow> n \<in> set (st_msgs st))"
  using assms
proof (induction rule: rtranclp_induct)
  case (step y z)
  then have *: "wf_stream y" "st_last st \<le> st_last y"
    "\<forall>n\<in>set (st_msgs y). unat (sm_Sequence n) \<le> st_last st \<longrightarrow> n \<in> set (st_msgs st)" by auto
  with step stream_step_wf [of y z] have "wf_stream z" "st_last y \<le> st_last z" by auto
  with * stream_step_old [OF step(2)] show ?case by force
qed simp

section \<open>The operations\<close>

record ('s, 'b) jetstream =
  js_publish :: "'s \<Rightarrow> nats_msg \<Rightarrow> 's \<times> gerr option"
  js_new_batch :: "'s \<Rightarrow> 's \<times> 'b res"
  js_add_msg :: "'s \<Rightarrow> 'b \<Rightarrow> nats_msg \<Rightarrow> 's \<times> 'b res"
  js_commit_msg :: "'s \<Rightarrow> 'b \<Rightarrow> nats_msg \<Rightarrow> 's \<times> gerr option"
  js_get_last :: "'s \<Rightarrow> string \<Rightarrow> stored res"
  js_get_batch :: "'s \<Rightarrow> string \<Rightarrow> u64 option \<Rightarrow> nat \<Rightarrow> stored res list res"
  js_get_lasts :: "'s \<Rightarrow> string \<Rightarrow> stored res list res"
  js_delete :: "'s \<Rightarrow> u64 \<Rightarrow> 's \<times> gerr option"
  js_purge :: "'s \<Rightarrow> string \<Rightarrow> 's \<times> gerr option"

text \<open>
  What an iterator over messages yields: all of them; the library's sentinel if there are
  none; or a prefix and then another error.
\<close>

definition yields :: "stored list \<Rightarrow> stored res list \<Rightarrow> bool" where
  "yields ms items \<longleftrightarrow>
     items = map Ok ms \<or>
     ms = [] \<and> (\<exists>e. items = [Err e] \<and> errors_is_lib e ErrNoMessages) \<or>
     (\<exists>k e. items = map Ok (take k ms) @ [Err e] \<and> \<not> errors_is_lib e ErrNoMessages)"

locale state_stream =
  fixes js :: "('s, 'b) jetstream"
    and view :: "'s \<Rightarrow> stream"
    and staged :: "'b \<Rightarrow> nats_msg list"
  assumes publish_ok:
      "js_publish js s m = (s', None) \<Longrightarrow>
       publish_accepted (view s) m \<and> view s' = publish_msg (view s) m"
    and publish_failed:
      "js_publish js s m = (s', Some e) \<Longrightarrow>
       view s' = view s \<or>
       errors_as_api e = None \<and> publish_accepted (view s) m \<and> view s' = publish_msg (view s) m"
    and new_batch:
      "js_new_batch js s = (s', r) \<Longrightarrow>
       view s' = view s \<and> (\<forall>b. r = Ok b \<longrightarrow> staged b = []) \<and> (\<forall>p. r \<noteq> Panic p)"
    and add_msg:
      "js_add_msg js s b m = (s', r) \<Longrightarrow>
       view s' = view s \<and> (\<forall>b'. r = Ok b' \<longrightarrow> staged b' = staged b @ [m]) \<and> (\<forall>p. r \<noteq> Panic p)"
    and commit_ok:
      "js_commit_msg js s b m = (s', None) \<Longrightarrow>
       batch_accepted (view s) (staged b @ [m]) \<and> view s' = store_batch (view s) (staged b @ [m])"
    and commit_failed:
      "js_commit_msg js s b m = (s', Some e) \<Longrightarrow>
       view s' = view s \<or>
       errors_as_api e = None \<and> batch_accepted (view s) (staged b @ [m]) \<and>
         view s' = store_batch (view s) (staged b @ [m])"
    and get_last_ok: "js_get_last js s p = Ok x \<Longrightarrow> last_match (view s) p = Some x"
    and get_last_none:
      "js_get_last js s p = Err e \<Longrightarrow> errors_is_lib e ErrMsgNotFound \<Longrightarrow> last_match (view s) p = None"
    and get_last_total: "js_get_last js s p \<noteq> Panic q"
    and get_batch_ok: "js_get_batch js s p start n = Ok items \<Longrightarrow> yields (take n (from_seq (view s) p start)) items"
    and get_batch_total: "js_get_batch js s p start n \<noteq> Panic q"
    and get_lasts_ok: "js_get_lasts js s p = Ok items \<Longrightarrow> yields (lasts_match (view s) p) items"
    and get_lasts_total: "js_get_lasts js s p \<noteq> Panic q"
    and delete_ok: "js_delete js s seq = (s', None) \<Longrightarrow> view s' = delete_seq (view s) seq"
    and delete_failed:
      "js_delete js s seq = (s', Some e) \<Longrightarrow> view s' = view s \<or> view s' = delete_seq (view s) seq"
    and purge_ok: "js_purge js s p = (s', None) \<Longrightarrow> view s' = purge_subject (view s) p"
    and purge_failed:
      "js_purge js s p = (s', Some e) \<Longrightarrow> view s' = view s \<or> view s' = purge_subject (view s) p"

text \<open>Every operation is a step of the stream's history, or leaves the stream alone.\<close>

context state_stream
begin

lemma publish_step:
  "js_publish js s m = (s', r) \<Longrightarrow> stream_evolves (view s) (view s')"
  by (cases r) (auto dest!: publish_ok publish_failed intro: one_step)

lemma commit_step:
  "js_commit_msg js s b m = (s', r) \<Longrightarrow> stream_evolves (view s) (view s')"
  by (cases r) (auto dest!: commit_ok commit_failed intro: one_step)

lemma delete_step:
  "js_delete js s n = (s', r) \<Longrightarrow> stream_evolves (view s) (view s')"
  by (cases r) (auto dest!: delete_ok delete_failed intro: one_step)

lemma purge_step:
  "js_purge js s p = (s', r) \<Longrightarrow> stream_evolves (view s) (view s')"
  by (cases r) (auto dest!: purge_ok purge_failed intro: one_step)

end

section \<open>An in-memory stream\<close>

text \<open>
  A stream that keeps its messages in memory and never loses a connection: its operations
  are the functions above, and its errors are those of the JetStream API.
\<close>

definition mem_commit :: "stream \<Rightarrow> nats_msg list \<Rightarrow> nats_msg \<Rightarrow> stream \<times> gerr option" where
  "mem_commit st b m =
     (let ms = b @ [m] in
      if \<not> list_all (expectation_met st) ms then (st, Some (APIError 10071 ''wrong last sequence''))
      else if list_ex (is_duplicate st) ms then (st, Some (APIError 10201 ''duplicate message id''))
      else if batch_accepted st ms then (store_batch st ms, None)
      else (st, Some (APIError 10077 ''maximum messages exceeded'')))"

definition mem_js :: "(stream, nats_msg list) jetstream" where
  "mem_js =
     \<lparr>js_publish = (\<lambda>st m.
        if publish_accepted st m then (publish_msg st m, None)
        else (st, Some (APIError 10071 ''wrong last sequence''))),
      js_new_batch = (\<lambda>st. (st, Ok [])),
      js_add_msg = (\<lambda>st b m. (st, Ok (b @ [m]))),
      js_commit_msg = mem_commit,
      js_get_last = (\<lambda>st p.
        case last_match st p of
          None \<Rightarrow> Err (LibErr ErrMsgNotFound ''nats: message not found'') | Some m \<Rightarrow> Ok m),
      js_get_batch = (\<lambda>st p start n.
        let ms = take n (from_seq st p start) in
        Ok (if ms = [] then [Err (LibErr ErrNoMessages ''no messages'')] else map Ok ms)),
      js_get_lasts = (\<lambda>st p.
        let ms = lasts_match st p in
        Ok (if ms = [] then [Err (LibErr ErrNoMessages ''no messages'')] else map Ok ms)),
      js_delete = (\<lambda>st n. (delete_seq st n, None)),
      js_purge = (\<lambda>st p. (purge_subject st p, None))\<rparr>"

lemma yields_all: "yields [] [Err (LibErr ErrNoMessages t)]" "yields ms (map Ok ms)"
  by (simp_all add: yields_def)

interpretation mem: state_stream mem_js "\<lambda>st. st" "\<lambda>b. b"
  by unfold_locales
    (auto simp: mem_js_def mem_commit_def yields_all Let_def split: if_splits option.splits)

end
