(* ===== verification/GoTime.thy ===== *)
theory GoTime
  imports Prelude
begin

text \<open>
  \<^verbatim>\<open>Time.Format(time.RFC3339Nano)\<close> for a time in UTC: the calendar date and the time of day
  of a number of nanoseconds since the zero time (1 January of the year 1), and their
  rendering. The server writes this format into the header that schedules a timer.
\<close>

section \<open>Calendar\<close>

definition is_leap :: "int \<Rightarrow> bool" where
  "is_leap y \<longleftrightarrow> y mod 4 = 0 \<and> (y mod 100 \<noteq> 0 \<or> y mod 400 = 0)"

text \<open>The days before the first of January of a year.\<close>

definition days_before_year :: "int \<Rightarrow> int" where
  "days_before_year y = (let p = y - 1 in 365 * p + p div 4 - p div 100 + p div 400)"

definition month_length :: "int \<Rightarrow> nat \<Rightarrow> int" where
  "month_length y m =
     (if m = 2 then (if is_leap y then 29 else 28)
      else if m \<in> {4, 6, 9, 11} then 30 else 31)"

text \<open>From a day number (0 is the first of January of the year 1) to year and day of the year.\<close>

definition year_of_day :: "int \<Rightarrow> int \<times> int" where
  "year_of_day d =
     (let n400 = d div 146097; d1 = d mod 146097;
          n100 = min 3 (d1 div 36524); d2 = d1 - n100 * 36524;
          n4 = d2 div 1461; d3 = d2 mod 1461;
          n1 = min 3 (d3 div 365)
      in (400 * n400 + 100 * n100 + 4 * n4 + n1 + 1, d3 - n1 * 365))"

fun month_of_day :: "int \<Rightarrow> nat \<Rightarrow> nat \<Rightarrow> int \<Rightarrow> nat \<times> int" where
  "month_of_day y 0 m d = (m, d + 1)"
| "month_of_day y (Suc n) m d =
     (if d < month_length y m then (m, d + 1) else month_of_day y n (Suc m) (d - month_length y m))"

section \<open>Rendering\<close>

definition pad :: "nat \<Rightarrow> nat \<Rightarrow> string" where
  "pad w n = (let s = decimal n in replicate (w - length s) (CHR ''0'') @ s)"

text \<open>The nanoseconds with nine digits and without trailing zeros; nothing for 0.\<close>

definition fraction :: "nat \<Rightarrow> string" where
  "fraction ns =
     (if ns = 0 then ''''
      else ''.'' @ rev (dropWhile (\<lambda>c. c = CHR ''0'') (rev (pad 9 ns))))"

definition Format_RFC3339Nano :: "time \<Rightarrow> string" where
  "Format_RFC3339Nano t =
     (let day = t div 86400000000000; ns = nat (t mod 86400000000000);
          (y, yd) = year_of_day day;
          (m, d) = month_of_day y 11 1 yd;
          sec = ns div 1000000000
      in pad 4 (nat y) @ ''-'' @ pad 2 m @ ''-'' @ pad 2 (nat d) @ ''T'' @
         pad 2 (sec div 3600) @ '':'' @ pad 2 (sec div 60 mod 60) @ '':'' @ pad 2 (sec mod 60) @
         fraction (ns mod 1000000000) @ ''Z'')"

section \<open>The calendar is right\<close>

text \<open>
  The four steps of \<open>year_of_day\<close> write the day number as 400-year, 100-year, 4-year and
  1-year cycles and a rest.
\<close>

lemma year_of_day_cycles:
  assumes "year_of_day d = (y, yd)"
  obtains a b c e where
    "y = 400 * a + 100 * b + 4 * c + e + 1" "d = 146097 * a + 36524 * b + 1461 * c + 365 * e + yd"
    "0 \<le> b" "b \<le> 3" "0 \<le> c" "c \<le> 24" "0 \<le> e" "e \<le> 3"
    "0 \<le> yd" "yd \<le> 365" "yd = 365 \<Longrightarrow> e = 3 \<and> (c < 24 \<or> b = 3)"
proof -
  define a d1 where "a = d div 146097" and "d1 = d mod 146097"
  define b where "b = min 3 (d1 div 36524)"
  define d2 where "d2 = d1 - b * 36524"
  define c d3 where "c = d2 div 1461" and "d3 = d2 mod 1461"
  define e where "e = min 3 (d3 div 365)"
  have res: "y = 400 * a + 100 * b + 4 * c + e + 1" "yd = d3 - e * 365"
    using assms
    unfolding year_of_day_def Let_def a_def d1_def b_def d2_def c_def d3_def e_def prod.inject
    by (auto simp only: mult.commute)
  have d: "d = 146097 * a + d1" "0 \<le> d1" "d1 < 146097"
    by (simp_all add: a_def d1_def)
  define x r where "x = d1 div 36524" and "r = d1 mod 36524"
  have q1: "36524 * x + r = d1" "0 \<le> r" "r < 36524" "0 \<le> x"
    using d(2) by (simp_all add: x_def r_def pos_imp_zdiv_nonneg_iff)
  have b_x: "b = min 3 x" by (simp add: b_def x_def)
  have b: "0 \<le> b" "b \<le> 3" "0 \<le> d2" "d2 \<le> 36524" "b < 3 \<Longrightarrow> d2 < 36524"
    using d q1 unfolding d2_def b_x min_def by (auto split: if_splits)
  have c: "d2 = 1461 * c + d3" "0 \<le> d3" "d3 < 1461"
    by (simp_all add: c_def d3_def)
  then have c': "0 \<le> c" "c \<le> 24"
    using b(3,4) by linarith+
  define z w where "z = d3 div 365" and "w = d3 mod 365"
  have q3: "365 * z + w = d3" "0 \<le> w" "w < 365" "0 \<le> z"
    using c(2) by (simp_all add: z_def w_def pos_imp_zdiv_nonneg_iff)
  have e_z: "e = min 3 z" by (simp add: e_def z_def)
  have e: "0 \<le> e" "e \<le> 3" "0 \<le> yd" "yd \<le> 365" "e < 3 \<Longrightarrow> yd < 365"
    using c q3 unfolding res(2) e_z min_def by (auto split: if_splits)
  show thesis
  proof (rule that)
    show "y = 400 * a + 100 * b + 4 * c + e + 1" by (rule res)
    show "d = 146097 * a + 36524 * b + 1461 * c + 365 * e + yd"
      using d(1) c(1) res(2) by (simp add: d2_def)
    assume yd: "yd = 365"
    have e3: "e = 3" using e(2,5) yd by force
    have "b = 3" if "c = 24"
    proof -
      have "d2 = 36524" using c(1) res(2) yd e3 that by simp
      with b(2,5) show ?thesis by force
    qed
    with e3 c'(2) show "e = 3 \<and> (c < 24 \<or> b = 3)" by force
  qed (use b c' e in auto)
qed

lemma year_of_day_correct:
  assumes "year_of_day d = (y, yd)"
  shows "days_before_year y + yd = d \<and> 0 \<le> yd \<and> yd < (if is_leap y then 366 else 365)"
  using assms
proof (rule year_of_day_cycles)
  fix a b c e
  assume y: "y = 400 * a + 100 * b + 4 * c + e + 1"
    and d: "d = 146097 * a + 36524 * b + 1461 * c + 365 * e + yd"
    and bnd: "0 \<le> b" "b \<le> 3" "0 \<le> c" "c \<le> 24" "0 \<le> e" "e \<le> 3" "0 \<le> yd" "yd \<le> 365"
    and last: "yd = 365 \<Longrightarrow> e = 3 \<and> (c < 24 \<or> b = 3)"
  have "(y - 1) div 4 = 100 * a + 25 * b + c" "(y - 1) div 100 = 4 * a + b" "(y - 1) div 400 = a"
    using y bnd by (auto intro!: int_div_pos_eq [where r = "e"] int_div_pos_eq [where r = "4 * c + e"]
        int_div_pos_eq [where r = "100 * b + 4 * c + e"])
  then have "days_before_year y + yd = d"
    using y d by (simp add: days_before_year_def Let_def)
  moreover have "is_leap y" if "yd = 365"
  proof -
    from last [OF that] have e: "e = 3" "c < 24 \<or> b = 3" by auto
    then have "y = 4 * (100 * a + 25 * b + c + 1)" using y by simp
    then have "y mod 4 = 0" by simp
    moreover have "y mod 100 \<noteq> 0 \<or> y mod 400 = 0"
    proof (cases "c = 24")
      case True
      with e y have "y = 400 * (a + 1)" by simp
      then show ?thesis by simp
    next
      case False
      with bnd have "y mod 100 = 4 * c + 4"
        using y e by (intro int_mod_pos_eq [where q = "4 * a + b"]) auto
      with bnd show ?thesis by simp
    qed
    ultimately show ?thesis by (simp add: is_leap_def)
  qed
  ultimately show ?thesis
    using bnd by (cases "yd = 365") auto
qed

lemma month_of_day_numeral [simp]:
  "month_of_day y (numeral k) m d =
     (if d < month_length y m then (m, d + 1)
      else month_of_day y (pred_numeral k) (Suc m) (d - month_length y m))"
  by (simp add: numeral_eq_Suc)

end
