(* ===== verification/History.thy ===== *)
theory History
  imports HistoryTypes
begin

text \<open>
  The history events the server writes (\<^verbatim>\<open>src/run/history/history.go\<close>): one function per
  event, each checking the type of the directive's message first. Three of them read the
  start time of the run through a pointer without a nil check; that read is a \<open>deref\<close>,
  which panics on nil.
\<close>

definition nil_dereference :: string where
  "nil_dereference = ''invalid memory address or nil pointer dereference''"

text \<open>\<^verbatim>\<open>d.Timestamp.Sub(*d.RunInfo.StartedAt).Milliseconds()\<close>\<close>

definition run_duration_ms :: "Directive \<Rightarrow> int res" where
  "run_duration_ms d =
     andThen (deref nil_dereference (ri_StartedAt (d_RunInfo d)))
       (\<lambda>started. Ok (milliseconds (time_sub (d_Timestamp d) started)))"

definition history_RunStarted :: "Directive \<Rightarrow> time \<Rightarrow> HistoryEvent res" where
  "history_RunStarted d timestamp =
     (case as_Start (d_Msg d) of
        Some (inp, timeout) \<Rightarrow>
          Ok \<lparr>he_WFID = ri_WFID (d_RunInfo d), he_RunID = ri_ID (d_RunInfo d),
              he_WorkerID = '''', he_Timestamp = timestamp,
              he_Kind = HistoryKindRunStarted, he_Msg = Some (RunStarted inp)\<rparr>
      | None \<Rightarrow> Err (Errorf (''expected Start directive but got '' @ go_type (d_Msg d))))"

definition history_RunCompleted :: "Directive \<Rightarrow> HistoryEvent res" where
  "history_RunCompleted d =
     (case as_Complete (d_Msg d) of
        Some result \<Rightarrow>
          andThen (run_duration_ms d) (\<lambda>durationMS.
          Ok \<lparr>he_WFID = ri_WFID (d_RunInfo d), he_RunID = ri_ID (d_RunInfo d),
              he_WorkerID = '''', he_Timestamp = d_Timestamp d,
              he_Kind = HistoryKindRunCompleted,
              he_Msg = Some (RunCompleted result durationMS)\<rparr>)
      | None \<Rightarrow> Err (Errorf (''expected Complete directive but got '' @ go_type (d_Msg d))))"

definition history_RunFailed :: "Directive \<Rightarrow> HistoryEvent res" where
  "history_RunFailed d =
     (case as_Fail (d_Msg d) of
        Some e \<Rightarrow>
          andThen (run_duration_ms d) (\<lambda>durationMS.
          Ok \<lparr>he_WFID = ri_WFID (d_RunInfo d), he_RunID = ri_ID (d_RunInfo d),
              he_WorkerID = '''', he_Timestamp = d_Timestamp d,
              he_Kind = HistoryKindRunFailed, he_Msg = Some (RunFailed e durationMS)\<rparr>)
      | None \<Rightarrow> Err (Errorf (''expected Complete directive but got '' @ go_type (d_Msg d))))"

definition history_RunCancelReceived :: "Directive \<Rightarrow> HistoryEvent res" where
  "history_RunCancelReceived d =
     (case as_Cancel (d_Msg d) of
        Some reason \<Rightarrow>
          Ok \<lparr>he_WFID = ri_WFID (d_RunInfo d), he_RunID = ri_ID (d_RunInfo d),
              he_WorkerID = '''', he_Timestamp = d_Timestamp d,
              he_Kind = HistoryKindRunCancelReceived, he_Msg = Some RunCancelReceived\<rparr>
      | None \<Rightarrow> Err (Errorf (''expected CancelSchedule directive but got '' @ go_type (d_Msg d))))"

text \<open>The only terminal event that tolerates a run without a start time.\<close>

definition history_RunTerminated :: "Directive \<Rightarrow> HistoryEvent res" where
  "history_RunTerminated d =
     (case as_Terminate (d_Msg d) of
        Some reason \<Rightarrow>
          (let durationMS =
             (case ri_StartedAt (d_RunInfo d) of
                None \<Rightarrow> 0
              | Some started \<Rightarrow> milliseconds (time_sub (d_Timestamp d) started))
           in Ok \<lparr>he_WFID = ri_WFID (d_RunInfo d), he_RunID = ri_ID (d_RunInfo d),
                  he_WorkerID = '''', he_Timestamp = d_Timestamp d,
                  he_Kind = HistoryKindRunTerminated,
                  he_Msg = Some (RunTerminated reason durationMS)\<rparr>)
      | None \<Rightarrow> Err (Errorf (''expected Terminate directive but got '' @ go_type (d_Msg d))))"

definition history_RunCancelled :: "Directive \<Rightarrow> HistoryEvent res" where
  "history_RunCancelled d =
     (case as_Cancel (d_Msg d) of
        Some reason \<Rightarrow>
          andThen (run_duration_ms d) (\<lambda>durationMS.
          Ok \<lparr>he_WFID = ri_WFID (d_RunInfo d), he_RunID = ri_ID (d_RunInfo d),
              he_WorkerID = '''', he_Timestamp = d_Timestamp d,
              he_Kind = HistoryKindRunCancelled,
              he_Msg = Some (RunCancelled reason durationMS)\<rparr>)
      | None \<Rightarrow> Err (Errorf (''expected Cancel directive but got '' @ go_type (d_Msg d))))"

definition history_StepStarted :: "runtime \<Rightarrow> Directive \<Rightarrow> HistoryEvent res" where
  "history_StepStarted rt d =
     andThen
       (if d_Kind d = DirectiveKindStart then Ok ''start''
        else (case as_Step (d_Msg d) of
                Some (name, timeout) \<Rightarrow> Ok name
              | None \<Rightarrow> Err (Errorf (''expected StepResult directive but got '' @ go_type (d_Msg d)))))
       (\<lambda>stepName.
          Ok \<lparr>he_WFID = ri_WFID (d_RunInfo d), he_RunID = ri_ID (d_RunInfo d),
              he_WorkerID = '''', he_Timestamp = now rt At_historyStepStarted_Timestamp,
              he_Kind = HistoryKindStepStarted, he_Msg = Some (StepStarted stepName '''')\<rparr>)"

definition history_StepPickedUp :: "Directive \<Rightarrow> HistoryEvent res" where
  "history_StepPickedUp d =
     (case as_StepPickedUp (d_Msg d) of
        Some (stepName, workerID, timestamp) \<Rightarrow>
          Ok \<lparr>he_WFID = ri_WFID (d_RunInfo d), he_RunID = ri_ID (d_RunInfo d),
              he_WorkerID = workerID, he_Timestamp = timestamp,
              he_Kind = HistoryKindStepStarted,
              he_Msg = Some (StepStarted stepName workerID)\<rparr>
      | None \<Rightarrow> Err (Errorf (''expected StepPickedUp directive but got '' @ go_type (d_Msg d))))"

text \<open>The next two take the fields of the \<^verbatim>\<open>StepResult\<close> they are given by value.\<close>

definition history_StepCompleted ::
  "runtime \<Rightarrow> DirectiveMessage option \<Rightarrow> WorkerID option \<Rightarrow> int \<Rightarrow> RunInfo \<Rightarrow> HistoryEvent res" where
  "history_StepCompleted rt processedMsg msgWorkerID msgDurationMS ri =
     orErrorf ''cannot publish step complete event: '' (ProcStepName processedMsg) (\<lambda>stepName.
     (let workerID = (case msgWorkerID of None \<Rightarrow> '''' | Some w \<Rightarrow> w)
      in Ok \<lparr>he_WFID = ri_WFID ri, he_RunID = ri_ID ri, he_WorkerID = workerID,
             he_Timestamp = now rt At_historyStepCompleted_Timestamp,
             he_Kind = HistoryKindStepCompleted,
             he_Msg = Some (StepCompleted stepName workerID msgDurationMS)\<rparr>))"

definition history_StepFailed ::
  "runtime \<Rightarrow> DirectiveMessage option \<Rightarrow> int \<Rightarrow> DirectiveMessage option \<Rightarrow> RunInfo \<Rightarrow> HistoryEvent res" where
  "history_StepFailed rt processedMsg msgDurationMS nextMsg ri =
     orErrorf ''cannot publish step failed event: '' (ProcStepName processedMsg) (\<lambda>stepName.
     (case as_FailStep nextMsg of
        Some (failStepName, e) \<Rightarrow>
          Ok \<lparr>he_WFID = ri_WFID ri, he_RunID = ri_ID ri, he_WorkerID = '''',
              he_Timestamp = now rt At_historyStepFailed_Timestamp,
              he_Kind = HistoryKindStepFailed,
              he_Msg = Some (StepFailed stepName e msgDurationMS)\<rparr>
      | None \<Rightarrow> Err (Errorf (''cannot publish step failed event: expected FailStep next msg but got ''
                @ go_type nextMsg))))"

definition history_StepTimedout :: "runtime \<Rightarrow> Directive \<Rightarrow> RunState \<Rightarrow> HistoryEvent res" where
  "history_StepTimedout rt d currentState =
     (case as_StepTimeout (d_Msg d) of
        Some (stepName, originalID) \<Rightarrow>
          (let durationMS =
             milliseconds (time_sub (now rt At_historyStepTimedout_Since) (rs_EnteredAt currentState))
           in Ok \<lparr>he_WFID = ri_WFID (d_RunInfo d), he_RunID = ri_ID (d_RunInfo d),
                  he_WorkerID = '''', he_Timestamp = now rt At_historyStepTimedout_Timestamp,
                  he_Kind = HistoryKindStepTimeout,
                  he_Msg = Some (StepTimedout stepName durationMS)\<rparr>)
      | None \<Rightarrow> Err (Errorf (''cannot publish step timeout event: expected StepTimeout but got ''
                @ go_type (d_Msg d))))"

definition history_WaitTimedOut :: "runtime \<Rightarrow> Directive \<Rightarrow> HistoryEvent res" where
  "history_WaitTimedOut rt d =
     (case as_WaitTimeout (d_Msg d) of
        Some (timeoutStepName, originalID) \<Rightarrow>
          Ok \<lparr>he_WFID = ri_WFID (d_RunInfo d), he_RunID = ri_ID (d_RunInfo d),
              he_WorkerID = '''', he_Timestamp = now rt At_historyWaitTimedOut_Timestamp,
              he_Kind = HistoryKindWaitTimedOut,
              he_Msg = Some (WaitTimedOut originalID timeoutStepName)\<rparr>
      | None \<Rightarrow> Err (Errorf (''cannot publish wait timed out history event: expected WaitTimeout directive but got ''
                @ go_type (d_Msg d))))"

definition history_WaitStarted :: "runtime \<Rightarrow> Directive \<Rightarrow> HistoryEvent res" where
  "history_WaitStarted rt d =
     (case as_Wait (d_Msg d) of
        Some (timeout, timeoutStepName) \<Rightarrow>
          Ok \<lparr>he_WFID = ri_WFID (d_RunInfo d), he_RunID = ri_ID (d_RunInfo d),
              he_WorkerID = '''', he_Timestamp = now rt At_historyWaitStarted_Timestamp,
              he_Kind = HistoryKindWaitStarted,
              he_Msg = Some (WaitStarted (d_ID d) timeout timeoutStepName)\<rparr>
      | None \<Rightarrow> Err (Errorf (''cannot publish wait started history event: expected Wait directive but got ''
                @ go_type (d_Msg d))))"

definition history_EventReceived :: "runtime \<Rightarrow> Directive \<Rightarrow> HistoryEvent res" where
  "history_EventReceived rt d =
     (case as_Event (d_Msg d) of
        Some (seq, eventName, payload, timeout) \<Rightarrow>
          Ok \<lparr>he_WFID = ri_WFID (d_RunInfo d), he_RunID = ri_ID (d_RunInfo d),
              he_WorkerID = '''', he_Timestamp = now rt At_historyEventReceived_Timestamp,
              he_Kind = HistoryKindEventReceived,
              he_Msg = Some (EventReceived eventName payload)\<rparr>
      | None \<Rightarrow> Err (Errorf (''cannot publish event received history event: expected Event directive but got ''
                @ go_type (d_Msg d))))"

lemmas history_defs =
  history_RunStarted_def history_RunCompleted_def history_RunFailed_def
  history_RunCancelReceived_def history_RunTerminated_def history_RunCancelled_def
  history_StepStarted_def history_StepPickedUp_def history_StepCompleted_def
  history_StepFailed_def history_StepTimedout_def history_WaitTimedOut_def
  history_WaitStarted_def history_EventReceived_def

text \<open>What a successful construction says of the directive and of the event.\<close>

lemma run_duration_ms_Ok:
  "run_duration_ms d = Ok n \<Longrightarrow>
   \<exists>t. ri_StartedAt (d_RunInfo d) = Some t \<and> n = milliseconds (time_sub (d_Timestamp d) t)"
  by (auto simp: run_duration_ms_def)

lemma run_duration_ms_Panic_iff:
  "run_duration_ms d = Panic p \<longleftrightarrow> ri_StartedAt (d_RunInfo d) = None \<and> p = nil_dereference"
  by (auto simp: run_duration_ms_def panic_simps)

lemma run_duration_ms_not_Err [simp]: "run_duration_ms d \<noteq> Err e"
  by (cases "ri_StartedAt (d_RunInfo d)") (simp_all add: run_duration_ms_def)

text \<open>
  Every event a function builds carries the kind under which its message is registered, so
  the stored history can be decoded again.
\<close>

definition well_kinded :: "HistoryEvent \<Rightarrow> bool" where
  "well_kinded h \<longleftrightarrow> (\<exists>m. he_Msg h = Some m \<and> he_Kind h = history_kind_of_msg m)"

lemma history_well_kinded:
  "history_RunStarted d t = Ok h \<Longrightarrow> well_kinded h"
  "history_RunCompleted d = Ok h \<Longrightarrow> well_kinded h"
  "history_RunFailed d = Ok h \<Longrightarrow> well_kinded h"
  "history_RunCancelReceived d = Ok h \<Longrightarrow> well_kinded h"
  "history_RunTerminated d = Ok h \<Longrightarrow> well_kinded h"
  "history_RunCancelled d = Ok h \<Longrightarrow> well_kinded h"
  "history_StepStarted rt d = Ok h \<Longrightarrow> well_kinded h"
  "history_StepPickedUp d = Ok h \<Longrightarrow> well_kinded h"
  "history_StepCompleted rt pm w n ri = Ok h \<Longrightarrow> well_kinded h"
  "history_StepFailed rt pm n nm ri = Ok h \<Longrightarrow> well_kinded h"
  "history_StepTimedout rt d st = Ok h \<Longrightarrow> well_kinded h"
  "history_WaitTimedOut rt d = Ok h \<Longrightarrow> well_kinded h"
  "history_WaitStarted rt d = Ok h \<Longrightarrow> well_kinded h"
  "history_EventReceived rt d = Ok h \<Longrightarrow> well_kinded h"
  by (auto simp: history_defs well_kinded_def Let_def
      split: option.splits if_splits)

end
