(* ===== verification/Records.thy ===== *)
theory Records
  imports History
begin

text \<open>
  The records a transition commits (\<^verbatim>\<open>src/types/record.go\<close>) and the results handlers
  return (\<^verbatim>\<open>src/types/handle_result.go\<close>).
\<close>

section \<open>Records\<close>

datatype Record =
    RunInfoRecord (rir_Info: RunInfo) (rir_ExpectedSeq: u64)
  | RunInputRecord WFID RunID go_any
  | RunOutputRecord WFID RunID go_any
  | RunErrorRecord WFID RunID ErrorDetails
  | RunStateRecord (rsr_State: RunState) (rsr_ExpectedSeq: u64)
  | TimerRecord Timer
  | HistoryRecord HistoryEvent
  | InboxRecord Directive
  | KVRecord WFID RunID KVUpdates
  | WorkerTaskDispatch Directive
  | DirectiveRecord Directive
  | BackgroundTaskRecord BackgroundTask

record StateSnapshot =
  sn_RunState :: RunState
  sn_Event :: Directive
  sn_LastHistorySeqID :: u64

definition StateSnapshot_zero :: StateSnapshot where
  "StateSnapshot_zero =
     \<lparr>sn_RunState = RunState_zero, sn_Event = Directive_zero, sn_LastHistorySeqID = 0\<rparr>"

section \<open>Results\<close>

record CommitResult =
  cr_IsCASRejection :: bool
  cr_IsDuplicateMessage :: bool
  cr_IsAtomicPublishBackpressure :: bool

definition CommitResult_zero :: CommitResult where
  "CommitResult_zero =
     \<lparr>cr_IsCASRejection = False, cr_IsDuplicateMessage = False,
      cr_IsAtomicPublishBackpressure = False\<rparr>"

datatype HandlerAction = ActionFailed | ActionProcessed | ActionRetryable

record HandleResult =
  hr_Action :: HandlerAction
  hr_RetryDelay :: duration
  hr_Message :: string

definition Processed :: HandleResult where
  "Processed = \<lparr>hr_Action = ActionProcessed, hr_RetryDelay = 0, hr_Message = ''''\<rparr>"

definition IsProcessed :: "HandleResult \<Rightarrow> bool" where
  "IsProcessed r \<longleftrightarrow> hr_Action r = ActionProcessed"

definition Retryable :: "duration \<Rightarrow> HandleResult" where
  "Retryable delay = \<lparr>hr_Action = ActionRetryable, hr_RetryDelay = delay, hr_Message = ''''\<rparr>"

lemma Processed_neq_Retryable [simp]: "Processed \<noteq> Retryable d" "Retryable d \<noteq> Processed"
  by (simp_all add: Processed_def Retryable_def)

lemma Action_simps [simp]:
  "hr_Action Processed = ActionProcessed" "hr_Action (Retryable d) = ActionRetryable"
  "hr_RetryDelay (Retryable d) = d"
  by (simp_all add: Processed_def Retryable_def)

section \<open>Reading a batch\<close>

text \<open>The projections of a batch of records used in the statements about transitions.\<close>

fun run_states :: "Record list \<Rightarrow> (RunState \<times> u64) list" where
  "run_states [] = []"
| "run_states (RunStateRecord s e # rs) = (s, e) # run_states rs"
| "run_states (_ # rs) = run_states rs"

fun run_infos :: "Record list \<Rightarrow> RunInfo list" where
  "run_infos [] = []"
| "run_infos (RunInfoRecord i e # rs) = i # run_infos rs"
| "run_infos (_ # rs) = run_infos rs"

fun history_kinds :: "Record list \<Rightarrow> HistoryKind list" where
  "history_kinds [] = []"
| "history_kinds (HistoryRecord h # rs) = he_Kind h # history_kinds rs"
| "history_kinds (_ # rs) = history_kinds rs"

fun bg_tasks :: "Record list \<Rightarrow> BackgroundTask list" where
  "bg_tasks [] = []"
| "bg_tasks (BackgroundTaskRecord t # rs) = t # bg_tasks rs"
| "bg_tasks (_ # rs) = bg_tasks rs"

fun timers :: "Record list \<Rightarrow> Timer list" where
  "timers [] = []"
| "timers (TimerRecord t # rs) = t # timers rs"
| "timers (_ # rs) = timers rs"

fun dispatches :: "Record list \<Rightarrow> Directive list" where
  "dispatches [] = []"
| "dispatches (WorkerTaskDispatch d # rs) = d # dispatches rs"
| "dispatches (_ # rs) = dispatches rs"

fun directives :: "Record list \<Rightarrow> Directive list" where
  "directives [] = []"
| "directives (DirectiveRecord d # rs) = d # directives rs"
| "directives (_ # rs) = directives rs"

fun inbox_events :: "Record list \<Rightarrow> Directive list" where
  "inbox_events [] = []"
| "inbox_events (InboxRecord d # rs) = d # inbox_events rs"
| "inbox_events (_ # rs) = inbox_events rs"

lemma projections_append [simp]:
  "run_states (rs @ rs') = run_states rs @ run_states rs'"
  "run_infos (rs @ rs') = run_infos rs @ run_infos rs'"
  "history_kinds (rs @ rs') = history_kinds rs @ history_kinds rs'"
  "bg_tasks (rs @ rs') = bg_tasks rs @ bg_tasks rs'"
  "timers (rs @ rs') = timers rs @ timers rs'"
  "dispatches (rs @ rs') = dispatches rs @ dispatches rs'"
  "directives (rs @ rs') = directives rs @ directives rs'"
  "inbox_events (rs @ rs') = inbox_events rs @ inbox_events rs'"
  by (induction rs rule: run_states.induct) auto

end
