(* ===== verification/Store.thy ===== *)
theory Store
  imports JetStream GoTime Records
begin

text \<open>
  The state store on the stream (\<^verbatim>\<open>src/jsstore\<close>): the messages a record becomes
  (\<^verbatim>\<open>record2nats.go\<close>), the operations of \<^verbatim>\<open>JSStateStore\<close> (\<^verbatim>\<open>store.go\<close>) and the
  subjects of the stream (\<^verbatim>\<open>streams.go\<close>). Every operation takes the runtime, the operations
  of JetStream and the state of the stream; an operation that writes returns the new state.
\<close>

section \<open>Records as messages\<close>

definition expected_header :: "u64 \<Rightarrow> header" where
  "expected_header expectedSeq =
     (if expectedSeq > 0 then [(hdr_expected, decimal (unat expectedSeq))] else [])"

definition RunInfoRecordToNatsMsgs :: "runtime \<Rightarrow> RunInfo \<Rightarrow> u64 \<Rightarrow> nats_msg list res" where
  "RunInfoRecordToNatsMsgs rt i expectedSeq =
     orErrorf ''failed to marshal workflow run info: '' (marshal_RunInfo rt i) (\<lambda>data.
     Ok [\<lparr>nm_Subject = RunInfoKey Manifest (ri_WFType i) (ri_WFID i) (ri_ID i),
          nm_Header = expected_header expectedSeq, nm_Data = data\<rparr>])"

definition RunInputRecordToNatsMsgs ::
  "runtime \<Rightarrow> WFID \<Rightarrow> RunID \<Rightarrow> go_any \<Rightarrow> nats_msg list res" where
  "RunInputRecordToNatsMsgs rt wfID runID inp =
     orErrorf ''failed to marshal run input: '' (mp_marshal rt inp) (\<lambda>data.
     Ok [\<lparr>nm_Subject = RunInputKey Manifest wfID runID, nm_Header = [], nm_Data = data\<rparr>])"

definition RunOutputRecordToNatsMsgs ::
  "runtime \<Rightarrow> WFID \<Rightarrow> RunID \<Rightarrow> go_any \<Rightarrow> nats_msg list res" where
  "RunOutputRecordToNatsMsgs rt wfID runID result =
     orErrorf ''failed to marshal run output: '' (mp_marshal rt result) (\<lambda>data.
     Ok [\<lparr>nm_Subject = RunOutputKey Manifest wfID runID, nm_Header = [], nm_Data = data\<rparr>])"

definition RunErrorRecordToNatsMsgs ::
  "runtime \<Rightarrow> WFID \<Rightarrow> RunID \<Rightarrow> ErrorDetails \<Rightarrow> nats_msg list res" where
  "RunErrorRecordToNatsMsgs rt wfID runID e =
     orErrorf ''failed to marshal run error: '' (mp_marshal rt (enc_ErrorDetails e)) (\<lambda>data.
     Ok [\<lparr>nm_Subject = RunErrorKey Manifest wfID runID, nm_Header = [], nm_Data = data\<rparr>])"

definition RunStateRecordToNatsMsgs :: "runtime \<Rightarrow> RunState \<Rightarrow> u64 \<Rightarrow> nats_msg list res" where
  "RunStateRecordToNatsMsgs rt state expectedSeq =
     (if rs_WFID state = '''' \<or> rs_RunID state = ''''
      then Err (Errorf ''run state WFID and RunID are required'')
      else
        orErrorf ''failed to marshal run state: '' (marshal_RunState rt state) (\<lambda>data.
        Ok [\<lparr>nm_Subject = RunStateSubject Manifest (rs_WFID state) (rs_RunID state),
             nm_Header = expected_header expectedSeq, nm_Data = data\<rparr>]))"

definition TimerRecordToNatsMsgs :: "runtime \<Rightarrow> Timer \<Rightarrow> nats_msg list res" where
  "TimerRecordToNatsMsgs rt t =
     orErrorf ''failed to marshal timer: '' (marshal_Timer rt t) (\<lambda>data.
     Ok [\<lparr>nm_Subject = TimerSubject Manifest (t_WFID t) (t_Kind t) (t_ID t),
          nm_Header =
            [(hdr_schedule, ''@at '' @ Format_RFC3339Nano (t_ExpiresAt t)),
             (hdr_schedule_target, TimerFiredSubject Manifest)],
          nm_Data = data\<rparr>])"

definition HistoryRecordToNatsMsgs :: "runtime \<Rightarrow> HistoryEvent \<Rightarrow> nats_msg list res" where
  "HistoryRecordToNatsMsgs rt h =
     orErrorf ''failed to marshal history event: '' (marshal_HistoryEvent rt h) (\<lambda>data.
     Ok [\<lparr>nm_Subject = HistorySubject Manifest (he_WFID h) (he_RunID h), nm_Header = [],
          nm_Data = data\<rparr>])"

definition InboxRecordToNatsMsgs :: "runtime \<Rightarrow> Directive \<Rightarrow> nats_msg list res" where
  "InboxRecordToNatsMsgs rt d =
     orErrorf ''failed to marshal directive: '' (marshal_Directive rt d) (\<lambda>data.
     Ok [\<lparr>nm_Subject = EventInboxSubject Manifest (ri_WFID (d_RunInfo d)), nm_Header = [],
          nm_Data = data\<rparr>])"

text \<open>The updates are in the order in which Go iterates over the map.\<close>

fun KVRecordToNatsMsgs :: "runtime \<Rightarrow> WFID \<Rightarrow> RunID \<Rightarrow> KVUpdates \<Rightarrow> nats_msg list res" where
  "KVRecordToNatsMsgs rt wfID runID [] = Ok []"
| "KVRecordToNatsMsgs rt wfID runID ((key, val) # kvs) =
     orErrorf (''failed to marshal KV update value for key '' @ key @ '': '') (mp_marshal rt val) (\<lambda>data.
     andThen (KVRecordToNatsMsgs rt wfID runID kvs) (\<lambda>msgs.
     Ok (\<lparr>nm_Subject = WfKVKey Manifest wfID runID key, nm_Header = [], nm_Data = data\<rparr> # msgs)))"

definition WorkerTaskDispatchToNatsMsgs :: "runtime \<Rightarrow> Directive \<Rightarrow> nats_msg list res" where
  "WorkerTaskDispatchToNatsMsgs rt d =
     orErrorf ''failed to marshal worker task dispatch directive: '' (marshal_Directive rt d) (\<lambda>data.
     Ok [\<lparr>nm_Subject = WorkerTaskSubject Manifest (ri_WFType (d_RunInfo d)) (ri_WFID (d_RunInfo d))
            (ri_ID (d_RunInfo d)), nm_Header = [], nm_Data = data\<rparr>])"

definition DirectiveRecordToNatsMsgs :: "runtime \<Rightarrow> Directive \<Rightarrow> nats_msg list res" where
  "DirectiveRecordToNatsMsgs rt d =
     orErrorf ''failed to marshal directive record: '' (marshal_Directive rt d) (\<lambda>data.
     Ok [\<lparr>nm_Subject = DirectiveSubject Manifest (ri_WFType (d_RunInfo d)) (ri_WFID (d_RunInfo d))
            (ri_ID (d_RunInfo d)), nm_Header = [(hdr_msg_id, d_ID d)], nm_Data = data\<rparr>])"

definition BackgroundTaskRecordToNatsMsgs :: "runtime \<Rightarrow> BackgroundTask \<Rightarrow> nats_msg list res" where
  "BackgroundTaskRecordToNatsMsgs rt task =
     orErrorf ''failed to marshal background task: '' (mp_marshal rt (enc_BackgroundTask task)) (\<lambda>data.
     Ok [\<lparr>nm_Subject = BgTaskSubject Manifest, nm_Header = [(hdr_msg_id, bt_DeduplicationID task)],
          nm_Data = data\<rparr>])"

fun recordToNats :: "runtime \<Rightarrow> Record \<Rightarrow> nats_msg list res" where
  "recordToNats rt (RunInfoRecord info e) = RunInfoRecordToNatsMsgs rt info e"
| "recordToNats rt (RunInputRecord w r inp) = RunInputRecordToNatsMsgs rt w r inp"
| "recordToNats rt (RunOutputRecord w r result) = RunOutputRecordToNatsMsgs rt w r result"
| "recordToNats rt (RunErrorRecord w r e) = RunErrorRecordToNatsMsgs rt w r e"
| "recordToNats rt (RunStateRecord s e) = RunStateRecordToNatsMsgs rt s e"
| "recordToNats rt (TimerRecord t) = TimerRecordToNatsMsgs rt t"
| "recordToNats rt (HistoryRecord h) = HistoryRecordToNatsMsgs rt h"
| "recordToNats rt (InboxRecord d) = InboxRecordToNatsMsgs rt d"
| "recordToNats rt (KVRecord w r kvs) = KVRecordToNatsMsgs rt w r kvs"
| "recordToNats rt (WorkerTaskDispatch d) = WorkerTaskDispatchToNatsMsgs rt d"
| "recordToNats rt (DirectiveRecord d) = DirectiveRecordToNatsMsgs rt d"
| "recordToNats rt (BackgroundTaskRecord t) = BackgroundTaskRecordToNatsMsgs rt t"

lemmas record_to_nats_defs =
  RunInfoRecordToNatsMsgs_def RunInputRecordToNatsMsgs_def RunOutputRecordToNatsMsgs_def
  RunErrorRecordToNatsMsgs_def RunStateRecordToNatsMsgs_def TimerRecordToNatsMsgs_def
  HistoryRecordToNatsMsgs_def InboxRecordToNatsMsgs_def WorkerTaskDispatchToNatsMsgs_def
  DirectiveRecordToNatsMsgs_def BackgroundTaskRecordToNatsMsgs_def

section \<open>Reading runs\<close>

definition GetRunInfo ::
  "runtime \<Rightarrow> ('s, 'b) jetstream \<Rightarrow> 's \<Rightarrow> WFType \<Rightarrow> WFID \<Rightarrow> RunID \<Rightarrow> RunInfo res" where
  "GetRunInfo rt js s wfType wfID runID =
     (case js_get_last js s (RunInfoKey Manifest wfType wfID runID) of
        Err e \<Rightarrow>
          if errors_is_lib e ErrMsgNotFound then Err (Sentinel ErrWorkflowRunNotFound)
          else Err (Wrapf ''failed to get workflow run: '' e '''')
      | Panic p \<Rightarrow> Panic p
      | Ok entry \<Rightarrow>
          orErrorf ''failed to unmarshal workflow run info: '' (unmarshal_RunInfo rt (sm_Data entry)) Ok)"

definition GetRunByWFID ::
  "runtime \<Rightarrow> ('s, 'b) jetstream \<Rightarrow> 's \<Rightarrow> WFID \<Rightarrow> (RunInfo \<times> u64) res" where
  "GetRunByWFID rt js s wfID =
     (case js_get_last js s (ListRunInfoByWFIDPattern Manifest ''*'' wfID) of
        Err e \<Rightarrow>
          if errors_is_lib e ErrMsgNotFound then Err (Sentinel ErrWorkflowRunNotFound)
          else Err (Wrapf ''failed to get batch iterator: '' e '''')
      | Panic p \<Rightarrow> Panic p
      | Ok msg \<Rightarrow>
          orErrorf ''failed to unmarshal workflow run info: '' (unmarshal_RunInfo rt (sm_Data msg)) (\<lambda>info.
          Ok (info, sm_Sequence msg)))"

definition GetRunByRunID ::
  "runtime \<Rightarrow> ('s, 'b) jetstream \<Rightarrow> 's \<Rightarrow> RunID \<Rightarrow> RunInfo res" where
  "GetRunByRunID rt js s runID =
     (case js_get_last js s (ListRunInfoByRunIDPattern Manifest runID) of
        Err e \<Rightarrow>
          if errors_is_lib e ErrMsgNotFound then Err (Sentinel ErrWorkflowRunNotFound)
          else Err (Wrapf ''failed to get batch iterator: '' e '''')
      | Panic p \<Rightarrow> Panic p
      | Ok msg \<Rightarrow>
          orErrorf ''failed to unmarshal workflow run info: '' (unmarshal_RunInfo rt (sm_Data msg)) Ok)"

fun list_runs_loop :: "runtime \<Rightarrow> stored res list \<Rightarrow> RunInfo list res" where
  "list_runs_loop rt [] = Ok []"
| "list_runs_loop rt (Err e # items) =
     (if errors_is_lib e ErrNoMessages then Ok []
      else Err (Wrapf ''failed to iterate runs: '' e ''''))"
| "list_runs_loop rt (Panic p # items) = Panic p"
| "list_runs_loop rt (Ok msg # items) =
     orErrorf ''failed to unmarshal run info: '' (unmarshal_RunInfo rt (sm_Data msg)) (\<lambda>info.
     andThen (list_runs_loop rt items) (\<lambda>runs. Ok (info # runs)))"

definition ListRuns :: "runtime \<Rightarrow> ('s, 'b) jetstream \<Rightarrow> 's \<Rightarrow> RunInfo list res" where
  "ListRuns rt js s =
     orErrorf ''failed to get batch iterator: ''
       (js_get_lasts js s (RunInfoKey Manifest ''*'' ''*'' ''*'')) (list_runs_loop rt)"

section \<open>Creating a run\<close>

definition CreateRunInfo ::
  "runtime \<Rightarrow> ('s, 'b) jetstream \<Rightarrow> 's \<Rightarrow> RunInfo \<Rightarrow> 's \<times> unit res" where
  "CreateRunInfo rt js s info =
     (let save =
        (case marshal_RunInfo rt info of
           Err e \<Rightarrow> (s, Err (Wrapf ''failed to marshal workflow run info: '' e ''''))
         | Panic p \<Rightarrow> (s, Panic p)
         | Ok data \<Rightarrow>
             (case js_publish js s
                \<lparr>nm_Subject = RunInfoKey Manifest (ri_WFType info) (ri_WFID info) (ri_ID info),
                 nm_Header = [], nm_Data = data\<rparr> of
                (s', Some e) \<Rightarrow> (s', Err (Wrapf ''failed to save workflow run: '' e ''''))
              | (s', None) \<Rightarrow> (s', Ok ())))
      in case GetRunByWFID rt js s (ri_WFID info) of
           Panic p \<Rightarrow> (s, Panic p)
         | Err e \<Rightarrow>
             if errors_is e ErrWorkflowRunNotFound then save
             else (s, Err (Wrapf ''failed to check running status: '' e ''''))
         | Ok (ri, seq) \<Rightarrow>
             if \<not> RunInfo_IsTerminal ri
             then (s, Err (Wrapf '''' (Sentinel ErrWorkflowAlreadyRunning) ('': '' @ ri_ID ri)))
             else save)"

section \<open>The snapshot of a run\<close>

definition GetRunState ::
  "runtime \<Rightarrow> ('s, 'b) jetstream \<Rightarrow> 's \<Rightarrow> WFID \<Rightarrow> RunID \<Rightarrow> RunState res" where
  "GetRunState rt js s wfID runID =
     (case js_get_last js s (RunStateSubject Manifest wfID runID) of
        Err e \<Rightarrow>
          if errors_is_lib e ErrMsgNotFound then Err (Sentinel ErrRunStateNotFound)
          else Err (Wrapf ''failed to get run state: '' e '''')
      | Panic p \<Rightarrow> Panic p
      | Ok entry \<Rightarrow>
          orErrorf ''failed to unmarshal run state: '' (unmarshal_RunState rt (sm_Data entry)) (\<lambda>state.
          Ok (state\<lparr>rs_SeqID := sm_Sequence entry\<rparr>)))"

text \<open>
  \<^verbatim>\<open>GetNextEvent\<close> returns from the first pass of its loop; the type assertion on the message
  is unchecked. Without a pass it returns the library's sentinel.
\<close>

definition set_event_seq :: "Directive \<Rightarrow> u64 \<Rightarrow> Directive res" where
  "set_event_seq d seq =
     (case as_Event (d_Msg d) of
        None \<Rightarrow> Panic (''interface conversion: '' @ go_type (d_Msg d))
      | Some (q, name, payload, timeout) \<Rightarrow>
          Ok (d\<lparr>d_Msg := Some (Event (Some seq) name payload timeout)\<rparr>))"

fun first_event :: "runtime \<Rightarrow> stored res list \<Rightarrow> (Directive \<times> u64) res" where
  "first_event rt [] = Err (LibErr ErrNoMessages ''no messages'')"
| "first_event rt (item # _) =
     orErrorf ''failed to read event batch: '' item (\<lambda>msg.
     orErrorf ''failed to unmarshal event: '' (unmarshal_Directive rt (sm_Data msg)) (\<lambda>d.
     andThen (set_event_seq d (sm_Sequence msg)) (\<lambda>d'. Ok (d', sm_Sequence msg))))"

definition GetNextEvent ::
  "runtime \<Rightarrow> ('s, 'b) jetstream \<Rightarrow> 's \<Rightarrow> WFID \<Rightarrow> u64 \<Rightarrow> (Directive \<times> u64) res" where
  "GetNextEvent rt js s wfID startAfterSeq =
     orErrorf ''failed to get next event: ''
       (js_get_batch js s (EventInboxSubject Manifest wfID)
          (if startAfterSeq > 0 then Some (startAfterSeq + 1) else None) 1) (first_event rt)"

definition GetLastHistorySeqID ::
  "('s, 'b) jetstream \<Rightarrow> 's \<Rightarrow> WFID \<Rightarrow> RunID \<Rightarrow> u64 res" where
  "GetLastHistorySeqID js s wfID runID =
     (case js_get_last js s (HistorySubject Manifest wfID runID) of
        Err e \<Rightarrow>
          if errors_is_lib e ErrMsgNotFound then Ok 0
          else Err (Wrapf ''failed to get last history message: '' e '''')
      | Panic p \<Rightarrow> Panic p
      | Ok entry \<Rightarrow> Ok (sm_Sequence entry))"

definition event_or_none :: "(Directive \<times> u64) res \<Rightarrow> Directive res" where
  "event_or_none r =
     (case r of
        Ok (event, _) \<Rightarrow> Ok event
      | Err e \<Rightarrow> if errors_is_lib e ErrNoMessages then Ok Directive_zero else Err e
      | Panic p \<Rightarrow> Panic p)"

definition GetStateSnapshot ::
  "runtime \<Rightarrow> ('s, 'b) jetstream \<Rightarrow> 's \<Rightarrow> WFID \<Rightarrow> RunID \<Rightarrow> StateSnapshot res" where
  "GetStateSnapshot rt js s wfID runID =
     andThen
       (case GetRunState rt js s wfID runID of
          Ok state \<Rightarrow> Ok state
        | Err e \<Rightarrow> if errors_is e ErrRunStateNotFound then Ok RunState_zero else Err e
        | Panic p \<Rightarrow> Panic p) (\<lambda>state.
     andThen (GetLastHistorySeqID js s wfID runID) (\<lambda>lastHistorySeqID.
     andThen (event_or_none (GetNextEvent rt js s wfID (rs_LastEventSeqID state))) (\<lambda>event.
     Ok \<lparr>sn_RunState = state, sn_Event = event, sn_LastHistorySeqID = lastHistorySeqID\<rparr>)))"

text \<open>\<^verbatim>\<open>GetHistoryForRun\<close> skips what it cannot read or decode.\<close>

fun history_loop :: "runtime \<Rightarrow> stored res list \<Rightarrow> HistoryEvent list res" where
  "history_loop rt [] = Ok []"
| "history_loop rt (Err e # items) = history_loop rt items"
| "history_loop rt (Panic p # items) = Panic p"
| "history_loop rt (Ok msg # items) =
     (case unmarshal_HistoryEvent rt (sm_Data msg) of
        Err e \<Rightarrow> history_loop rt items
      | Panic p \<Rightarrow> Panic p
      | Ok event \<Rightarrow> andThen (history_loop rt items) (\<lambda>events. Ok (event # events)))"

definition GetHistoryForRun ::
  "runtime \<Rightarrow> ('s, 'b) jetstream \<Rightarrow> 's \<Rightarrow> WFID \<Rightarrow> RunID \<Rightarrow> HistoryEvent list res" where
  "GetHistoryForRun rt js s wfID runID =
     orErrorf ''failed to get history messages: ''
       (js_get_batch js s (HistorySubject Manifest wfID runID) None 10000) (history_loop rt)"

definition has_key :: "('s, 'b) jetstream \<Rightarrow> 's \<Rightarrow> string \<Rightarrow> string \<Rightarrow> bool res" where
  "has_key js s context key =
     (case js_get_last js s key of
        Err e \<Rightarrow> if errors_is_lib e ErrMsgNotFound then Ok False else Err (Wrapf context e '''')
      | Panic p \<Rightarrow> Panic p
      | Ok _ \<Rightarrow> Ok True)"

definition HasRunInput :: "('s, 'b) jetstream \<Rightarrow> 's \<Rightarrow> WFID \<Rightarrow> RunID \<Rightarrow> bool res" where
  "HasRunInput js s wfID runID =
     has_key js s ''failed to check run input: '' (RunInputKey Manifest wfID runID)"

definition HasRunOutput :: "('s, 'b) jetstream \<Rightarrow> 's \<Rightarrow> WFID \<Rightarrow> RunID \<Rightarrow> bool res" where
  "HasRunOutput js s wfID runID =
     has_key js s ''failed to check run output: '' (RunOutputKey Manifest wfID runID)"

definition HasRunError :: "('s, 'b) jetstream \<Rightarrow> 's \<Rightarrow> WFID \<Rightarrow> RunID \<Rightarrow> bool res" where
  "HasRunError js s wfID runID =
     has_key js s ''failed to check run error: '' (RunErrorKey Manifest wfID runID)"

section \<open>Deleting and publishing\<close>

definition DeleteInboxEvent :: "('s, 'b) jetstream \<Rightarrow> 's \<Rightarrow> u64 \<Rightarrow> 's \<times> gerr option" where
  "DeleteInboxEvent js s seqID =
     (case js_delete js s seqID of
        (s', None) \<Rightarrow> (s', None)
      | (s', Some e) \<Rightarrow>
          (s', Some (Wrapf (''failed to delete inbox event with seqID '' @ decimal (unat seqID) @ '': '') e '''')))"

fun purge_loop :: "('s, 'b) jetstream \<Rightarrow> 's \<Rightarrow> string list \<Rightarrow> 's \<times> gerr option" where
  "purge_loop js s [] = (s, None)"
| "purge_loop js s (pattern # patterns) =
     (case js_purge js s pattern of
        (s', Some e) \<Rightarrow> (s', Some (Wrapf (''failed to purge subject '' @ pattern @ '': '') e ''''))
      | (s', None) \<Rightarrow> purge_loop js s' patterns)"

definition residue_patterns :: "WFID \<Rightarrow> string list" where
  "residue_patterns wfID =
     [DirectivePurgePattern Manifest wfID, TimerPurgePattern Manifest wfID,
      EventInboxPurgePattern Manifest wfID, WorkerTaskPurgePattern Manifest wfID]"

definition PurgeRunResidue :: "('s, 'b) jetstream \<Rightarrow> 's \<Rightarrow> WFID \<Rightarrow> 's \<times> gerr option" where
  "PurgeRunResidue js s wfID = purge_loop js s (residue_patterns wfID)"

definition directive_msg :: "Directive \<Rightarrow> bytes \<Rightarrow> nats_msg" where
  "directive_msg d data =
     \<lparr>nm_Subject = DirectiveSubject Manifest (ri_WFType (d_RunInfo d)) (ri_WFID (d_RunInfo d))
        (ri_ID (d_RunInfo d)),
      nm_Header = [(hdr_msg_id, d_ID d)], nm_Data = data\<rparr>"

definition PublishDirective ::
  "runtime \<Rightarrow> ('s, 'b) jetstream \<Rightarrow> 's \<Rightarrow> Directive \<Rightarrow> 's \<times> unit res" where
  "PublishDirective rt js s d =
     (case marshal_Directive rt d of
        Err e \<Rightarrow> (s, Err (Wrapf ''failed to marshal message: '' e ''''))
      | Panic p \<Rightarrow> (s, Panic p)
      | Ok data \<Rightarrow>
          (case js_publish js s (directive_msg d data) of
             (s', Some e) \<Rightarrow> (s', Err (Wrapf ''failed to publish directive: '' e ''''))
           | (s', None) \<Rightarrow> (s', Ok ())))"

section \<open>Commit\<close>

definition IsCASRejection :: "gerr \<Rightarrow> bool" where
  "IsCASRejection e \<longleftrightarrow>
     (case errors_as_api e of None \<Rightarrow> False | Some (code, description) \<Rightarrow> code = 10071)"

definition IsDuplicateMessage :: "gerr \<Rightarrow> bool" where
  "IsDuplicateMessage e \<longleftrightarrow>
     (case errors_as_api e of
        None \<Rightarrow> False
      | Some (code, description) \<Rightarrow>
          if code = 10201 then True else Contains (ToLower description) ''duplicate message'')"

definition IsAtomicPublishBackpressure :: "gerr \<Rightarrow> bool" where
  "IsAtomicPublishBackpressure e \<longleftrightarrow>
     (case errors_as_api e of None \<Rightarrow> False | Some (code, description) \<Rightarrow> code = 10210)"

fun commit_messages :: "runtime \<Rightarrow> Record list \<Rightarrow> nats_msg list res" where
  "commit_messages rt [] = Ok []"
| "commit_messages rt (record # records) =
     orErrorf ''failed to create NATS messages: '' (recordToNats rt record) (\<lambda>recordMsgs.
     andThen (commit_messages rt records) (\<lambda>msgs. Ok (recordMsgs @ msgs)))"

fun add_messages :: "('s, 'b) jetstream \<Rightarrow> 's \<Rightarrow> 'b \<Rightarrow> nats_msg list \<Rightarrow> 's \<times> 'b res" where
  "add_messages js s b [] = (s, Ok b)"
| "add_messages js s b (m # ms) =
     (case js_add_msg js s b m of
        (s', Ok b') \<Rightarrow> add_messages js s' b' ms
      | (s', Err e) \<Rightarrow> (s', Err e)
      | (s', Panic p) \<Rightarrow> (s', Panic p))"

definition commit_error :: "nats_msg list \<Rightarrow> gerr \<Rightarrow> gerr" where
  "commit_error msgs e =
     Wrapf (''failed to commit batch (last_subject='' @ nm_Subject (last msgs) @ '', subjects='' @
            Join (map nm_Subject msgs) '','' @ ''): '') e ''''"

text \<open>The batch: all messages but the last are added, the last one commits.\<close>

definition publish_batch ::
  "('s, 'b) jetstream \<Rightarrow> 's \<Rightarrow> nats_msg list \<Rightarrow> 's \<times> (CommitResult \<times> gerr option) res" where
  "publish_batch js s msgs =
     (case js_new_batch js s of
        (s1, Panic p) \<Rightarrow> (s1, Panic p)
      | (s1, Err e) \<Rightarrow> (s1, Ok (CommitResult_zero, Some (Wrapf ''failed to create batch publisher: '' e '''')))
      | (s1, Ok b) \<Rightarrow>
          (case add_messages js s1 b (butlast msgs) of
             (s2, Panic p) \<Rightarrow> (s2, Panic p)
           | (s2, Err e) \<Rightarrow>
               (s2, Ok (CommitResult_zero\<lparr>cr_IsAtomicPublishBackpressure := IsAtomicPublishBackpressure e\<rparr>,
                        Some (Wrapf ''failed to add message to batch: '' e '''')))
           | (s2, Ok b') \<Rightarrow>
               (case js_commit_msg js s2 b' (last msgs) of
                  (s3, Some e) \<Rightarrow>
                    (s3, Ok (\<lparr>cr_IsCASRejection = IsCASRejection e,
                              cr_IsDuplicateMessage = IsDuplicateMessage e,
                              cr_IsAtomicPublishBackpressure = IsAtomicPublishBackpressure e\<rparr>,
                             Some (commit_error msgs e)))
                | (s3, None) \<Rightarrow> (s3, Ok (CommitResult_zero, None)))))"

definition Commit ::
  "runtime \<Rightarrow> ('s, 'b) jetstream \<Rightarrow> 's \<Rightarrow> Record list \<Rightarrow>
   's \<times> (CommitResult \<times> gerr option) res" where
  "Commit rt js s records =
     (if length records < 1
      then (s, Ok (CommitResult_zero,
              Some (Errorf (''transition requires at least 1 record, got '' @ decimal (length records)))))
      else case commit_messages rt records of
        Panic p \<Rightarrow> (s, Panic p)
      | Err e \<Rightarrow> (s, Ok (CommitResult_zero, Some e))
      | Ok msgs \<Rightarrow>
          if length msgs = 0 then (s, Ok (CommitResult_zero, Some (Errorf ''no messages to publish'')))
          else publish_batch js s msgs)"

section \<open>The subjects of the stream\<close>

definition EnsureStateStream_Subjects :: "string list" where
  "EnsureStateStream_Subjects =
     [DirectiveListenerPattern Manifest, HistoryListenerPattern Manifest,
      TimerListenerPattern Manifest, TimerFiredSubject Manifest, AllRunsInfoKeyPattern Manifest,
      AllRunsInputKeyPattern Manifest, AllRunsOutputKeyPattern Manifest,
      AllRunsErrorKeyPattern Manifest, AllWfKVKeyPattern Manifest,
      EventInboxListenerPattern Manifest, RunStateListenerPattern Manifest,
      WorkerTaskListenerPattern Manifest, BgTaskSubject Manifest,
      WorkflowTypeRegistryListenerPattern Manifest]"

end
