(* ===== verification/StoreProps.thy ===== *)
theory StoreProps
  imports Store
begin

text \<open>
  What the state store promises: a commit is atomic and answers truthfully, a guarded commit
  succeeds only if the state it was planned from is still the current one, a read after a
  commit returns what was committed, a purge removes the residue of one workflow and nothing
  else, and every message the store writes is on a subject of the stream.
\<close>

section \<open>Commit is atomic\<close>

text \<open>
  The contract of a commit of messages \<open>ms\<close>: either all of them are stored and there is no
  error, or nothing is stored, or the answer was lost. In the last case no flag of the
  result is set.
\<close>

definition commit_spec ::
  "stream \<Rightarrow> nats_msg list \<Rightarrow> stream \<Rightarrow> CommitResult \<Rightarrow> gerr option \<Rightarrow> bool" where
  "commit_spec st ms st' cr err \<longleftrightarrow>
     (case err of
        None \<Rightarrow> batch_accepted st ms \<and> st' = store_batch st ms \<and> cr = CommitResult_zero
      | Some e \<Rightarrow>
          st' = st \<or> batch_accepted st ms \<and> st' = store_batch st ms \<and> cr = CommitResult_zero)"

lemma no_flags:
  "errors_as_api e = None \<Longrightarrow>
   \<lparr>cr_IsCASRejection = IsCASRejection e, cr_IsDuplicateMessage = IsDuplicateMessage e,
    cr_IsAtomicPublishBackpressure = IsAtomicPublishBackpressure e\<rparr> = CommitResult_zero"
  by (simp add: IsCASRejection_def IsDuplicateMessage_def IsAtomicPublishBackpressure_def
      CommitResult_zero_def)

context state_stream
begin

lemma add_messages_spec:
  "add_messages js s b ms = (s', r) \<Longrightarrow>
   view s' = view s \<and> (\<forall>b'. r = Ok b' \<longrightarrow> staged b' = staged b @ ms) \<and> (\<forall>p. r \<noteq> Panic p)"
proof (induction ms arbitrary: s b)
  case (Cons m ms)
  obtain s1 r1 where eq: "js_add_msg js s b m = (s1, r1)" by (cases "js_add_msg js s b m")
  note step = add_msg [OF eq]
  show ?case
  proof (cases r1)
    case (Ok b1)
    with eq Cons.prems have "add_messages js s1 b1 ms = (s', r)" by simp
    from Cons.IH [OF this] step Ok show ?thesis by auto
  qed (use eq step Cons.prems in auto)
qed auto

lemma publish_batch_spec:
  assumes "publish_batch js s ms = (s', r)" and "ms \<noteq> []"
  shows "\<exists>cr err. r = Ok (cr, err) \<and> commit_spec (view s) ms (view s') cr err"
proof -
  obtain s1 r1 where new: "js_new_batch js s = (s1, r1)" by (cases "js_new_batch js s")
  note n = new_batch [OF new]
  show ?thesis
  proof (cases r1)
    case (Ok b)
    obtain s2 r2 where add: "add_messages js s1 b (butlast ms) = (s2, r2)"
      by (cases "add_messages js s1 b (butlast ms)")
    note a = add_messages_spec [OF add]
    show ?thesis
    proof (cases r2)
      case (Ok b')
      obtain s3 r3 where com: "js_commit_msg js s2 b' (last ms) = (s3, r3)"
        by (cases "js_commit_msg js s2 b' (last ms)")
      from n a \<open>r1 = Ok b\<close> Ok assms(2) have ms: "staged b' @ [last ms] = ms" by simp
      from assms(1) new add com \<open>r1 = Ok b\<close> Ok show ?thesis
        using commit_ok [of s2 b' "last ms" s3] commit_failed [of s2 b' "last ms" s3] n a ms
        by (cases r3) (auto simp: publish_batch_def commit_spec_def no_flags)
    qed (use assms(1) new add \<open>r1 = Ok b\<close> n a in \<open>auto simp: publish_batch_def commit_spec_def\<close>)
  qed (use assms(1) new n in \<open>auto simp: publish_batch_def commit_spec_def\<close>)
qed

lemma Commit_spec:
  assumes "Commit rt js s rs = (s', Ok (cr, err))"
  shows "view s' = view s \<and> err \<noteq> None \<or>
    (\<exists>ms. commit_messages rt rs = Ok ms \<and> ms \<noteq> [] \<and> commit_spec (view s) ms (view s') cr err)"
  using assms publish_batch_spec [of s _ s']
  by (fastforce simp: Commit_def split: if_splits res.splits)

lemma Commit_Panic:
  assumes "Commit rt js s rs = (s', Panic p)"
  shows "commit_messages rt rs = Panic p \<and> view s' = view s"
  using assms publish_batch_spec [of s _ s' "Panic p"]
  by (fastforce simp: Commit_def split: if_splits res.splits)

lemma Commit_not_Err: "Commit rt js s rs \<noteq> (s', Err e)"
  using publish_batch_spec [of s _ s' "Err e"]
  by (fastforce simp: Commit_def split: if_splits res.splits)

lemma Commit_empty: "Commit rt js s [] = (s', r) \<Longrightarrow> s' = s \<and> (\<exists>e. r = Ok (CommitResult_zero, Some e))"
  by (auto simp: Commit_def)

end

section \<open>The messages of a batch\<close>

fun record_prefix :: "Record \<Rightarrow> string" where
  "record_prefix (RunInfoRecord _ _) = ''grctl_run.''"
| "record_prefix (RunInputRecord _ _ _) = ''grctl_run.''"
| "record_prefix (RunOutputRecord _ _ _) = ''grctl_run.''"
| "record_prefix (RunErrorRecord _ _ _) = ''grctl_run.''"
| "record_prefix (RunStateRecord _ _) = ''grctl_state.run_state.''"
| "record_prefix (TimerRecord _) = ''grctl_timers.''"
| "record_prefix (HistoryRecord _) = ''grctl_history.''"
| "record_prefix (InboxRecord _) = ''grctl_events.''"
| "record_prefix (KVRecord _ _ _) = ''grctl_wf_kv.''"
| "record_prefix (WorkerTaskDispatch _) = ''grctl_worker_task.''"
| "record_prefix (DirectiveRecord _) = ''grctl_directive.''"
| "record_prefix (BackgroundTaskRecord _) = ''grctl_bg_task''"

lemma KVRecordToNatsMsgs_mem:
  "KVRecordToNatsMsgs rt w r kvs = Ok ms \<Longrightarrow> m \<in> set ms \<Longrightarrow>
   nm_Header m = [] \<and> (\<exists>k\<in>fst ` set kvs. nm_Subject m = WfKVKey Manifest w r k)"
  by (induction kvs arbitrary: ms) auto

lemma recordToNats_prefix:
  "recordToNats rt r = Ok ms \<Longrightarrow> m \<in> set ms \<Longrightarrow> HasPrefix (nm_Subject m) (record_prefix r)"
  by (cases r)
    (auto simp: record_to_nats_defs subject_prefixes fixed_subjects split: if_splits
      dest!: KVRecordToNatsMsgs_mem)

lemma recordToNats_no_rollup:
  "recordToNats rt r = Ok ms \<Longrightarrow> list_all no_rollup ms"
  by (cases r)
    (auto simp: record_to_nats_defs no_rollup_def expected_header_def list_all_iff split: if_splits
      dest!: KVRecordToNatsMsgs_mem)

lemma commit_messages_mem:
  "commit_messages rt rs = Ok ms \<Longrightarrow> m \<in> set ms \<Longrightarrow>
   \<exists>r\<in>set rs. \<exists>ms'. recordToNats rt r = Ok ms' \<and> m \<in> set ms'"
  by (induction rs arbitrary: ms) auto

lemma commit_messages_no_rollup:
  "commit_messages rt rs = Ok ms \<Longrightarrow> list_all no_rollup ms"
  by (induction rs arbitrary: ms) (auto dest: recordToNats_no_rollup)

text \<open>The run states of a batch are exactly its messages on run state subjects.\<close>

definition on_state_subject :: "nats_msg \<Rightarrow> bool" where
  "on_state_subject m \<longleftrightarrow> HasPrefix (nm_Subject m) ''grctl_state.run_state.''"

lemma recordToNats_states:
  assumes "recordToNats rt r = Ok ms"
  shows "list_all2 (\<lambda>(st, e) m. RunStateRecordToNatsMsgs rt st e = Ok [m])
    (run_states [r]) (filter on_state_subject ms)"
proof (cases "\<exists>st e. r = RunStateRecord st e")
  case True
  with assms show ?thesis
    by (auto simp: RunStateRecordToNatsMsgs_def on_state_subject_def subject_prefixes split: if_splits)
next
  case False
  have "\<not> on_state_subject m" if "m \<in> set ms" for m
  proof
    assume "on_state_subject m"
    with recordToNats_prefix [OF assms that]
    have "HasPrefix (record_prefix r) ''grctl_state.run_state.'' \<or>
        HasPrefix ''grctl_state.run_state.'' (record_prefix r)"
      using HasPrefix_comparable by (simp add: on_state_subject_def)
    with False show False by (cases r) auto
  qed
  then have "filter on_state_subject ms = []" by (simp add: filter_empty_conv)
  moreover from False have "run_states [r] = []" by (cases r) auto
  ultimately show ?thesis by simp
qed

lemma run_states_Cons: "run_states (r # rs) = run_states [r] @ run_states rs"
  using projections_append(1) [of "[r]" rs] by simp

lemma commit_messages_states:
  "commit_messages rt rs = Ok ms \<Longrightarrow>
   list_all2 (\<lambda>(st, e) m. RunStateRecordToNatsMsgs rt st e = Ok [m])
     (run_states rs) (filter on_state_subject ms)"
proof (induction rs arbitrary: ms)
  case (Cons r rs)
  then obtain ms1 ms2 where "recordToNats rt r = Ok ms1" "commit_messages rt rs = Ok ms2" "ms = ms1 @ ms2"
    by auto
  with Cons.IH recordToNats_states show ?case
    by (simp add: run_states_Cons [of r rs] list_all2_appendI del: run_states.simps)
qed simp

section \<open>Guarded commits\<close>

lemma list_all2_mem1: "list_all2 P xs ys \<Longrightarrow> x \<in> set xs \<Longrightarrow> \<exists>y\<in>set ys. P x y"
  by (induction rule: list_all2_induct) auto

lemma guard_met:
  assumes "commit_messages rt rs = Ok ms" and "batch_accepted st ms"
    and "(x, e) \<in> set (run_states rs)" and "e > 0"
  shows "last_subject_seq st (RunStateSubject Manifest (rs_WFID x) (rs_RunID x)) = e"
proof -
  obtain m where m: "m \<in> set ms" "RunStateRecordToNatsMsgs rt x e = Ok [m]"
    using list_all2_mem1 [OF commit_messages_states [OF assms(1)] assms(3)] by auto
  then have "expectation_met st m"
    using assms(2) by (simp add: batch_accepted_def list_all_iff)
  with m(2) assms(4) show ?thesis
    by (auto simp: RunStateRecordToNatsMsgs_def expectation_met_def expected_header_def
        word_unat_eq_iff split: if_splits)
qed

text \<open>
  Whatever other clients did in the meantime: if the last number on a subject is the one read
  before, the last message is the one read before.
\<close>

lemma last_seq_determines:
  assumes "wf_stream st0" and "stream_evolves st0 st1" and "literal p"
    and m0: "last_match st0 p = Some m0" and q: "last_subject_seq st1 p = sm_Sequence m0"
  shows "last_match st1 p = Some m0"
proof -
  from m0 have in0: "m0 \<in> set (st_msgs st0)" by (rule last_match_SomeD [THEN conjunct1])
  with assms(1) have pos: "sm_Sequence m0 \<noteq> 0" "unat (sm_Sequence m0) \<le> st_last st0"
    by (auto simp: wf_stream_def seqs_def list_all_iff unat_gt_0)
  with q obtain m1 where m1: "last_match st1 p = Some m1" "sm_Sequence m1 = sm_Sequence m0"
    by (auto simp: last_match_literal [OF assms(3)] split: option.splits)
  then have "m1 \<in> set (st_msgs st1)" using last_match_SomeD by blast
  with pos m1(2) stream_evolves_old [OF assms(2,1)] have "m1 \<in> set (st_msgs st0)" by auto
  with in0 m1 wf_stream_unique [OF assms(1)] show ?thesis by metis
qed

context state_stream
begin

lemma GetRunState_OkD:
  assumes "GetRunState rt js s w r = Ok x"
  shows "\<exists>m x0. last_match (view s) (RunStateSubject Manifest w r) = Some m \<and>
    unmarshal_RunState rt (sm_Data m) = Ok x0 \<and> x = x0\<lparr>rs_SeqID := sm_Sequence m\<rparr>"
  using assms get_last_ok by (fastforce simp: GetRunState_def split: res.splits if_splits)

lemma GetRunState_notfoundD:
  assumes "GetRunState rt js s w r = Err e" and "errors_is e ErrRunStateNotFound"
    and "\<And>b e. unmarshal_RunState rt b = Err e \<Longrightarrow> \<not> errors_is e ErrRunStateNotFound"
    and "\<And>p e. js_get_last js s p = Err e \<Longrightarrow> \<not> errors_is e ErrRunStateNotFound"
  shows "last_match (view s) (RunStateSubject Manifest w r) = None"
  using assms get_last_none
  by (force simp: GetRunState_def orErrorf_Err_iff split: res.splits if_splits)

lemma guarded_commit:
  assumes "wf_stream (view s0)" and "stream_evolves (view s0) (view s1)"
    and "GetRunState rt js s0 w r = Ok x"
    and "Commit rt js s1 rs = (s2, Ok (cr, None))"
    and "(y, rs_SeqID x) \<in> set (run_states rs)" and "rs_WFID y = w" and "rs_RunID y = r"
    and "token w" and "token r"
  shows "last_match (view s1) (RunStateSubject Manifest w r) =
    last_match (view s0) (RunStateSubject Manifest w r)"
proof -
  obtain m x0 where m: "last_match (view s0) (RunStateSubject Manifest w r) = Some m"
      "x = x0\<lparr>rs_SeqID := sm_Sequence m\<rparr>"
    using GetRunState_OkD [OF assms(3)] by blast
  then have pos: "rs_SeqID x > 0"
    using assms(1) last_match_SomeD [OF m(1)]
    by (auto simp: wf_stream_def seqs_def list_all_iff unat_gt_0 word_neq_0_conv)
  from Commit_spec [OF assms(4)] obtain ms where
    "commit_messages rt rs = Ok ms" "batch_accepted (view s1) ms"
    by (auto simp: commit_spec_def)
  from guard_met [OF this assms(5) pos] assms(6,7) m(2)
  have "last_subject_seq (view s1) (RunStateSubject Manifest w r) = sm_Sequence m" by simp
  with last_seq_determines [OF assms(1,2) subject_literals(1) m(1)] m(1) assms(8,9)
  show ?thesis by simp
qed

end

section \<open>Reading after a commit\<close>

lemma assign_mem:
  assumes "x \<in> set (assign n ms)" and "n + length ms < 2 ^ 64"
  shows "\<exists>m\<in>set ms. sm_Subject x = nm_Subject m \<and> sm_Header x = nm_Header m \<and>
    sm_Data x = nm_Data m \<and> n < unat (sm_Sequence x)"
  using assms
proof (induction ms arbitrary: n)
  case (Cons m ms)
  show ?case
  proof (cases "x \<in> set (assign (Suc n) ms)")
    case True
    with Cons.IH [of "Suc n"] Cons.prems(2) show ?thesis by (auto simp: Suc_lessD)
  next
    case False
    moreover from Cons.prems(2) have "unat (of_nat (Suc n) :: u64) = Suc n"
      by (intro unat_of_nat_small) simp
    ultimately show ?thesis using Cons.prems(1) by (auto simp del: of_nat_Suc)
  qed
qed simp

lemma assign_subjects: "sm_Subject ` set (assign n ms) = nm_Subject ` set ms"
  by (induction ms arbitrary: n) auto

lemma batch_last_match:
  assumes "list_all no_rollup ms" and "batch_accepted st ms" and "literal p"
    and "m \<in> set ms" and "nm_Subject m = p"
  shows "\<exists>x m'. last_match (store_batch st ms) p = Some x \<and> m' \<in> set ms \<and> nm_Subject m' = p \<and>
    sm_Data x = nm_Data m' \<and> st_last st < unat (sm_Sequence x)"
proof -
  let ?new = "filter (\<lambda>x. subject_matches p (sm_Subject x)) (assign (st_last st) ms)"
  have "p \<in> sm_Subject ` set (assign (st_last st) ms)"
    using assms(4,5) by (auto simp: assign_subjects)
  then have ne: "?new \<noteq> []"
    by (auto simp: filter_empty_conv subject_matches_literal [OF assms(3)])
  then have "last ?new \<in> set ?new" by (rule last_in_set)
  moreover have "st_last st + length ms < 2 ^ 64"
    using assms(2) by (simp add: batch_accepted_def)
  ultimately obtain m' where "m' \<in> set ms" "nm_Subject m' = p" "sm_Data (last ?new) = nm_Data m'"
      "st_last st < unat (sm_Sequence (last ?new))"
    using assign_mem [of "last ?new" "st_last st" ms]
    by (auto simp: subject_matches_literal [OF assms(3)])
  moreover have "last_match (store_batch st ms) p = Some (last ?new)"
    using ne last_match_append [OF store_batch_msgs [OF assms(1)], of st p] by (simp add: Let_def)
  ultimately show ?thesis by blast
qed

lemma single_state_match:
  assumes "commit_messages rt rs = Ok ms" and "batch_accepted st ms" and "run_states rs = [(x, e)]"
    and "token (rs_WFID x)" and "token (rs_RunID x)"
  shows "\<exists>m data. last_match (store_batch st ms) (RunStateSubject Manifest (rs_WFID x) (rs_RunID x)) = Some m \<and>
    marshal_RunState rt x = Ok data \<and> sm_Data m = data \<and> st_last st < unat (sm_Sequence m)"
proof -
  let ?p = "RunStateSubject Manifest (rs_WFID x) (rs_RunID x)"
  obtain m where m: "filter on_state_subject ms = [m]" "RunStateRecordToNatsMsgs rt x e = Ok [m]"
    using commit_messages_states [OF assms(1)] assms(3) by (auto simp: list_all2_Cons1)
  then have "m \<in> set (filter on_state_subject ms)" by simp
  then have "m \<in> set ms" by simp
  moreover from m(2) have p: "nm_Subject m = ?p" "marshal_RunState rt x = Ok (nm_Data m)"
    by (auto simp: RunStateRecordToNatsMsgs_def split: if_splits)
  ultimately obtain y m' where y: "last_match (store_batch st ms) ?p = Some y" "m' \<in> set ms"
      "nm_Subject m' = ?p" "sm_Data y = nm_Data m'" "st_last st < unat (sm_Sequence y)"
    using batch_last_match [OF commit_messages_no_rollup [OF assms(1)] assms(2)
        subject_literals(1) [OF assms(4,5)]] by blast
  then have "m' \<in> set (filter on_state_subject ms)"
    by (simp add: on_state_subject_def subject_prefixes)
  with m(1) have "m' = m" by simp
  with y p show ?thesis by auto
qed

context state_stream
begin

lemma commit_then_state:
  assumes "codec_ok rt" and "Commit rt js s rs = (s', Ok (cr, None))"
    and "run_states rs = [(x, e)]" and "token (rs_WFID x)" and "token (rs_RunID x)"
    and "wf_run_state x" and "fits_run_state rt x"
  shows "(\<exists>q. GetRunState rt js s' (rs_WFID x) (rs_RunID x) = Ok (x\<lparr>rs_SeqID := q\<rparr>) \<and> st_last (view s) < unat q) \<or>
    (\<exists>e. js_get_last js s' (RunStateSubject Manifest (rs_WFID x) (rs_RunID x)) = Err e \<and>
       \<not> errors_is_lib e ErrMsgNotFound)"
proof -
  let ?p = "RunStateSubject Manifest (rs_WFID x) (rs_RunID x)"
  from Commit_spec [OF assms(2)] obtain ms where ms: "commit_messages rt rs = Ok ms"
      "batch_accepted (view s) ms" "view s' = store_batch (view s) ms"
    by (auto simp: commit_spec_def)
  from single_state_match [OF ms(1,2) assms(3-5)] ms(3) obtain m data where
    m: "last_match (view s') ?p = Some m" "marshal_RunState rt x = Ok data" "sm_Data m = data"
      "st_last (view s) < unat (sm_Sequence m)" by auto
  moreover have "unmarshal_RunState rt data = Ok (x\<lparr>rs_SeqID := 0\<rparr>)"
    using RunState_wire_roundtrip [OF assms(1,6,7)] m(2) by auto
  ultimately have got: "GetRunState rt js s' (rs_WFID x) (rs_RunID x) = Ok (x\<lparr>rs_SeqID := sm_Sequence m\<rparr>)"
    if "js_get_last js s' ?p = Ok m"
    using that by (simp add: GetRunState_def)
  show ?thesis
  proof (cases "js_get_last js s' ?p")
    case (Ok y)
    with get_last_ok m(1) have "y = m" by fastforce
    with Ok got m(4) show ?thesis by blast
  next
    case (Err e)
    with get_last_none m(1) show ?thesis by fastforce
  qed (simp add: get_last_total)
qed

end

section \<open>A sample store\<close>

text \<open>A stream in memory that holds the state of one run under the number 4.\<close>

definition sample_stream :: "RunState \<Rightarrow> stream" where
  "sample_stream x =
     \<lparr>st_msgs = [\<lparr>sm_Sequence = 4, sm_Subject = RunStateSubject Manifest (rs_WFID x) (rs_RunID x),
                   sm_Header = [], sm_Data = (case marshal_RunState sample_rt x of Ok b \<Rightarrow> b | _ \<Rightarrow> [])\<rparr>],
      st_last = 4, st_ids = []\<rparr>"

lemma sample_tokens: "token ''w1''" "token ''r1''" "token ''order''"
  by (simp_all add: token_def plain_def dot_free_def)

lemma sample_state_wire:
  "wf_run_state (sample_state RunStateStep)" "fits_run_state sample_rt (sample_state RunStateStep)"
  by (simp_all add: wf_run_state_def fits_run_state_def sample_state_def RunState_zero_def
      enc_RunState_def RunState_segs_def segs_Cons segs_def enc_u_def)

lemma sample_stream_wf: "wf_stream (sample_stream x)"
  by (simp add: wf_stream_def sample_stream_def seqs_def)

lemma sample_state_marshal:
  "\<exists>b. marshal_RunState sample_rt (sample_state RunStateStep) = Ok b \<and>
     unmarshal_RunState sample_rt b = Ok ((sample_state RunStateStep)\<lparr>rs_SeqID := 0\<rparr>)"
  using RunState_wire_roundtrip [OF codec_ok_sample sample_state_wire] .

lemma sample_stream_state:
  "GetRunState sample_rt mem_js (sample_stream (sample_state RunStateStep)) ''w1'' ''r1'' =
     Ok (sample_state RunStateStep)"
proof -
  obtain b where b: "marshal_RunState sample_rt (sample_state RunStateStep) = Ok b"
     "unmarshal_RunState sample_rt b = Ok ((sample_state RunStateStep)\<lparr>rs_SeqID := 0\<rparr>)"
    using sample_state_marshal by blast
  have ids: "rs_WFID (sample_state RunStateStep) = ''w1''" "rs_RunID (sample_state RunStateStep) = ''r1''"
    by (simp_all add: sample_state_def)
  show ?thesis
    by (simp add: GetRunState_def mem_js_def sample_stream_def last_match_def b ids
        subject_matches_literal subject_literals sample_tokens)
      (simp add: sample_state_def)
qed

lemma sample_commit:
  assumes "st = sample_stream (sample_state RunStateStep)"
  shows "\<exists>st'. Commit sample_rt mem_js st [RunStateRecord (sample_state RunStateStep) 4] =
    (st', Ok (CommitResult_zero, None))"
proof -
  obtain b where b: "marshal_RunState sample_rt (sample_state RunStateStep) = Ok b"
    using sample_state_marshal by blast
  have ids: "rs_WFID (sample_state RunStateStep) = ''w1''" "rs_RunID (sample_state RunStateStep) = ''r1''"
    by (simp_all add: sample_state_def)
  show ?thesis
    by (simp add: assms Commit_def RunStateRecordToNatsMsgs_def b ids publish_batch_def mem_js_def
        mem_commit_def batch_accepted_def expectation_met_def expected_header_def is_duplicate_def
        sample_stream_def last_subject_seq_def Let_def)
qed

section \<open>Properties of the store\<close>

text \<open>
  C11. A commit refines an atomic write of all its messages: without an error every message
  of every record is stored, in order and under the conditions of the stream; with an error
  that reports a rejected sequence number, a duplicate or backpressure nothing is stored;
  other errors leave the stream alone or are the loss of the answer. A commit panics only if
  the encoding of a record does, and then writes nothing.
\<close>

theorem Commit_atomic:
  assumes "state_stream js view staged" and "Commit rt js s rs = (s', result)"
  shows "case result of
      Ok (cr, err) \<Rightarrow>
        view s' = view s \<and> err \<noteq> None \<or>
        (\<exists>ms. commit_messages rt rs = Ok ms \<and> ms \<noteq> [] \<and> commit_spec (view s) ms (view s') cr err)
    | Err e \<Rightarrow> False
    | Panic p \<Rightarrow> commit_messages rt rs = Panic p \<and> view s' = view s"
proof (cases result)
  case (Ok a)
  then show ?thesis
    using state_stream.Commit_spec [OF assms(1)] assms(2) by (cases a) fastforce
next
  case (Err e)
  then show ?thesis
    using state_stream.Commit_not_Err [OF assms(1)] assms(2) by fastforce
next
  case (Panic p)
  then show ?thesis
    using state_stream.Commit_Panic [OF assms(1)] assms(2) by fastforce
qed

theorem Commit_atomic_witness:
  "\<exists>st' ms. Commit sample_rt mem_js (sample_stream (sample_state RunStateStep))
       [RunStateRecord (sample_state RunStateStep) 4] = (st', Ok (CommitResult_zero, None)) \<and>
     commit_messages sample_rt [RunStateRecord (sample_state RunStateStep) 4] = Ok ms \<and>
     st' = store_batch (sample_stream (sample_state RunStateStep)) ms"
proof -
  let ?st = "sample_stream (sample_state RunStateStep)"
  obtain st' where c: "Commit sample_rt mem_js ?st [RunStateRecord (sample_state RunStateStep) 4] =
      (st', Ok (CommitResult_zero, None))"
    using sample_commit by blast
  from Commit_atomic [OF mem.state_stream_axioms c] c show ?thesis
    by (auto simp: commit_spec_def)
qed

text \<open>
  C12. A guarded commit is planned on the current state: if the state of a run was read, other
  clients then did anything at all to the stream, and a batch that expects the number of the
  state read is committed without an error, the last state of the run at the time of the
  commit is the state read. Every read at that time that succeeds returns it.
\<close>

theorem guarded_commit_current:
  assumes "state_stream js view staged" and "wf_stream (view s0)"
    and "GetRunState rt js s0 w r = Ok x"
    and "stream_evolves (view s0) (view s1)"
    and "Commit rt js s1 rs = (s2, Ok (cr, None))"
    and "(y, rs_SeqID x) \<in> set (run_states rs)" and "rs_WFID y = w" and "rs_RunID y = r"
    and "token w" and "token r"
  shows "last_match (view s1) (RunStateSubject Manifest w r) =
      last_match (view s0) (RunStateSubject Manifest w r) \<and>
    (\<forall>z. GetRunState rt js s1 w r = Ok z \<longrightarrow> z = x)"
proof -
  note same = state_stream.guarded_commit [OF assms(1,2,4,3) assms(5-)]
  moreover have "z = x" if "GetRunState rt js s1 w r = Ok z" for z
    using state_stream.GetRunState_OkD [OF assms(1) that]
      state_stream.GetRunState_OkD [OF assms(1,3)] same by auto
  ultimately show ?thesis by blast
qed

theorem guarded_commit_current_witness:
  "\<exists>st'. Commit sample_rt mem_js (sample_stream (sample_state RunStateStep))
       [RunStateRecord (sample_state RunStateStep) 4] = (st', Ok (CommitResult_zero, None)) \<and>
     GetRunState sample_rt mem_js (sample_stream (sample_state RunStateStep)) ''w1'' ''r1'' =
       Ok (sample_state RunStateStep) \<and>
     (\<forall>z. GetRunState sample_rt mem_js (sample_stream (sample_state RunStateStep)) ''w1'' ''r1'' = Ok z \<longrightarrow>
        z = sample_state RunStateStep)"
proof -
  let ?st = "sample_stream (sample_state RunStateStep)"
  obtain st' where c: "Commit sample_rt mem_js ?st [RunStateRecord (sample_state RunStateStep) 4] =
      (st', Ok (CommitResult_zero, None))"
    using sample_commit by blast
  have "rs_SeqID (sample_state RunStateStep) = 4" "rs_WFID (sample_state RunStateStep) = ''w1''"
    "rs_RunID (sample_state RunStateStep) = ''r1''" by (simp_all add: sample_state_def)
  with guarded_commit_current [OF mem.state_stream_axioms sample_stream_wf sample_stream_state _ c]
    sample_tokens c sample_stream_state show ?thesis by auto
qed

text \<open>
  C14. A read after a commit returns what was committed: after a batch with one write of the
  run state was committed without an error, the state of the run reads as the one written,
  under a number that was not used before, unless the read itself fails for another reason
  than a missing message.
\<close>

theorem commit_then_read:
  assumes "state_stream js view staged" and "codec_ok rt"
    and "Commit rt js s rs = (s', Ok (cr, None))"
    and "run_states rs = [(x, e)]" and "token (rs_WFID x)" and "token (rs_RunID x)"
    and "wf_run_state x" and "fits_run_state rt x"
  shows "(\<exists>q. GetRunState rt js s' (rs_WFID x) (rs_RunID x) = Ok (x\<lparr>rs_SeqID := q\<rparr>) \<and>
        st_last (view s) < unat q) \<or>
    (\<exists>e. js_get_last js s' (RunStateSubject Manifest (rs_WFID x) (rs_RunID x)) = Err e \<and>
       \<not> errors_is_lib e ErrMsgNotFound)"
  by (rule state_stream.commit_then_state [OF assms])

theorem commit_then_read_witness:
  "\<exists>st' q. Commit sample_rt mem_js (sample_stream (sample_state RunStateStep))
       [RunStateRecord (sample_state RunStateStep) 4] = (st', Ok (CommitResult_zero, None)) \<and>
     GetRunState sample_rt mem_js st' ''w1'' ''r1'' = Ok ((sample_state RunStateStep)\<lparr>rs_SeqID := q\<rparr>) \<and>
     4 < unat q"
proof -
  let ?st = "sample_stream (sample_state RunStateStep)"
  obtain st' where c: "Commit sample_rt mem_js ?st [RunStateRecord (sample_state RunStateStep) 4] =
      (st', Ok (CommitResult_zero, None))"
    using sample_commit by blast
  have ids: "rs_WFID (sample_state RunStateStep) = ''w1''" "rs_RunID (sample_state RunStateStep) = ''r1''"
    "st_last ?st = 4" by (simp_all add: sample_state_def sample_stream_def)
  have "\<not> (\<exists>e. js_get_last mem_js st' p = Err e \<and> \<not> errors_is_lib e ErrMsgNotFound)" for p
    by (auto simp: mem_js_def split: option.splits)
  with commit_then_read [OF mem.state_stream_axioms codec_ok_sample c] ids sample_tokens
    sample_state_wire c show ?thesis by auto
qed

section \<open>Purging\<close>

definition is_residue :: "WFID \<Rightarrow> string \<Rightarrow> bool" where
  "is_residue w subject \<longleftrightarrow> list_ex (\<lambda>p. subject_matches p subject) (residue_patterns w)"

lemma is_residue_tokens:
  assumes "token w"
  shows "is_residue w subject \<longleftrightarrow>
    match_tokens [''grctl_directive'', ''*'', w, ''>''] (split_dots subject) \<or>
    match_tokens [''grctl_timers'', w, ''>''] (split_dots subject) \<or>
    match_tokens [''grctl_events'', w] (split_dots subject) \<or>
    match_tokens [''grctl_worker_task'', ''*'', w, ''>''] (split_dots subject)"
  using assms by (simp add: is_residue_def residue_patterns_def subject_matches_def subject_tokens token_def)

context state_stream
begin

lemma purge_loop_spec:
  "purge_loop js s ps = (s', None) \<Longrightarrow>
   view s' = (view s)\<lparr>st_msgs :=
     filter (\<lambda>m. \<not> list_ex (\<lambda>p. subject_matches p (sm_Subject m)) ps) (st_msgs (view s))\<rparr>"
proof (induction ps arbitrary: s)
  case (Cons p ps)
  then obtain s1 where s1: "js_purge js s p = (s1, None)" "purge_loop js s1 ps = (s', None)"
    by (auto split: prod.splits option.splits)
  from Cons.IH [OF s1(2)] purge_ok [OF s1(1)] show ?case
    by (simp add: purge_subject_def conj_commute)
qed simp

end

text \<open>
  C15. Purging the residue of a finished run removes the directives, the timers, the inbox
  events and the worker tasks of its workflow identifier and nothing else: the messages of
  other workflows, and the run info, the state, the history, the input, the output, the error
  and the values of every run stay. The run identifier plays no role, so the messages of
  another run of the same workflow are removed too.
\<close>

theorem PurgeRunResidue_exact:
  assumes "state_stream js view staged" and "PurgeRunResidue js s w = (s', None)" and "token w"
  shows "st_msgs (view s') = filter (\<lambda>m. \<not> is_residue w (sm_Subject m)) (st_msgs (view s)) \<and>
    (\<forall>t w' r i. list_all token [t, w', r] \<and> plain i \<longrightarrow>
      (is_residue w (DirectiveSubject Manifest t w' r) \<longleftrightarrow> w' = w) \<and>
      (is_residue w (WorkerTaskSubject Manifest t w' r) \<longleftrightarrow> w' = w) \<and>
      (is_residue w (TimerSubject Manifest w' TimerKindStepTimeout i) \<longleftrightarrow> w' = w) \<and>
      (is_residue w (TimerSubject Manifest w' TimerKindWaitTimeout i) \<longleftrightarrow> w' = w) \<and>
      (is_residue w (EventInboxSubject Manifest w') \<longleftrightarrow> w' = w) \<and>
      \<not> is_residue w (RunInfoKey Manifest t w' r) \<and> \<not> is_residue w (RunStateSubject Manifest w' r) \<and>
      \<not> is_residue w (HistorySubject Manifest w' r) \<and> \<not> is_residue w (RunInputKey Manifest w' r) \<and>
      \<not> is_residue w (RunOutputKey Manifest w' r) \<and> \<not> is_residue w (RunErrorKey Manifest w' r) \<and>
      \<not> is_residue w (WfKVKey Manifest w' r i) \<and> \<not> is_residue w (BgTaskSubject Manifest))"
proof -
  have kinds: "plain ''step_timeout''" "dot_free ''step_timeout''"
      "plain ''wait_timeout''" "dot_free ''wait_timeout''"
    by (simp_all add: plain_def dot_free_def)
  have "st_msgs (view s') = filter (\<lambda>m. \<not> is_residue w (sm_Subject m)) (st_msgs (view s))"
    using state_stream.purge_loop_spec [OF assms(1) assms(2) [unfolded PurgeRunResidue_def]]
    by (simp add: is_residue_def)
  then show ?thesis
    using assms(3) kinds
    by (simp add: is_residue_tokens subject_tokens token_def eq_commute [of w])
qed

theorem PurgeRunResidue_exact_witness:
  "\<exists>st'. PurgeRunResidue mem_js (sample_stream (sample_state RunStateStep)) ''w1'' = (st', None) \<and>
     is_residue ''w1'' (DirectiveSubject Manifest ''order'' ''w1'' ''r2'') \<and>
     \<not> is_residue ''w1'' (DirectiveSubject Manifest ''order'' ''w2'' ''r1'') \<and>
     st_msgs st' = filter (\<lambda>m. \<not> is_residue ''w1'' (sm_Subject m))
       (st_msgs (sample_stream (sample_state RunStateStep)))"
proof -
  obtain st' where p: "PurgeRunResidue mem_js (sample_stream (sample_state RunStateStep)) ''w1'' = (st', None)"
    by (simp add: PurgeRunResidue_def residue_patterns_def mem_js_def)
  have t: "token ''order''" "token ''w1''" "token ''w2''" "token ''r1''" "token ''r2''" "plain ''i''"
    by (simp_all add: token_def plain_def dot_free_def)
  note purged = PurgeRunResidue_exact [OF mem.state_stream_axioms p t(2)]
  from purged [THEN conjunct2, rule_format, of "''order''" "''w1''" "''r2''" "''i''"]
    purged [THEN conjunct2, rule_format, of "''order''" "''w2''" "''r1''" "''i''"] purged p t
  show ?thesis by simp
qed

section \<open>Where messages go\<close>

text \<open>
  The identifiers of a record that have to be tokens. (The identifier of a timer contains
  dots, which the subject of timers allows for.)
\<close>

fun record_ids :: "Record \<Rightarrow> string list" where
  "record_ids (RunInfoRecord i _) = [ri_WFType i, ri_WFID i, ri_ID i]"
| "record_ids (RunInputRecord w r _) = [w, r]"
| "record_ids (RunOutputRecord w r _) = [w, r]"
| "record_ids (RunErrorRecord w r _) = [w, r]"
| "record_ids (RunStateRecord s _) = [rs_WFID s, rs_RunID s]"
| "record_ids (TimerRecord t) = [t_WFID t, timer_kind_str (t_Kind t)]"
| "record_ids (HistoryRecord h) = [he_WFID h, he_RunID h]"
| "record_ids (InboxRecord d) = [ri_WFID (d_RunInfo d)]"
| "record_ids (KVRecord w r kvs) = w # r # map fst kvs"
| "record_ids (WorkerTaskDispatch d) =
     [ri_WFType (d_RunInfo d), ri_WFID (d_RunInfo d), ri_ID (d_RunInfo d)]"
| "record_ids (DirectiveRecord d) =
     [ri_WFType (d_RunInfo d), ri_WFID (d_RunInfo d), ri_ID (d_RunInfo d)]"
| "record_ids (BackgroundTaskRecord t) = []"

definition routable :: "Record \<Rightarrow> bool" where
  "routable rec \<longleftrightarrow> list_all token (record_ids rec) \<and>
     (case rec of TimerRecord t \<Rightarrow> plain (t_ID t) | _ \<Rightarrow> True)"

lemma stream_subject_tokens:
  "map split_dots EnsureStateStream_Subjects =
     [[''grctl_directive'', ''>''], [''grctl_history'', ''>''], [''grctl_timers'', ''>''],
      [''grctl_timers_fired''], [''grctl_run'', ''*'', ''*'', ''*'', ''info''],
      [''grctl_run'', ''*'', ''*'', ''input''], [''grctl_run'', ''*'', ''*'', ''output''],
      [''grctl_run'', ''*'', ''*'', ''error''], [''grctl_wf_kv'', ''*'', ''*'', ''*''],
      [''grctl_events'', ''>''], [''grctl_state'', ''run_state'', ''>''],
      [''grctl_worker_task'', ''>''], [''grctl_bg_task''], [''grctl_registry'', ''>'']]"
  by (simp add: EnsureStateStream_Subjects_def fixed_subjects wildcard_subjects)

definition captured :: "string \<Rightarrow> bool" where
  "captured subject \<longleftrightarrow> list_ex (\<lambda>p. subject_matches p subject) EnsureStateStream_Subjects"

lemma captured_tokens:
  "captured s \<longleftrightarrow> list_ex (\<lambda>ps. match_tokens ps (split_dots s)) (map split_dots EnsureStateStream_Subjects)"
  by (simp add: captured_def list_ex_iff subject_matches_def)

definition routed :: "string \<Rightarrow> WFID \<Rightarrow> Record \<Rightarrow> bool" where
  "routed s w rec \<longleftrightarrow> captured s \<and>
     (subject_matches (DirectiveListenerPattern Manifest) s \<longleftrightarrow> (\<exists>d. rec = DirectiveRecord d)) \<and>
     (subject_matches (BgTaskSubject Manifest) s \<longleftrightarrow> (\<exists>t. rec = BackgroundTaskRecord t)) \<and>
     \<not> subject_matches (TimerFiredSubject Manifest) s \<and>
     (subject_matches (ListRunInfoByWFIDPattern Manifest ''*'' w) s \<longleftrightarrow>
        (\<exists>i e. rec = RunInfoRecord i e \<and> w = ri_WFID i))"

lemma routed_eval:
  "token w \<Longrightarrow> routed s w rec \<longleftrightarrow>
     list_ex (\<lambda>ps. match_tokens ps (split_dots s)) (map split_dots EnsureStateStream_Subjects) \<and>
     (match_tokens [''grctl_directive'', ''>''] (split_dots s) \<longleftrightarrow> (\<exists>d. rec = DirectiveRecord d)) \<and>
     (match_tokens [''grctl_bg_task''] (split_dots s) \<longleftrightarrow> (\<exists>t. rec = BackgroundTaskRecord t)) \<and>
     \<not> match_tokens [''grctl_timers_fired''] (split_dots s) \<and>
     (match_tokens [''grctl_run'', ''*'', w, ''*'', ''info''] (split_dots s) \<longleftrightarrow>
        (\<exists>i e. rec = RunInfoRecord i e \<and> w = ri_WFID i))"
  by (simp add: routed_def captured_tokens subject_matches_def fixed_subjects subject_tokens
      token_def plain_def dot_free_def)

lemmas route_simps = routed_eval stream_subject_tokens subject_tokens token_def split_dots_token

fun record_subjects :: "Record \<Rightarrow> string list" where
  "record_subjects (RunInfoRecord i _) = [RunInfoKey Manifest (ri_WFType i) (ri_WFID i) (ri_ID i)]"
| "record_subjects (RunInputRecord w r _) = [RunInputKey Manifest w r]"
| "record_subjects (RunOutputRecord w r _) = [RunOutputKey Manifest w r]"
| "record_subjects (RunErrorRecord w r _) = [RunErrorKey Manifest w r]"
| "record_subjects (RunStateRecord s _) = [RunStateSubject Manifest (rs_WFID s) (rs_RunID s)]"
| "record_subjects (TimerRecord t) = [TimerSubject Manifest (t_WFID t) (t_Kind t) (t_ID t)]"
| "record_subjects (HistoryRecord h) = [HistorySubject Manifest (he_WFID h) (he_RunID h)]"
| "record_subjects (InboxRecord d) = [EventInboxSubject Manifest (ri_WFID (d_RunInfo d))]"
| "record_subjects (KVRecord w r kvs) = map (\<lambda>kv. WfKVKey Manifest w r (fst kv)) kvs"
| "record_subjects (WorkerTaskDispatch d) =
     [WorkerTaskSubject Manifest (ri_WFType (d_RunInfo d)) (ri_WFID (d_RunInfo d)) (ri_ID (d_RunInfo d))]"
| "record_subjects (DirectiveRecord d) =
     [DirectiveSubject Manifest (ri_WFType (d_RunInfo d)) (ri_WFID (d_RunInfo d)) (ri_ID (d_RunInfo d))]"
| "record_subjects (BackgroundTaskRecord t) = [BgTaskSubject Manifest]"

lemma recordToNats_subjects:
  "recordToNats rt rec = Ok ms \<Longrightarrow> m \<in> set ms \<Longrightarrow> nm_Subject m \<in> set (record_subjects rec)"
  by (cases rec)
    (auto simp: record_to_nats_defs split: if_splits dest!: KVRecordToNatsMsgs_mem)

lemma routed_records:
  assumes "s \<in> set (record_subjects rec)" and "routable rec" and "token w"
  shows "routed s w rec"
proof (cases "\<exists>w r kvs. rec = KVRecord w r kvs")
  case True
  then obtain w' r kvs where rec: "rec = KVRecord w' r kvs" by blast
  with assms(1) obtain k where k: "k \<in> fst ` set kvs" "s = WfKVKey Manifest w' r k" by auto
  with rec assms(2) have "token k" "token w'" "token r"
    by (auto simp: routable_def list_all_iff)
  with k rec assms(3) show ?thesis by (simp add: route_simps)
next
  case False
  with assms show ?thesis
    by (cases rec) (simp_all add: routable_def route_simps)
qed



lemma match_tokens_star: "match_tokens [''*''] ts \<longleftrightarrow> length ts = 1"
  by (cases ts) auto

text \<open>
  C17. The subjects of workflow values are matched by the stream exactly if the key has no
  dot: a value stored under a dotted key becomes a message on a subject that is not a subject
  of the stream.
\<close>

theorem kv_captured_iff:
  assumes "KVRecordToNatsMsgs rt w r [(key, v)] = Ok [m]" and "token w" and "token r" and "plain key"
  shows "captured (nm_Subject m) \<longleftrightarrow> dot_free key"
proof -
  from assms(1) have "nm_Subject m = WfKVKey Manifest w r key" by auto
  with assms(2-4) show ?thesis
    by (simp add: captured_tokens stream_subject_tokens subject_tokens token_def match_tokens_star
        split_dots_length count_list_0_iff dot_free_def)
qed

theorem kv_captured_iff_witness:
  "\<exists>m. KVRecordToNatsMsgs sample_rt ''w1'' ''r1'' [(''user.name'', MNil)] = Ok [m] \<and>
     \<not> captured (nm_Subject m)"
proof -
  obtain m where m: "KVRecordToNatsMsgs sample_rt ''w1'' ''r1'' [(''user.name'', MNil)] = Ok [m]"
    by (simp add: sample_rt_def)
  from kv_captured_iff [OF m sample_tokens(1,2)] m show ?thesis
    by (auto simp: plain_def dot_free_def)
qed

section \<open>Creating runs\<close>

context state_stream
begin

lemma GetRunByWFID_OkD:
  assumes "GetRunByWFID rt js s w = Ok (ri, q)"
  shows "\<exists>m. last_match (view s) (ListRunInfoByWFIDPattern Manifest ''*'' w) = Some m \<and>
    unmarshal_RunInfo rt (sm_Data m) = Ok ri \<and> q = sm_Sequence m"
  using assms get_last_ok by (fastforce simp: GetRunByWFID_def split: res.splits if_splits)

lemma CreateRunInfo_Ok:
  assumes "CreateRunInfo rt js s info = (s', Ok ())"
  shows "(\<forall>ri q. GetRunByWFID rt js s (ri_WFID info) = Ok (ri, q) \<longrightarrow> RunInfo_IsTerminal ri) \<and>
    (\<exists>data. marshal_RunInfo rt info = Ok data \<and>
       publish_accepted (view s)
         \<lparr>nm_Subject = RunInfoKey Manifest (ri_WFType info) (ri_WFID info) (ri_ID info),
          nm_Header = [], nm_Data = data\<rparr> \<and>
       view s' = publish_msg (view s)
         \<lparr>nm_Subject = RunInfoKey Manifest (ri_WFType info) (ri_WFID info) (ri_ID info),
          nm_Header = [], nm_Data = data\<rparr>)"
  using assms publish_ok
  by (fastforce simp: CreateRunInfo_def Let_def split: res.splits prod.splits option.splits if_splits)

lemma CreateRunInfo_read:
  assumes "codec_ok rt" and "list_all token [ri_WFType info, ri_WFID info, ri_ID info]"
    and "canonical_run_status (ri_Status info)" and "fits (enc_RunInfo info)"
    and "CreateRunInfo rt js s info = (s1, Ok ())" and "view s' = view s1"
    and "GetRunByWFID rt js s' (ri_WFID info) = Ok (ri, q)"
  shows "ri = info"
proof -
  let ?p = "ListRunInfoByWFIDPattern Manifest ''*'' (ri_WFID info)"
  let ?m = "\<lambda>data. \<lparr>nm_Subject = RunInfoKey Manifest (ri_WFType info) (ri_WFID info) (ri_ID info),
    nm_Header = [], nm_Data = data\<rparr>"
  from CreateRunInfo_Ok [OF assms(5)] assms(6) obtain data where
    data: "marshal_RunInfo rt info = Ok data" "view s' = publish_msg (view s) (?m data)" by auto
  have "subject_matches ?p (nm_Subject (?m data))"
    using assms(2) by (simp add: subject_matches_def subject_tokens token_def star_plain)
  then have "\<exists>x. last_match (view s') ?p = Some x \<and> sm_Data x = data"
    using last_match_append [OF store_msg_msgs [of "?m data"], of "view s" ?p] data(2)
    by (simp add: publish_msg_def is_duplicate_def no_rollup_def)
  with GetRunByWFID_OkD [OF assms(7)] have "unmarshal_RunInfo rt data = Ok ri" by auto
  with RunInfo_wire_roundtrip [OF assms(1,3,4)] data(1) show "ri = info" by auto
qed

end



end
