(* ===== verification/Transitions.thy ===== *)
theory Transitions
  imports Records
begin

text \<open>
  The record builders (\<^verbatim>\<open>src/run/record\<close>): one function per transition of a run, each
  turning a directive and the current run state into the batch of records that the
  transition commits. Function names carry the package name \<open>record_\<close>; the records
  of a batch stand in the order the source appends them.
\<close>

section \<open>run.go\<close>

definition parentCallbackRecords ::
  "runtime \<Rightarrow> Directive \<Rightarrow> RunStatus \<Rightarrow> go_any \<Rightarrow> ErrorDetails option \<Rightarrow> Record list res" where
  "parentCallbackRecords rt d status result errDetails =
     (let ri = d_RunInfo d in
      case (ri_ParentWFID ri, ri_ParentCallbackStep ri) of
        (Some parentWFID, Some callbackStep) \<Rightarrow>
          orErrorf ''failed to build notify parent complete task: ''
            (NewNotifyParentCompleteTask rt (d_ID d)
               \<lparr>npcp_ParentWFID = parentWFID,
                npcp_StepName = callbackStep,
                npcp_ChildWFID = ri_WFID ri,
                npcp_Status = status,
                npcp_Result = result,
                npcp_Error = errDetails\<rparr>)
            (\<lambda>task. Ok [BackgroundTaskRecord task])
      | _ \<Rightarrow> Ok [])"

definition record_Start :: "Directive \<Rightarrow> Record list res" where
  "record_Start d =
     (let ri = d_RunInfo d in
      andThen (deref nil_dereference (ri_StartedAt ri)) (\<lambda>startedAt.
      orErrorf ''failed to create run started history event: ''
        (history_RunStarted d startedAt) (\<lambda>h.
      Ok ([HistoryRecord h, RunInfoRecord ri 0] @
          (case as_Start (d_Msg d) of
             Some (inp, timeout) \<Rightarrow>
               (if inp \<noteq> MNil then [RunInputRecord (ri_WFID ri) (ri_ID ri) inp] else [])
           | None \<Rightarrow> [])))))"

text \<open>
  The state of a finished run: the new kind, the time it was entered, no active directive.
\<close>

definition enter_terminal :: "RunState \<Rightarrow> RunStateKind \<Rightarrow> time \<Rightarrow> RunState" where
  "enter_terminal currentState kind enteredAt =
     currentState\<lparr>rs_Kind := kind, rs_EnteredAt := enteredAt, rs_ActiveDirectiveID := ''''\<rparr>"

definition record_CompleteRun :: "runtime \<Rightarrow> Directive \<Rightarrow> RunState \<Rightarrow> Record list res" where
  "record_CompleteRun rt d currentState =
     orErrorf ''failed to create run completed state update: ''
       (RunInfo_Complete (d_RunInfo d) (d_Timestamp d)) (\<lambda>ri.
     orErrorf ''failed to create run completed history event: ''
       (history_RunCompleted d) (\<lambda>h.
     (let state = enter_terminal currentState RunStateComplete (now rt At_CompleteRun_EnteredAt);
          result = (case as_Complete (d_Msg d) of Some r \<Rightarrow> r | None \<Rightarrow> MNil);
          output = (if result \<noteq> MNil
                    then [RunOutputRecord (ri_WFID (d_RunInfo d)) (ri_ID (d_RunInfo d)) result]
                    else [])
      in
      andThen (parentCallbackRecords rt d RunStatusCompleted result None) (\<lambda>callbackRecords.
      orErrorf ''build purge run residue task: ''
        (NewPurgeRunResidueTask rt (d_ID d) (ri_WFID (d_RunInfo d))) (\<lambda>purgeTask.
      Ok ([RunInfoRecord ri 0, HistoryRecord h, RunStateRecord state (rs_SeqID currentState)]
          @ output @ callbackRecords @ [BackgroundTaskRecord purgeTask]))))))"

text \<open>The signal to the worker that executes the active step, if one is known.\<close>

definition workerTerminateRecords ::
  "runtime \<Rightarrow> Directive \<Rightarrow> RunState \<Rightarrow> Record list res" where
  "workerTerminateRecords rt d currentState =
     (case rs_WorkerID currentState of
        None \<Rightarrow> Ok []
      | Some workerID \<Rightarrow>
          orErrorf ''failed to create worker terminate run task: ''
            (NewWorkerTerminateRunTask rt (d_ID d) workerID (rs_RunID currentState))
            (\<lambda>terminateTask. Ok [BackgroundTaskRecord terminateTask]))"

definition record_TerminateRun :: "runtime \<Rightarrow> Directive \<Rightarrow> RunState \<Rightarrow> Record list res" where
  "record_TerminateRun rt d currentState =
     orErrorf ''failed to create run terminated state update: ''
       (RunInfo_Terminate (d_RunInfo d) (d_Timestamp d)) (\<lambda>ri.
     orErrorf ''failed to create run terminated history event: ''
       (history_RunTerminated d) (\<lambda>h.
     (let state = enter_terminal currentState RunStateTerminate (now rt At_TerminateRun_EnteredAt);
          reason = (case as_Terminate (d_Msg d) of
                      Some r \<Rightarrow> (if r \<noteq> '''' then r else ''run was terminated'')
                    | None \<Rightarrow> ''run was terminated'');
          termErr = \<lparr>ed_Message = reason, ed_StackTrace = '''', ed_Type = ''Terminated''\<rparr>
      in
      andThen (workerTerminateRecords rt d currentState) (\<lambda>workerRecords.
      andThen (parentCallbackRecords rt d RunStatusTerminated MNil (Some termErr)) (\<lambda>callbackRecords.
      orErrorf ''build purge run residue task: ''
        (NewPurgeRunResidueTask rt (d_ID d) (ri_WFID (d_RunInfo d))) (\<lambda>purgeTask.
      Ok ([RunInfoRecord ri 0, HistoryRecord h, RunStateRecord state (rs_SeqID currentState)]
          @ workerRecords @ callbackRecords @ [BackgroundTaskRecord purgeTask])))))))"

definition record_CancelReceived :: "Directive \<Rightarrow> RunState \<Rightarrow> Record list res" where
  "record_CancelReceived d currentState =
     orErrorf ''failed to create run cancel received history event: ''
       (history_RunCancelReceived d) (\<lambda>he.
     Ok [HistoryRecord he,
         RunStateRecord (currentState\<lparr>rs_PendingCancel := Some d\<rparr>) (rs_SeqID currentState)])"

definition record_CancelRun :: "runtime \<Rightarrow> Directive \<Rightarrow> RunState \<Rightarrow> Record list res" where
  "record_CancelRun rt d currentState =
     orErrorf ''failed to create run cancelled state update: ''
       (RunInfo_Cancel (d_RunInfo d) (d_Timestamp d)) (\<lambda>ri.
     orErrorf ''failed to create run cancelled history event: ''
       (history_RunCancelled d) (\<lambda>h.
     (let state = enter_terminal currentState RunStateCancel (now rt At_CancelRun_EnteredAt);
          reason = (case as_Cancel (d_Msg d) of
                      Some r \<Rightarrow> (if r \<noteq> '''' then r else ''workflow was cancelled'')
                    | None \<Rightarrow> ''workflow was cancelled'');
          cancelErr = \<lparr>ed_Message = reason, ed_StackTrace = '''', ed_Type = ''Cancelled''\<rparr>
      in
      andThen (parentCallbackRecords rt d RunStatusCancelled MNil (Some cancelErr)) (\<lambda>callbackRecords.
      orErrorf ''build purge run residue task: ''
        (NewPurgeRunResidueTask rt (d_ID d) (ri_WFID (d_RunInfo d))) (\<lambda>purgeTask.
      Ok ([RunInfoRecord ri 0, HistoryRecord h, RunStateRecord state (rs_SeqID currentState)]
          @ callbackRecords @ [BackgroundTaskRecord purgeTask]))))))"

definition record_FailRun :: "runtime \<Rightarrow> Directive \<Rightarrow> RunState \<Rightarrow> Record list res" where
  "record_FailRun rt d currentState =
     (case as_Fail (d_Msg d) of
        None \<Rightarrow> Err (Errorf
          (''can not create run failed state update: expected RunFailed but got '' @ go_type (d_Msg d)))
      | Some msgError \<Rightarrow>
     orErrorf ''failed to create run failed state update: ''
       (RunInfo_Fail (d_RunInfo d) (d_Timestamp d)) (\<lambda>ri.
     orErrorf ''failed to create run failed history event: ''
       (history_RunFailed d) (\<lambda>he.
     (let state = enter_terminal currentState RunStateFail (now rt At_FailRun_EnteredAt)
      in
      andThen (workerTerminateRecords rt d currentState) (\<lambda>workerRecords.
      andThen (parentCallbackRecords rt d RunStatusFailed MNil (Some msgError)) (\<lambda>callbackRecords.
      orErrorf ''build purge run residue task: ''
        (NewPurgeRunResidueTask rt (d_ID d) (ri_WFID (d_RunInfo d))) (\<lambda>purgeTask.
      Ok ([RunInfoRecord ri 0, HistoryRecord he, RunStateRecord state (rs_SeqID currentState),
           RunErrorRecord (ri_WFID (d_RunInfo d)) (ri_ID (d_RunInfo d)) msgError]
          @ workerRecords @ callbackRecords @ [BackgroundTaskRecord purgeTask]))))))))"

definition record_BuildUnexpectedFailure ::
  "runtime \<Rightarrow> Directive \<Rightarrow> string \<Rightarrow> RunState \<Rightarrow> Record list res" where
  "record_BuildUnexpectedFailure rt d cause currentState =
     (let failDirective =
        \<lparr>d_ID = ulid rt At_BuildUnexpectedFailure_ID,
         d_Timestamp = now rt At_BuildUnexpectedFailure_Timestamp,
         d_Kind = DirectiveKindFail,
         d_RunInfo = d_RunInfo d,
         d_Attempt = 0,
         d_Msg = Some (Fail
           \<lparr>ed_Message = ''An unexpected error occurred while processing directive '' @ d_ID d
              @ '' of kind '' @ directive_kind_str (d_Kind d) @ '': '' @ cause,
            ed_StackTrace = '''',
            ed_Type = ''UnexpectedFailure''\<rparr>)\<rparr>
      in record_FailRun rt failDirective currentState)"

section \<open>step.go\<close>

text \<open>
  \<^verbatim>\<open>StepTimeoutTimer\<close>. The product of a \<^verbatim>\<open>uint32\<close> and the number of nanoseconds of a
  millisecond is below the bound of a \<^verbatim>\<open>time.Duration\<close>, so it is written on integers.
\<close>

definition StepTimeoutTimer :: "runtime \<Rightarrow> Directive \<Rightarrow> u32 \<Rightarrow> Timer res" where
  "StepTimeoutTimer rt d defaultTimeoutMS =
     (case as_DispatchableMessage (d_Msg d) of
        None \<Rightarrow> Err (Errorf
          (''unexpected message type for directive kind '' @ directive_kind_str (d_Kind d)
             @ '': got <nil>''))
      | Some (stepName, msgTimeout) \<Rightarrow>
          (let currentTime = now rt At_StepTimeoutTimer_currentTime;
               timeout = (if msgTimeout = 0 then defaultTimeoutMS else msgTimeout);
               expiresAt = currentTime + uint timeout * millisecond
           in Ok (Timer_zero
                \<lparr>t_ID := DeriveTimerID (d_ID d) TimerKindStepTimeout,
                 t_Kind := TimerKindStepTimeout,
                 t_WFID := ri_WFID (d_RunInfo d),
                 t_ExpiresAt := expiresAt,
                 t_CreatedAt := currentTime,
                 t_StepName := stepName,
                 t_Directive := d\<rparr>)))"

text \<open>
  The two assignments that \<^verbatim>\<open>StepStart\<close> and \<^verbatim>\<open>EventStart\<close> make to the directive's
  \<^verbatim>\<open>RunInfo\<close> before anything else.
\<close>

definition inherit_run_info :: "Directive \<Rightarrow> RunState \<Rightarrow> Directive" where
  "inherit_run_info d currentState =
     (let ri = d_RunInfo d;
          ri = (if ri_HistorySeqID ri = 0 then ri\<lparr>ri_HistorySeqID := rs_SeqID currentState\<rparr> else ri);
          ri = (if ri_StartedAt ri = None \<and> rs_StartedAt currentState \<noteq> None
                then ri\<lparr>ri_StartedAt := rs_StartedAt currentState\<rparr> else ri)
      in d\<lparr>d_RunInfo := ri\<rparr>)"

text \<open>The run state \<^verbatim>\<open>StepStart\<close> builds for the directive it dispatches.\<close>

definition step_run_state :: "time \<Rightarrow> Directive \<Rightarrow> RunState \<Rightarrow> RunState" where
  "step_run_state enteredAt d currentState =
     (let runState = currentState
        \<lparr>rs_Kind := RunStateStep,
         rs_EnteredAt := enteredAt,
         rs_ActiveDirectiveID := d_ID d\<rparr>
      in if d_Kind d = DirectiveKindEvent
         then (case as_Event (d_Msg d) of
                 Some (Some seqID, name, payload, timeout) \<Rightarrow>
                   runState\<lparr>rs_LastEventSeqID := seqID\<rparr>
               | _ \<Rightarrow> runState)
         else runState)"

definition record_StepStart :: "runtime \<Rightarrow> Directive \<Rightarrow> RunState \<Rightarrow> u32 \<Rightarrow> Record list res" where
  "record_StepStart rt d0 currentState defaultTimeoutMS =
     (let d = inherit_run_info d0 currentState in
      case as_DispatchableMessage (d_Msg d) of
        None \<Rightarrow> Err (Errorf
          (''can not create step started state update: expected DispatchableMessage but got ''
             @ go_type (d_Msg d)))
      | Some (stepName, msgTimeout) \<Rightarrow>
          orErrorf ''failed to create step timeout timer: ''
            (StepTimeoutTimer rt d defaultTimeoutMS) (\<lambda>timer.
          orErrorf ''failed to create step started state update: ''
            (RunInfo_StartStep (d_RunInfo d) stepName (d_Timestamp d)) (\<lambda>ri.
          (let d' = d\<lparr>d_RunInfo := ri\<rparr>;
               runState = step_run_state (now rt At_StepStart_EnteredAt) d' currentState
           in Ok [TimerRecord timer, RunInfoRecord ri 0, WorkerTaskDispatch d',
                  RunStateRecord runState (rs_SeqID currentState)]))))"

definition record_StepPickedUp :: "Directive \<Rightarrow> RunState \<Rightarrow> Record list res" where
  "record_StepPickedUp d currentState =
     (case as_StepPickedUp (d_Msg d) of
        None \<Rightarrow> Err (Errorf (''expected StepPickedUp but got '' @ go_type (d_Msg d)))
      | Some (stepName, workerID, timestamp) \<Rightarrow>
          orErrorf ''failed to create step.started history event: '' (history_StepPickedUp d) (\<lambda>h.
          Ok [HistoryRecord h,
              RunStateRecord (currentState\<lparr>rs_WorkerID := Some workerID\<rparr>) (rs_SeqID currentState)]))"

definition DeleteStepTimeoutTimer :: "runtime \<Rightarrow> Directive \<Rightarrow> RunState \<Rightarrow> Record list res" where
  "DeleteStepTimeoutTimer rt d currentState =
     (let timerID = DeriveTimerID (rs_ActiveDirectiveID currentState) TimerKindStepTimeout in
      orErrorf ''failed to create delete timer background task: ''
        (NewDeleteTimerTask rt (d_ID d) (ri_WFID (d_RunInfo d)) TimerKindStepTimeout timerID)
        (\<lambda>timerTask. Ok [BackgroundTaskRecord timerTask]))"

definition record_StepComplete :: "runtime \<Rightarrow> Directive \<Rightarrow> RunState \<Rightarrow> Record list res" where
  "record_StepComplete rt d currentState =
     (case as_StepResult (d_Msg d) of
        None \<Rightarrow> Err (Errorf
          (''can not create step completed state update: expected StepResult but got '' @ go_type (d_Msg d)))
      | Some msg \<Rightarrow>
          (let ri = d_RunInfo d;
               kvUpdate = (case sr_KVUpdates msg of
                             None \<Rightarrow> []
                           | Some kvs \<Rightarrow> [KVRecord (ri_WFID ri) (ri_ID ri) kvs])
           in
           orErrorf ''failed to create step completed history event: ''
             (history_StepCompleted rt (sr_ProcessedMsg msg) (sr_WorkerID msg) (sr_DurationMS msg) ri) (\<lambda>h.
           orErrorf ''failed to create step timeout timer updates: ''
             (DeleteStepTimeoutTimer rt d currentState) (\<lambda>deleteStepTimeoutTimerRecords.
           Ok (kvUpdate @ [HistoryRecord h] @ deleteStepTimeoutTimerRecords)))))"

definition record_StepFail :: "runtime \<Rightarrow> Directive \<Rightarrow> RunState \<Rightarrow> Record list res" where
  "record_StepFail rt d currentState =
     (case as_StepResult (d_Msg d) of
        None \<Rightarrow> Err (Errorf
          (''can not create step failed state update: expected StepResult but got '' @ go_type (d_Msg d)))
      | Some msg \<Rightarrow>
     (case as_FailStep (sr_NextMsg msg) of
        None \<Rightarrow> Err (Errorf
          (''can not create step failed state update: expected FailStep next msg but got ''
             @ go_type (sr_NextMsg msg)))
      | Some (failStepName, failError) \<Rightarrow>
          (let ri = d_RunInfo d;
               kvUpdate = (case sr_KVUpdates msg of
                             None \<Rightarrow> []
                           | Some kvs \<Rightarrow> [KVRecord (ri_WFID ri) (ri_ID ri) kvs])
           in
           orErrorf ''failed to create step failed history event: ''
             (history_StepFailed rt (sr_ProcessedMsg msg) (sr_DurationMS msg) (sr_NextMsg msg) ri) (\<lambda>stepFailedEvent.
           orErrorf ''failed to create delete step timeout timer updates: ''
             (DeleteStepTimeoutTimer rt d currentState) (\<lambda>deleteStepTimeoutTimerRecords.
           Ok (kvUpdate @ [HistoryRecord stepFailedEvent] @ deleteStepTimeoutTimerRecords))))))"

definition StepTimeoutFailure ::
  "runtime \<Rightarrow> Directive \<Rightarrow> string \<Rightarrow> RunState \<Rightarrow> Record list res" where
  "StepTimeoutFailure rt d stepName currentState =
     (let failDirective =
        \<lparr>d_ID = ulid rt At_StepTimeoutFailure_ID,
         d_Timestamp = now rt At_StepTimeoutFailure_Timestamp,
         d_Kind = DirectiveKindFail,
         d_RunInfo = d_RunInfo d,
         d_Attempt = 0,
         d_Msg = Some (Fail
           \<lparr>ed_Message = ''step '' @ stepName @ '' timed out'',
            ed_StackTrace = '''',
            ed_Type = ''StepTimeout''\<rparr>)\<rparr>
      in record_FailRun rt failDirective currentState)"

definition record_StepTimeout :: "runtime \<Rightarrow> Directive \<Rightarrow> RunState \<Rightarrow> Record list res" where
  "record_StepTimeout rt d currentState =
     (case as_StepTimeout (d_Msg d) of
        None \<Rightarrow> Err (Errorf
          (''can not create step timeout records: expected StepTimeout but got '' @ go_type (d_Msg d)))
      | Some (stepName, originalDirectiveID) \<Rightarrow>
          if rs_Kind currentState \<noteq> RunStateStep \<or>
             rs_ActiveDirectiveID currentState \<noteq> originalDirectiveID
          then Err (Sentinel ErrStaleDirective)
          else
            orErrorf ''failed to create step timeout history event: ''
              (history_StepTimedout rt d currentState) (\<lambda>he.
            orErrorf ''failed to create step timeout failure updates: ''
              (StepTimeoutFailure rt d stepName currentState) (\<lambda>failUpdates.
            Ok ([HistoryRecord he] @ failUpdates))))"

section \<open>inbox.go\<close>

definition createWaitTimeoutTimer :: "runtime \<Rightarrow> Directive \<Rightarrow> u32 \<Rightarrow> string \<Rightarrow> Timer res" where
  "createWaitTimeoutTimer rt d timeout timeoutStepName =
     (let nowTime = now rt At_createWaitTimeoutTimer_now
      in Ok (Timer_zero
           \<lparr>t_ID := DeriveTimerID (d_ID d) TimerKindWaitTimeout,
            t_Kind := TimerKindWaitTimeout,
            t_WFID := ri_WFID (d_RunInfo d),
            t_CreatedAt := nowTime,
            t_ExpiresAt := nowTime + uint timeout * millisecond,
            t_StepName := timeoutStepName,
            t_Directive := d\<rparr>))"

text \<open>The directive that makes the manager look at the inbox again.\<close>

definition wakeDirective :: "time \<Rightarrow> Directive \<Rightarrow> Directive" where
  "wakeDirective timestamp d =
     \<lparr>d_ID = DeriveNextDirectiveID (d_ID d),
      d_Timestamp = timestamp,
      d_Kind = DirectiveKindWakeFromInbox,
      d_RunInfo = d_RunInfo d,
      d_Attempt = 0,
      d_Msg = Some WakeFromInbox\<rparr>"

definition record_Wait :: "runtime \<Rightarrow> Directive \<Rightarrow> StateSnapshot \<Rightarrow> u32 \<Rightarrow> Record list res" where
  "record_Wait rt d sn defaultWaitTimeoutMS =
     (case as_Wait (d_Msg d) of
        None \<Rightarrow> Err (Errorf
          (''can not create wait state update: expected Wait but got '' @ go_type (d_Msg d)))
      | Some (msgTimeout, timeoutStepName) \<Rightarrow>
          (let currentState = sn_RunState sn in
           orErrorf ''failed to create wait state update: ''
             (RunInfo_Wait (d_RunInfo d) (now rt At_Wait_RunInfo)) (\<lambda>ri.
           orErrorf ''failed to create wait started history event: ''
             (history_WaitStarted rt d) (\<lambda>h.
           (let timeout = (if msgTimeout = 0 then defaultWaitTimeoutMS else msgTimeout) in
           orErrorf ''failed to create wait timeout timer: ''
             (createWaitTimeoutTimer rt d timeout timeoutStepName) (\<lambda>timer.
           (let runState = currentState
                  \<lparr>rs_Kind := RunStateWait,
                   rs_EnteredAt := now rt At_Wait_EnteredAt,
                   rs_ActiveDirectiveID := d_ID d\<rparr>;
                wake = (if d_ID (sn_Event sn) \<noteq> ''''
                        then [DirectiveRecord (wakeDirective (now rt At_Wait_wakeTimestamp) d)]
                        else [])
            in Ok ([RunInfoRecord ri 0, HistoryRecord h, TimerRecord timer,
                    RunStateRecord runState (rs_SeqID currentState)] @ wake))))))))"

definition record_EventReceived :: "runtime \<Rightarrow> Directive \<Rightarrow> StateSnapshot \<Rightarrow> Record list res" where
  "record_EventReceived rt d sn =
     (case as_Event (d_Msg d) of
        None \<Rightarrow> Err (Errorf
          (''can not create event received state update: expected Event but got '' @ go_type (d_Msg d)))
      | Some (seqID, name, payload, timeout) \<Rightarrow>
          orErrorf ''failed to create event received history event: ''
            (history_EventReceived rt d) (\<lambda>h.
          (let wake = (if rs_Kind (sn_RunState sn) = RunStateWait \<and> d_ID (sn_Event sn) = ''''
                       then [DirectiveRecord (wakeDirective (now rt At_EventReceived_wakeTimestamp) d)]
                       else [])
           in Ok ([InboxRecord d, HistoryRecord h] @ wake))))"

definition record_EventStart :: "runtime \<Rightarrow> Directive \<Rightarrow> RunState \<Rightarrow> u32 \<Rightarrow> Record list res" where
  "record_EventStart rt d0 currentState defaultTimeoutMS =
     (let d = inherit_run_info d0 currentState in
      case as_Event (d_Msg d) of
        None \<Rightarrow> Err (Errorf
          (''can not create step started state update: expected DispatchableMessage but got ''
             @ go_type (d_Msg d)))
      | Some (eventSeqID, eventName, payload, msgTimeout) \<Rightarrow>
          orErrorf ''failed to create step timeout timer: ''
            (StepTimeoutTimer rt d defaultTimeoutMS) (\<lambda>timer.
          orErrorf ''failed to create step started state update: ''
            (RunInfo_StartStep (d_RunInfo d) eventName (d_Timestamp d)) (\<lambda>ri.
          (let d' = d\<lparr>d_RunInfo := ri\<rparr>;
               runState = currentState
                 \<lparr>rs_Kind := RunStateStep,
                  rs_EnteredAt := now rt At_EventStart_EnteredAt,
                  rs_ActiveDirectiveID := d_ID d'\<rparr>;
               runState = (case eventSeqID of
                             Some seqID \<Rightarrow> runState\<lparr>rs_LastEventSeqID := seqID\<rparr>
                           | None \<Rightarrow> runState)
           in Ok [TimerRecord timer, RunInfoRecord ri 0, WorkerTaskDispatch d',
                  RunStateRecord runState (rs_SeqID currentState)]))))"

definition record_WaitTimeout :: "runtime \<Rightarrow> Directive \<Rightarrow> RunState \<Rightarrow> u32 \<Rightarrow> Record list res" where
  "record_WaitTimeout rt d currentState defaultTimeoutMS =
     (case as_WaitTimeout (d_Msg d) of
        None \<Rightarrow> Err (Errorf
          (''can not create wait timeout records: expected WaitTimeout but got '' @ go_type (d_Msg d)))
      | Some (timeoutStepName, originalDirectiveID) \<Rightarrow>
          if rs_Kind currentState \<noteq> RunStateWait \<or>
             rs_ActiveDirectiveID currentState \<noteq> originalDirectiveID
          then Err (Sentinel ErrStaleDirective)
          else
            orErrorf ''failed to create wait timed out history event: ''
              (history_WaitTimedOut rt d) (\<lambda>he.
            if timeoutStepName \<noteq> ''''
            then
              (let stepD =
                 \<lparr>d_ID = DeriveNextDirectiveID (d_ID d),
                  d_Timestamp = now rt At_WaitTimeout_stepTimestamp,
                  d_Kind = DirectiveKindStep,
                  d_RunInfo = d_RunInfo d,
                  d_Attempt = 0,
                  d_Msg = Some (Step timeoutStepName 0)\<rparr>
               in
               orErrorf (''failed to start timeout step '' @ go_quote timeoutStepName @ '': '')
                 (record_StepStart rt stepD currentState defaultTimeoutMS) (\<lambda>steprecords.
               Ok ([HistoryRecord he] @ steprecords)))
            else
              (let failDirective =
                 \<lparr>d_ID = ulid rt At_WaitTimeout_failID,
                  d_Timestamp = now rt At_WaitTimeout_failTimestamp,
                  d_Kind = DirectiveKindFail,
                  d_RunInfo = d_RunInfo d,
                  d_Attempt = 0,
                  d_Msg = Some (Fail
                    \<lparr>ed_Message = ''wait timed out without a timeout step'',
                     ed_StackTrace = '''',
                     ed_Type = ''WaitTimeout''\<rparr>)\<rparr>
               in
               orErrorf ''failed to fail run on wait timeout: ''
                 (record_FailRun rt failDirective currentState) (\<lambda>failRecords.
               Ok ([HistoryRecord he] @ failRecords)))))"

lemmas record_defs =
  record_Start_def record_CompleteRun_def record_TerminateRun_def record_CancelReceived_def
  record_CancelRun_def record_FailRun_def record_StepStart_def record_StepPickedUp_def
  record_StepComplete_def record_StepFail_def record_StepTimeout_def record_Wait_def
  record_EventReceived_def record_EventStart_def record_WaitTimeout_def


section \<open>What a terminal transition commits\<close>

text \<open>
  The contract of the four terminal transitions, read off a batch: the status of the run
  info, the kind of the run state and the kind of the history event agree; the run state is
  guarded by the sequence number of the state that was read; no timer, no step and no
  further directive is started; the residue of the run is purged once; the parent is
  notified once if and only if it asked for it; a known worker is told to stop when the run
  fails or is terminated.
\<close>

fun status_of_kind :: "RunStateKind \<Rightarrow> RunStatus" where
  "status_of_kind RunStateComplete = RunStatusCompleted"
| "status_of_kind RunStateFail = RunStatusFailed"
| "status_of_kind RunStateCancel = RunStatusCancelled"
| "status_of_kind RunStateTerminate = RunStatusTerminated"
| "status_of_kind _ = RunStatusRunning"

fun terminal_history :: "HistoryKind \<Rightarrow> bool" where
  "terminal_history HistoryKindRunCompleted = True"
| "terminal_history HistoryKindRunFailed = True"
| "terminal_history HistoryKindRunCancelled = True"
| "terminal_history HistoryKindRunTerminated = True"
| "terminal_history _ = False"

fun history_of_kind :: "RunStateKind \<Rightarrow> HistoryKind" where
  "history_of_kind RunStateComplete = HistoryKindRunCompleted"
| "history_of_kind RunStateFail = HistoryKindRunFailed"
| "history_of_kind RunStateCancel = HistoryKindRunCancelled"
| "history_of_kind RunStateTerminate = HistoryKindRunTerminated"
| "history_of_kind _ = HistoryKindStepStarted"

definition tasks_of :: "BackgroundTaskKind \<Rightarrow> Record list \<Rightarrow> BackgroundTask list" where
  "tasks_of k rs = filter (\<lambda>t. bt_Kind t = k) (bg_tasks rs)"

definition terminal_histories :: "Record list \<Rightarrow> HistoryKind list" where
  "terminal_histories rs = filter terminal_history (history_kinds rs)"

definition inert :: "Record list \<Rightarrow> bool" where
  "inert rs \<longleftrightarrow> timers rs = [] \<and> dispatches rs = [] \<and> directives rs = [] \<and> inbox_events rs = []"

definition notifies_parent :: "runtime \<Rightarrow> Directive \<Rightarrow> RunStatus \<Rightarrow> BackgroundTask list \<Rightarrow> bool" where
  "notifies_parent rt d status ts \<longleftrightarrow>
     (case (ri_ParentWFID (d_RunInfo d), ri_ParentCallbackStep (d_RunInfo d)) of
        (Some parent, Some step) \<Rightarrow>
          (\<exists>t p. ts = [t] \<and> mp_marshal rt (enc_NotifyParentCompletePayload p) = Ok (bt_Payload t) \<and>
             bt_DeduplicationID t = DeriveBgTaskID (d_ID d) BackgroundTaskKindNotifyParentComplete \<and>
             npcp_ParentWFID p = parent \<and> npcp_StepName p = step \<and>
             npcp_ChildWFID p = ri_WFID (d_RunInfo d) \<and> npcp_Status p = status)
      | _ \<Rightarrow> ts = [])"

definition stops_worker :: "runtime \<Rightarrow> Directive \<Rightarrow> RunState \<Rightarrow> RunStateKind \<Rightarrow> BackgroundTask list \<Rightarrow> bool" where
  "stops_worker rt d s k ts \<longleftrightarrow>
     (case rs_WorkerID s of
        Some w \<Rightarrow>
          if k = RunStateFail \<or> k = RunStateTerminate
          then (\<exists>t. ts = [t] \<and>
                  mp_marshal rt (enc_WorkerTerminateRunPayload
                    \<lparr>wtrp_WorkerID = w, wtrp_RunID = rs_RunID s\<rparr>) = Ok (bt_Payload t))
          else ts = []
      | None \<Rightarrow> ts = [])"

definition purges_residue :: "runtime \<Rightarrow> Directive \<Rightarrow> BackgroundTask list \<Rightarrow> bool" where
  "purges_residue rt d ts \<longleftrightarrow>
     (\<exists>t. ts = [t] \<and> bt_DeduplicationID t = DeriveBgTaskID (d_ID d) BackgroundTaskKindPurgeRunResidue \<and>
        mp_marshal rt (enc_PurgeRunResiduePayload \<lparr>prrp_WFID = ri_WFID (d_RunInfo d)\<rparr>) = Ok (bt_Payload t))"

definition finishes :: "runtime \<Rightarrow> Directive \<Rightarrow> RunState \<Rightarrow> RunStateKind \<Rightarrow> Record list \<Rightarrow> bool" where
  "finishes rt d s k rs \<longleftrightarrow>
     terminal_kind k \<and>
     run_infos rs =
       [(d_RunInfo d)\<lparr>ri_Status := status_of_kind k, ri_CompletedAt := Some (d_Timestamp d)\<rparr>] \<and>
     (\<exists>t. run_states rs = [(enter_terminal s k t, rs_SeqID s)]) \<and>
     terminal_histories rs = [history_of_kind k] \<and> inert rs \<and>
     purges_residue rt d (tasks_of BackgroundTaskKindPurgeRunResidue rs) \<and>
     notifies_parent rt d (status_of_kind k) (tasks_of BackgroundTaskKindNotifyParentComplete rs) \<and>
     stops_worker rt d s k (tasks_of BackgroundTaskKindWorkerTerminateRun rs)"

lemma parentCallbackRecords_Ok:
  assumes "parentCallbackRecords rt d status result e = Ok rs"
  shows "\<exists>ts. rs = map BackgroundTaskRecord ts \<and> notifies_parent rt d status ts \<and>
    (\<forall>t\<in>set ts. bt_Kind t = BackgroundTaskKindNotifyParentComplete)"
proof (cases "ri_ParentWFID (d_RunInfo d) = None \<or> ri_ParentCallbackStep (d_RunInfo d) = None")
  case True
  then have "rs = []"
    using assms by (auto simp: parentCallbackRecords_def Let_def split: option.splits)
  with True show ?thesis
    by (auto simp: notifies_parent_def split: option.splits)
next
  case False
  then obtain t where "rs = [BackgroundTaskRecord t]"
    using assms by (auto simp: parentCallbackRecords_def Let_def)
  with False assms show ?thesis
    by (intro exI [of _ "[t]"])
      (auto simp: parentCallbackRecords_def notifies_parent_def task_defs Let_def
        intro!: exI)
qed

lemma workerTerminateRecords_Ok:
  assumes "workerTerminateRecords rt d s = Ok rs"
  shows "\<exists>ts. rs = map BackgroundTaskRecord ts \<and>
    (\<forall>k. k = RunStateFail \<or> k = RunStateTerminate \<longrightarrow> stops_worker rt d s k ts) \<and>
    (\<forall>t\<in>set ts. bt_Kind t = BackgroundTaskKindWorkerTerminateRun)"
proof (cases "rs_WorkerID s")
  case None
  with assms show ?thesis
    by (simp add: workerTerminateRecords_def stops_worker_def)
next
  case (Some w)
  then obtain t where "rs = [BackgroundTaskRecord t]"
    using assms by (auto simp: workerTerminateRecords_def)
  with Some assms show ?thesis
    by (intro exI [of _ "[t]"])
      (auto simp: workerTerminateRecords_def stops_worker_def task_defs)
qed

lemma NewPurgeRunResidueTask_Ok:
  "NewPurgeRunResidueTask rt (d_ID d) (ri_WFID (d_RunInfo d)) = Ok t \<Longrightarrow>
   purges_residue rt d [t] \<and> bt_Kind t = BackgroundTaskKindPurgeRunResidue"
  by (auto simp: task_defs purges_residue_def)

lemma projections_tasks [simp]:
  "run_states (map BackgroundTaskRecord ts) = []"
  "run_infos (map BackgroundTaskRecord ts) = []"
  "history_kinds (map BackgroundTaskRecord ts) = []"
  "bg_tasks (map BackgroundTaskRecord ts) = ts"
  "timers (map BackgroundTaskRecord ts) = []"
  "dispatches (map BackgroundTaskRecord ts) = []"
  "directives (map BackgroundTaskRecord ts) = []"
  "inbox_events (map BackgroundTaskRecord ts) = []"
  by (induction ts) auto

lemma filter_kind:
  "\<forall>t\<in>set ts. bt_Kind t = k \<Longrightarrow> filter (\<lambda>t. bt_Kind t = k') ts = (if k = k' then ts else [])"
  by (induction ts) auto


lemma tasks_of_append [simp]: "tasks_of k (rs @ rs') = tasks_of k rs @ tasks_of k rs'"
  by (simp add: tasks_of_def)

fun run_result :: "Record \<Rightarrow> bool" where
  "run_result (RunOutputRecord w i v) = True"
| "run_result (RunErrorRecord w i e) = True"
| "run_result _ = False"

lemma projections_results:
  assumes "\<forall>r\<in>set rs. run_result r"
  shows "run_states rs = []" "run_infos rs = []" "history_kinds rs = []" "bg_tasks rs = []"
    "timers rs = []" "dispatches rs = []" "directives rs = []" "inbox_events rs = []"
  using assms by (induction rs rule: run_states.induct) auto

text \<open>The common layout of the four batches.\<close>

lemma finishesI:
  assumes rs: "rs = [RunInfoRecord ri 0, HistoryRecord h,
      RunStateRecord (enter_terminal s k t) (rs_SeqID s)]
      @ out @ wr @ cb @ [BackgroundTaskRecord p]"
    and k: "terminal_kind k"
    and ri: "ri = (d_RunInfo d)\<lparr>ri_Status := status_of_kind k, ri_CompletedAt := Some (d_Timestamp d)\<rparr>"
    and h: "he_Kind h = history_of_kind k"
    and out: "\<forall>r\<in>set out. run_result r"
    and wr: "if k = RunStateFail \<or> k = RunStateTerminate
             then workerTerminateRecords rt d s = Ok wr else wr = []"
    and cb: "parentCallbackRecords rt d (status_of_kind k) v e = Ok cb"
    and p: "NewPurgeRunResidueTask rt (d_ID d) (ri_WFID (d_RunInfo d)) = Ok p"
  shows "finishes rt d s k rs"
proof -
  have "\<exists>ws. wr = map BackgroundTaskRecord ws \<and> stops_worker rt d s k ws \<and>
      (\<forall>t\<in>set ws. bt_Kind t = BackgroundTaskKindWorkerTerminateRun)"
  proof (cases "k = RunStateFail \<or> k = RunStateTerminate")
    case True
    with wr show ?thesis
      using workerTerminateRecords_Ok [of rt d s wr] by auto
  next
    case False
    with wr show ?thesis
      by (auto simp: stops_worker_def split: option.splits)
  qed
  then obtain ws where ws: "wr = map BackgroundTaskRecord ws" "stops_worker rt d s k ws"
      "\<forall>t\<in>set ws. bt_Kind t = BackgroundTaskKindWorkerTerminateRun"
    by blast
  have "terminal_history (history_of_kind k)"
    using k by (auto simp: terminal_kind_def)
  with assms(1-4) ws parentCallbackRecords_Ok [OF cb] NewPurgeRunResidueTask_Ok [OF p] show ?thesis
    by (auto simp: finishes_def inert_def terminal_histories_def tasks_of_def filter_kind
        projections_results [OF out])
qed

lemma history_run_kinds:
  "history_RunCompleted d = Ok h \<Longrightarrow> he_Kind h = HistoryKindRunCompleted"
  "history_RunFailed d = Ok h \<Longrightarrow> he_Kind h = HistoryKindRunFailed"
  "history_RunCancelled d = Ok h \<Longrightarrow> he_Kind h = HistoryKindRunCancelled"
  "history_RunTerminated d = Ok h \<Longrightarrow> he_Kind h = HistoryKindRunTerminated"
  by (auto simp: history_defs Let_def split: option.splits)

lemma record_CompleteRun_finishes:
  assumes "record_CompleteRun rt d s = Ok rs"
  shows "finishes rt d s RunStateComplete rs"
proof -
  define v where "v = (case as_Complete (d_Msg d) of None \<Rightarrow> MNil | Some r \<Rightarrow> r)"
  define out where
    "out = (if v \<noteq> MNil then [RunOutputRecord (ri_WFID (d_RunInfo d)) (ri_ID (d_RunInfo d)) v] else [])"
  have "\<forall>r\<in>set out. run_result r"
    by (simp add: out_def)
  with assms show ?thesis
    unfolding record_CompleteRun_def Let_def v_def [symmetric] out_def [symmetric]
    by (auto simp: RunInfo_ops history_run_kinds split: if_splits
        intro!: finishesI [where wr = "[]" and out = out])
qed

lemma record_CancelRun_finishes:
  "record_CancelRun rt d s = Ok rs \<Longrightarrow> finishes rt d s RunStateCancel rs"
  by (auto simp: record_CancelRun_def RunInfo_ops Let_def history_run_kinds
      intro!: finishesI [where wr = "[]" and out = "[]"])

lemma record_TerminateRun_finishes:
  "record_TerminateRun rt d s = Ok rs \<Longrightarrow> finishes rt d s RunStateTerminate rs"
  by (auto simp: record_TerminateRun_def RunInfo_ops Let_def history_run_kinds
      intro!: finishesI [where out = "[]"])

lemma record_FailRun_finishes:
  "record_FailRun rt d s = Ok rs \<Longrightarrow> finishes rt d s RunStateFail rs"
  by (auto simp: record_FailRun_def RunInfo_ops Let_def history_run_kinds
      split: if_splits option.splits intro!: finishesI [where out = "[RunErrorRecord w i v]" for w i v])

section \<open>What the other transitions commit\<close>

text \<open>
  Records that only close the step that has just run: its history event, its key-value
  updates and the deletion of its timer.
\<close>

definition step_closing :: "Record list \<Rightarrow> bool" where
  "step_closing rs \<longleftrightarrow>
     run_states rs = [] \<and> run_infos rs = [] \<and> terminal_histories rs = [] \<and> inert rs \<and>
     (\<forall>t\<in>set (bg_tasks rs). bt_Kind t = BackgroundTaskKindDeleteTimer)"

text \<open>The tasks that belong to the end of a run.\<close>

definition end_tasks :: "Record list \<Rightarrow> BackgroundTask list" where
  "end_tasks rs = filter (\<lambda>t. bt_Kind t \<noteq> BackgroundTaskKindDeleteTimer) (bg_tasks rs)"

text \<open>The fields of the run state no transition of a started run touches.\<close>

definition same_run :: "RunState \<Rightarrow> RunState \<Rightarrow> bool" where
  "same_run s s' \<longleftrightarrow>
     rs_WFID s' = rs_WFID s \<and> rs_RunID s' = rs_RunID s \<and> rs_StartedAt s' = rs_StartedAt s \<and>
     rs_SeqID s' = rs_SeqID s"

definition effective_timeout :: "u32 \<Rightarrow> u32 \<Rightarrow> u32" where
  "effective_timeout timeout dflt = (if timeout = 0 then dflt else timeout)"

text \<open>
  The timer armed for directive \<open>d\<close> expires the effective timeout after its creation and
  carries the identifier under which the end of the step deletes it.
\<close>

definition arms :: "Directive \<Rightarrow> TimerKind \<Rightarrow> u32 \<Rightarrow> Timer \<Rightarrow> bool" where
  "arms d kind timeout t \<longleftrightarrow>
     t_ID t = DeriveTimerID (d_ID d) kind \<and> t_Kind t = kind \<and>
     t_WFID t = ri_WFID (d_RunInfo d) \<and> d_ID (t_Directive t) = d_ID d \<and>
     t_ExpiresAt t = t_CreatedAt t + uint timeout * millisecond"

definition starts_step :: "Directive \<Rightarrow> RunState \<Rightarrow> u32 \<Rightarrow> Record list \<Rightarrow> bool" where
  "starts_step d s dflt rs \<longleftrightarrow>
     (\<exists>name timeout t d' st ri.
        as_DispatchableMessage (d_Msg d) = Some (name, timeout) \<and>
        timers rs = [t] \<and> arms d TimerKindStepTimeout (effective_timeout timeout dflt) t \<and>
        t_StepName t = name \<and>
        dispatches rs = [d'] \<and> d_ID d' = d_ID d \<and> d_Kind d' = d_Kind d \<and> d_Msg d' = d_Msg d \<and>
        run_infos rs = [ri] \<and> d_RunInfo d' = ri \<and> ri_Status ri = RunStatusRunning \<and>
        ri_WFID ri = ri_WFID (d_RunInfo d) \<and> ri_ID ri = ri_ID (d_RunInfo d) \<and>
        run_states rs = [(st, rs_SeqID s)] \<and> same_run s st \<and>
        rs_Kind st = RunStateStep \<and> rs_ActiveDirectiveID st = d_ID d \<and>
        rs_PendingCancel st = rs_PendingCancel s \<and> rs_WorkerID st = rs_WorkerID s \<and>
        rs_LastEventSeqID st =
          (case as_Event (d_Msg d) of
             Some (Some seq, _) \<Rightarrow> (if d_Kind d = DirectiveKindEvent then seq else rs_LastEventSeqID s)
           | _ \<Rightarrow> rs_LastEventSeqID s)) \<and>
     directives rs = [] \<and> inbox_events rs = [] \<and>
     terminal_histories rs = [] \<and> end_tasks rs = []"

definition starts_wait :: "runtime \<Rightarrow> Directive \<Rightarrow> StateSnapshot \<Rightarrow> u32 \<Rightarrow> Record list \<Rightarrow> bool" where
  "starts_wait rt d sn dflt rs \<longleftrightarrow>
     (\<exists>timeout stepName t st ri.
        d_Msg d = Some (Wait timeout stepName) \<and>
        timers rs = [t] \<and> arms d TimerKindWaitTimeout (effective_timeout timeout dflt) t \<and>
        t_StepName t = stepName \<and>
        run_infos rs = [ri] \<and> ri_Status ri = RunStatusRunning \<and>
        run_states rs = [(st, rs_SeqID (sn_RunState sn))] \<and> same_run (sn_RunState sn) st \<and>
        rs_Kind st = RunStateWait \<and> rs_ActiveDirectiveID st = d_ID d \<and>
        rs_PendingCancel st = rs_PendingCancel (sn_RunState sn) \<and>
        rs_WorkerID st = rs_WorkerID (sn_RunState sn) \<and>
        rs_LastEventSeqID st = rs_LastEventSeqID (sn_RunState sn)) \<and>
     directives rs = (if d_ID (sn_Event sn) \<noteq> ''''
                      then [wakeDirective (now rt At_Wait_wakeTimestamp) d] else []) \<and>
     dispatches rs = [] \<and> inbox_events rs = [] \<and>
     terminal_histories rs = [] \<and> end_tasks rs = []"

lemma end_tasks_append [simp]: "end_tasks (rs @ rs') = end_tasks rs @ end_tasks rs'"
  by (simp add: end_tasks_def)

lemma end_tasks_closing: "step_closing rs \<Longrightarrow> end_tasks rs = []"
  by (simp add: step_closing_def end_tasks_def filter_False)

lemma terminal_histories_append [simp]:
  "terminal_histories (rs @ rs') = terminal_histories rs @ terminal_histories rs'"
  by (simp add: terminal_histories_def)

lemma tasks_of_closing:
  "step_closing rs \<Longrightarrow> k \<noteq> BackgroundTaskKindDeleteTimer \<Longrightarrow> tasks_of k rs = []"
  by (auto simp: step_closing_def tasks_of_def filter_kind)

lemma finishes_closing:
  "step_closing pre \<Longrightarrow> finishes rt d s k rs \<Longrightarrow> finishes rt d s k (pre @ rs)"
  using tasks_of_closing [of pre]
  by (simp add: finishes_def step_closing_def inert_def)

lemma starts_step_closing:
  "step_closing pre \<Longrightarrow> starts_step d s dflt rs \<Longrightarrow> starts_step d s dflt (pre @ rs)"
  using end_tasks_closing [of pre]
  by (simp add: starts_step_def step_closing_def inert_def)

lemma starts_wait_closing:
  "step_closing pre \<Longrightarrow> starts_wait rt d sn dflt rs \<Longrightarrow> starts_wait rt d sn dflt (pre @ rs)"
  using end_tasks_closing [of pre]
  by (simp add: starts_wait_def step_closing_def inert_def)

lemma inherit_run_info_frame [simp]:
  "d_ID (inherit_run_info d s) = d_ID d" "d_Kind (inherit_run_info d s) = d_Kind d"
  "d_Msg (inherit_run_info d s) = d_Msg d" "d_Timestamp (inherit_run_info d s) = d_Timestamp d"
  "ri_WFID (d_RunInfo (inherit_run_info d s)) = ri_WFID (d_RunInfo d)"
  "ri_ID (d_RunInfo (inherit_run_info d s)) = ri_ID (d_RunInfo d)"
  "ri_ParentWFID (d_RunInfo (inherit_run_info d s)) = ri_ParentWFID (d_RunInfo d)"
  "ri_ParentCallbackStep (d_RunInfo (inherit_run_info d s)) = ri_ParentCallbackStep (d_RunInfo d)"
  by (simp_all add: inherit_run_info_def Let_def)

lemma StepTimeoutTimer_Ok:
  "StepTimeoutTimer rt d dflt = Ok t \<Longrightarrow>
   \<exists>name timeout. as_DispatchableMessage (d_Msg d) = Some (name, timeout) \<and>
     arms d TimerKindStepTimeout (effective_timeout timeout dflt) t \<and>
     t_StepName t = name \<and> t_Directive t = d"
  by (auto simp: StepTimeoutTimer_def arms_def effective_timeout_def Timer_zero_def Let_def
      split: option.splits)

lemma arms_cong:
  "d_ID d' = d_ID d \<Longrightarrow> ri_WFID (d_RunInfo d') = ri_WFID (d_RunInfo d) \<Longrightarrow>
   arms d' k timeout t = arms d k timeout t"
  by (simp add: arms_def)

lemma as_Event_dispatchable:
  "as_Event m = Some (seq, name, payload, timeout) \<Longrightarrow> as_DispatchableMessage m = Some (name, timeout)"
  by simp

lemma step_run_state_props:
  "same_run s (step_run_state t d s)" "rs_Kind (step_run_state t d s) = RunStateStep"
  "rs_ActiveDirectiveID (step_run_state t d s) = d_ID d"
  "rs_PendingCancel (step_run_state t d s) = rs_PendingCancel s"
  "rs_WorkerID (step_run_state t d s) = rs_WorkerID s"
  "rs_LastEventSeqID (step_run_state t d s) =
     (case as_Event (d_Msg d) of
        Some (Some seq, _) \<Rightarrow> (if d_Kind d = DirectiveKindEvent then seq else rs_LastEventSeqID s)
      | _ \<Rightarrow> rs_LastEventSeqID s)"
  by (auto simp: step_run_state_def same_run_def Let_def split: option.splits)

lemma record_StepStart_starts_step:
  assumes "record_StepStart rt d s dflt = Ok rs"
  shows "starts_step d s dflt rs"
proof -
  let ?d = "inherit_run_info d s"
  from assms obtain name timeout t ri where
    msg: "as_DispatchableMessage (d_Msg d) = Some (name, timeout)" and
    t: "StepTimeoutTimer rt ?d dflt = Ok t" and
    ri: "RunInfo_StartStep (d_RunInfo ?d) name (d_Timestamp ?d) = Ok ri" and
    rs: "rs = [TimerRecord t, RunInfoRecord ri 0, WorkerTaskDispatch (?d\<lparr>d_RunInfo := ri\<rparr>),
               RunStateRecord (step_run_state (now rt At_StepStart_EnteredAt)
                 (?d\<lparr>d_RunInfo := ri\<rparr>) s) (rs_SeqID s)]"
    by (auto simp: record_StepStart_def Let_def split: option.splits)
  from msg StepTimeoutTimer_Ok [OF t] ri show ?thesis
    by (auto simp: starts_step_def rs RunInfo_ops Let_def terminal_histories_def end_tasks_def
        step_run_state_props arms_cong [of ?d d] split: option.splits)
qed

lemma record_EventStart_starts_step:
  assumes "record_EventStart rt d s dflt = Ok rs" and "d_Kind d = DirectiveKindEvent"
  shows "starts_step d s dflt rs"
proof -
  let ?d = "inherit_run_info d s"
  from assms obtain seq name payload timeout t ri where
    msg: "d_Msg d = Some (Event seq name payload timeout)" and
    t: "StepTimeoutTimer rt ?d dflt = Ok t" and
    ri: "RunInfo_StartStep (d_RunInfo ?d) name (d_Timestamp ?d) = Ok ri" and
    rs: "rs = [TimerRecord t, RunInfoRecord ri 0, WorkerTaskDispatch (?d\<lparr>d_RunInfo := ri\<rparr>),
               RunStateRecord
                 (let r = s\<lparr>rs_Kind := RunStateStep, rs_EnteredAt := now rt At_EventStart_EnteredAt,
                            rs_ActiveDirectiveID := d_ID d\<rparr>
                  in case seq of Some q \<Rightarrow> r\<lparr>rs_LastEventSeqID := q\<rparr> | None \<Rightarrow> r) (rs_SeqID s)]"
    by (auto simp: record_EventStart_def Let_def split: option.splits)
  from msg StepTimeoutTimer_Ok [OF t] ri assms(2) show ?thesis
    by (auto simp: starts_step_def rs RunInfo_ops Let_def terminal_histories_def end_tasks_def
        same_run_def arms_cong [of ?d d] split: option.splits)
qed

lemma record_Wait_starts_wait:
  "record_Wait rt d sn dflt = Ok rs \<Longrightarrow> starts_wait rt d sn dflt rs"
  by (auto simp: record_Wait_def starts_wait_def createWaitTimeoutTimer_def RunInfo_ops Let_def
      history_WaitStarted_def arms_def Timer_zero_def effective_timeout_def [symmetric] same_run_def
      terminal_histories_def end_tasks_def split: option.splits)

lemma DeleteStepTimeoutTimer_Ok:
  "DeleteStepTimeoutTimer rt d s = Ok rs \<Longrightarrow>
   \<exists>t. rs = [BackgroundTaskRecord t] \<and> bt_Kind t = BackgroundTaskKindDeleteTimer"
  by (auto simp: DeleteStepTimeoutTimer_def task_defs Let_def)

lemma record_StepComplete_closing:
  "record_StepComplete rt d s = Ok rs \<Longrightarrow> step_closing rs"
  by (auto simp: record_StepComplete_def step_closing_def history_StepCompleted_def Let_def
      terminal_histories_def inert_def dest!: DeleteStepTimeoutTimer_Ok split: option.splits)

lemma record_StepFail_closing:
  "record_StepFail rt d s = Ok rs \<Longrightarrow> step_closing rs"
  by (auto simp: record_StepFail_def step_closing_def history_StepFailed_def Let_def
      terminal_histories_def inert_def dest!: DeleteStepTimeoutTimer_Ok split: option.splits)

text \<open>Transitions that leave the kind of the run state and the active directive alone.\<close>

definition keeps_state :: "RunState \<Rightarrow> Record list \<Rightarrow> bool" where
  "keeps_state s rs \<longleftrightarrow>
     (\<exists>st. run_states rs = [(st, rs_SeqID s)] \<and> same_run s st \<and> rs_Kind st = rs_Kind s \<and>
        rs_ActiveDirectiveID st = rs_ActiveDirectiveID s \<and> rs_EnteredAt st = rs_EnteredAt s \<and>
        rs_LastEventSeqID st = rs_LastEventSeqID s) \<and>
     run_infos rs = [] \<and> terminal_histories rs = [] \<and> inert rs \<and> end_tasks rs = []"

text \<open>
  An event is filed in the inbox; a waiting run with an empty inbox is woken up. The run
  state is not written.
\<close>

definition files_event :: "runtime \<Rightarrow> Directive \<Rightarrow> StateSnapshot \<Rightarrow> Record list \<Rightarrow> bool" where
  "files_event rt d sn rs \<longleftrightarrow>
     inbox_events rs = [d] \<and> run_states rs = [] \<and> run_infos rs = [] \<and> timers rs = [] \<and>
     dispatches rs = [] \<and> bg_tasks rs = [] \<and> history_kinds rs = [HistoryKindEventReceived] \<and>
     directives rs =
       (if rs_Kind (sn_RunState sn) = RunStateWait \<and> d_ID (sn_Event sn) = ''''
        then [wakeDirective (now rt At_EventReceived_wakeTimestamp) d] else [])"

lemma keeps_state_closing:
  "step_closing pre \<Longrightarrow> keeps_state s rs \<Longrightarrow> keeps_state s (pre @ rs)"
  using end_tasks_closing [of pre]
  by (simp add: keeps_state_def step_closing_def inert_def)

lemma record_StepPickedUp_keeps:
  "record_StepPickedUp d s = Ok rs \<Longrightarrow> keeps_state s rs"
  by (auto simp: record_StepPickedUp_def keeps_state_def same_run_def history_StepPickedUp_def
      terminal_histories_def end_tasks_def inert_def split: option.splits)

lemma record_CancelReceived_keeps:
  "record_CancelReceived d s = Ok rs \<Longrightarrow> keeps_state s rs"
  by (auto simp: record_CancelReceived_def keeps_state_def same_run_def
      history_RunCancelReceived_def terminal_histories_def end_tasks_def inert_def split: option.splits)

lemma record_EventReceived_files:
  "record_EventReceived rt d sn = Ok rs \<Longrightarrow> files_event rt d sn rs"
  by (auto simp: record_EventReceived_def files_event_def history_EventReceived_def Let_def
      split: option.splits)

lemma record_BuildUnexpectedFailure_finishes:
  "record_BuildUnexpectedFailure rt d cause s = Ok rs \<Longrightarrow>
   \<exists>d'. d_RunInfo d' = d_RunInfo d \<and> finishes rt d' s RunStateFail rs"
  unfolding record_BuildUnexpectedFailure_def Let_def
  by (drule record_FailRun_finishes) (rule exI, rule conjI, rule refl [THEN trans], simp_all)

lemma StepTimeoutFailure_finishes:
  "StepTimeoutFailure rt d name s = Ok rs \<Longrightarrow>
   \<exists>d'. d_RunInfo d' = d_RunInfo d \<and> finishes rt d' s RunStateFail rs"
  unfolding StepTimeoutFailure_def Let_def
  by (drule record_FailRun_finishes) (rule exI, rule conjI, rule refl [THEN trans], simp_all)

lemma history_closing:
  "\<not> terminal_history (he_Kind h) \<Longrightarrow> step_closing [HistoryRecord h]"
  by (simp add: step_closing_def terminal_histories_def inert_def)

lemma record_StepTimeout_finishes:
  assumes "record_StepTimeout rt d s = Ok rs"
  shows "\<exists>d'. d_RunInfo d' = d_RunInfo d \<and> finishes rt d' s RunStateFail rs"
proof -
  from assms obtain he fs name where
    he: "history_StepTimedout rt d s = Ok he" and
    fs: "StepTimeoutFailure rt d name s = Ok fs" and
    rs: "rs = [HistoryRecord he] @ fs"
    by (auto simp: record_StepTimeout_def split: option.splits if_splits)
  from he have "step_closing [HistoryRecord he]"
    by (auto simp: history_StepTimedout_def Let_def intro!: history_closing split: option.splits)
  with StepTimeoutFailure_finishes [OF fs] show ?thesis
    unfolding rs by (blast intro: finishes_closing)
qed

lemma record_WaitTimeout_outcome:
  assumes "record_WaitTimeout rt d s dflt = Ok rs"
  obtains
    d' where "d_RunInfo d' = d_RunInfo d" "finishes rt d' s RunStateFail rs"
  | d' name where "d_RunInfo d' = d_RunInfo d" "d_ID d' = DeriveNextDirectiveID (d_ID d)"
      "d_Msg d' = Some (Step name 0)" "name \<noteq> ''''" "starts_step d' s dflt rs"
proof -
  from assms obtain he name oid where
    he: "history_WaitTimedOut rt d = Ok he" and
    msg: "d_Msg d = Some (WaitTimeout name oid)"
    by (auto simp: record_WaitTimeout_def split: option.splits if_splits)
  from he have cl: "step_closing [HistoryRecord he]"
    by (auto simp: history_WaitTimedOut_def Let_def intro!: history_closing split: option.splits)
  show thesis
  proof (cases "name = ''''")
    case True
    let ?f = "\<lparr>d_ID = ulid rt At_WaitTimeout_failID, d_Timestamp = now rt At_WaitTimeout_failTimestamp,
      d_Kind = DirectiveKindFail, d_RunInfo = d_RunInfo d, d_Attempt = 0,
      d_Msg = Some (Fail \<lparr>ed_Message = ''wait timed out without a timeout step'',
                     ed_StackTrace = '''', ed_Type = ''WaitTimeout''\<rparr>)\<rparr>"
    from True assms he msg obtain fs where
      "record_FailRun rt ?f s = Ok fs" "rs = [HistoryRecord he] @ fs"
      by (auto simp: record_WaitTimeout_def Let_def split: if_splits)
    with cl have "finishes rt ?f s RunStateFail rs"
      by (metis finishes_closing record_FailRun_finishes)
    then show thesis by (rule that(1) [rotated]) simp
  next
    case False
    let ?f = "\<lparr>d_ID = DeriveNextDirectiveID (d_ID d), d_Timestamp = now rt At_WaitTimeout_stepTimestamp,
      d_Kind = DirectiveKindStep, d_RunInfo = d_RunInfo d, d_Attempt = 0,
      d_Msg = Some (Step name 0)\<rparr>"
    from False assms he msg obtain fs where
      "record_StepStart rt ?f s dflt = Ok fs" "rs = [HistoryRecord he] @ fs"
      by (auto simp: record_WaitTimeout_def Let_def split: if_splits)
    with cl have "starts_step ?f s dflt rs"
      by (metis starts_step_closing record_StepStart_starts_step)
    then show thesis by (rule that(2) [rotated 4]) (use False in simp_all)
  qed
qed

end
