(* ===== verification/Plan.thy ===== *)
theory Plan
  imports Transitions SampleRuntime
begin

text \<open>
  The planner (\<^verbatim>\<open>src/run/plan.go\<close>): the decision which transition a directive causes in
  the current snapshot of a run. The clock and the identifier generator are the parameter
  \<open>rt\<close>; everything else is a function of the directive and the snapshot.
\<close>

section \<open>plan.go\<close>

definition deriveNextDirective :: "runtime \<Rightarrow> Directive \<Rightarrow> DirectiveMessage \<Rightarrow> Directive" where
  "deriveNextDirective rt d msg =
     \<lparr>d_ID = DeriveNextDirectiveID (d_ID d),
      d_Timestamp = now rt At_deriveNextDirective_Timestamp,
      d_Kind = sr_NextMsgKind msg,
      d_RunInfo = d_RunInfo d,
      d_Attempt = 0,
      d_Msg = sr_NextMsg msg\<rparr>"

definition planTransition ::
  "runtime \<Rightarrow> Directive \<Rightarrow> StateSnapshot \<Rightarrow> u32 \<Rightarrow> u32 \<Rightarrow> Record list res" where
  "planTransition rt d sn defaultTimeoutMS defaultWaitTimeoutMS =
     (let currentState = sn_RunState sn in
      case d_Kind d of
        DirectiveKindStep \<Rightarrow> record_StepStart rt d currentState defaultTimeoutMS
      | DirectiveKindStepPickedUp \<Rightarrow> record_StepPickedUp d currentState
      | DirectiveKindEvent \<Rightarrow> record_EventStart rt d currentState defaultTimeoutMS
      | DirectiveKindStepTimeout \<Rightarrow> record_StepTimeout rt d currentState
      | DirectiveKindComplete \<Rightarrow> record_CompleteRun rt d currentState
      | DirectiveKindFail \<Rightarrow> record_FailRun rt d currentState
      | DirectiveKindTerminate \<Rightarrow> record_TerminateRun rt d currentState
      | DirectiveKindWait \<Rightarrow> record_Wait rt d sn defaultWaitTimeoutMS
      | DirectiveKindWaitTimeout \<Rightarrow> record_WaitTimeout rt d currentState defaultTimeoutMS
      | kind \<Rightarrow> Err (Errorf (''unknown directive kind: '' @ directive_kind_str kind)))"

definition planFromRunStart :: "runtime \<Rightarrow> Directive \<Rightarrow> u32 \<Rightarrow> Record list res" where
  "planFromRunStart rt d0 defaultTimeoutMS =
     (case as_Start (d_Msg d0) of
        None \<Rightarrow> Err (Errorf (''expected Start message but got '' @ go_type (d_Msg d0)))
      | Some start \<Rightarrow>
          (let startTime = now rt At_planFromRunStart_startTime in
           orErrorf ''failed to create run started state update: ''
             (RunInfo_Start (d_RunInfo d0) startTime) (\<lambda>ri.
           (let d = d0\<lparr>d_RunInfo := ri\<rparr>;
                runState = (NewRunState rt d RunStateStart)\<lparr>rs_StartedAt := ri_StartedAt ri\<rparr>
            in
            orErrorf ''failed to create run start records: ''
              (record_Start d) (\<lambda>runStartRecords.
            orErrorf ''failed to create start step records during run start: ''
              (record_StepStart rt d runState defaultTimeoutMS) (\<lambda>startStepRecords.
            Ok (runStartRecords @ [RunStateRecord runState 0] @ startStepRecords)))))))"

definition planFromStepResult ::
  "runtime \<Rightarrow> Directive \<Rightarrow> StateSnapshot \<Rightarrow> u32 \<Rightarrow> u32 \<Rightarrow> Record list res" where
  "planFromStepResult rt d sn defaultTimeoutMS defaultWaitTimeoutMS =
     (case as_StepResult (d_Msg d) of
        None \<Rightarrow> Err (Errorf (''expected StepResult message but got '' @ go_type (d_Msg d)))
      | Some msg \<Rightarrow>
          (let next = deriveNextDirective rt d msg;
               nextD = next\<lparr>d_RunInfo := (d_RunInfo next)
                              \<lparr>ri_HistorySeqID := sn_LastHistorySeqID sn + 1\<rparr>\<rparr>
           in
           if d_Kind nextD = DirectiveKindFailStep
           then
             (case as_FailStep (d_Msg nextD) of
                None \<Rightarrow> Err (Errorf (''expected FailStep next msg but got '' @ go_type (d_Msg nextD)))
              | Some (failStepName, failStepError) \<Rightarrow>
                  orErrorf ''failed to build step fail records: ''
                    (record_StepFail rt d (sn_RunState sn)) (\<lambda>stepFailRecords.
                  (let failDirective =
                     \<lparr>d_ID = d_ID nextD,
                      d_Timestamp = d_Timestamp nextD,
                      d_Kind = DirectiveKindFail,
                      d_RunInfo = d_RunInfo nextD,
                      d_Attempt = 0,
                      d_Msg = Some (Fail failStepError)\<rparr>
                   in
                   orErrorf ''failed to build fail run records: ''
                     (record_FailRun rt failDirective (sn_RunState sn)) (\<lambda>failRunRecords.
                   Ok (stepFailRecords @ failRunRecords)))))
           else
             orErrorf ''failed to build step complete records: ''
               (record_StepComplete rt d (sn_RunState sn)) (\<lambda>stepCompleteRecords.
             (case rs_PendingCancel (sn_RunState sn) of
                Some pendingCancel \<Rightarrow>
                  orErrorf ''failed to build cancel run records: ''
                    (record_CancelRun rt pendingCancel (sn_RunState sn)) (\<lambda>cancelRecords.
                  Ok (stepCompleteRecords @ cancelRecords))
              | None \<Rightarrow>
                  orErrorf ''failed to build transition records: ''
                    (planTransition rt nextD sn defaultTimeoutMS defaultWaitTimeoutMS)
                    (\<lambda>transitionRecords.
                  Ok (stepCompleteRecords @ transitionRecords))))))"

definition planCancel :: "runtime \<Rightarrow> Directive \<Rightarrow> StateSnapshot \<Rightarrow> Record list res" where
  "planCancel rt d sn =
     (if rs_Kind (sn_RunState sn) = RunStateStep
      then record_CancelReceived d (sn_RunState sn)
      else record_CancelRun rt d (sn_RunState sn))"

definition planWakeFromInbox ::
  "runtime \<Rightarrow> StateSnapshot \<Rightarrow> u32 \<Rightarrow> u32 \<Rightarrow> Record list res" where
  "planWakeFromInbox rt sn defaultTimeoutMS defaultWaitTimeoutMS =
     (if rs_Kind (sn_RunState sn) \<noteq> RunStateWait \<or> d_ID (sn_Event sn) = '''' then Ok []
      else planTransition rt (sn_Event sn) sn defaultTimeoutMS defaultWaitTimeoutMS)"

definition plan ::
  "runtime \<Rightarrow> Directive \<Rightarrow> StateSnapshot \<Rightarrow> u32 \<Rightarrow> u32 \<Rightarrow> Record list res" where
  "plan rt d sn defaultTimeoutMS defaultWaitTimeoutMS =
     (if RunState_IsTerminal (sn_RunState sn) then Ok []
      else case d_Kind d of
        DirectiveKindStart \<Rightarrow> planFromRunStart rt d defaultTimeoutMS
      | DirectiveKindStepResult \<Rightarrow> planFromStepResult rt d sn defaultTimeoutMS defaultWaitTimeoutMS
      | DirectiveKindCancel \<Rightarrow> planCancel rt d sn
      | DirectiveKindEvent \<Rightarrow> record_EventReceived rt d sn
      | DirectiveKindWakeFromInbox \<Rightarrow> planWakeFromInbox rt sn defaultTimeoutMS defaultWaitTimeoutMS
      | _ \<Rightarrow> planTransition rt d sn defaultTimeoutMS defaultWaitTimeoutMS)"

section \<open>The outcomes of a plan\<close>

text \<open>
  A transition of a started run has one of four outcomes: the run finishes, a step starts, a
  wait starts, or the state is kept. \<open>d\<close> is the directive of the transition itself: the
  planned one, the next directive of a step result, the pending cancel, the event taken from
  the inbox, or the failure derived from a timeout.
\<close>

definition outcome ::
  "runtime \<Rightarrow> Directive \<Rightarrow> StateSnapshot \<Rightarrow> u32 \<Rightarrow> u32 \<Rightarrow> Record list \<Rightarrow> bool" where
  "outcome rt d sn dflt dfltw rs \<longleftrightarrow>
     (\<exists>k. finishes rt d (sn_RunState sn) k rs) \<or>
     starts_step d (sn_RunState sn) dflt rs \<or>
     starts_wait rt d sn dfltw rs \<or>
     keeps_state (sn_RunState sn) rs"

lemma outcomeI:
  "finishes rt d (sn_RunState sn) k rs \<Longrightarrow> outcome rt d sn dflt dfltw rs"
  "starts_step d (sn_RunState sn) dflt rs \<Longrightarrow> outcome rt d sn dflt dfltw rs"
  "starts_wait rt d sn dfltw rs \<Longrightarrow> outcome rt d sn dflt dfltw rs"
  "keeps_state (sn_RunState sn) rs \<Longrightarrow> outcome rt d sn dflt dfltw rs"
  by (auto simp: outcome_def)

lemma outcome_closing:
  "step_closing pre \<Longrightarrow> outcome rt d sn dflt dfltw rs \<Longrightarrow> outcome rt d sn dflt dfltw (pre @ rs)"
  by (auto simp: outcome_def
      intro: finishes_closing starts_step_closing starts_wait_closing keeps_state_closing)

text \<open>The run info a transition starts from.\<close>

definition source_info :: "Directive \<Rightarrow> StateSnapshot \<Rightarrow> RunInfo \<Rightarrow> bool" where
  "source_info d sn ri \<longleftrightarrow>
     ri = d_RunInfo d \<or>
     ri = (d_RunInfo d)\<lparr>ri_HistorySeqID := sn_LastHistorySeqID sn + 1\<rparr> \<or>
     ri = d_RunInfo (sn_Event sn) \<or>
     (\<exists>pc. rs_PendingCancel (sn_RunState sn) = Some pc \<and> ri = d_RunInfo pc)"

lemma planTransition_outcome:
  assumes "planTransition rt d sn dflt dfltw = Ok rs"
  shows "\<exists>d'. d_RunInfo d' = d_RunInfo d \<and> outcome rt d' sn dflt dfltw rs"
proof (cases "d_Kind d")
  case DirectiveKindWaitTimeout
  with assms have "record_WaitTimeout rt d (sn_RunState sn) dflt = Ok rs"
    by (simp add: planTransition_def)
  then show ?thesis
    by (rule record_WaitTimeout_outcome) (blast intro: outcomeI)+
next
  case DirectiveKindStepTimeout
  with assms have "record_StepTimeout rt d (sn_RunState sn) = Ok rs"
    by (simp add: planTransition_def)
  from record_StepTimeout_finishes [OF this] show ?thesis
    by (blast intro: outcomeI)
qed (use assms in \<open>simp_all add: planTransition_def\<close>,
    (blast intro: outcomeI record_StepStart_starts_step record_StepPickedUp_keeps
      record_EventStart_starts_step record_CompleteRun_finishes record_FailRun_finishes
      record_TerminateRun_finishes record_Wait_starts_wait)+)

lemma planFromStepResult_outcome:
  assumes "planFromStepResult rt d sn dflt dfltw = Ok rs"
  shows "\<exists>d'. source_info d sn (d_RunInfo d') \<and> outcome rt d' sn dflt dfltw rs"
proof -
  obtain msg where msg: "as_StepResult (d_Msg d) = Some msg"
    using assms by (cases "as_StepResult (d_Msg d)") (auto simp: planFromStepResult_def)
  define next_d where "next_d = (let n = deriveNextDirective rt d msg in
     n\<lparr>d_RunInfo := (d_RunInfo n)\<lparr>ri_HistorySeqID := sn_LastHistorySeqID sn + 1\<rparr>\<rparr>)"
  have src: "source_info d sn (d_RunInfo next_d)"
    by (simp add: next_d_def source_info_def deriveNextDirective_def Let_def)
  note plan = assms [unfolded planFromStepResult_def msg option.case Let_def,
      folded next_d_def [unfolded Let_def]]
  show ?thesis
  proof (cases "d_Kind next_d = DirectiveKindFailStep")
    case True
    with plan obtain pre post fd where
      pre: "record_StepFail rt d (sn_RunState sn) = Ok pre" and
      post: "record_FailRun rt fd (sn_RunState sn) = Ok post" and
      fd: "d_RunInfo fd = d_RunInfo next_d" and rs: "rs = pre @ post"
      by (auto split: option.splits)
    have "outcome rt fd sn dflt dfltw rs"
      unfolding rs
      by (rule outcome_closing [OF record_StepFail_closing [OF pre]])
        (rule outcomeI(1) [OF record_FailRun_finishes [OF post]])
    with src fd show ?thesis by metis
  next
    case False
    with plan obtain pre post where
      pre: "record_StepComplete rt d (sn_RunState sn) = Ok pre" and rs: "rs = pre @ post" and
      post: "case rs_PendingCancel (sn_RunState sn) of
               Some pc \<Rightarrow> record_CancelRun rt pc (sn_RunState sn) = Ok post
             | None \<Rightarrow> planTransition rt next_d sn dflt dfltw = Ok post"
      by (auto split: option.splits)
    have "\<exists>d'. source_info d sn (d_RunInfo d') \<and> outcome rt d' sn dflt dfltw post"
    proof (cases "rs_PendingCancel (sn_RunState sn)")
      case None
      with post have "planTransition rt next_d sn dflt dfltw = Ok post" by simp
      from planTransition_outcome [OF this] src show ?thesis by metis
    next
      case (Some pc)
      with post have "finishes rt pc (sn_RunState sn) RunStateCancel post"
        by (simp add: record_CancelRun_finishes)
      with Some show ?thesis
        by (auto simp: source_info_def intro: outcomeI)
    qed
    then show ?thesis
      unfolding rs using outcome_closing [OF record_StepComplete_closing [OF pre]] by blast
  qed
qed

lemma planCancel_outcome:
  "planCancel rt d sn = Ok rs \<Longrightarrow> outcome rt d sn dflt dfltw rs"
  by (auto simp: planCancel_def split: if_splits
      intro: outcomeI record_CancelReceived_keeps record_CancelRun_finishes)

lemma plan_outcome:
  assumes "plan rt d sn dflt dfltw = Ok rs" and "d_Kind d \<noteq> DirectiveKindStart" and "rs \<noteq> []"
  shows "files_event rt d sn rs \<or>
    (\<exists>d'. source_info d sn (d_RunInfo d') \<and> outcome rt d' sn dflt dfltw rs)"
proof -
  from assms have nt: "\<not> RunState_IsTerminal (sn_RunState sn)"
    by (auto simp: plan_def)
  have same: "source_info d sn (d_RunInfo d)" "source_info d sn (d_RunInfo (sn_Event sn))"
    by (simp_all add: source_info_def)
  show ?thesis
  proof (cases "d_Kind d")
    case DirectiveKindStepResult
    with assms nt show ?thesis by (simp add: plan_def planFromStepResult_outcome)
  next
    case DirectiveKindCancel
    with assms nt same show ?thesis by (auto simp: plan_def dest: planCancel_outcome)
  next
    case DirectiveKindEvent
    with assms nt show ?thesis by (simp add: plan_def record_EventReceived_files)
  next
    case DirectiveKindWakeFromInbox
    with assms nt have "planTransition rt (sn_Event sn) sn dflt dfltw = Ok rs"
      by (auto simp: plan_def planWakeFromInbox_def split: if_splits)
    from planTransition_outcome [OF this] same show ?thesis by metis
  qed (use assms nt same planTransition_outcome [of rt d sn dflt dfltw rs] in \<open>simp add: plan_def, metis?\<close>)+
qed

section \<open>Starting a run\<close>

text \<open>
  A start directive always succeeds: it writes the run info, the input, the first state and
  at once starts the first step. Neither of the two state records carries an expected
  sequence number.
\<close>

definition starts_run :: "runtime \<Rightarrow> Directive \<Rightarrow> u32 \<Rightarrow> Record list \<Rightarrow> bool" where
  "starts_run rt d dflt rs \<longleftrightarrow>
     (\<exists>inp timeout t d' s0 st ri0 ri.
        d_Msg d = Some (Start inp timeout) \<and>
        timers rs = [t] \<and> arms d TimerKindStepTimeout (effective_timeout timeout dflt) t \<and>
        dispatches rs = [d'] \<and> d_ID d' = d_ID d \<and> d_Msg d' = d_Msg d \<and> d_RunInfo d' = ri \<and>
        run_infos rs = [ri0, ri] \<and> ri_Status ri = RunStatusRunning \<and>
        ri_StartedAt ri = Some (now rt At_planFromRunStart_startTime) \<and>
        ri_WFID ri = ri_WFID (d_RunInfo d) \<and> ri_ID ri = ri_ID (d_RunInfo d) \<and>
        run_states rs = [(s0, 0), (st, 0)] \<and> rs_Kind s0 = RunStateStart \<and>
        rs_Kind st = RunStateStep \<and> rs_ActiveDirectiveID st = d_ID d \<and>
        rs_WFID st = ri_WFID (d_RunInfo d) \<and> rs_RunID st = ri_ID (d_RunInfo d) \<and>
        rs_StartedAt st = Some (now rt At_planFromRunStart_startTime) \<and>
        rs_LastEventSeqID st = 0 \<and> rs_WorkerID st = None \<and> rs_PendingCancel st = None) \<and>
     history_kinds rs = [HistoryKindRunStarted] \<and>
     directives rs = [] \<and> inbox_events rs = [] \<and> bg_tasks rs = []"

lemma record_StepStart_total:
  "as_DispatchableMessage (d_Msg d) = Some (name, timeout) \<Longrightarrow>
   \<exists>rs. record_StepStart rt d s dflt = Ok rs"
  by (simp add: record_StepStart_def StepTimeoutTimer_def RunInfo_ops Let_def)

lemma planFromRunStart_total:
  assumes "d_Msg d = Some (Start inp timeout)"
  shows "\<exists>rs. planFromRunStart rt d dflt = Ok rs \<and> starts_run rt d dflt rs"
proof -
  let ?now = "now rt At_planFromRunStart_startTime"
  define ri where "ri = (touch_created (d_RunInfo d) ?now)
      \<lparr>ri_Status := RunStatusRunning, ri_StartedAt := Some ?now\<rparr>"
  define d1 where "d1 = d\<lparr>d_RunInfo := ri\<rparr>"
  define s0 where "s0 = (NewRunState rt d1 RunStateStart)\<lparr>rs_StartedAt := Some ?now\<rparr>"
  have msg: "d_Msg d1 = Some (Start inp timeout)" "d_ID d1 = d_ID d"
      "ri_WFID (d_RunInfo d1) = ri_WFID (d_RunInfo d)" "ri_ID (d_RunInfo d1) = ri_ID (d_RunInfo d)"
      "ri_StartedAt (d_RunInfo d1) = Some ?now"
    using assms by (simp_all add: d1_def ri_def)
  have s0: "rs_Kind s0 = RunStateStart" "rs_WFID s0 = ri_WFID (d_RunInfo d)"
      "rs_RunID s0 = ri_ID (d_RunInfo d)" "rs_StartedAt s0 = Some ?now"
      "rs_LastEventSeqID s0 = 0" "rs_WorkerID s0 = None" "rs_PendingCancel s0 = None" "rs_SeqID s0 = 0"
    using msg by (simp_all add: s0_def NewRunState_def RunState_zero_def)
  obtain h where h: "record_Start d1 = Ok h" "timers h = []" "dispatches h = []"
      "run_infos h = [ri]" "run_states h = []" "history_kinds h = [HistoryKindRunStarted]"
      "directives h = []" "inbox_events h = []" "bg_tasks h = []"
    using msg by (simp add: record_Start_def history_RunStarted_def d1_def)
  obtain st where st: "record_StepStart rt d1 s0 dflt = Ok st"
    using record_StepStart_total [of d1 "''start''" timeout rt s0 dflt] msg by auto
  have "planFromRunStart rt d dflt = Ok (h @ [RunStateRecord s0 0] @ st)"
    using assms h(1) st
    by (simp add: planFromRunStart_def RunInfo_ops Let_def d1_def ri_def s0_def)
  moreover have "ri_StartedAt (d_RunInfo (inherit_run_info d1 s0)) = Some ?now"
    using msg by (simp add: inherit_run_info_def Let_def)
  moreover have "starts_step d1 s0 dflt st"
    by (rule record_StepStart_starts_step [OF st])
  moreover have "bg_tasks st = [] \<and> history_kinds st = [] \<and>
      (\<forall>ri\<in>set (run_infos st). ri_StartedAt ri = ri_StartedAt (d_RunInfo (inherit_run_info d1 s0)))"
    using st msg by (auto simp: record_StepStart_def StepTimeoutTimer_def RunInfo_ops Let_def)
  ultimately show ?thesis
    using h s0 msg assms
    by (auto simp: starts_run_def starts_step_def same_run_def arms_cong [of d1 d])
qed

lemma plan_Start:
  assumes "plan rt d sn dflt dfltw = Ok rs" and "d_Kind d = DirectiveKindStart" and "rs \<noteq> []"
  shows "starts_run rt d dflt rs"
proof -
  from assms have p: "planFromRunStart rt d dflt = Ok rs"
    by (auto simp: plan_def split: if_splits)
  then obtain inp timeout where "d_Msg d = Some (Start inp timeout)"
    by (auto simp: planFromRunStart_def split: option.splits)
  from planFromRunStart_total [OF this, of rt dflt] p show ?thesis by auto
qed

section \<open>Which directive moves a run where\<close>

text \<open>
  The state diagram, per kind of directive: \<open>allowed dk k k'\<close> says that planning a
  directive of kind \<open>dk\<close> in a state of kind \<open>k\<close> may write a state of kind \<open>k'\<close>.
\<close>

definition allowed :: "DirectiveKind \<Rightarrow> RunStateKind \<Rightarrow> RunStateKind \<Rightarrow> bool" where
  "allowed dk k k' \<longleftrightarrow> \<not> terminal_kind k \<and>
     (case dk of
        DirectiveKindStart \<Rightarrow> k' = RunStateStart \<or> k' = RunStateStep
      | DirectiveKindStep \<Rightarrow> k' = RunStateStep
      | DirectiveKindStepPickedUp \<Rightarrow> k' = k
      | DirectiveKindStepTimeout \<Rightarrow> k = RunStateStep \<and> k' = RunStateFail
      | DirectiveKindWait \<Rightarrow> k' = RunStateWait
      | DirectiveKindWaitTimeout \<Rightarrow> k = RunStateWait \<and> (k' = RunStateStep \<or> k' = RunStateFail)
      | DirectiveKindWakeFromInbox \<Rightarrow> k = RunStateWait \<and> k' = RunStateStep
      | DirectiveKindCancel \<Rightarrow> (if k = RunStateStep then k' = k else k' = RunStateCancel)
      | DirectiveKindTerminate \<Rightarrow> k' = RunStateTerminate
      | DirectiveKindComplete \<Rightarrow> k' = RunStateComplete
      | DirectiveKindFail \<Rightarrow> k' = RunStateFail
      | DirectiveKindStepResult \<Rightarrow> terminal_kind k' \<or> k' = RunStateStep \<or> k' = RunStateWait \<or> k' = k
      | _ \<Rightarrow> False)"

lemma finishes_states:
  "finishes rt d s k rs \<Longrightarrow> (st, e) \<in> set (run_states rs) \<Longrightarrow> rs_Kind st = k \<and> terminal_kind k"
  by (auto simp: finishes_def enter_terminal_def)

lemma starts_step_states:
  "starts_step d s dflt rs \<Longrightarrow> (st, e) \<in> set (run_states rs) \<Longrightarrow> rs_Kind st = RunStateStep"
  by (auto simp: starts_step_def)

lemma starts_wait_states:
  "starts_wait rt d sn dfltw rs \<Longrightarrow> (st, e) \<in> set (run_states rs) \<Longrightarrow> rs_Kind st = RunStateWait"
  by (auto simp: starts_wait_def)

lemma keeps_state_states:
  "keeps_state s rs \<Longrightarrow> (st, e) \<in> set (run_states rs) \<Longrightarrow> rs_Kind st = rs_Kind s"
  by (auto simp: keeps_state_def)

lemma starts_run_states:
  "starts_run rt d dflt rs \<Longrightarrow> (st, e) \<in> set (run_states rs) \<Longrightarrow>
   rs_Kind st = RunStateStart \<or> rs_Kind st = RunStateStep"
  by (auto simp: starts_run_def)

lemma outcome_states:
  "outcome rt d sn dflt dfltw rs \<Longrightarrow> (st, e) \<in> set (run_states rs) \<Longrightarrow>
   terminal_kind (rs_Kind st) \<or> rs_Kind st = RunStateStep \<or> rs_Kind st = RunStateWait \<or>
   rs_Kind st = rs_Kind (sn_RunState sn)"
  by (auto simp: outcome_def dest: finishes_states starts_step_states starts_wait_states keeps_state_states)

lemma planTransition_allowed:
  assumes "planTransition rt d sn dflt dfltw = Ok rs" and "(st, e) \<in> set (run_states rs)"
    and "\<not> terminal_kind (rs_Kind (sn_RunState sn))" and "d_Kind d \<noteq> DirectiveKindEvent"
  shows "allowed (d_Kind d) (rs_Kind (sn_RunState sn)) (rs_Kind st)"
proof (cases "d_Kind d")
  case DirectiveKindWaitTimeout
  with assms have *: "record_WaitTimeout rt d (sn_RunState sn) dflt = Ok rs"
    by (simp add: planTransition_def)
  then have "rs_Kind (sn_RunState sn) = RunStateWait"
    by (auto simp: record_WaitTimeout_def split: option.splits if_splits)
  moreover have "rs_Kind st = RunStateStep \<or> rs_Kind st = RunStateFail"
    using * by (rule record_WaitTimeout_outcome)
      (use assms(2) in \<open>auto dest: finishes_states starts_step_states\<close>)
  ultimately show ?thesis
    using DirectiveKindWaitTimeout by (auto simp: allowed_def)
next
  case DirectiveKindStepTimeout
  with assms have *: "record_StepTimeout rt d (sn_RunState sn) = Ok rs"
    by (simp add: planTransition_def)
  then have "rs_Kind (sn_RunState sn) = RunStateStep"
    by (auto simp: record_StepTimeout_def split: option.splits if_splits)
  moreover have "rs_Kind st = RunStateFail"
    using record_StepTimeout_finishes [OF *] assms(2) by (auto dest: finishes_states)
  ultimately show ?thesis
    using DirectiveKindStepTimeout by (simp add: allowed_def)
qed (use assms in \<open>auto simp: planTransition_def allowed_def
      dest: finishes_states [OF record_CompleteRun_finishes] finishes_states [OF record_FailRun_finishes]
        finishes_states [OF record_TerminateRun_finishes]
        starts_step_states [OF record_StepStart_starts_step]
        starts_wait_states [OF record_Wait_starts_wait]
        keeps_state_states [OF record_StepPickedUp_keeps]\<close>)

lemma planCancel_allowed:
  assumes "planCancel rt d sn = Ok rs" and "(st, e) \<in> set (run_states rs)"
    and "\<not> terminal_kind (rs_Kind (sn_RunState sn))"
  shows "allowed DirectiveKindCancel (rs_Kind (sn_RunState sn)) (rs_Kind st)"
  using assms
  by (auto simp: planCancel_def allowed_def split: if_splits
      dest: keeps_state_states [OF record_CancelReceived_keeps]
        finishes_states [OF record_CancelRun_finishes])

lemma plan_diagram:
  assumes "plan rt d sn dflt dfltw = Ok rs" and "(st, e) \<in> set (run_states rs)"
    and "d_ID (sn_Event sn) \<noteq> '''' \<Longrightarrow> d_Kind (sn_Event sn) = DirectiveKindEvent"
  shows "allowed (d_Kind d) (rs_Kind (sn_RunState sn)) (rs_Kind st)"
proof -
  let ?k = "rs_Kind (sn_RunState sn)"
  from assms have nt: "\<not> terminal_kind ?k"
    by (auto simp: plan_def RunState_IsTerminal_def split: if_splits)
  note p = assms(1) [unfolded plan_def RunState_IsTerminal_def, simplified nt, simplified]
  show ?thesis
  proof (cases "d_Kind d")
    case DirectiveKindStart
    with assms(1,2) have "starts_run rt d dflt rs"
      by (intro plan_Start) auto
    with assms(2) DirectiveKindStart nt show ?thesis
      by (auto simp: allowed_def dest: starts_run_states)
  next
    case DirectiveKindStepResult
    with p obtain d' where "outcome rt d' sn dflt dfltw rs"
      by (auto dest: planFromStepResult_outcome)
    with assms(2) DirectiveKindStepResult nt show ?thesis
      by (auto simp: allowed_def dest: outcome_states)
  next
    case DirectiveKindCancel
    with p assms(2) nt show ?thesis by (auto intro: planCancel_allowed)
  next
    case DirectiveKindEvent
    with p assms(2) have False
      using record_EventReceived_files by (fastforce simp: files_event_def)
    then show ?thesis ..
  next
    case DirectiveKindWakeFromInbox
    with p assms(2,3) have *: "?k = RunStateWait" "record_EventStart rt (sn_Event sn) (sn_RunState sn) dflt = Ok rs"
        "d_Kind (sn_Event sn) = DirectiveKindEvent"
      by (auto simp: planWakeFromInbox_def planTransition_def split: if_splits)
    from starts_step_states [OF record_EventStart_starts_step [OF *(2,3)] assms(2)] *(1)
      DirectiveKindWakeFromInbox show ?thesis by (simp add: allowed_def)
  qed (use p assms(2) nt planTransition_allowed [of rt d sn dflt dfltw rs st e] in simp_all)
qed

section \<open>A concrete run\<close>

text \<open>Snapshots of the sample run, used to evaluate the planner on concrete inputs.\<close>

definition sample_sn :: "RunStateKind \<Rightarrow> StateSnapshot" where
  "sample_sn k = StateSnapshot_zero\<lparr>sn_RunState := sample_state k, sn_LastHistorySeqID := 6\<rparr>"

lemmas sample_defs =
  sample_ri_def sample_d_def sample_state_def sample_sn_def sample_rt_def StateSnapshot_zero_def
  RunState_zero_def RunInfo_zero_def Directive_zero_def

lemmas plan_eval =
  plan_def planFromRunStart_def planFromStepResult_def planCancel_def planWakeFromInbox_def
  planTransition_def deriveNextDirective_def record_defs history_defs RunInfo_ops task_defs
  StepTimeoutTimer_def createWaitTimeoutTimer_def DeleteStepTimeoutTimer_def StepTimeoutFailure_def
  inherit_run_info_def step_run_state_def parentCallbackRecords_def workerTerminateRecords_def
  run_duration_ms_def enter_terminal_def RunState_IsTerminal_def NewRunState_def touch_created_def
  ProcStepName_def Let_def

text \<open>
  Every run state the planner writes is an edge of the state diagram: nothing leaves a
  terminal state, a step timeout only fails a run that executes a step, a wait timeout and a
  wake-up only act on a waiting run, and a cancellation that arrives during a step leaves
  the kind of the state alone. (The event in the snapshot is one read from the inbox, so its
  kind is \<^verbatim>\<open>event\<close>.)
\<close>

lemma plan_follows_diagram:
  assumes "plan rt d sn dflt dfltw = Ok rs" and "(st, e) \<in> set (run_states rs)"
    and "d_ID (sn_Event sn) \<noteq> '''' \<Longrightarrow> d_Kind (sn_Event sn) = DirectiveKindEvent"
  shows "allowed (d_Kind d) (rs_Kind (sn_RunState sn)) (rs_Kind st)"
  using assms by (rule plan_diagram)

lemma plan_follows_diagram_witness:
  "\<exists>rs st e. plan sample_rt (sample_d ''t1'' DirectiveKindStepTimeout (StepTimeout ''pay'' ''d1''))
       (sample_sn RunStateStep) 1000 1000 = Ok rs \<and> (st, e) \<in> set (run_states rs) \<and>
     allowed DirectiveKindStepTimeout RunStateStep (rs_Kind st)"
proof -
  let ?d = "sample_d ''t1'' DirectiveKindStepTimeout (StepTimeout ''pay'' ''d1'')"
  obtain rs st e where p: "plan sample_rt ?d (sample_sn RunStateStep) 1000 1000 = Ok rs"
      "(st, e) \<in> set (run_states rs)"
    by (simp add: plan_eval sample_defs)
  have "allowed (d_Kind ?d) (rs_Kind (sn_RunState (sample_sn RunStateStep))) (rs_Kind st)"
    by (rule plan_follows_diagram [OF p]) (simp add: sample_defs)
  with p show ?thesis by (auto simp: sample_defs)
qed

section \<open>Properties of every plan\<close>

lemma keeps_state_nonterminal:
  "keeps_state s rs \<Longrightarrow> terminal_histories rs = [] \<and> end_tasks rs = []"
  by (simp add: keeps_state_def)

lemma files_event_no_end:
  "files_event rt d sn rs \<Longrightarrow> terminal_histories rs = [] \<and> end_tasks rs = [] \<and> run_states rs = []"
  by (simp add: files_event_def terminal_histories_def end_tasks_def)

lemma starts_run_no_end:
  "starts_run rt d dflt rs \<Longrightarrow> terminal_histories rs = [] \<and> end_tasks rs = []"
  by (auto simp: starts_run_def terminal_histories_def end_tasks_def)

text \<open>Whether a batch carries any trace of the end of a run.\<close>

definition ends_run :: "Record list \<Rightarrow> bool" where
  "ends_run rs \<longleftrightarrow>
     terminal_histories rs \<noteq> [] \<or> end_tasks rs \<noteq> [] \<or>
     list_ex (\<lambda>(st, e). terminal_kind (rs_Kind st)) (run_states rs)"

lemma plan_nonterminal:
  "plan rt d sn dflt dfltw = Ok rs \<Longrightarrow> rs \<noteq> [] \<Longrightarrow> \<not> terminal_kind (rs_Kind (sn_RunState sn))"
  by (auto simp: plan_def RunState_IsTerminal_def split: if_splits)

lemma outcome_ends_run:
  assumes "outcome rt d sn dflt dfltw rs" and "ends_run rs"
    and "\<not> terminal_kind (rs_Kind (sn_RunState sn))"
  shows "\<exists>k. finishes rt d (sn_RunState sn) k rs"
proof (rule ccontr)
  assume "\<nexists>k. finishes rt d (sn_RunState sn) k rs"
  with assms(1) have "starts_step d (sn_RunState sn) dflt rs \<or> starts_wait rt d sn dfltw rs \<or>
      keeps_state (sn_RunState sn) rs"
    by (auto simp: outcome_def)
  with assms(3) have "\<not> ends_run rs"
    by (auto simp: ends_run_def list_ex_iff starts_step_def starts_wait_def keeps_state_def)
  with assms(2) show False by simp
qed

text \<open>
  C1. A run is never half finished: a batch that contains a terminal run state, a terminal
  history event or a task that belongs to the end of a run satisfies the whole contract
  \<open>finishes\<close> - status, state kind and history event agree, the state write is guarded by
  the sequence number that was read, the residue is purged once, the parent is notified once
  exactly if it asked for it, a known worker is stopped when the run fails or is terminated,
  and nothing new is started.
\<close>

theorem plan_finishes_completely:
  assumes "plan rt d sn dflt dfltw = Ok rs" and "ends_run rs"
  shows "\<exists>d' k. source_info d sn (d_RunInfo d') \<and> finishes rt d' (sn_RunState sn) k rs"
proof -
  have ne: "rs \<noteq> []"
    using assms(2) by (auto simp: ends_run_def terminal_histories_def end_tasks_def)
  note nt = plan_nonterminal [OF assms(1) ne]
  have "d_Kind d \<noteq> DirectiveKindStart"
  proof
    assume "d_Kind d = DirectiveKindStart"
    from plan_Start [OF assms(1) this ne] have "\<not> ends_run rs"
      by (auto simp: ends_run_def list_ex_iff dest: starts_run_no_end starts_run_states)
    with assms(2) show False by simp
  qed
  from plan_outcome [OF assms(1) this ne] show ?thesis
  proof
    assume "files_event rt d sn rs"
    from files_event_no_end [OF this] assms(2) show ?thesis
      by (simp add: ends_run_def)
  next
    assume "\<exists>d'. source_info d sn (d_RunInfo d') \<and> outcome rt d' sn dflt dfltw rs"
    with outcome_ends_run [OF _ assms(2) nt] show ?thesis by blast
  qed
qed

theorem plan_finishes_completely_witness:
  "\<exists>rs d' k. plan sample_rt (sample_d ''d2'' DirectiveKindComplete (Complete (MInt 1)))
       (sample_sn RunStateStep) 1000 1000 = Ok rs \<and>
     finishes sample_rt d' (sample_state RunStateStep) k rs"
proof -
  let ?d = "sample_d ''d2'' DirectiveKindComplete (Complete (MInt 1))"
  obtain rs where p: "plan sample_rt ?d (sample_sn RunStateStep) 1000 1000 = Ok rs" "ends_run rs"
    by (simp add: plan_eval sample_defs ends_run_def terminal_histories_def)
  from plan_finishes_completely [OF p] p(1) show ?thesis
    by (auto simp: sample_sn_def)
qed

lemma plan_one_write:
  assumes "plan rt d sn dflt dfltw = Ok rs" and "d_Kind d \<noteq> DirectiveKindStart"
  shows "run_states rs = [] \<or> (\<exists>st. run_states rs = [(st, rs_SeqID (sn_RunState sn))])"
proof (cases "rs = []")
  case False
  from plan_outcome [OF assms False] show ?thesis
    by (auto simp: files_event_def outcome_def finishes_def starts_step_def starts_wait_def
        keeps_state_def)
qed simp

text \<open>
  C3. Outside the start of a run a batch writes the run state at most once, and the write
  always expects the sequence number of the state that was planned on: of two handlers that
  planned on the same state, the second commit is rejected by the stream. (A run without a
  state has the sequence number 0, which the store does not send to the stream.)
\<close>

theorem plan_single_guarded_write:
  assumes "plan rt d sn dflt dfltw = Ok rs" and "d_Kind d \<noteq> DirectiveKindStart"
  shows "run_states rs = [] \<or> (\<exists>st. run_states rs = [(st, rs_SeqID (sn_RunState sn))])"
  using assms by (rule plan_one_write)

theorem plan_single_guarded_write_witness:
  "\<exists>rs. plan sample_rt (sample_d ''d2'' DirectiveKindWait (Wait 0 ''late''))
       (sample_sn RunStateStep) 1000 1000 = Ok rs \<and>
     (run_states rs = [] \<or> (\<exists>st. run_states rs = [(st, 4)])) \<and> run_states rs \<noteq> []"
proof -
  let ?d = "sample_d ''d2'' DirectiveKindWait (Wait 0 ''late'')"
  obtain rs where p: "plan sample_rt ?d (sample_sn RunStateStep) 1000 1000 = Ok rs" "run_states rs \<noteq> []"
    by (simp add: plan_eval sample_defs)
  from plan_single_guarded_write [OF p(1)] p show ?thesis
    by (simp add: sample_defs)
qed

text \<open>The timer kind that guards a state kind.\<close>

fun guard_timer :: "RunStateKind \<Rightarrow> TimerKind" where
  "guard_timer RunStateWait = TimerKindWaitTimeout"
| "guard_timer _ = TimerKindStepTimeout"



section \<open>Timeouts\<close>

text \<open>
  A timeout whose directive is no longer the active one of the run, or that meets a run
  in another kind of state, is refused with \<^verbatim>\<open>ErrStaleDirective\<close> and nothing else; a
  timeout that is not stale is never refused with that error.
\<close>

lemma stale_timeout_refused:
  "\<not> RunState_IsTerminal (sn_RunState sn) \<Longrightarrow>
   (d_Kind d = DirectiveKindStepTimeout \<and> d_Msg d = Some (StepTimeout step oid) \<longrightarrow>
      (plan rt d sn dflt dfltw = Err (Sentinel ErrStaleDirective) \<longleftrightarrow>
         \<not> (rs_Kind (sn_RunState sn) = RunStateStep \<and>
            rs_ActiveDirectiveID (sn_RunState sn) = oid))) \<and>
   (d_Kind d = DirectiveKindWaitTimeout \<and> d_Msg d = Some (WaitTimeout step oid) \<longrightarrow>
      (plan rt d sn dflt dfltw = Err (Sentinel ErrStaleDirective) \<longleftrightarrow>
         \<not> (rs_Kind (sn_RunState sn) = RunStateWait \<and>
            rs_ActiveDirectiveID (sn_RunState sn) = oid)))"
  by (auto simp: plan_def planTransition_def record_StepTimeout_def record_WaitTimeout_def Let_def
      orErrorf_Err_iff)

lemma stale_timeout_refused_witness:
  "plan sample_rt (sample_d ''t1'' DirectiveKindWaitTimeout (WaitTimeout ''late'' ''d0''))
     (sample_sn RunStateStep) 1000 1000 = Err (Sentinel ErrStaleDirective)"
  using stale_timeout_refused [of "sample_sn RunStateStep"
      "sample_d ''t1'' DirectiveKindWaitTimeout (WaitTimeout ''late'' ''d0'')" "''late''" "''d0''"
      sample_rt 1000 1000]
  by (simp add: sample_defs RunState_IsTerminal_def)

section \<open>Progress\<close>

text \<open>
  Identifiers and texts far below the bounds of the format: with them every document the
  planner builds can be encoded.
\<close>

definition short :: "string \<Rightarrow> bool" where
  "short s \<longleftrightarrow> length s < 2 ^ 31"

definition short_info :: "RunInfo \<Rightarrow> bool" where
  "short_info ri \<longleftrightarrow> short (ri_WFID ri) \<and> pred_option short (ri_ParentWFID ri) \<and>
     pred_option short (ri_ParentCallbackStep ri)"

definition short_state :: "RunState \<Rightarrow> bool" where
  "short_state s \<longleftrightarrow> short (rs_RunID s) \<and> pred_option short (rs_WorkerID s)"

definition short_error :: "ErrorDetails \<Rightarrow> bool" where
  "short_error e \<longleftrightarrow> length (ed_Message e) < 2 ^ 32 \<and> length (ed_StackTrace e) < 2 ^ 32 \<and>
     length (ed_Type e) < 2 ^ 32"

lemma status_of_kind_short: "length (run_status_str (status_of_kind k)) < 4294967296"
  by (cases k) auto

lemma parentCallbackRecords_total:
  assumes "codec_ok rt" and "short_info (d_RunInfo d)" and "fits result"
    and "pred_option short_error e" and "st \<in> range status_of_kind"
  shows "\<exists>rs. parentCallbackRecords rt d st result e = Ok rs"
proof (cases "ri_ParentWFID (d_RunInfo d) = None \<or> ri_ParentCallbackStep (d_RunInfo d) = None")
  case True
  then show ?thesis
    by (auto simp: parentCallbackRecords_def Let_def split: option.splits)
next
  case False
  then obtain p c where pc: "ri_ParentWFID (d_RunInfo d) = Some p" "ri_ParentCallbackStep (d_RunInfo d) = Some c"
    by auto
  let ?pl = "\<lparr>npcp_ParentWFID = p, npcp_StepName = c, npcp_ChildWFID = ri_WFID (d_RunInfo d),
              npcp_Status = st, npcp_Result = result, npcp_Error = e\<rparr>"
  from assms(5) have "length (run_status_str st) < 4294967296"
    by (auto simp: status_of_kind_short)
  with assms pc have "fits (enc_NotifyParentCompletePayload ?pl)"
    by (cases e) (auto simp: enc_NotifyParentCompletePayload_def enc_ErrorDetails_def omit_any_def
        short_info_def short_def short_error_def)
  with assms(1) obtain b where "mp_marshal rt (enc_NotifyParentCompletePayload ?pl) = Ok b"
    by (rule codec_marshal)
  with pc show ?thesis
    by (simp add: parentCallbackRecords_def NewNotifyParentCompleteTask_def Let_def)
qed

lemma workerTerminateRecords_total:
  assumes "codec_ok rt" and "short_state s"
  shows "\<exists>rs. workerTerminateRecords rt d s = Ok rs"
proof (cases "rs_WorkerID s")
  case (Some w)
  let ?pl = "enc_WorkerTerminateRunPayload \<lparr>wtrp_WorkerID = w, wtrp_RunID = rs_RunID s\<rparr>"
  from assms(2) Some have "fits ?pl"
    by (simp add: enc_WorkerTerminateRunPayload_def short_state_def short_def)
  with assms(1) obtain b where "mp_marshal rt ?pl = Ok b"
    by (rule codec_marshal)
  with Some show ?thesis
    by (simp add: workerTerminateRecords_def NewWorkerTerminateRunTask_def)
qed (simp add: workerTerminateRecords_def)

lemma NewPurgeRunResidueTask_total:
  assumes "codec_ok rt" and "short w"
  shows "\<exists>t. NewPurgeRunResidueTask rt i w = Ok t"
proof -
  from assms(2) have "fits (enc_PurgeRunResiduePayload \<lparr>prrp_WFID = w\<rparr>)"
    by (simp add: enc_PurgeRunResiduePayload_def short_def)
  with assms(1) obtain b where "mp_marshal rt (enc_PurgeRunResiduePayload \<lparr>prrp_WFID = w\<rparr>) = Ok b"
    by (rule codec_marshal)
  then show ?thesis
    by (simp add: NewPurgeRunResidueTask_def)
qed

text \<open>A run that has started can always be failed.\<close>

lemma record_FailRun_total:
  assumes "codec_ok rt" and "short_info (d_RunInfo d)" and "short_state s" and "short_error e"
    and "d_Msg d = Some (Fail e)" and "ri_StartedAt (d_RunInfo d) \<noteq> None"
  shows "\<exists>rs. record_FailRun rt d s = Ok rs"
proof -
  have st: "RunStatusFailed \<in> range status_of_kind"
    by (rule range_eqI [of _ _ RunStateFail]) simp
  obtain wr where "workerTerminateRecords rt d s = Ok wr"
    using workerTerminateRecords_total [OF assms(1,3)] by blast
  moreover obtain cb where "parentCallbackRecords rt d RunStatusFailed MNil (Some e) = Ok cb"
    using parentCallbackRecords_total [OF assms(1,2), of MNil "Some e"] assms(4) st by auto
  moreover obtain p where "NewPurgeRunResidueTask rt (d_ID d) (ri_WFID (d_RunInfo d)) = Ok p"
    using NewPurgeRunResidueTask_total [OF assms(1), of "ri_WFID (d_RunInfo d)"] assms(2)
    by (auto simp: short_info_def)
  ultimately show ?thesis
    using assms(5,6)
    by (auto simp: record_FailRun_def RunInfo_ops history_RunFailed_def run_duration_ms_def Let_def)
qed

lemma active_timeout_plan:
  assumes "codec_ok rt" and "short_info (d_RunInfo d)" and "short_state (sn_RunState sn)"
    and "ri_StartedAt (d_RunInfo d) \<noteq> None" and "length step < 2 ^ 31"
    and "d_Kind d = DirectiveKindStepTimeout \<and> d_Msg d = Some (StepTimeout step oid) \<and>
           rs_Kind (sn_RunState sn) = RunStateStep \<or>
         d_Kind d = DirectiveKindWaitTimeout \<and> d_Msg d = Some (WaitTimeout step oid) \<and>
           rs_Kind (sn_RunState sn) = RunStateWait"
    and "rs_ActiveDirectiveID (sn_RunState sn) = oid"
  shows "\<exists>rs d'. plan rt d sn dflt dfltw = Ok rs \<and> d_RunInfo d' = d_RunInfo d \<and>
    (if d_Kind d = DirectiveKindWaitTimeout \<and> step \<noteq> ''''
     then starts_step d' (sn_RunState sn) dflt rs \<and> d_Msg d' = Some (Step step 0)
     else finishes rt d' (sn_RunState sn) RunStateFail rs)"
  using assms(6)
proof
  assume a: "d_Kind d = DirectiveKindStepTimeout \<and> d_Msg d = Some (StepTimeout step oid) \<and>
    rs_Kind (sn_RunState sn) = RunStateStep"
  let ?e = "\<lparr>ed_Message = ''step '' @ step @ '' timed out'', ed_StackTrace = '''',
    ed_Type = ''StepTimeout''\<rparr>"
  let ?f = "\<lparr>d_ID = ulid rt At_StepTimeoutFailure_ID, d_Timestamp = now rt At_StepTimeoutFailure_Timestamp,
    d_Kind = DirectiveKindFail, d_RunInfo = d_RunInfo d, d_Attempt = 0,
    d_Msg = Some (Fail ?e)\<rparr>"
  obtain fs where "record_FailRun rt ?f (sn_RunState sn) = Ok fs"
    using record_FailRun_total [OF assms(1), of ?f "sn_RunState sn" ?e] assms(2-5)
    by (auto simp: short_error_def)
  with a assms(7) obtain rs where "record_StepTimeout rt d (sn_RunState sn) = Ok rs"
    by (auto simp: record_StepTimeout_def history_StepTimedout_def StepTimeoutFailure_def Let_def)
  with record_StepTimeout_finishes [OF this] a show ?thesis
    by (auto simp: plan_def planTransition_def RunState_IsTerminal_def)
next
  assume a: "d_Kind d = DirectiveKindWaitTimeout \<and> d_Msg d = Some (WaitTimeout step oid) \<and>
    rs_Kind (sn_RunState sn) = RunStateWait"
  have pl: "plan rt d sn dflt dfltw = record_WaitTimeout rt d (sn_RunState sn) dflt"
    using a by (simp add: plan_def planTransition_def RunState_IsTerminal_def)
  show ?thesis
  proof (cases "step = ''''")
    case True
    let ?e = "\<lparr>ed_Message = ''wait timed out without a timeout step'',
      ed_StackTrace = '''', ed_Type = ''WaitTimeout''\<rparr>"
    let ?f = "\<lparr>d_ID = ulid rt At_WaitTimeout_failID, d_Timestamp = now rt At_WaitTimeout_failTimestamp,
      d_Kind = DirectiveKindFail, d_RunInfo = d_RunInfo d, d_Attempt = 0,
      d_Msg = Some (Fail ?e)\<rparr>"
    obtain fs where fs: "record_FailRun rt ?f (sn_RunState sn) = Ok fs"
      using record_FailRun_total [OF assms(1), of ?f "sn_RunState sn" ?e] assms(2-4)
      by (auto simp: short_error_def)
    have "finishes rt ?f (sn_RunState sn) RunStateFail fs"
      by (rule record_FailRun_finishes [OF fs])
    moreover from a fs assms(7) True obtain he where
      "record_WaitTimeout rt d (sn_RunState sn) dflt = Ok ([HistoryRecord he] @ fs)"
      "step_closing [HistoryRecord he]"
      by (auto simp: record_WaitTimeout_def history_WaitTimedOut_def Let_def
          history_closing)
    ultimately show ?thesis
      using pl a True by (auto intro!: exI [of _ ?f] dest: finishes_closing)
  next
    case False
    let ?f = "\<lparr>d_ID = DeriveNextDirectiveID (d_ID d), d_Timestamp = now rt At_WaitTimeout_stepTimestamp,
      d_Kind = DirectiveKindStep, d_RunInfo = d_RunInfo d, d_Attempt = 0, d_Msg = Some (Step step 0)\<rparr>"
    obtain fs where fs: "record_StepStart rt ?f (sn_RunState sn) dflt = Ok fs"
      using record_StepStart_total [of ?f step 0 rt "sn_RunState sn" dflt] by auto
    have "starts_step ?f (sn_RunState sn) dflt fs"
      by (rule record_StepStart_starts_step [OF fs])
    moreover from a fs assms(7) False obtain he where
      "record_WaitTimeout rt d (sn_RunState sn) dflt = Ok ([HistoryRecord he] @ fs)"
      "step_closing [HistoryRecord he]"
      by (auto simp: record_WaitTimeout_def history_WaitTimedOut_def Let_def
          history_closing)
    ultimately show ?thesis
      using pl a False by (auto intro!: exI [of _ ?f] dest: starts_step_closing)
  qed
qed



section \<open>Cancellation\<close>

text \<open>
  C5. Cancelling is deferred while a step runs: the cancel directive is stored in the run
  state and nothing else changes; when the step then reports a result, the run is cancelled
  with the stored directive whatever the worker asked for next, unless the step failed.
\<close>

theorem cancel_deferred_then_resolved:
  "(rs_Kind (sn_RunState sn) = RunStateStep \<and> d_Kind d = DirectiveKindCancel \<and>
      d_Msg d = Some (Cancel reason) \<longrightarrow>
      (\<exists>rs. plan rt d sn dflt dfltw = Ok rs \<and> keeps_state (sn_RunState sn) rs \<and>
        run_states rs = [((sn_RunState sn)\<lparr>rs_PendingCancel := Some d\<rparr>, rs_SeqID (sn_RunState sn))])) \<and>
   (\<not> RunState_IsTerminal (sn_RunState sn) \<and> d_Kind d = DirectiveKindStepResult \<and>
      d_Msg d = Some (StepResult pk pm w n kvs nk nm) \<and> nk \<noteq> DirectiveKindFailStep \<and>
      rs_PendingCancel (sn_RunState sn) = Some pc \<and> plan rt d sn dflt dfltw = Ok rs \<longrightarrow>
      finishes rt pc (sn_RunState sn) RunStateCancel rs)"
proof (intro conjI impI)
  assume "rs_Kind (sn_RunState sn) = RunStateStep \<and> d_Kind d = DirectiveKindCancel \<and>
      d_Msg d = Some (Cancel reason)"
  then obtain rs where rs: "plan rt d sn dflt dfltw = Ok rs"
      "record_CancelReceived d (sn_RunState sn) = Ok rs"
      "run_states rs = [((sn_RunState sn)\<lparr>rs_PendingCancel := Some d\<rparr>, rs_SeqID (sn_RunState sn))]"
    by (simp add: plan_def planCancel_def RunState_IsTerminal_def record_CancelReceived_def
        history_RunCancelReceived_def)
  with record_CancelReceived_keeps [OF rs(2)]
  show "\<exists>rs. plan rt d sn dflt dfltw = Ok rs \<and> keeps_state (sn_RunState sn) rs \<and>
        run_states rs = [((sn_RunState sn)\<lparr>rs_PendingCancel := Some d\<rparr>, rs_SeqID (sn_RunState sn))]"
    by blast
next
  assume "\<not> RunState_IsTerminal (sn_RunState sn) \<and> d_Kind d = DirectiveKindStepResult \<and>
      d_Msg d = Some (StepResult pk pm w n kvs nk nm) \<and> nk \<noteq> DirectiveKindFailStep \<and>
      rs_PendingCancel (sn_RunState sn) = Some pc \<and> plan rt d sn dflt dfltw = Ok rs"
  then obtain pre post where "record_StepComplete rt d (sn_RunState sn) = Ok pre"
      "record_CancelRun rt pc (sn_RunState sn) = Ok post" "rs = pre @ post"
    by (auto simp: plan_def planFromStepResult_def deriveNextDirective_def Let_def)
  then show "finishes rt pc (sn_RunState sn) RunStateCancel rs"
    by (auto intro: finishes_closing record_StepComplete_closing record_CancelRun_finishes)
qed

theorem cancel_deferred_then_resolved_witness:
  "\<exists>rs. plan sample_rt (sample_d ''c1'' DirectiveKindCancel (Cancel ''stop''))
       (sample_sn RunStateStep) 1000 1000 = Ok rs \<and> keeps_state (sample_state RunStateStep) rs"
  using cancel_deferred_then_resolved [of "sample_sn RunStateStep"
      "sample_d ''c1'' DirectiveKindCancel (Cancel ''stop'')" "''stop''" sample_rt 1000 1000]
  by (auto simp: sample_d_def sample_sn_def sample_state_def)

section \<open>Panics\<close>

text \<open>The codec reports its failures as errors.\<close>

definition codec_no_panic :: "runtime \<Rightarrow> bool" where
  "codec_no_panic rt \<longleftrightarrow> (\<forall>v p. mp_marshal rt v \<noteq> Panic p)"

lemma tasks_not_Panic:
  assumes "codec_no_panic rt"
  shows "parentCallbackRecords rt d st v e \<noteq> Panic p"
    and "workerTerminateRecords rt d s \<noteq> Panic p"
    and "NewPurgeRunResidueTask rt i w \<noteq> Panic p"
    and "DeleteStepTimeoutTimer rt d s \<noteq> Panic p"
  using task_not_Panic [of rt] assms
  by (auto simp: codec_no_panic_def parentCallbackRecords_def workerTerminateRecords_def
      DeleteStepTimeoutTimer_def panic_simps Let_def split: option.splits)

lemma history_not_Panic:
  "history_RunTerminated d \<noteq> Panic p" "history_RunCancelReceived d \<noteq> Panic p"
  "history_StepPickedUp d \<noteq> Panic p" "history_StepCompleted rt pm w n ri \<noteq> Panic p"
  "history_StepFailed rt pm n nm ri \<noteq> Panic p" "history_StepTimedout rt d s \<noteq> Panic p"
  "history_WaitTimedOut rt d \<noteq> Panic p" "history_WaitStarted rt d \<noteq> Panic p"
  "history_EventReceived rt d \<noteq> Panic p"
  "ri_StartedAt (d_RunInfo d) \<noteq> None \<Longrightarrow> history_RunCompleted d \<noteq> Panic p"
  "ri_StartedAt (d_RunInfo d) \<noteq> None \<Longrightarrow> history_RunFailed d \<noteq> Panic p"
  by (auto simp: history_defs ProcStepName_def panic_simps run_duration_ms_Panic_iff Let_def
      split: option.splits)

lemma history_RunCancelled_Panic:
  "history_RunCancelled d = Panic p \<longleftrightarrow>
   p = nil_dereference \<and> as_Cancel (d_Msg d) \<noteq> None \<and> ri_StartedAt (d_RunInfo d) = None"
  by (auto simp: history_RunCancelled_def panic_simps run_duration_ms_Panic_iff split: option.splits)

lemma record_CancelRun_Panic:
  "codec_no_panic rt \<Longrightarrow> record_CancelRun rt d s = Panic p \<longleftrightarrow>
   p = nil_dereference \<and> as_Cancel (d_Msg d) \<noteq> None \<and> ri_StartedAt (d_RunInfo d) = None"
  by (auto simp: record_CancelRun_def RunInfo_ops panic_simps history_RunCancelled_Panic
      tasks_not_Panic Let_def)

lemma record_FailRun_not_Panic: "codec_no_panic rt \<Longrightarrow> record_FailRun rt d s \<noteq> Panic p"
  by (cases "ri_StartedAt (d_RunInfo d)")
    (auto simp: record_FailRun_def RunInfo_ops panic_simps history_not_Panic
      tasks_not_Panic Let_def split: option.splits)

lemma record_StepStart_not_Panic: "record_StepStart rt d s dflt \<noteq> Panic p"
  by (auto simp: record_StepStart_def StepTimeoutTimer_def RunInfo_ops Let_def split: option.splits)

lemma record_EventStart_not_Panic: "record_EventStart rt d s dflt \<noteq> Panic p"
  by (auto simp: record_EventStart_def StepTimeoutTimer_def RunInfo_ops Let_def split: option.splits)

lemma record_not_Panic:
  assumes "codec_no_panic rt"
  shows "record_CompleteRun rt d s \<noteq> Panic p" "record_TerminateRun rt d s \<noteq> Panic p"
    "record_CancelReceived d s \<noteq> Panic p" "record_StepPickedUp d s \<noteq> Panic p"
    "record_StepComplete rt d s \<noteq> Panic p" "record_StepFail rt d s \<noteq> Panic p"
    "record_StepTimeout rt d s \<noteq> Panic p" "record_Wait rt d sn dfltw \<noteq> Panic p"
    "record_EventReceived rt d sn \<noteq> Panic p" "record_WaitTimeout rt d s dflt \<noteq> Panic p"
proof -
  show "record_CompleteRun rt d s \<noteq> Panic p"
    by (cases "ri_StartedAt (d_RunInfo d)")
      (auto simp: record_CompleteRun_def RunInfo_ops panic_simps history_not_Panic
        tasks_not_Panic [OF assms] Let_def)
qed (auto simp: record_TerminateRun_def record_CancelReceived_def record_StepPickedUp_def
      record_StepComplete_def record_StepFail_def record_StepTimeout_def record_Wait_def
      record_EventReceived_def record_WaitTimeout_def RunInfo_ops createWaitTimeoutTimer_def
      StepTimeoutFailure_def panic_simps history_not_Panic tasks_not_Panic [OF assms]
      record_FailRun_not_Panic [OF assms] record_StepStart_not_Panic Let_def
      split: option.splits if_splits)

lemma planTransition_not_Panic:
  "codec_no_panic rt \<Longrightarrow> planTransition rt d sn dflt dfltw \<noteq> Panic p"
  by (cases "d_Kind d")
    (simp_all add: planTransition_def record_not_Panic record_FailRun_not_Panic
      record_StepStart_not_Panic record_EventStart_not_Panic)

lemma planFromRunStart_not_Panic: "planFromRunStart rt d dflt \<noteq> Panic p"
proof (cases "as_Start (d_Msg d)")
  case None
  then show ?thesis by (simp add: planFromRunStart_def)
next
  case (Some a)
  then obtain inp timeout where "d_Msg d = Some (Start inp timeout)"
    by (cases a) auto
  from planFromRunStart_total [OF this, of rt dflt] show ?thesis by auto
qed

lemma planFromStepResult_Panic:
  assumes "codec_no_panic rt"
  shows "planFromStepResult rt d sn dflt dfltw = Panic p \<longleftrightarrow>
    p = nil_dereference \<and>
    (\<exists>msg pc rs. as_StepResult (d_Msg d) = Some msg \<and> sr_NextMsgKind msg \<noteq> DirectiveKindFailStep \<and>
       record_StepComplete rt d (sn_RunState sn) = Ok rs \<and>
       rs_PendingCancel (sn_RunState sn) = Some pc \<and>
       as_Cancel (d_Msg pc) \<noteq> None \<and> ri_StartedAt (d_RunInfo pc) = None)"
proof (cases "as_StepResult (d_Msg d)")
  case None
  then show ?thesis by (simp add: planFromStepResult_def)
next
  case (Some msg)
  show ?thesis
  proof (cases "sr_NextMsgKind msg = DirectiveKindFailStep")
    case True
    with Some show ?thesis
      by (auto simp: planFromStepResult_def deriveNextDirective_def panic_simps
          record_not_Panic [OF assms] record_FailRun_not_Panic [OF assms] Let_def
          simp del: as_StepResult_iff split: option.splits)
  next
    case False
    with Some show ?thesis
      by (cases "rs_PendingCancel (sn_RunState sn)")
        (auto simp: planFromStepResult_def deriveNextDirective_def panic_simps
          record_not_Panic [OF assms] planTransition_not_Panic [OF assms]
          record_CancelRun_Panic [OF assms] Let_def
          simp del: as_StepResult_iff as_Cancel_iff)
  qed
qed

text \<open>
  C7. The planner panics in one situation only: a run is cancelled - at once, or with the
  result of its step - by a cancel directive whose run info has no start time, which
  \<^verbatim>\<open>history.RunCancelled\<close> dereferences. A cancel command that overtakes the start of its
  run is such a directive.
\<close>

theorem plan_panics_iff:
  assumes "codec_no_panic rt"
  shows "plan rt d sn dflt dfltw = Panic p \<longleftrightarrow>
    p = nil_dereference \<and> \<not> RunState_IsTerminal (sn_RunState sn) \<and>
    (d_Kind d = DirectiveKindCancel \<and> rs_Kind (sn_RunState sn) \<noteq> RunStateStep \<and>
       as_Cancel (d_Msg d) \<noteq> None \<and> ri_StartedAt (d_RunInfo d) = None \<or>
     d_Kind d = DirectiveKindStepResult \<and>
       (\<exists>msg pc rs. as_StepResult (d_Msg d) = Some msg \<and> sr_NextMsgKind msg \<noteq> DirectiveKindFailStep \<and>
          record_StepComplete rt d (sn_RunState sn) = Ok rs \<and>
          rs_PendingCancel (sn_RunState sn) = Some pc \<and>
          as_Cancel (d_Msg pc) \<noteq> None \<and> ri_StartedAt (d_RunInfo pc) = None))"
proof (cases "RunState_IsTerminal (sn_RunState sn)")
  case False
  show ?thesis
  proof (cases "d_Kind d")
    case DirectiveKindStepResult
    with False show ?thesis
      by (simp add: plan_def planFromStepResult_Panic [OF assms])
  next
    case DirectiveKindCancel
    with False show ?thesis
      by (auto simp: plan_def planCancel_def record_CancelRun_Panic [OF assms] record_not_Panic [OF assms])
  qed (use False in \<open>simp_all add: plan_def planFromRunStart_not_Panic record_not_Panic [OF assms]
      planTransition_not_Panic [OF assms] planWakeFromInbox_def\<close>)
qed (simp add: plan_def)

theorem plan_panics_iff_witness:
  "plan sample_rt
     ((sample_d ''c1'' DirectiveKindCancel (Cancel ''stop''))\<lparr>d_RunInfo := sample_ri\<lparr>ri_StartedAt := None\<rparr>\<rparr>)
     StateSnapshot_zero 1000 1000 = Panic nil_dereference"
proof -
  have "codec_no_panic sample_rt"
    by (simp add: codec_no_panic_def sample_rt_def)
  from plan_panics_iff [OF this] show ?thesis
    by (simp add: sample_d_def StateSnapshot_zero_def RunState_zero_def RunState_IsTerminal_def)
qed

section \<open>Events\<close>



end
