(* ===== verification/Metrics.thy ===== *)
theory Metrics
  imports Types
begin

text \<open>
  What the server reports to the metrics interface (\<^verbatim>\<open>src/metrics/\<close>): one constructor per
  method of the interface \<^verbatim>\<open>Recorder\<close>, with the arguments that are not clock readings. A
  component that reports returns the list of its calls. The OpenTelemetry recorder turns a
  call into one addition to a counter or one sample of a histogram.
\<close>

datatype metric =
    RecordRunStarted string
  | RecordRunTerminal string string
  | RecordDirectiveHandle string
  | RecordDirectiveCommit string
  | RecordAPICommand string bool
  | RecordBgTask string string

text \<open>
  The instruments of the OpenTelemetry recorder. A counter has no boundaries; those of a
  histogram of durations are in units of 0.1 milliseconds.
\<close>

record instrument =
  in_name :: string
  in_description :: string
  in_unit :: string
  in_boundaries :: "nat list"

definition duration_boundaries :: "nat list" where
  "duration_boundaries = [2, 5, 10, 20, 50, 100, 250, 500, 1000, 2500]"

fun otel_instrument :: "metric \<Rightarrow> instrument" where
  "otel_instrument (RecordRunStarted _) =
     \<lparr>in_name = ''grctl.runs.started'', in_description = ''Total workflow runs started'',
      in_unit = ''{run}'', in_boundaries = []\<rparr>"
| "otel_instrument (RecordRunTerminal _ _) =
     \<lparr>in_name = ''grctl.runs.terminal'',
      in_description = ''Total workflow runs that reached a terminal state'',
      in_unit = ''{run}'', in_boundaries = []\<rparr>"
| "otel_instrument (RecordDirectiveHandle _) =
     \<lparr>in_name = ''grctl.directive.handle.duration'',
      in_description = ''Duration of full directive handling (snapshot + plan + commit)'',
      in_unit = ''s'', in_boundaries = duration_boundaries\<rparr>"
| "otel_instrument (RecordDirectiveCommit _) =
     \<lparr>in_name = ''grctl.directive.commit.duration'',
      in_description = ''Duration of the JetStream commit within directive handling'',
      in_unit = ''s'', in_boundaries = duration_boundaries\<rparr>"
| "otel_instrument (RecordAPICommand _ _) =
     \<lparr>in_name = ''grctl.api.commands'', in_description = ''Total API commands received'',
      in_unit = ''{command}'', in_boundaries = []\<rparr>"
| "otel_instrument (RecordBgTask _ _) =
     \<lparr>in_name = ''grctl.bg_tasks.processed'', in_description = ''Total background tasks processed'',
      in_unit = ''{task}'', in_boundaries = []\<rparr>"

text \<open>The attributes a call is recorded with.\<close>

fun otel_attributes :: "metric \<Rightarrow> (string \<times> string) list" where
  "otel_attributes (RecordRunStarted wfType) = [(''wf_type'', wfType)]"
| "otel_attributes (RecordRunTerminal wfType outcome) = [(''wf_type'', wfType), (''outcome'', outcome)]"
| "otel_attributes (RecordDirectiveHandle kind) = [(''kind'', kind)]"
| "otel_attributes (RecordDirectiveCommit kind) = [(''kind'', kind)]"
| "otel_attributes (RecordAPICommand kind success) =
     [(''kind'', kind), (''result'', if success then ''success'' else ''error'')]"
| "otel_attributes (RecordBgTask kind result) = [(''kind'', kind), (''result'', result)]"

text \<open>The value of a counter with given attributes after a sequence of calls.\<close>

definition otel_count :: "metric list \<Rightarrow> string \<Rightarrow> (string \<times> string) list \<Rightarrow> nat" where
  "otel_count ms instrument attrs =
     length (filter (\<lambda>m. in_name (otel_instrument m) = instrument \<and> otel_attributes m = attrs) ms)"

end
