(* ===== verification/Manager.thy ===== *)
theory Manager
  imports StoreProps Plan Metrics
begin

text \<open>
  The run manager (\<^verbatim>\<open>src/run/manager.go\<close>): one call of \<^verbatim>\<open>Handle\<close> reads the snapshot of a
  run, plans the records of a directive and commits them. The Go interface \<^verbatim>\<open>Recorder\<close> is a
  record of operations; its contract is the locale \<open>recorder\<close>, which the state store
  implements. Logging and the context values made for it are not modelled; what the manager
  reports to the metrics interface is the list of its calls.
\<close>

section \<open>The manager\<close>

definition RetryDelay :: duration where
  "RetryDelay = 100 * millisecond"

record 's Recorder =
  rec_GetStateSnapshot :: "'s \<Rightarrow> WFID \<Rightarrow> RunID \<Rightarrow> StateSnapshot res"
  rec_Commit :: "'s \<Rightarrow> Record list \<Rightarrow> 's \<times> (CommitResult \<times> gerr option) res"

record Manager =
  mgr_defaultStepTimeoutMS :: u32
  mgr_defaultWaitTimeoutMS :: u32

fun findTerminalOutcome :: "Record list \<Rightarrow> RunStateKind option" where
  "findTerminalOutcome [] = None"
| "findTerminalOutcome (RunStateRecord s e # rs) =
     (if RunState_IsTerminal s then Some (rs_Kind s) else findTerminalOutcome rs)"
| "findTerminalOutcome (_ # rs) = findTerminalOutcome rs"

definition manager_commit :: "'s Recorder \<Rightarrow> 's \<Rightarrow> Record list \<Rightarrow> 's \<times> HandleResult res" where
  "manager_commit rcd s updates =
     (case rec_Commit rcd s updates of
        (s', Panic p) \<Rightarrow> (s', Panic p)
      | (s', Err e) \<Rightarrow> (s', Ok (Retryable RetryDelay))
      | (s', Ok (result, Some e)) \<Rightarrow>
          if cr_IsCASRejection result then (s', Ok (Retryable RetryDelay))
          else if cr_IsDuplicateMessage result then (s', Ok Processed)
          else if cr_IsAtomicPublishBackpressure result then (s', Ok (Retryable RetryDelay))
          else (s', Ok (Retryable RetryDelay))
      | (s', Ok (result, None)) \<Rightarrow> (s', Ok Processed))"

definition failAndCommit ::
  "runtime \<Rightarrow> 's Recorder \<Rightarrow> 's \<Rightarrow> Directive \<Rightarrow> RunState \<Rightarrow> gerr \<Rightarrow> 's \<times> HandleResult res" where
  "failAndCommit rt rcd s d currentState cause =
     (case record_BuildUnexpectedFailure rt d (err_text cause) currentState of
        Err e \<Rightarrow> (s, Ok Processed)
      | Panic p \<Rightarrow> (s, Panic p)
      | Ok failureUpdates \<Rightarrow> manager_commit rcd s failureUpdates)"

text \<open>A panic leaves the call before the metrics behind it are recorded.\<close>

definition handle_metrics :: "Directive \<Rightarrow> Record list \<Rightarrow> HandleResult res \<Rightarrow> metric list" where
  "handle_metrics d records result =
     (case result of
        Panic p \<Rightarrow> []
      | _ \<Rightarrow>
          [RecordDirectiveCommit (directive_kind_str (d_Kind d))] @
          (case findTerminalOutcome records of
             None \<Rightarrow> [] | Some k \<Rightarrow> [RecordRunTerminal (ri_WFType (d_RunInfo d)) (run_state_kind_str k)]) @
          [RecordDirectiveHandle (directive_kind_str (d_Kind d))])"

definition Handle ::
  "runtime \<Rightarrow> Manager \<Rightarrow> 's Recorder \<Rightarrow> 's \<Rightarrow> Directive \<Rightarrow> u64 \<Rightarrow> 's \<times> metric list \<times> HandleResult res" where
  "Handle rt m rcd s d numDelivered =
     (case rec_GetStateSnapshot rcd s (ri_WFID (d_RunInfo d)) (ri_ID (d_RunInfo d)) of
        Err e \<Rightarrow> (s, [], Ok (Retryable RetryDelay))
      | Panic p \<Rightarrow> (s, [], Panic p)
      | Ok sn \<Rightarrow>
          (case plan rt d sn (mgr_defaultStepTimeoutMS m) (mgr_defaultWaitTimeoutMS m) of
             Panic p \<Rightarrow> (s, [], Panic p)
           | Err e \<Rightarrow>
               (let (s', result) = failAndCommit rt rcd s d (sn_RunState sn) e in (s', [], result))
           | Ok records \<Rightarrow>
               (let (s', result) = manager_commit rcd s records
                in (s', handle_metrics d records result, result))))"

text \<open>The batches a directive may cause on a snapshot: the planned one or the failure.\<close>

definition planned :: "runtime \<Rightarrow> Manager \<Rightarrow> Directive \<Rightarrow> StateSnapshot \<Rightarrow> Record list \<Rightarrow> bool" where
  "planned rt m d sn rs \<longleftrightarrow>
     (case plan rt d sn (mgr_defaultStepTimeoutMS m) (mgr_defaultWaitTimeoutMS m) of
        Ok records \<Rightarrow> rs = records
      | Err e \<Rightarrow> record_BuildUnexpectedFailure rt d (err_text e) (sn_RunState sn) = Ok rs
      | Panic p \<Rightarrow> False)"

section \<open>The contract of a recorder\<close>

text \<open>
  \<open>abs\<close> is what a recorder holds, \<open>written\<close> the atomic effect of a batch on it; \<open>None\<close> is a
  batch the recorder refuses. A commit is such a write, or has no effect, and its answer says
  which, unless the answer was lost; then no flag is set. A batch without records is refused.
\<close>

locale recorder =
  fixes rcd :: "'s Recorder"
    and abs :: "'s \<Rightarrow> 'a"
    and written :: "'a \<Rightarrow> Record list \<Rightarrow> 'a option"
  assumes commit_done:
      "rec_Commit rcd s rs = (s', Ok (cr, None)) \<Longrightarrow> written (abs s) rs = Some (abs s')"
    and commit_refused:
      "rec_Commit rcd s rs = (s', Ok (cr, Some e)) \<Longrightarrow>
       abs s' = abs s \<or> cr = CommitResult_zero \<and> written (abs s) rs = Some (abs s')"
    and commit_panics: "rec_Commit rcd s rs = (s', Panic p) \<Longrightarrow> abs s' = abs s"
    and commit_returns: "rec_Commit rcd s rs \<noteq> (s', Err e)"
    and commit_nothing: "rec_Commit rcd s [] = (s', r) \<Longrightarrow> s' = s \<and> (\<exists>e. r = Ok (CommitResult_zero, Some e))"
begin

lemma manager_commit_spec:
  assumes "manager_commit rcd s rs = (s', r)"
  shows "abs s' = abs s \<or> written (abs s) rs = Some (abs s')"
  using assms commit_done commit_refused commit_panics commit_returns
  by (fastforce simp: manager_commit_def split: prod.splits res.splits option.splits if_splits)

lemma manager_commit_Processed:
  assumes "manager_commit rcd s rs = (s', Ok Processed)"
  shows "written (abs s) rs = Some (abs s') \<or>
    (\<exists>cr e. rec_Commit rcd s rs = (s', Ok (cr, Some e)) \<and> cr_IsDuplicateMessage cr \<and> abs s' = abs s)"
  using assms commit_done commit_refused commit_returns
  by (fastforce simp: manager_commit_def CommitResult_zero_def
      split: prod.splits res.splits option.splits if_splits)

lemma manager_commit_nothing: "manager_commit rcd s [] = (s, Ok (Retryable RetryDelay))"
  using commit_nothing [of s] by (cases "rec_Commit rcd s []") (force simp: manager_commit_def CommitResult_zero_def)

lemma Handle_writes:
  assumes "Handle rt m rcd s d n = (s', ms, r)"
  shows "abs s' = abs s \<or>
    (\<exists>sn rs. rec_GetStateSnapshot rcd s (ri_WFID (d_RunInfo d)) (ri_ID (d_RunInfo d)) = Ok sn \<and>
       planned rt m d sn rs \<and> written (abs s) rs = Some (abs s'))"
  using assms manager_commit_spec
  by (fastforce simp: Handle_def failAndCommit_def planned_def split: res.splits prod.splits)

lemma Handle_Processed:
  assumes "Handle rt m rcd s d n = (s', ms, Ok Processed)"
  shows "\<exists>sn. rec_GetStateSnapshot rcd s (ri_WFID (d_RunInfo d)) (ri_ID (d_RunInfo d)) = Ok sn \<and>
    ((\<exists>rs. planned rt m d sn rs \<and>
        (written (abs s) rs = Some (abs s') \<or>
         (\<exists>cr e. rec_Commit rcd s rs = (s', Ok (cr, Some e)) \<and> cr_IsDuplicateMessage cr \<and> abs s' = abs s))) \<or>
     (\<exists>e e'. plan rt d sn (mgr_defaultStepTimeoutMS m) (mgr_defaultWaitTimeoutMS m) = Err e \<and>
        record_BuildUnexpectedFailure rt d (err_text e) (sn_RunState sn) = Err e' \<and> s' = s))"
  using assms manager_commit_Processed
  by (fastforce simp: Handle_def failAndCommit_def planned_def split: res.splits prod.splits)

lemma Handle_finished:
  assumes "rec_GetStateSnapshot rcd s (ri_WFID (d_RunInfo d)) (ri_ID (d_RunInfo d)) = Ok sn"
    and "RunState_IsTerminal (sn_RunState sn)"
  shows "\<exists>ms. Handle rt m rcd s d n = (s, ms, Ok (Retryable RetryDelay))"
  using assms by (simp add: Handle_def plan_def manager_commit_nothing)

end

section \<open>The state store as a recorder\<close>

definition store_recorder :: "runtime \<Rightarrow> ('s, 'b) jetstream \<Rightarrow> 's Recorder" where
  "store_recorder rt js =
     \<lparr>rec_GetStateSnapshot = GetStateSnapshot rt js, rec_Commit = Commit rt js\<rparr>"

definition write_records :: "runtime \<Rightarrow> stream \<Rightarrow> Record list \<Rightarrow> stream option" where
  "write_records rt st rs =
     (case commit_messages rt rs of
        Ok ms \<Rightarrow> if ms \<noteq> [] \<and> batch_accepted st ms then Some (store_batch st ms) else None
      | _ \<Rightarrow> None)"

context state_stream
begin

lemma store_is_recorder: "recorder (store_recorder rt js) view (write_records rt)"
proof (unfold_locales, goal_cases)
  case (1 s rs s' cr)
  then show ?case
    using Commit_spec [of rt s rs s' cr None]
    by (auto simp: store_recorder_def write_records_def commit_spec_def)
next
  case (2 s rs s' cr e)
  then show ?case
    using Commit_spec [of rt s rs s' cr "Some e"]
    by (auto simp: store_recorder_def write_records_def commit_spec_def)
next
  case (3 s rs s' p)
  then show ?case
    using Commit_Panic [of rt s rs s' p] by (simp add: store_recorder_def)
next
  case (4 s rs s' e)
  show ?case
    using Commit_not_Err [of rt s rs s' e] by (simp add: store_recorder_def)
next
  case (5 s s' r)
  then show ?case
    using Commit_empty by (simp add: store_recorder_def)
qed

end

sublocale state_stream \<subseteq> store: recorder "store_recorder rt js" view "write_records rt" for rt
  by (rule store_is_recorder)

section \<open>Properties of the manager\<close>

lemma sample_stream_snapshot:
  "GetStateSnapshot sample_rt mem_js (sample_stream (sample_state RunStateStep)) ''w1'' ''r1'' =
     Ok \<lparr>sn_RunState = sample_state RunStateStep, sn_Event = Directive_zero, sn_LastHistorySeqID = 0\<rparr>"
proof -
  have ids: "rs_WFID (sample_state RunStateStep) = ''w1''" "rs_RunID (sample_state RunStateStep) = ''r1''"
    by (simp_all add: sample_state_def)
  have "RunStateSubject Manifest ''w1'' ''r1'' \<noteq> HistorySubject Manifest ''w1'' ''r1''"
    "RunStateSubject Manifest ''w1'' ''r1'' \<noteq> EventInboxSubject Manifest ''w1''"
    by (simp_all add: subjects plain_def)
  then show ?thesis
    by (simp add: GetStateSnapshot_def sample_stream_state GetLastHistorySeqID_def GetNextEvent_def event_or_none_def)
      (simp add: mem_js_def sample_stream_def last_match_def from_seq_def ids Let_def
        subject_matches_literal subject_literals sample_tokens eq_commute)
qed

text \<open>
  C13. Handling a directive is atomic and honest: the stream changes by one batch, the one
  planned for the directive on the snapshot read or the failure of the run, or not at all;
  and the directive is reported as processed only if such a batch was stored, the stream had
  already seen a message of it, or not even the failure could be encoded.
\<close>

theorem Handle_atomic:
  assumes "state_stream js view staged" and "Handle rt m (store_recorder rt js) s d n = (s', metrics, result)"
  shows "(view s' = view s \<or>
      (\<exists>sn rs. GetStateSnapshot rt js s (ri_WFID (d_RunInfo d)) (ri_ID (d_RunInfo d)) = Ok sn \<and>
         planned rt m d sn rs \<and> write_records rt (view s) rs = Some (view s'))) \<and>
    (result = Ok Processed \<longrightarrow>
      (\<exists>sn. GetStateSnapshot rt js s (ri_WFID (d_RunInfo d)) (ri_ID (d_RunInfo d)) = Ok sn \<and>
        ((\<exists>rs. planned rt m d sn rs \<and>
           (write_records rt (view s) rs = Some (view s') \<or>
            (\<exists>cr e. Commit rt js s rs = (s', Ok (cr, Some e)) \<and> cr_IsDuplicateMessage cr \<and> view s' = view s))) \<or>
         (\<exists>e e'. plan rt d sn (mgr_defaultStepTimeoutMS m) (mgr_defaultWaitTimeoutMS m) = Err e \<and>
            record_BuildUnexpectedFailure rt d (err_text e) (sn_RunState sn) = Err e' \<and> s' = s))))"
  using recorder.Handle_writes [OF state_stream.store_is_recorder [OF assms(1)] assms(2)]
    recorder.Handle_Processed [OF state_stream.store_is_recorder [OF assms(1), of rt], of rt m s d n s' metrics]
    assms(2)
  by (simp add: store_recorder_def)

theorem Handle_atomic_witness:
  "\<exists>st' metrics sn rs.
     Handle sample_rt \<lparr>mgr_defaultStepTimeoutMS = 1000, mgr_defaultWaitTimeoutMS = 1000\<rparr>
       (store_recorder sample_rt mem_js) (sample_stream (sample_state RunStateStep))
       (sample_d ''d2'' DirectiveKindStepPickedUp (StepPickedUp ''pay'' ''wk'' 8)) 1 =
       (st', metrics, Ok Processed) \<and>
     planned sample_rt \<lparr>mgr_defaultStepTimeoutMS = 1000, mgr_defaultWaitTimeoutMS = 1000\<rparr>
       (sample_d ''d2'' DirectiveKindStepPickedUp (StepPickedUp ''pay'' ''wk'' 8)) sn rs \<and>
     write_records sample_rt (sample_stream (sample_state RunStateStep)) rs = Some st'"
proof -
  let ?m = "\<lparr>mgr_defaultStepTimeoutMS = 1000, mgr_defaultWaitTimeoutMS = 1000\<rparr>"
  let ?d = "sample_d ''d2'' DirectiveKindStepPickedUp (StepPickedUp ''pay'' ''wk'' 8)"
  let ?st = "sample_stream (sample_state RunStateStep)"
  have ids: "ri_WFID (d_RunInfo ?d) = ''w1''" "ri_ID (d_RunInfo ?d) = ''r1''"
    by (simp_all add: sample_defs)
  let ?sn = "\<lparr>sn_RunState = sample_state RunStateStep, sn_Event = Directive_zero, sn_LastHistorySeqID = 0\<rparr>"
  obtain h x b c where p: "plan sample_rt ?d ?sn 1000 1000 = Ok [HistoryRecord h, RunStateRecord x 4]"
    "rs_WFID x = ''w1''" "rs_RunID x = ''r1''" "marshal_HistoryEvent sample_rt h = Ok b"
    "marshal_RunState sample_rt x = Ok c"
    by (simp add: plan_eval sample_defs marshal_HistoryEvent_def HistoryEvent_EncodeMsgpack_def
        marshal_RunState_def enc_RunState_def)
  let ?rs = "[HistoryRecord h, RunStateRecord x 4]"
  have "\<exists>st'. Commit sample_rt mem_js ?st ?rs = (st', Ok (CommitResult_zero, None))"
    by (simp add: Commit_def record_to_nats_defs p publish_batch_def mem_js_def mem_commit_def
        batch_accepted_def expectation_met_def expected_header_def is_duplicate_def Let_def)
      (simp add: sample_stream_def last_subject_seq_def sample_state_def)
  then obtain st' where c: "Commit sample_rt mem_js ?st ?rs = (st', Ok (CommitResult_zero, None))" ..
  then obtain metrics where h: "Handle sample_rt ?m (store_recorder sample_rt mem_js) ?st ?d 1 =
      (st', metrics, Ok Processed)"
    by (auto simp: Handle_def store_recorder_def ids sample_stream_snapshot p(1) manager_commit_def)
  have pl: "planned sample_rt ?m ?d ?sn rs \<longleftrightarrow> rs = ?rs" for rs
    by (simp add: planned_def p(1))
  from Handle_atomic [OF mem.state_stream_axioms h, THEN conjunct2]
  have "write_records sample_rt ?st ?rs = Some st'"
    by (simp add: ids sample_stream_snapshot pl c p(1))
  with h pl show ?thesis by blast
qed

text \<open>
  C19. A directive for a finished run is never acknowledged: whatever the directive is, the
  plan is empty, the store refuses the empty batch, and the manager asks for another delivery
  after the retry delay. Nothing is stored.
\<close>

theorem finished_run_redelivered:
  assumes "state_stream js view staged"
    and "GetStateSnapshot rt js s (ri_WFID (d_RunInfo d)) (ri_ID (d_RunInfo d)) = Ok sn"
    and "RunState_IsTerminal (sn_RunState sn)"
  shows "\<exists>metrics. Handle rt m (store_recorder rt js) s d n = (s, metrics, Ok (Retryable RetryDelay))"
  using recorder.Handle_finished [OF state_stream.store_is_recorder [OF assms(1)]] assms(2,3)
  by (simp add: store_recorder_def)

lemma sample_failed_snapshot:
  "\<exists>sn. GetStateSnapshot sample_rt mem_js (sample_stream (sample_state RunStateFail)) ''w1'' ''r1'' = Ok sn \<and>
     RunState_IsTerminal (sn_RunState sn)"
proof -
  let ?x = "sample_state RunStateFail"
  have ids: "rs_WFID ?x = ''w1''" "rs_RunID ?x = ''r1''" by (simp_all add: sample_state_def)
  have "wf_run_state ?x" "fits_run_state sample_rt ?x"
    by (simp_all add: wf_run_state_def fits_run_state_def sample_state_def RunState_zero_def
        enc_RunState_def RunState_segs_def segs_Cons segs_def enc_u_def)
  from RunState_wire_roundtrip [OF codec_ok_sample this] obtain b where
    b: "marshal_RunState sample_rt ?x = Ok b" "unmarshal_RunState sample_rt b = Ok (?x\<lparr>rs_SeqID := 0\<rparr>)"
    by blast
  have "GetRunState sample_rt mem_js (sample_stream ?x) ''w1'' ''r1'' = Ok (?x\<lparr>rs_SeqID := 4\<rparr>)"
    by (simp add: GetRunState_def mem_js_def sample_stream_def last_match_def b ids
        subject_matches_literal subject_literals sample_tokens)
  moreover have "RunStateSubject Manifest ''w1'' ''r1'' \<noteq> HistorySubject Manifest ''w1'' ''r1''"
    "RunStateSubject Manifest ''w1'' ''r1'' \<noteq> EventInboxSubject Manifest ''w1''"
    by (simp_all add: subjects plain_def)
  ultimately show ?thesis
    by (simp add: GetStateSnapshot_def GetLastHistorySeqID_def GetNextEvent_def event_or_none_def)
      (simp add: mem_js_def sample_stream_def last_match_def from_seq_def ids Let_def RunState_IsTerminal_def
        subject_matches_literal subject_literals sample_tokens eq_commute sample_state_def)
qed

theorem finished_run_redelivered_witness:
  "\<exists>metrics. Handle sample_rt \<lparr>mgr_defaultStepTimeoutMS = 1000, mgr_defaultWaitTimeoutMS = 1000\<rparr>
     (store_recorder sample_rt mem_js) (sample_stream (sample_state RunStateFail))
     (sample_d ''d2'' DirectiveKindStepPickedUp (StepPickedUp ''pay'' ''wk'' 8)) 1 =
     (sample_stream (sample_state RunStateFail), metrics, Ok (Retryable RetryDelay))"
proof -
  obtain sn where "GetStateSnapshot sample_rt mem_js (sample_stream (sample_state RunStateFail)) ''w1'' ''r1'' = Ok sn"
    "RunState_IsTerminal (sn_RunState sn)" using sample_failed_snapshot by blast
  then show ?thesis
    using finished_run_redelivered [OF mem.state_stream_axioms, of sample_rt
        "sample_stream (sample_state RunStateFail)"
        "sample_d ''d2'' DirectiveKindStepPickedUp (StepPickedUp ''pay'' ''wk'' 8)" sn]
    by (simp add: sample_defs)
qed

text \<open>
  C20. A stale timeout fails the run: when a timer that belongs to an earlier step or wait
  fires while the run is active in another one, the planner refuses the directive as stale,
  and the manager answers the refusal by committing the failure of the run.
\<close>

theorem stale_timeout_fails_run:
  assumes "codec_ok rt" and "short_info (d_RunInfo d)" and "short_state (sn_RunState sn)"
    and "ri_StartedAt (d_RunInfo d) \<noteq> None" and "short (d_ID d)"
    and "rec_GetStateSnapshot rcd s (ri_WFID (d_RunInfo d)) (ri_ID (d_RunInfo d)) = Ok sn"
    and "\<not> RunState_IsTerminal (sn_RunState sn)"
    and "d_Kind d = DirectiveKindStepTimeout \<and> d_Msg d = Some (StepTimeout step oid) \<and>
           \<not> (rs_Kind (sn_RunState sn) = RunStateStep \<and> rs_ActiveDirectiveID (sn_RunState sn) = oid) \<or>
         d_Kind d = DirectiveKindWaitTimeout \<and> d_Msg d = Some (WaitTimeout step oid) \<and>
           \<not> (rs_Kind (sn_RunState sn) = RunStateWait \<and> rs_ActiveDirectiveID (sn_RunState sn) = oid)"
  shows "\<exists>rs d'. finishes rt d' (sn_RunState sn) RunStateFail rs \<and> d_RunInfo d' = d_RunInfo d \<and>
    Handle rt m rcd s d n = (let (s', result) = manager_commit rcd s rs in (s', [], result))"
proof -
  have stale: "plan rt d sn (mgr_defaultStepTimeoutMS m) (mgr_defaultWaitTimeoutMS m) =
      Err (Sentinel ErrStaleDirective)"
    using assms(7,8)
    by (auto simp: plan_def planTransition_def record_StepTimeout_def record_WaitTimeout_def Let_def)
  let ?e = "\<lparr>ed_Message = ''An unexpected error occurred while processing directive '' @ d_ID d
      @ '' of kind '' @ directive_kind_str (d_Kind d) @ '': '' @ sentinel_text ErrStaleDirective,
    ed_StackTrace = '''', ed_Type = ''UnexpectedFailure''\<rparr>"
  let ?f = "\<lparr>d_ID = ulid rt At_BuildUnexpectedFailure_ID,
    d_Timestamp = now rt At_BuildUnexpectedFailure_Timestamp, d_Kind = DirectiveKindFail,
    d_RunInfo = d_RunInfo d, d_Attempt = 0, d_Msg = Some (Fail ?e)\<rparr>"
  have "short_error ?e"
    using assms(5,8) by (auto simp: short_error_def short_def)
  then obtain rs where rs: "record_FailRun rt ?f (sn_RunState sn) = Ok rs"
    using record_FailRun_total [OF assms(1), of ?f "sn_RunState sn" ?e] assms(2-4) by auto
  then have "record_BuildUnexpectedFailure rt d (sentinel_text ErrStaleDirective) (sn_RunState sn) = Ok rs"
    by (simp add: record_BuildUnexpectedFailure_def)
  with stale assms(6) have "Handle rt m rcd s d n =
      (let (s', result) = manager_commit rcd s rs in (s', [], result))"
    by (simp add: Handle_def failAndCommit_def)
  with record_FailRun_finishes [OF rs] show ?thesis by fastforce
qed

theorem stale_timeout_fails_run_witness:
  "\<exists>rs d'. finishes sample_rt d' (sample_state RunStateStep) RunStateFail rs \<and>
     Handle sample_rt \<lparr>mgr_defaultStepTimeoutMS = 1000, mgr_defaultWaitTimeoutMS = 1000\<rparr>
       (store_recorder sample_rt mem_js) (sample_stream (sample_state RunStateStep))
       (sample_d ''t1'' DirectiveKindWaitTimeout (WaitTimeout ''late'' ''d0'')) 1 =
       (let (s', result) = manager_commit (store_recorder sample_rt mem_js)
          (sample_stream (sample_state RunStateStep)) rs in (s', [], result))"
proof -
  let ?d = "sample_d ''t1'' DirectiveKindWaitTimeout (WaitTimeout ''late'' ''d0'')"
  let ?sn = "\<lparr>sn_RunState = sample_state RunStateStep, sn_Event = Directive_zero, sn_LastHistorySeqID = 0\<rparr>"
  have "rec_GetStateSnapshot (store_recorder sample_rt mem_js) (sample_stream (sample_state RunStateStep))
      (ri_WFID (d_RunInfo ?d)) (ri_ID (d_RunInfo ?d)) = Ok ?sn"
    using sample_stream_snapshot by (simp add: store_recorder_def sample_d_def sample_ri_def)
  from stale_timeout_fails_run [OF codec_ok_sample _ _ _ _ this, of "''late''" "''d0''"
      "\<lparr>mgr_defaultStepTimeoutMS = 1000, mgr_defaultWaitTimeoutMS = 1000\<rparr>" 1]
  show ?thesis
    by (auto simp: short_info_def short_state_def short_def sample_d_def sample_ri_def sample_state_def
        RunInfo_zero_def RunState_zero_def RunState_IsTerminal_def)
qed

end
