(* ===== verification/RunMachine.thy ===== *)
theory RunMachine
  imports Manager
begin

text \<open>
  Any number of managers at work on one stream. A configuration is the stream and the
  directives in flight, each with the snapshot its manager has read; between the reading of
  a snapshot and the commit everything else may happen. The invariant is about the run
  states on the stream: a state that was written with a guard continues the state before it
  along the state diagram of the planner.
\<close>

section \<open>The machine\<close>

type_synonym flight = "Directive \<times> StateSnapshot"

text \<open>
  What a manager may know about a run when it starts to plan: the state is the one stored last,
  or none was found, and a pending event is an event. Every snapshot read through JetStream is
  of this kind.
\<close>

definition may_read :: "runtime \<Rightarrow> stream \<Rightarrow> WFID \<Rightarrow> RunID \<Rightarrow> StateSnapshot \<Rightarrow> bool" where
  "may_read rt st w r sn \<longleftrightarrow>
     (sn_RunState sn = RunState_zero \<or> GetRunState rt mem_js st w r = Ok (sn_RunState sn)) \<and>
     (d_ID (sn_Event sn) \<noteq> '''' \<longrightarrow> d_Kind (sn_Event sn) = DirectiveKindEvent)"

text \<open>
  \<open>deliver\<close> and \<open>finish\<close> are the two halves of \<^verbatim>\<open>Handle\<close>; \<open>lose\<close> is a failed commit, a
  crash or a timeout. \<open>publish\<close>, \<open>batch\<close> and \<open>delete\<close> are the other writes of the server and
  of the workers (directives, run infos, fired timers, history, the type registry, handled
  inbox events), which are not on run state subjects; \<open>purge\<close> removes cancelled timers and the
  residue of finished runs. Every commit is planned at its own time and with its own fresh
  identifiers.
\<close>

inductive machine_step ::
  "runtime \<Rightarrow> Manager \<Rightarrow> stream \<times> flight list \<Rightarrow> stream \<times> flight list \<Rightarrow> bool"
  for rt :: runtime and m :: Manager where
  deliver:
    "may_read rt st (ri_WFID (d_RunInfo d)) (ri_ID (d_RunInfo d)) sn \<Longrightarrow>
     machine_step rt m (st, fs) (st, (d, sn) # fs)"
| finish:
    "planned (rt\<lparr>now := n, ulid := u\<rparr>) m d sn rs \<Longrightarrow> write_records rt st rs = Some st' \<Longrightarrow>
     machine_step rt m (st, fs @ (d, sn) # gs) (st', fs @ gs)"
| lose: "machine_step rt m (st, fs @ f # gs) (st, fs @ gs)"
| publish:
    "publish_accepted st msg \<Longrightarrow> \<not> on_state_subject msg \<Longrightarrow>
     machine_step rt m (st, fs) (publish_msg st msg, fs)"
| batch:
    "batch_accepted st msgs \<Longrightarrow> \<not> list_ex on_state_subject msgs \<Longrightarrow>
     machine_step rt m (st, fs) (store_batch st msgs, fs)"
| delete:
    "\<not> list_ex (\<lambda>x. sm_Sequence x = q \<and> HasPrefix (sm_Subject x) ''grctl_state.run_state.'') (st_msgs st) \<Longrightarrow>
     machine_step rt m (st, fs) (delete_seq st q, fs)"
| purge:
    "\<not> list_ex (\<lambda>x. subject_matches p (sm_Subject x) \<and> HasPrefix (sm_Subject x) ''grctl_state.run_state.'') (st_msgs st) \<Longrightarrow>
     machine_step rt m (st, fs) (purge_subject st p, fs)"

inductive_cases machine_step_cases: "machine_step rt m c c'"

definition machine_reachable :: "runtime \<Rightarrow> Manager \<Rightarrow> stream \<times> flight list \<Rightarrow> bool" where
  "machine_reachable rt m c \<longleftrightarrow> (machine_step rt m)\<^sup>*\<^sup>* (stream_empty, []) c"

section \<open>The invariant\<close>

definition is_state_msg :: "stored \<Rightarrow> bool" where
  "is_state_msg x \<longleftrightarrow> HasPrefix (sm_Subject x) ''grctl_state.run_state.''"

definition states_of :: "stream \<Rightarrow> stored list" where
  "states_of st = filter is_state_msg (st_msgs st)"

definition guarded_msg :: "stored \<Rightarrow> bool" where
  "guarded_msg x \<longleftrightarrow> map_of (sm_Header x) hdr_expected \<noteq> None"

text \<open>A pair of states of one run in the diagram; the failure of an active run is always allowed.\<close>

definition diagram_edge :: "runtime \<Rightarrow> stored \<Rightarrow> stored \<Rightarrow> bool" where
  "diagram_edge rt x y \<longleftrightarrow>
     (\<exists>s s' dk. unmarshal_RunState rt (sm_Data x) = Ok s \<and> marshal_RunState rt s' = Ok (sm_Data y) \<and>
        \<not> terminal_kind (rs_Kind s) \<and>
        (allowed dk (rs_Kind s) (rs_Kind s') \<or> rs_Kind s' = RunStateFail))"

definition well_linked :: "runtime \<Rightarrow> stored list \<Rightarrow> bool" where
  "well_linked rt xs \<longleftrightarrow> successively (\<lambda>x y. guarded_msg y \<longrightarrow> diagram_edge rt x y) xs"

definition on_subject :: "string \<Rightarrow> stored list \<Rightarrow> stored list" where
  "on_subject p xs = filter (\<lambda>x. sm_Subject x = p) xs"

definition flight_ok :: "runtime \<Rightarrow> stream \<Rightarrow> flight \<Rightarrow> bool" where
  "flight_ok rt st f \<longleftrightarrow>
     (let s = sn_RunState (snd f); e = sn_Event (snd f) in
      unat (rs_SeqID s) \<le> st_last st \<and>
      (\<forall>x\<in>set (st_msgs st). sm_Sequence x = rs_SeqID s \<longrightarrow>
         (\<exists>s0. unmarshal_RunState rt (sm_Data x) = Ok s0 \<and> rs_Kind s0 = rs_Kind s)) \<and>
      (d_ID e \<noteq> '''' \<longrightarrow> d_Kind e = DirectiveKindEvent))"

definition machine_inv :: "runtime \<Rightarrow> stream \<times> flight list \<Rightarrow> bool" where
  "machine_inv rt c \<longleftrightarrow> wf_stream (fst c) \<and> list_all (flight_ok rt (fst c)) (snd c) \<and>
     (\<forall>p. well_linked rt (on_subject p (states_of (fst c))))"

section \<open>Every step is a step of the stream\<close>

lemma flight_ok_evolves:
  assumes "flight_ok rt st f" and "wf_stream st" and "stream_evolves st st'"
  shows "flight_ok rt st' f"
  using assms(1) stream_evolves_old [OF assms(3,2)] by (fastforce simp: flight_ok_def Let_def)

lemma write_records_Some:
  assumes "write_records rt st rs = Some st'"
  shows "\<exists>ms. commit_messages rt rs = Ok ms \<and> batch_accepted st ms \<and> st' = store_batch st ms"
  using assms by (auto simp: write_records_def split: res.splits if_splits)

lemma machine_step_evolves:
  "machine_step rt m c c' \<Longrightarrow> stream_evolves (fst c) (fst c')"
proof (induction rule: machine_step.induct)
  case (finish n u d sn rs st st' fs gs)
  from write_records_Some [OF this(2)] show ?case by (auto intro: one_step)
qed (auto intro: one_step)

section \<open>Steps that leave the run states alone\<close>

lemma states_store_msg: "\<not> on_state_subject msg \<Longrightarrow> states_of (store_msg st msg) = states_of st"
  by (auto simp: states_of_def store_msg_def Let_def is_state_msg_def on_state_subject_def intro: filter_cong)

lemma states_store_batch:
  "\<not> list_ex on_state_subject msgs \<Longrightarrow> states_of (store_batch st msgs) = states_of st"
  by (induction msgs arbitrary: st) (simp_all add: states_store_msg)

lemma states_publish: "\<not> on_state_subject msg \<Longrightarrow> states_of (publish_msg st msg) = states_of st"
  by (simp add: publish_msg_def states_store_msg)

lemma states_delete:
  "\<not> list_ex (\<lambda>x. sm_Sequence x = q \<and> HasPrefix (sm_Subject x) ''grctl_state.run_state.'') (st_msgs st) \<Longrightarrow>
   states_of (delete_seq st q) = states_of st"
  by (auto simp: states_of_def delete_seq_def is_state_msg_def list_ex_iff intro: filter_cong)

lemma state_not_residue:
  assumes "HasPrefix s ''grctl_state.run_state.''" and "token w"
  shows "\<not> is_residue w s"
proof -
  obtain z where "s = ''grctl_state.run_state.'' @ z"
    using assms(1) by (metis HasPrefix_def append_take_drop_id)
  then have "split_dots s = ''grctl_state'' # ''run_state'' # split_dots z" by simp
  with assms(2) show ?thesis by (simp add: is_residue_tokens)
qed

lemma states_purge:
  "\<not> list_ex (\<lambda>x. subject_matches p (sm_Subject x) \<and> HasPrefix (sm_Subject x) ''grctl_state.run_state.'') (st_msgs st) \<Longrightarrow>
   states_of (purge_subject st p) = states_of st"
  by (auto simp: states_of_def purge_subject_def is_state_msg_def list_ex_iff intro: filter_cong)

section \<open>Commits\<close>

lemma allowed_active: "allowed dk k k' \<Longrightarrow> \<not> terminal_kind k"
  by (simp add: allowed_def)

lemma planned_guarded:
  assumes "planned rt m d sn rs" and "(x, e) \<in> set (run_states rs)" and "e > 0"
    and "d_ID (sn_Event sn) \<noteq> '''' \<longrightarrow> d_Kind (sn_Event sn) = DirectiveKindEvent"
  shows "run_states rs = [(x, rs_SeqID (sn_RunState sn))] \<and> \<not> terminal_kind (rs_Kind (sn_RunState sn)) \<and>
    (\<exists>dk. allowed dk (rs_Kind (sn_RunState sn)) (rs_Kind x) \<or> rs_Kind x = RunStateFail)"
proof (cases "plan rt d sn (mgr_defaultStepTimeoutMS m) (mgr_defaultWaitTimeoutMS m)")
  case (Ok records)
  with assms(1) have p: "plan rt d sn (mgr_defaultStepTimeoutMS m) (mgr_defaultWaitTimeoutMS m) = Ok rs"
    by (simp add: planned_def)
  have "rs \<noteq> []" using assms(2) by auto
  show ?thesis
  proof (cases "d_Kind d = DirectiveKindStart")
    case True
    from plan_Start [OF p this \<open>rs \<noteq> []\<close>] assms(2,3) show ?thesis by (auto simp: starts_run_def)
  next
    case False
    have "allowed (d_Kind d) (rs_Kind (sn_RunState sn)) (rs_Kind x)"
      using plan_diagram [OF p assms(2)] assms(4) by blast
    with plan_one_write [OF p False] assms(2) allowed_active show ?thesis by fastforce
  qed
next
  case (Err err)
  then have "\<not> RunState_IsTerminal (sn_RunState sn)" by (auto simp: plan_def)
  moreover from Err assms(1) obtain d' where "finishes rt d' (sn_RunState sn) RunStateFail rs"
    using record_BuildUnexpectedFailure_finishes by (fastforce simp: planned_def)
  ultimately show ?thesis
    using assms(2) by (auto simp: finishes_def enter_terminal_def RunState_IsTerminal_def)
qed (use assms(1) in \<open>simp add: planned_def\<close>)

lemma assign_states:
  "list_all2 (\<lambda>m y. sm_Subject y = nm_Subject m \<and> sm_Header y = nm_Header m \<and> sm_Data y = nm_Data m)
     (filter on_state_subject ms) (filter is_state_msg (assign n ms))"
  by (induction ms arbitrary: n) (simp_all add: is_state_msg_def on_state_subject_def)

lemma state_msg_of:
  assumes "RunStateRecordToNatsMsgs rt x e = Ok [m]" and "sm_Subject y = nm_Subject m"
    and "sm_Header y = nm_Header m" and "sm_Data y = nm_Data m"
  shows "sm_Subject y = RunStateSubject Manifest (rs_WFID x) (rs_RunID x) \<and>
    marshal_RunState rt x = Ok (sm_Data y) \<and> (guarded_msg y \<longleftrightarrow> e > 0)"
  using assms by (auto simp: RunStateRecordToNatsMsgs_def guarded_msg_def expected_header_def split: if_splits)

lemma new_states:
  assumes "commit_messages rt rs = Ok ms"
  shows "list_all2 (\<lambda>(x, e) y. sm_Subject y = RunStateSubject Manifest (rs_WFID x) (rs_RunID x) \<and>
      marshal_RunState rt x = Ok (sm_Data y) \<and> (guarded_msg y \<longleftrightarrow> e > 0))
    (run_states rs) (filter is_state_msg (assign n ms))"
  by (rule list_all2_trans [OF _ commit_messages_states [OF assms] assign_states])
    (auto dest: state_msg_of)

lemma list_all2_mem2: "list_all2 P xs ys \<Longrightarrow> y \<in> set ys \<Longrightarrow> \<exists>x\<in>set xs. P x y"
  by (induction rule: list_all2_induct) auto

lemma well_linked_unguarded:
  assumes "well_linked rt xs" and "\<forall>y\<in>set ys. \<not> guarded_msg y"
  shows "well_linked rt (xs @ ys)"
proof -
  have "successively (\<lambda>x y. guarded_msg y \<longrightarrow> diagram_edge rt x y) ys"
    using assms(2) by (induction ys rule: induct_list012) auto
  with assms show ?thesis
    by (cases ys) (auto simp: well_linked_def successively_append_iff)
qed

lemma on_subject_append [simp]: "on_subject p (xs @ ys) = on_subject p xs @ on_subject p ys"
  by (simp add: on_subject_def)

lemma on_subject_states:
  "HasPrefix p ''grctl_state.run_state.'' \<Longrightarrow>
   on_subject p (states_of st) = filter (\<lambda>x. sm_Subject x = p) (st_msgs st)"
  by (auto simp: on_subject_def states_of_def is_state_msg_def intro: filter_cong)

text \<open>The state before a guarded write is the one in the snapshot of its flight.\<close>

lemma guarded_predecessor:
  assumes "flight_ok rt st (d, sn)" and "planned rt' m d sn rs" and "commit_messages rt rs = Ok ms"
    and "batch_accepted st ms" and "(x, e) \<in> set (run_states rs)" and "e > 0"
    and p: "p = RunStateSubject Manifest (rs_WFID x) (rs_RunID x)"
    and y: "marshal_RunState rt x = Ok (sm_Data y)"
  shows "on_subject p (states_of st) \<noteq> [] \<and> diagram_edge rt (last (on_subject p (states_of st))) y"
proof -
  let ?s = "sn_RunState sn" and ?old = "on_subject p (states_of st)"
  have ev: "d_ID (sn_Event sn) \<noteq> '''' \<longrightarrow> d_Kind (sn_Event sn) = DirectiveKindEvent"
    using assms(1) by (simp add: flight_ok_def Let_def)
  note g = planned_guarded [OF assms(2,5,6) ev]
  with assms(5) have e: "e = rs_SeqID ?s" by simp
  have old: "?old = filter (\<lambda>x. sm_Subject x = p) (st_msgs st)"
    by (rule on_subject_states) (simp add: p subject_prefixes)
  have "last_subject_seq st p = rs_SeqID ?s"
    using guard_met [OF assms(3-6)] p e by simp
  with e assms(6) old have ne: "?old \<noteq> []" and l: "sm_Sequence (last ?old) = rs_SeqID ?s"
    by (auto simp: last_subject_seq_def Let_def split: if_splits)
  have "last ?old \<in> set (st_msgs st)"
    using last_in_set [OF ne] old by simp
  with assms(1) l obtain s0 where s0: "unmarshal_RunState rt (sm_Data (last ?old)) = Ok s0"
      "rs_Kind s0 = rs_Kind ?s"
    by (auto simp: flight_ok_def Let_def)
  have "diagram_edge rt (last ?old) y"
    unfolding diagram_edge_def using g y s0 by metis
  with ne show ?thesis ..
qed

lemma commit_keeps_links:
  assumes "flight_ok rt st (d, sn)" and "planned rt' m d sn rs" and "commit_messages rt rs = Ok ms"
    and "batch_accepted st ms" and links: "\<forall>p. well_linked rt (on_subject p (states_of st))"
  shows "well_linked rt (on_subject p (states_of (store_batch st ms)))"
proof -
  let ?new = "filter is_state_msg (assign (st_last st) ms)"
  have st': "states_of (store_batch st ms) = states_of st @ ?new"
    using store_batch_msgs [OF commit_messages_no_rollup [OF assms(3)]] by (simp add: states_of_def)
  note new = new_states [OF assms(3), of "st_last st"]
  show ?thesis
  proof (cases "\<exists>x e. (x, e) \<in> set (run_states rs) \<and> e > 0")
    case False
    have "\<not> guarded_msg y" if "y \<in> set ?new" for y
      using list_all2_mem2 [OF new that] False by auto
    with links st' show ?thesis
      by (simp add: well_linked_unguarded on_subject_def)
  next
    case True
    then obtain x e where x: "(x, e) \<in> set (run_states rs)" "e > 0" by blast
    have "run_states rs = [(x, rs_SeqID (sn_RunState sn))]"
      using planned_guarded [OF assms(2) x] assms(1) by (simp add: flight_ok_def Let_def)
    with new obtain y where y: "?new = [y]" "marshal_RunState rt x = Ok (sm_Data y)"
        "sm_Subject y = RunStateSubject Manifest (rs_WFID x) (rs_RunID x)"
      by (auto simp: list_all2_Cons1)
    show ?thesis
    proof (cases "p = sm_Subject y")
      case True
      with guarded_predecessor [OF assms(1-4) x _ y(2), of p] y st' links show ?thesis
        by (simp add: on_subject_def well_linked_def successively_append_iff)
    next
      case False
      with y st' links show ?thesis by (simp add: on_subject_def)
    qed
  qed
qed

section \<open>The invariant holds\<close>

lemma first_event_kind:
  assumes "first_event rt items = Ok (d, n)"
  shows "d_Kind d = DirectiveKindEvent"
proof -
  from assms obtain b d0 k where "unmarshal_Directive rt b = Ok d0" "set_event_seq d0 k = Ok d"
    by (cases items) auto
  then obtain v x where "Directive_DecodeMsgpack rt v = Ok d0" "as_Event (d_Msg d0) = Some x" "d_Kind d = d_Kind d0"
    by (auto simp: unmarshal_Directive_def set_event_seq_def split: option.splits)
  with Directive_DecodeMsgpack_Event show ?thesis by metis
qed

lemma snapshot_event_kind:
  assumes "GetStateSnapshot rt js st w r = Ok sn"
  shows "d_ID (sn_Event sn) \<noteq> '''' \<longrightarrow> d_Kind (sn_Event sn) = DirectiveKindEvent"
proof -
  from assms obtain q where e: "event_or_none (GetNextEvent rt js st w q) = Ok (sn_Event sn)"
    by (auto simp: GetStateSnapshot_def)
  then have "sn_Event sn = Directive_zero \<or> (\<exists>n. GetNextEvent rt js st w q = Ok (sn_Event sn, n))"
    by (cases "GetNextEvent rt js st w q") (auto simp: event_or_none_def split: if_splits)
  then show ?thesis
    using first_event_kind by (auto simp: GetNextEvent_def Directive_zero_def)
qed

context state_stream
begin

lemma snapshot_may_read:
  assumes "GetStateSnapshot rt js s w r = Ok sn"
  shows "may_read rt (view s) w r sn"
proof -
  have "sn_RunState sn = RunState_zero \<or> GetRunState rt js s w r = Ok (sn_RunState sn)"
    using assms by (auto simp: GetStateSnapshot_def split: res.splits if_splits prod.splits)
  moreover have "GetRunState rt mem_js (view s) w r = Ok x" if "GetRunState rt js s w r = Ok x" for x
    using that get_last_ok [of s "RunStateSubject Manifest w r"]
    by (auto simp: GetRunState_def mem_js_def split: res.splits if_splits)
  ultimately show ?thesis
    using snapshot_event_kind [OF assms] by (auto simp: may_read_def)
qed

end

lemma deliver_flight_ok:
  assumes "wf_stream st" and "may_read rt st w r sn"
  shows "flight_ok rt st (d, sn)"
proof -
  let ?s = "sn_RunState sn"
  have "?s = RunState_zero \<or> GetRunState rt mem_js st w r = Ok ?s"
    using assms(2) by (simp add: may_read_def)
  then have "unat (rs_SeqID ?s) \<le> st_last st \<and> (\<forall>x\<in>set (st_msgs st). sm_Sequence x = rs_SeqID ?s \<longrightarrow>
      (\<exists>s0. unmarshal_RunState rt (sm_Data x) = Ok s0 \<and> rs_Kind s0 = rs_Kind ?s))"
  proof
    assume "?s = RunState_zero"
    with assms(1) show ?thesis
      by (auto simp: RunState_zero_def wf_stream_def seqs_def list_all_iff unat_gt_0)
  next
    assume "GetRunState rt mem_js st w r = Ok ?s"
    from mem.GetRunState_OkD [OF this] obtain y s0 where
      y: "last_match st (RunStateSubject Manifest w r) = Some y" "unmarshal_RunState rt (sm_Data y) = Ok s0"
        "?s = s0\<lparr>rs_SeqID := sm_Sequence y\<rparr>" by blast
    then have "y \<in> set (st_msgs st)" using last_match_SomeD by blast
    moreover from this assms(1) have "unat (sm_Sequence y) \<le> st_last st"
      by (auto simp: wf_stream_def seqs_def list_all_iff)
    moreover have "rs_SeqID ?s = sm_Sequence y" "rs_Kind ?s = rs_Kind s0" using y(3) by simp_all
    ultimately show ?thesis
      using y(2) wf_stream_unique [OF assms(1)] by metis
  qed
  moreover have "d_ID (sn_Event sn) \<noteq> '''' \<longrightarrow> d_Kind (sn_Event sn) = DirectiveKindEvent"
    using assms(2) by (simp add: may_read_def)
  ultimately show ?thesis by (simp add: flight_ok_def)
qed

lemma machine_inv_start: "machine_inv rt (stream_empty, [])"
  by (simp add: machine_inv_def wf_stream_def seqs_def stream_empty_def states_of_def on_subject_def well_linked_def)

lemma machine_inv_step:
  assumes "machine_step rt m c c'" and "machine_inv rt c"
  shows "machine_inv rt c'"
proof -
  have ev: "stream_evolves (fst c) (fst c')" using assms(1) by (rule machine_step_evolves)
  have wf: "wf_stream (fst c)" and links: "\<forall>p. well_linked rt (on_subject p (states_of (fst c)))"
    and fl: "list_all (flight_ok rt (fst c)) (snd c)"
    using assms(2) by (simp_all add: machine_inv_def)
  have old: "list_all (flight_ok rt (fst c')) (snd c)"
    using fl flight_ok_evolves [OF _ wf ev] by (auto simp: list_all_iff)
  have "list_all (flight_ok rt (fst c')) (snd c')"
    using assms(1) old wf by cases (auto intro: deliver_flight_ok)
  moreover have "\<forall>p. well_linked rt (on_subject p (states_of (fst c')))"
    using assms(1)
  proof cases
    case (finish n u d sn rs st st' fs gs)
    from write_records_Some [OF finish(4)] obtain ms where
      "commit_messages rt rs = Ok ms" "batch_accepted st ms" "st' = store_batch st ms" by blast
    with commit_keeps_links [OF _ finish(3)] fl links finish(1,2) show ?thesis by simp
  qed (use links in \<open>simp_all add: states_publish states_store_batch states_delete states_purge\<close>)
  ultimately show ?thesis
    using stream_evolves_old [OF ev wf] by (simp add: machine_inv_def)
qed

lemma machine_reachable_inv: "machine_reachable rt m c \<Longrightarrow> machine_inv rt c"
  unfolding machine_reachable_def
  by (induction rule: rtranclp_induct) (auto intro: machine_inv_start machine_inv_step)

section \<open>A run of the machine\<close>

definition sample_start :: Directive where
  "sample_start = sample_d ''d0'' DirectiveKindStart (Start MNil 0)"

definition zero_snapshot :: StateSnapshot where
  "zero_snapshot = \<lparr>sn_RunState = RunState_zero, sn_Event = Directive_zero, sn_LastHistorySeqID = 0\<rparr>"

definition sample_stepping :: RunState where
  "sample_stepping =
     \<lparr>rs_WFID = ''w1'', rs_RunID = ''r1'', rs_Kind = RunStateStep, rs_EnteredAt = 5, rs_StartedAt = Some 5,
      rs_LastEventSeqID = 0, rs_ActiveDirectiveID = ''d0'', rs_WorkerID = None, rs_PendingCancel = None,
      rs_SeqID = 0\<rparr>"

lemma snapshot_empty: "GetStateSnapshot sample_rt mem_js stream_empty ''w1'' ''r1'' = Ok zero_snapshot"
  by (simp add: GetStateSnapshot_def GetRunState_def GetLastHistorySeqID_def GetNextEvent_def event_or_none_def mem_js_def stream_empty_def last_match_def from_seq_def zero_snapshot_def)

lemmas commit_eval =
  plan_eval sample_defs record_to_nats_defs marshal_RunState_def enc_RunState_def RunState_segs_def
  segs_Cons segs_def enc_u_def marshal_HistoryEvent_def HistoryEvent_EncodeMsgpack_def
  marshal_Directive_def marshal_RunInfo_def Directive_EncodeMsgpack_def marshal_Timer_def enc_Timer_def
  batch_accepted_def expectation_met_def expected_header_def is_duplicate_def

lemma sample_start_eval:
  "case plan sample_rt sample_start zero_snapshot 1000 1000 of Ok rs \<Rightarrow>
    run_states rs = [(sample_stepping\<lparr>rs_Kind := RunStateStart, rs_ActiveDirectiveID := ''''\<rparr>, 0), (sample_stepping, 0)] \<and>
    (case commit_messages sample_rt rs of Ok ms \<Rightarrow> batch_accepted stream_empty ms \<and> length ms = 7 \<and>
       list_all (\<lambda>m. nm_Subject m \<noteq> EventInboxSubject Manifest ''w1'') ms | _ \<Rightarrow> False) | _ \<Rightarrow> False"
  by (simp add: sample_start_def zero_snapshot_def sample_stepping_def commit_eval
        Command_EncodeMsgpack_def Timer_zero_def Command_zero_def stream_empty_def del: put_mp.simps)
    (simp add: subjects plain_def DeriveTimerID_def)

lemma sample_started:
  "\<exists>rs ms. plan sample_rt sample_start zero_snapshot 1000 1000 = Ok rs \<and> 
     run_states rs = [(sample_stepping\<lparr>rs_Kind := RunStateStart, rs_ActiveDirectiveID := ''''\<rparr>, 0), (sample_stepping, 0)] \<and>
     commit_messages sample_rt rs = Ok ms \<and> batch_accepted stream_empty ms \<and> length ms = 7 \<and>
     list_all (\<lambda>m. nm_Subject m \<noteq> EventInboxSubject Manifest ''w1'') ms"
  using sample_start_eval by (simp split: res.splits)

lemma snapshot_of:
  assumes "last_match st (RunStateSubject Manifest w r) = Some y" and "unmarshal_RunState rt (sm_Data y) = Ok s"
    and "from_seq st (EventInboxSubject Manifest w) = (\<lambda>_. [])"
  shows "\<exists>h. GetStateSnapshot rt mem_js st w r =
    Ok \<lparr>sn_RunState = s\<lparr>rs_SeqID := sm_Sequence y\<rparr>, sn_Event = Directive_zero, sn_LastHistorySeqID = h\<rparr>"
  using assms
  by (simp add: GetStateSnapshot_def GetRunState_def GetNextEvent_def event_or_none_def GetLastHistorySeqID_def mem_js_def
      split: option.splits)

definition sample_pickup :: Directive where
  "sample_pickup = sample_d ''d2'' DirectiveKindStepPickedUp (StepPickedUp ''pay'' ''wk'' 8)"

lemma sample_pickup_batch:
  assumes "last_subject_seq st (RunStateSubject Manifest ''w1'' ''r1'') = q" and "st_last st = 7"
  shows "\<exists>rs ms. plan sample_rt sample_pickup \<lparr>sn_RunState = sample_stepping\<lparr>rs_SeqID := q\<rparr>, sn_Event = Directive_zero, sn_LastHistorySeqID = h\<rparr>
      1000 1000 = Ok rs \<and> run_states rs = [(sample_stepping\<lparr>rs_WorkerID := Some ''wk'', rs_SeqID := q\<rparr>, q)] \<and>
     commit_messages sample_rt rs = Ok ms \<and> batch_accepted st ms \<and> ms \<noteq> []"
  using assms
  by (simp add: sample_pickup_def sample_stepping_def commit_eval del: put_mp.simps)

lemma sample_stepping_wire: "wf_run_state sample_stepping" "fits_run_state sample_rt sample_stepping"
  by (simp_all add: wf_run_state_def fits_run_state_def sample_stepping_def
      enc_RunState_def RunState_segs_def segs_Cons segs_def enc_u_def)


lemma sample_run_started:
  "\<exists>st y0 y1. machine_reachable sample_rt \<lparr>mgr_defaultStepTimeoutMS = 1000, mgr_defaultWaitTimeoutMS = 1000\<rparr> (st, []) \<and>
     st_last st = 7 \<and> filter (\<lambda>x. sm_Subject x = RunStateSubject Manifest ''w1'' ''r1'') (st_msgs st) = [y0, y1] \<and>
     unmarshal_RunState sample_rt (sm_Data y1) = Ok (sample_stepping\<lparr>rs_SeqID := 0\<rparr>) \<and>
     from_seq st (EventInboxSubject Manifest ''w1'') = (\<lambda>_. [])"
proof -
  let ?m = "\<lparr>mgr_defaultStepTimeoutMS = 1000, mgr_defaultWaitTimeoutMS = 1000\<rparr>"
  let ?p = "RunStateSubject Manifest ''w1'' ''r1''"
  let ?s0 = "sample_stepping\<lparr>rs_Kind := RunStateStart, rs_ActiveDirectiveID := ''''\<rparr>"
  have ids: "rs_WFID sample_stepping = ''w1''" "rs_RunID sample_stepping = ''r1''"
    "ri_WFID (d_RunInfo sample_start) = ''w1''" "ri_ID (d_RunInfo sample_start) = ''r1''"
    by (simp_all add: sample_stepping_def sample_start_def sample_d_def sample_ri_def)
  obtain rs ms where b: "plan sample_rt sample_start zero_snapshot 1000 1000 = Ok rs"
      "run_states rs = [(?s0, 0), (sample_stepping, 0)]" "commit_messages sample_rt rs = Ok ms"
      "batch_accepted stream_empty ms" "length ms = 7"
      "list_all (\<lambda>m. nm_Subject m \<noteq> EventInboxSubject Manifest ''w1'') ms"
    using sample_started by blast
  let ?st = "store_batch stream_empty ms"
  have msgs: "st_msgs ?st = assign 0 ms"
    using store_batch_msgs [OF commit_messages_no_rollup [OF b(3)]] by (simp add: stream_empty_def)
  have inbox: "list_all (\<lambda>x. sm_Subject x \<noteq> EventInboxSubject Manifest ''w1'') (assign n ms)" for n
    using b(6) by (induction ms arbitrary: n) auto
  have "machine_step sample_rt ?m (stream_empty, []) (stream_empty, [] @ [(sample_start, zero_snapshot)])"
    using machine_step.deliver [of sample_rt stream_empty sample_start] mem.snapshot_may_read [OF snapshot_empty] ids by simp
  moreover have "write_records sample_rt stream_empty rs = Some ?st"
    using b(3-5) by (auto simp: write_records_def)
  then have "machine_step sample_rt ?m (stream_empty, [] @ [(sample_start, zero_snapshot)]) (?st, [] @ [])"
    by (intro machine_step.finish [where rs = rs and n = "now sample_rt" and u = "ulid sample_rt"]) (simp_all add: planned_def b(1))
  ultimately have reach: "machine_reachable sample_rt ?m (?st, [])"
    unfolding machine_reachable_def by (simp add: converse_rtranclp_into_rtranclp)
  from new_states [OF b(3), of 0] b(2) obtain y0 y1 where
    y: "filter is_state_msg (assign 0 ms) = [y0, y1]" "sm_Subject y0 = ?p" "sm_Subject y1 = ?p"
      "marshal_RunState sample_rt sample_stepping = Ok (sm_Data y1)"
    by (auto simp: list_all2_Cons1 ids)
  then have "filter (\<lambda>x. sm_Subject x = ?p) (st_msgs ?st) = [y0, y1]"
    using on_subject_states [of ?p ?st] by (simp add: on_subject_def states_of_def msgs subject_prefixes)
  moreover have "unmarshal_RunState sample_rt (sm_Data y1) = Ok (sample_stepping\<lparr>rs_SeqID := 0\<rparr>)"
    using RunState_wire_roundtrip [OF codec_ok_sample sample_stepping_wire] y(4) by auto
  moreover have "from_seq ?st (EventInboxSubject Manifest ''w1'') = (\<lambda>_. [])"
    using inbox [of 0] by (auto simp: fun_eq_iff from_seq_def msgs subject_matches_literal subject_literals sample_tokens
        list_all_iff filter_empty_conv)
  moreover have "st_last ?st = 7" using b(5) by (simp add: stream_empty_def)
  ultimately show ?thesis using reach by blast
qed


section \<open>The property of the machine\<close>

lemma well_linked_nth:
  assumes "well_linked rt (xs @ x # y # ys)" and "guarded_msg y"
  shows "diagram_edge rt x y"
  using assms by (simp add: well_linked_def successively_append_iff)

lemma machine_inv_edge:
  assumes "machine_inv rt (st, fs)"
    and "filter (\<lambda>x. sm_Subject x = RunStateSubject Manifest w r) (st_msgs st) = xs @ x # y # ys"
    and "guarded_msg y"
  shows "diagram_edge rt x y"
proof -
  have "well_linked rt (on_subject (RunStateSubject Manifest w r) (states_of st))"
    using assms(1) by (simp add: machine_inv_def)
  moreover have "on_subject (RunStateSubject Manifest w r) (states_of st) = xs @ x # y # ys"
    using assms(2) by (simp add: on_subject_states subject_prefixes)
  ultimately show ?thesis using assms(3) well_linked_nth by simp
qed

text \<open>
  C8. However many managers work on the stream, and however their reads, their commits, the
  redeliveries, the other writers and the purges interleave, the run states follow the diagram:
  a state of a run that was written with a guard continues the state stored just before it.
  That state is not terminal, and the step between the two is one the diagram allows or the
  failure of the run. After a terminal state only an unguarded write, that of a start directive,
  can reopen the run.
\<close>

theorem run_states_follow_diagram:
  assumes "machine_reachable rt m (st, fs)"
    and "filter (\<lambda>x. sm_Subject x = RunStateSubject Manifest w r) (st_msgs st) = xs @ x # y # ys"
    and "guarded_msg y"
  shows "diagram_edge rt x y"
  using machine_reachable_inv [OF assms(1)] assms(2,3) by (rule machine_inv_edge)

theorem run_states_follow_diagram_witness:
  "\<exists>st xs x y. machine_reachable sample_rt \<lparr>mgr_defaultStepTimeoutMS = 1000, mgr_defaultWaitTimeoutMS = 1000\<rparr> (st, []) \<and>
     filter (\<lambda>x. sm_Subject x = RunStateSubject Manifest ''w1'' ''r1'') (st_msgs st) = [xs, x, y] \<and>
     guarded_msg y \<and> diagram_edge sample_rt x y"
proof -
  let ?m = "\<lparr>mgr_defaultStepTimeoutMS = 1000, mgr_defaultWaitTimeoutMS = 1000\<rparr>"
  let ?p = "RunStateSubject Manifest ''w1'' ''r1''"
  have ids: "rs_WFID sample_stepping = ''w1''" "rs_RunID sample_stepping = ''r1''"
    "ri_WFID (d_RunInfo sample_pickup) = ''w1''" "ri_ID (d_RunInfo sample_pickup) = ''r1''" "rs_SeqID sample_stepping = 0"
    by (simp_all add: sample_stepping_def sample_pickup_def sample_d_def sample_ri_def)
  obtain st y0 y1 where st: "machine_reachable sample_rt ?m (st, [])" "st_last st = 7"
      "filter (\<lambda>x. sm_Subject x = ?p) (st_msgs st) = [y0, y1]"
      "unmarshal_RunState sample_rt (sm_Data y1) = Ok (sample_stepping\<lparr>rs_SeqID := 0\<rparr>)"
      "from_seq st (EventInboxSubject Manifest ''w1'') = (\<lambda>_. [])"
    using sample_run_started by blast
  define q where "q = sm_Sequence y1"
  have q: "last_subject_seq st ?p = q" by (simp add: last_subject_seq_def st(3) q_def)
  have "subject_matches ?p = (\<lambda>s. s = ?p)"
    by (auto simp: fun_eq_iff subject_matches_literal subject_literals sample_tokens)
  with st(3) have "last_match st ?p = Some y1" by (simp add: last_match_def)
  from snapshot_of [OF this st(4,5)] obtain h where
    h: "GetStateSnapshot sample_rt mem_js st ''w1'' ''r1'' =
      Ok \<lparr>sn_RunState = sample_stepping\<lparr>rs_SeqID := q\<rparr>, sn_Event = Directive_zero, sn_LastHistorySeqID = h\<rparr>"
    by (auto simp: q_def)
  let ?sn = "\<lparr>sn_RunState = sample_stepping\<lparr>rs_SeqID := q\<rparr>, sn_Event = Directive_zero, sn_LastHistorySeqID = h\<rparr>"
  obtain rs ms where b: "plan sample_rt sample_pickup ?sn 1000 1000 = Ok rs"
      "run_states rs = [(sample_stepping\<lparr>rs_WorkerID := Some ''wk'', rs_SeqID := q\<rparr>, q)]"
      "commit_messages sample_rt rs = Ok ms" "batch_accepted st ms" "ms \<noteq> []"
    using sample_pickup_batch [OF q st(2), of h] by blast
  have "machine_step sample_rt ?m (st, []) (st, [(sample_pickup, ?sn)])"
    using machine_step.deliver [of sample_rt st sample_pickup] mem.snapshot_may_read [OF h] ids by simp
  moreover have "machine_step sample_rt ?m (st, [] @ [(sample_pickup, ?sn)]) (store_batch st ms, [] @ [])"
    using b by (intro machine_step.finish [where rs = rs and n = "now sample_rt" and u = "ulid sample_rt"]) (simp_all add: planned_def write_records_def)
  ultimately have reach: "machine_reachable sample_rt ?m (store_batch st ms, [])"
    using st(1) unfolding machine_reachable_def by (auto intro: rtranclp.rtrancl_into_rtrancl)
  have "q > 0"
  proof -
    have "wf_stream st" using machine_reachable_inv [OF st(1)] by (simp add: machine_inv_def)
    moreover have "y1 \<in> set (filter (\<lambda>x. sm_Subject x = ?p) (st_msgs st))" by (simp add: st(3))
    ultimately show ?thesis by (auto simp: wf_stream_def seqs_def list_all_iff q_def unat_gt_0 word_gt_0)
  qed
  with new_states [OF b(3), of "st_last st"] b(2) obtain y2 where
    y: "filter is_state_msg (assign (st_last st) ms) = [y2]" "sm_Subject y2 = ?p" "guarded_msg y2"
    by (auto simp: list_all2_Cons1 ids)
  have "filter (\<lambda>x. sm_Subject x = ?p) (st_msgs (store_batch st ms)) = [y0, y1, y2]"
    using on_subject_states [of ?p "store_batch st ms"] on_subject_states [of ?p st] st(3) y
      store_batch_msgs [OF commit_messages_no_rollup [OF b(3)], of st]
    by (simp add: on_subject_def states_of_def subject_prefixes)
  moreover from run_states_follow_diagram [OF reach, of "''w1''" "''r1''" "[y0]" y1 y2 "[]"] this y(3)
  have "diagram_edge sample_rt y1 y2" by simp
  ultimately show ?thesis using reach y(3) by blast
qed

end
