(* ===== verification/Registry.thy ===== *)
theory Registry
  imports StoreProps
begin

text \<open>
  The registry of workflow types (\<^verbatim>\<open>src/jsstore/registry.go\<close>): one subject of the state
  stream per type, which a rollup keeps at one message. The entry embeds the definition of
  the type, whose fields the msgpack library writes beside its own.
\<close>

section \<open>Entries\<close>

record RegistryEntry =
  re_WorkflowTypeDef :: WorkflowTypeDef
  re_WorkerID :: string
  re_RegisteredAt :: time

definition enc_RegistryEntry :: "RegistryEntry \<Rightarrow> mp" where
  "enc_RegistryEntry e =
     MMap (WorkflowTypeDef_fields (re_WorkflowTypeDef e) @
       [(''worker_id'', MStr (re_WorkerID e)), (''registered_at'', MTime (re_RegisteredAt e))])"

definition dec_RegistryEntry :: "mp \<Rightarrow> RegistryEntry res" where
  "dec_RegistryEntry v =
     andThen (dec_map v) (\<lambda>fs.
     andThen (WorkflowTypeDef_of_fields fs) (\<lambda>w.
     andThen (dec_str (lookup_field fs ''worker_id'')) (\<lambda>i.
     andThen (dec_time (lookup_field fs ''registered_at'')) (\<lambda>t.
     Ok \<lparr>re_WorkflowTypeDef = w, re_WorkerID = i, re_RegisteredAt = t\<rparr>))))"

definition marshal_RegistryEntry :: "runtime \<Rightarrow> RegistryEntry \<Rightarrow> bytes res" where
  "marshal_RegistryEntry rt e = mp_marshal rt (enc_RegistryEntry e)"

definition unmarshal_RegistryEntry :: "runtime \<Rightarrow> bytes \<Rightarrow> RegistryEntry res" where
  "unmarshal_RegistryEntry rt b = andThen (mp_unmarshal rt b) dec_RegistryEntry"

section \<open>Writing the catalog of a worker\<close>

definition entry_msg :: "WorkflowTypeDef \<Rightarrow> bytes \<Rightarrow> nats_msg" where
  "entry_msg def data =
     \<lparr>nm_Subject = WorkflowTypeRegistrySubject Manifest (wtd_Type def),
      nm_Header = [(hdr_rollup, ''sub'')], nm_Data = data\<rparr>"

fun entry_msgs :: "runtime \<Rightarrow> string \<Rightarrow> time \<Rightarrow> WorkflowTypeDef list \<Rightarrow> nats_msg list res" where
  "entry_msgs rt workerID registeredAt [] = Ok []"
| "entry_msgs rt workerID registeredAt (def # defs) =
     orErrorf (''failed to marshal registry entry for type '' @ wtd_Type def @ '': '')
       (marshal_RegistryEntry rt
          \<lparr>re_WorkflowTypeDef = def, re_WorkerID = workerID, re_RegisteredAt = registeredAt\<rparr>) (\<lambda>data.
     andThen (entry_msgs rt workerID registeredAt defs) (\<lambda>msgs. Ok (entry_msg def data # msgs)))"

definition publish_entries :: "('s, 'b) jetstream \<Rightarrow> 's \<Rightarrow> nats_msg list \<Rightarrow> 's \<times> unit res" where
  "publish_entries js s msgs =
     (case js_new_batch js s of
        (s1, Panic p) \<Rightarrow> (s1, Panic p)
      | (s1, Err e) \<Rightarrow> (s1, Err (Wrapf ''failed to create batch publisher: '' e ''''))
      | (s1, Ok b) \<Rightarrow>
          (case add_messages js s1 b (butlast msgs) of
             (s2, Panic p) \<Rightarrow> (s2, Panic p)
           | (s2, Err e) \<Rightarrow> (s2, Err (Wrapf ''failed to add registry entry to batch: '' e ''''))
           | (s2, Ok b') \<Rightarrow>
               (case js_commit_msg js s2 b' (last msgs) of
                  (s3, Some e) \<Rightarrow> (s3, Err (Wrapf ''failed to commit registry batch: '' e ''''))
                | (s3, None) \<Rightarrow> (s3, Ok ()))))"

definition PutTypes ::
  "runtime \<Rightarrow> ('s, 'b) jetstream \<Rightarrow> 's \<Rightarrow> string \<Rightarrow> WorkflowTypeDef list \<Rightarrow> 's \<times> unit res" where
  "PutTypes rt js s workerID defs =
     (if length defs = 0 then (s, Ok ())
      else case entry_msgs rt workerID (now rt At_PutTypes_registeredAt) defs of
        Err e \<Rightarrow> (s, Err e)
      | Panic p \<Rightarrow> (s, Panic p)
      | Ok msgs \<Rightarrow> publish_entries js s msgs)"

section \<open>Reading types\<close>

definition GetType :: "runtime \<Rightarrow> ('s, 'b) jetstream \<Rightarrow> 's \<Rightarrow> WFType \<Rightarrow> RegistryEntry res" where
  "GetType rt js s wfType =
     (case js_get_last js s (WorkflowTypeRegistrySubject Manifest wfType) of
        Err e \<Rightarrow>
          if errors_is_lib e ErrMsgNotFound then Err (Sentinel ErrWorkflowTypeNotRegistered)
          else Err (Wrapf (''failed to get registry entry for type '' @ wfType @ '': '') e '''')
      | Panic p \<Rightarrow> Panic p
      | Ok msg \<Rightarrow>
          orErrorf (''failed to unmarshal registry entry for type '' @ wfType @ '': '')
            (unmarshal_RegistryEntry rt (sm_Data msg)) Ok)"

definition GetStartStepTimeout :: "runtime \<Rightarrow> ('s, 'b) jetstream \<Rightarrow> 's \<Rightarrow> WFType \<Rightarrow> u32 res" where
  "GetStartStepTimeout rt js s wfType =
     andThen (GetType rt js s wfType) (\<lambda>entry. Ok (wtd_StartStepTimeoutMS (re_WorkflowTypeDef entry)))"

definition EventDef_zero :: EventDef where
  "EventDef_zero = \<lparr>evd_Name = '''', evd_TimeoutMS = 0\<rparr>"

fun find_event :: "string \<Rightarrow> EventDef list \<Rightarrow> EventDef" where
  "find_event eventName [] = EventDef_zero"
| "find_event eventName (ed # eds) =
     (if evd_Name ed = eventName then ed else find_event eventName eds)"

definition GetEventDef :: "runtime \<Rightarrow> ('s, 'b) jetstream \<Rightarrow> 's \<Rightarrow> WFType \<Rightarrow> string \<Rightarrow> EventDef res" where
  "GetEventDef rt js s wfType eventName =
     andThen (GetType rt js s wfType) (\<lambda>entry.
     Ok (find_event eventName (wtd_Events (re_WorkflowTypeDef entry))))"

fun list_types_loop :: "runtime \<Rightarrow> stored res list \<Rightarrow> RegistryEntry list res" where
  "list_types_loop rt [] = Ok []"
| "list_types_loop rt (Err e # items) =
     (if errors_is_lib e ErrNoMessages then Ok []
      else Err (Wrapf ''failed to read registry entry: '' e ''''))"
| "list_types_loop rt (Panic p # items) = Panic p"
| "list_types_loop rt (Ok msg # items) =
     orErrorf ''failed to unmarshal registry entry: '' (unmarshal_RegistryEntry rt (sm_Data msg)) (\<lambda>entry.
     andThen (list_types_loop rt items) (\<lambda>entries. Ok (entry # entries)))"

definition ListTypes :: "runtime \<Rightarrow> ('s, 'b) jetstream \<Rightarrow> 's \<Rightarrow> RegistryEntry list res" where
  "ListTypes rt js s =
     orErrorf ''failed to scan registry entries: ''
       (js_get_lasts js s (WorkflowTypeRegistryListenerPattern Manifest)) (list_types_loop rt)"

section \<open>The wire form of an entry\<close>

lemma dec_enc_RegistryEntry: "dec_RegistryEntry (enc_RegistryEntry e) = Ok e"
  by (simp add: dec_RegistryEntry_def enc_RegistryEntry_def WorkflowTypeDef_fields_def
      WorkflowTypeDef_of_fields_def wire_simps dec_list_items_map dec_enc_EventDef)

lemma unmarshal_marshal_RegistryEntry:
  assumes "codec_ok rt" and "fits (enc_RegistryEntry e)" and "marshal_RegistryEntry rt e = Ok b"
  shows "unmarshal_RegistryEntry rt b = Ok e"
proof -
  obtain b' where "mp_marshal rt (enc_RegistryEntry e) = Ok b'" "mp_unmarshal rt b' = Ok (enc_RegistryEntry e)"
    using assms(1,2) by (rule codec_marshal)
  with assms(3) show ?thesis
    by (simp add: marshal_RegistryEntry_def unmarshal_RegistryEntry_def dec_enc_RegistryEntry)
qed

section \<open>A batch of rollups\<close>

definition is_rollup :: "nats_msg \<Rightarrow> bool" where
  "is_rollup m \<longleftrightarrow> map_of (nm_Header m) hdr_rollup = Some ''sub''"

lemma rollup_msg:
  "is_rollup m \<Longrightarrow>
   filter (\<lambda>x. sm_Subject x = p) (st_msgs (store_msg st m)) =
     (if nm_Subject m = p then assign (st_last st) [m] else filter (\<lambda>x. sm_Subject x = p) (st_msgs st))"
  by (auto simp: is_rollup_def store_msg_def Let_def filter_empty_conv intro: filter_cong)

lemma rollup_batch_other:
  "list_all is_rollup ms \<Longrightarrow> \<forall>m\<in>set ms. nm_Subject m \<noteq> p \<Longrightarrow>
   filter (\<lambda>x. sm_Subject x = p) (st_msgs (store_batch st ms)) = filter (\<lambda>x. sm_Subject x = p) (st_msgs st)"
  by (induction ms arbitrary: st) (simp_all add: rollup_msg)

lemma rollup_batch:
  "list_all is_rollup ms \<Longrightarrow> filter (\<lambda>m. nm_Subject m = p) ms \<noteq> [] \<Longrightarrow>
   \<exists>x. filter (\<lambda>x. sm_Subject x = p) (st_msgs (store_batch st ms)) = [x] \<and>
     sm_Data x = nm_Data (last (filter (\<lambda>m. nm_Subject m = p) ms))"
proof (induction ms arbitrary: st)
  case (Cons m ms)
  show ?case
  proof (cases "filter (\<lambda>m. nm_Subject m = p) ms = []")
    case True
    then have "\<forall>m\<in>set ms. nm_Subject m \<noteq> p" by (simp add: filter_empty_conv)
    with Cons.prems True rollup_batch_other [of ms p "store_msg st m"] show ?thesis
      by (auto simp: rollup_msg split: if_splits)
  next
    case False
    with Cons.IH [of "store_msg st m"] Cons.prems(1) show ?thesis by simp
  qed
qed simp

lemma list_all2_filter:
  assumes "list_all2 R xs ys" and "\<And>x y. x \<in> set xs \<Longrightarrow> R x y \<Longrightarrow> P x \<longleftrightarrow> Q y"
  shows "list_all2 R (filter P xs) (filter Q ys)"
  using assms by (induction rule: list_all2_induct) auto

lemma list_all2_last: "list_all2 R xs ys \<Longrightarrow> xs \<noteq> [] \<Longrightarrow> R (last xs) (last ys)"
  by (induction rule: list_all2_induct) auto

lemma entry_msgs_spec:
  "entry_msgs rt w t defs = Ok ms \<Longrightarrow>
   list_all2 (\<lambda>d m. \<exists>b. marshal_RegistryEntry rt \<lparr>re_WorkflowTypeDef = d, re_WorkerID = w, re_RegisteredAt = t\<rparr> = Ok b \<and>
     m = entry_msg d b) defs ms"
  by (induction defs arbitrary: ms) auto

lemma entry_msgs_rollup: "entry_msgs rt w t defs = Ok ms \<Longrightarrow> list_all is_rollup ms"
  by (induction defs arbitrary: ms) (auto simp: entry_msg_def is_rollup_def)

context state_stream
begin

lemma publish_entries_Ok:
  assumes "publish_entries js s ms = (s', Ok ())" and "ms \<noteq> []"
  shows "batch_accepted (view s) ms \<and> view s' = store_batch (view s) ms"
proof -
  from assms(1) obtain s1 b s2 b' where
    n: "js_new_batch js s = (s1, Ok b)" and a: "add_messages js s1 b (butlast ms) = (s2, Ok b')" and
    c: "js_commit_msg js s2 b' (last ms) = (s', None)"
    by (auto simp: publish_entries_def split: prod.splits res.splits option.splits)
  from new_batch [OF n] add_messages_spec [OF a] commit_ok [OF c] assms(2) show ?thesis by simp
qed

lemma publish_entries_view:
  assumes "publish_entries js s ms = (s', r)" and "ms \<noteq> []"
  shows "view s' = view s \<or> batch_accepted (view s) ms \<and> view s' = store_batch (view s) ms"
proof -
  obtain s1 r1 where n: "js_new_batch js s = (s1, r1)" by (cases "js_new_batch js s")
  show ?thesis
  proof (cases r1)
    case (Ok b)
    obtain s2 r2 where a: "add_messages js s1 b (butlast ms) = (s2, r2)" by (cases "add_messages js s1 b (butlast ms)")
    show ?thesis
    proof (cases r2)
      case (Ok b')
      obtain s3 r3 where c: "js_commit_msg js s2 b' (last ms) = (s3, r3)" by (cases "js_commit_msg js s2 b' (last ms)")
      then have "s3 = s'" using assms(1) n a Ok \<open>r1 = Ok b\<close> by (auto simp: publish_entries_def split: option.splits)
      with new_batch [OF n] add_messages_spec [OF a] Ok \<open>r1 = Ok b\<close> assms(2) c
        commit_ok [of s2 b' "last ms" s'] commit_failed [of s2 b' "last ms" s'] show ?thesis by (cases r3) auto
    qed (use assms(1) n a new_batch [OF n] add_messages_spec [OF a] \<open>r1 = Ok b\<close> in \<open>auto simp: publish_entries_def\<close>)
  qed (use assms(1) n new_batch [OF n] in \<open>auto simp: publish_entries_def\<close>)
qed

lemma GetType_last:
  assumes "last_match (view s) (WorkflowTypeRegistrySubject Manifest t) = Some m"
    and "unmarshal_RegistryEntry rt (sm_Data m) = Ok e"
  shows "GetType rt js s t = Ok e \<or>
    (\<exists>err. js_get_last js s (WorkflowTypeRegistrySubject Manifest t) = Err err \<and> \<not> errors_is_lib err ErrMsgNotFound)"
proof (cases "js_get_last js s (WorkflowTypeRegistrySubject Manifest t)")
  case (Ok x)
  with get_last_ok [OF Ok] assms show ?thesis by (simp add: GetType_def)
next
  case (Err e)
  with get_last_none [OF Err] assms(1) show ?thesis by auto
qed (simp add: get_last_total)

lemma PutTypes_Ok:
  assumes "PutTypes rt js s w defs = (s', Ok ())" and "defs \<noteq> []"
  shows "\<exists>ms. entry_msgs rt w (now rt At_PutTypes_registeredAt) defs = Ok ms \<and> view s' = store_batch (view s) ms"
proof -
  from assms obtain ms where ms: "entry_msgs rt w (now rt At_PutTypes_registeredAt) defs = Ok ms"
      "publish_entries js s ms = (s', Ok ())"
    by (auto simp: PutTypes_def split: res.splits)
  moreover have "ms \<noteq> []"
    using entry_msgs_spec [OF ms(1)] assms(2) by auto
  ultimately show ?thesis using publish_entries_Ok by blast
qed

end

section \<open>Property of the registry\<close>

lemma registry_subject_eq:
  "token t \<Longrightarrow> token t' \<Longrightarrow>
   WorkflowTypeRegistrySubject Manifest t = WorkflowTypeRegistrySubject Manifest t' \<longleftrightarrow> t = t'"
  by (simp add: subjects token_def)

lemma last_match_single:
  assumes "literal p" and "filter (\<lambda>x. sm_Subject x = p) (st_msgs st) = [m]"
  shows "last_match st p = Some m"
proof -
  have "subject_matches p = (\<lambda>s. s = p)"
    by (auto simp: fun_eq_iff subject_matches_literal [OF assms(1)])
  with assms(2) show ?thesis by (simp add: last_match_def)
qed

text \<open>
  C23. Registering a catalog replaces the definitions of its types and touches no other: after
  a successful call the subject of a type in the catalog holds one message, whatever was
  there before, and the type reads as its last definition in the catalog with the worker and
  the time of the call (unless the read itself fails for another reason than a missing
  message); the messages of every other type are unchanged.
\<close>

theorem PutTypes_replaces:
  assumes "state_stream js view staged" and "codec_ok rt" and "PutTypes rt js s w defs = (s', Ok ())"
    and "list_all (\<lambda>d. token (wtd_Type d) \<and> fits (enc_RegistryEntry
      \<lparr>re_WorkflowTypeDef = d, re_WorkerID = w, re_RegisteredAt = now rt At_PutTypes_registeredAt\<rparr>)) defs"
    and "token t"
  shows "let p = WorkflowTypeRegistrySubject Manifest t; ds = filter (\<lambda>d. wtd_Type d = t) defs;
      on = (\<lambda>s. filter (\<lambda>x. sm_Subject x = p) (st_msgs (view s)))
    in if ds = [] then on s' = on s
       else length (on s') = 1 \<and>
         (GetType rt js s' t = Ok \<lparr>re_WorkflowTypeDef = last ds, re_WorkerID = w,
            re_RegisteredAt = now rt At_PutTypes_registeredAt\<rparr> \<or>
          (\<exists>e. js_get_last js s' p = Err e \<and> \<not> errors_is_lib e ErrMsgNotFound))"
proof (cases "defs = []")
  case True
  with assms(3) show ?thesis by (simp add: PutTypes_def)
next
  case False
  let ?p = "WorkflowTypeRegistrySubject Manifest t" and ?ds = "filter (\<lambda>d. wtd_Type d = t) defs"
  let ?e = "\<lambda>d. \<lparr>re_WorkflowTypeDef = d, re_WorkerID = w, re_RegisteredAt = now rt At_PutTypes_registeredAt\<rparr>"
  let ?R = "\<lambda>d m. \<exists>b. marshal_RegistryEntry rt (?e d) = Ok b \<and> m = entry_msg d b"
  from state_stream.PutTypes_Ok [OF assms(1,3) False] obtain ms where
    ms: "entry_msgs rt w (now rt At_PutTypes_registeredAt) defs = Ok ms" "view s' = store_batch (view s) ms" by blast
  let ?ms = "filter (\<lambda>m. nm_Subject m = ?p) ms"
  note roll = entry_msgs_rollup [OF ms(1)]
  have "list_all2 ?R ?ds ?ms"
    using assms(4,5) by (intro list_all2_filter [OF entry_msgs_spec [OF ms(1)]])
      (auto simp: entry_msg_def list_all_iff registry_subject_eq)
  show ?thesis
  proof (cases "?ds = []")
    case True
    with \<open>list_all2 ?R ?ds ?ms\<close> have "\<forall>m\<in>set ms. nm_Subject m \<noteq> ?p" by (simp add: filter_empty_conv)
    with True rollup_batch_other [OF roll] ms(2) show ?thesis by simp
  next
    case False
    with \<open>list_all2 ?R ?ds ?ms\<close> have "?ms \<noteq> []" by auto
    with rollup_batch [OF roll] ms(2) obtain x where
      x: "filter (\<lambda>x. sm_Subject x = ?p) (st_msgs (view s')) = [x]" "sm_Data x = nm_Data (last ?ms)"
      by metis
    have "last ?ds \<in> set defs" using last_in_set [OF False] by simp
    with assms(4) have "fits (enc_RegistryEntry (?e (last ?ds)))" by (simp add: list_all_iff)
    moreover have "marshal_RegistryEntry rt (?e (last ?ds)) = Ok (sm_Data x)"
      using list_all2_last [OF \<open>list_all2 ?R ?ds ?ms\<close> False] x(2) by (auto simp: entry_msg_def)
    ultimately have "unmarshal_RegistryEntry rt (sm_Data x) = Ok (?e (last ?ds))"
      using unmarshal_marshal_RegistryEntry [OF assms(2)] by blast
    with state_stream.GetType_last [OF assms(1) last_match_single [OF _ x(1)] this] assms(5) x(1) False
    show ?thesis by (simp add: subject_literals)
  qed
qed

definition sample_type :: "string \<Rightarrow> u32 \<Rightarrow> WorkflowTypeDef" where
  "sample_type t timeout =
     \<lparr>wtd_Type = t, wtd_StartStep = ''start'', wtd_Steps = [''start''],
      wtd_Events = [\<lparr>evd_Name = ''paid'', evd_TimeoutMS = 50\<rparr>], wtd_Queries = [],
      wtd_StartStepTimeoutMS = timeout\<rparr>"

theorem PutTypes_replaces_witness:
  "\<exists>st'. PutTypes sample_rt mem_js stream_empty ''wk'' [sample_type ''order'' 7, sample_type ''order'' 9] = (st', Ok ()) \<and>
     GetType sample_rt mem_js st' ''order'' =
       Ok \<lparr>re_WorkflowTypeDef = sample_type ''order'' 9, re_WorkerID = ''wk'', re_RegisteredAt = 5\<rparr>"
proof -
  let ?defs = "[sample_type ''order'' 7, sample_type ''order'' 9]"
  have now: "now sample_rt At_PutTypes_registeredAt = 5" by (simp add: sample_rt_def)
  have "\<exists>st'. PutTypes sample_rt mem_js stream_empty ''wk'' ?defs = (st', Ok ())"
    by (simp add: PutTypes_def marshal_RegistryEntry_def sample_rt_def publish_entries_def mem_js_def mem_commit_def
        batch_accepted_def expectation_met_def is_duplicate_def entry_msg_def stream_empty_def Let_def del: put_mp.simps)
  then obtain st' where p: "PutTypes sample_rt mem_js stream_empty ''wk'' ?defs = (st', Ok ())" ..
  have "\<not> (\<exists>e. js_get_last mem_js st' p = Err e \<and> \<not> errors_is_lib e ErrMsgNotFound)" for p
    by (auto simp: mem_js_def split: option.splits)
  moreover have "list_all (\<lambda>d. token (wtd_Type d) \<and> fits (enc_RegistryEntry
      \<lparr>re_WorkflowTypeDef = d, re_WorkerID = ''wk'', re_RegisteredAt = 5\<rparr>)) ?defs"
    by (simp add: sample_type_def sample_tokens enc_RegistryEntry_def WorkflowTypeDef_fields_def enc_EventDef_def enc_u_def)
  ultimately show ?thesis
    using PutTypes_replaces [OF mem.state_stream_axioms codec_ok_sample p, of "''order''"] p now sample_tokens
    by (auto simp: sample_type_def Let_def)
qed

end
