(* ===== verification/GoDuration.thy ===== *)
theory GoDuration
  imports GoStrings
begin

text \<open>
  \<^verbatim>\<open>time.ParseDuration\<close> of Go's standard library, which the configuration is checked with.
  The fraction of a number is scaled in 64-bit floating point, as in the library: the
  operations involved are rounded to 53 bits, half to even, on fractions of naturals.
\<close>

section \<open>Rounding to 53 bits\<close>

definition rne :: "nat \<Rightarrow> nat \<Rightarrow> nat" where
  "rne a b =
     (let q = a div b; r = a mod b
      in if 2 * r > b \<or> 2 * r = b \<and> odd q then q + 1 else q)"

fun bit_length :: "nat \<Rightarrow> nat" where
  "bit_length n = (if n = 0 then 0 else Suc (bit_length (n div 2)))"

declare bit_length.simps [simp del]

text \<open>The nearest 64-bit float to \<open>a / b\<close>, as a fraction; the exponents that occur are small.\<close>

definition round53 :: "nat \<times> nat \<Rightarrow> nat \<times> nat" where
  "round53 = (\<lambda>(a, b).
     if a = 0 then (0, 1)
     else let q = a div b in
       if q \<ge> 2 ^ 53
       then let k = bit_length q - 53 in (rne a (b * 2 ^ k) * 2 ^ k, 1)
       else let k0 = 53 + bit_length b - bit_length a;
                k = (if a * 2 ^ k0 div b \<ge> 2 ^ 53 then k0 - 1 else k0)
            in (rne (a * 2 ^ k) b, 2 ^ k))"

definition f64_mul :: "nat \<times> nat \<Rightarrow> nat \<times> nat \<Rightarrow> nat \<times> nat" where
  "f64_mul x y = round53 (fst x * fst y, snd x * snd y)"

text \<open>\<^verbatim>\<open>uint64(float64(f) * (float64(unit) / scale))\<close>; \<^verbatim>\<open>unit\<close> and \<^verbatim>\<open>scale\<close> are exact.\<close>

definition scale_fraction :: "nat \<Rightarrow> nat \<Rightarrow> nat \<Rightarrow> nat" where
  "scale_fraction f unit scale =
     (let r = f64_mul (round53 (f, 1)) (round53 (unit, scale)) in fst r div snd r)"

section \<open>Numbers and units\<close>

definition is_digit :: "char \<Rightarrow> bool" where
  "is_digit c \<longleftrightarrow> (let n = of_char c :: nat in 48 \<le> n \<and> n \<le> 57)"

definition digit_value :: "char \<Rightarrow> nat" where
  "digit_value c = (of_char c :: nat) - 48"

text \<open>\<^verbatim>\<open>leadingInt\<close>: the digits at the front; \<open>None\<close> is its overflow error.\<close>

fun leadingInt :: "nat \<Rightarrow> string \<Rightarrow> (nat \<times> string) option" where
  "leadingInt x [] = Some (x, [])"
| "leadingInt x (c # s) =
     (if \<not> is_digit c then Some (x, c # s)
      else if x > 2 ^ 63 div 10 then None
      else let x' = x * 10 + digit_value c in
        if x' > 2 ^ 63 then None else leadingInt x' s)"

text \<open>\<^verbatim>\<open>leadingFraction\<close>: once a digit would overflow, the rest is consumed and ignored.\<close>

fun leadingFraction :: "nat \<Rightarrow> nat \<Rightarrow> bool \<Rightarrow> string \<Rightarrow> nat \<times> nat \<times> string" where
  "leadingFraction x scale overflow [] = (x, scale, [])"
| "leadingFraction x scale overflow (c # s) =
     (if \<not> is_digit c then (x, scale, c # s)
      else if overflow then leadingFraction x scale True s
      else if x > (2 ^ 63 - 1) div 10 then leadingFraction x scale True s
      else let y = x * 10 + digit_value c in
        if y > 2 ^ 63 then leadingFraction x scale True s
        else leadingFraction y (scale * 10) False s)"

text \<open>The micro sign and the Greek letter mu, as UTF-8, are two names of the microsecond.\<close>

definition unit_ns :: "string \<Rightarrow> nat option" where
  "unit_ns u =
     map_of
       [(''ns'', 1), (''us'', 1000), ([char_of (194 :: nat), char_of (181 :: nat)] @ ''s'', 1000),
        ([char_of (206 :: nat), char_of (188 :: nat)] @ ''s'', 1000),
        (''ms'', 1000000), (''s'', 1000000000), (''m'', 60000000000), (''h'', 3600000000000)] u"

definition is_unit_char :: "char \<Rightarrow> bool" where
  "is_unit_char c \<longleftrightarrow> \<not> (c = CHR ''.'' \<or> is_digit c)"

section \<open>Parsing\<close>

text \<open>One term \<^verbatim>\<open>[0-9]*(.[0-9]*)?[a-z]+\<close>: its nanoseconds and the rest of the text.\<close>

definition parse_term :: "string \<Rightarrow> (nat \<times> string) option" where
  "parse_term s =
     (if s = [] \<or> is_unit_char (hd s) then None
      else case leadingInt 0 s of
        None \<Rightarrow> None
      | Some (v, s1) \<Rightarrow>
          (let pre = length s1 \<noteq> length s;
               (f, scale, s2) =
                 (if s1 \<noteq> [] \<and> hd s1 = CHR ''.'' then leadingFraction 0 1 False (tl s1) else (0, 1, s1));
               post = s1 \<noteq> [] \<and> hd s1 = CHR ''.'' \<and> length s2 \<noteq> length (tl s1);
               u = takeWhile is_unit_char s2
           in if \<not> pre \<and> \<not> post then None
              else case unit_ns u of
                None \<Rightarrow> None
              | Some unit \<Rightarrow>
                  if v > 2 ^ 63 div unit then None
                  else let w = v * unit + (if f > 0 then scale_fraction f unit scale else 0) in
                    if w > 2 ^ 63 then None else Some (w, dropWhile is_unit_char s2)))"

lemma leadingInt_length: "leadingInt x s = Some (v, r) \<Longrightarrow> length r \<le> length s"
  by (induction x s rule: leadingInt.induct) (auto simp: Let_def split: if_splits)

lemma leadingFraction_length: "leadingFraction x c b s = (f, c', r) \<Longrightarrow> length r \<le> length s"
  by (induction x c b s rule: leadingFraction.induct) (auto simp: Let_def split: if_splits)

lemma unit_ns_Nil [simp]: "unit_ns [] = None"
  by (simp add: unit_ns_def)

lemma dropWhile_shorter: "takeWhile P s \<noteq> [] \<Longrightarrow> length (dropWhile P s) < length s"
  by (cases s) (auto simp: length_dropWhile_le le_imp_less_Suc split: if_splits)

lemma parse_term_shorter: "parse_term s = Some (w, r) \<Longrightarrow> length r < length s"
proof -
  assume a: "parse_term s = Some (w, r)"
  then obtain v s1 where i: "leadingInt 0 s = Some (v, s1)"
    by (auto simp: parse_term_def split: if_splits option.splits)
  define x where
    "x = (if s1 \<noteq> [] \<and> hd s1 = CHR ''.'' then leadingFraction 0 1 False (tl s1) else (0, 1, s1))"
  obtain f scale s2 where x: "x = (f, scale, s2)" by (cases x)
  have "length s2 \<le> length s1"
    using x leadingFraction_length [of 0 1 False "tl s1" f scale s2]
    by (auto simp: x_def split: if_splits)
  moreover have "takeWhile is_unit_char s2 \<noteq> [] \<and> r = dropWhile is_unit_char s2"
  proof -
    from a i x have "unit_ns (takeWhile is_unit_char s2) \<noteq> None \<and> r = dropWhile is_unit_char s2"
      by (auto simp: parse_term_def x_def [symmetric] Let_def split: if_splits option.splits)
    then show ?thesis by (cases "takeWhile is_unit_char s2") auto
  qed
  ultimately show "length r < length s"
    using dropWhile_shorter [of is_unit_char s2] leadingInt_length [OF i] by simp
qed

function parse_terms :: "nat \<Rightarrow> string \<Rightarrow> nat option" where
  "parse_terms d s =
     (if s = [] then Some d
      else case parse_term s of
        None \<Rightarrow> None
      | Some (w, r) \<Rightarrow> if d + w > 2 ^ 63 then None else parse_terms (d + w) r)"
  by pat_completeness auto

termination
  by (relation "measure (\<lambda>(d, s). length s)") (auto dest: parse_term_shorter)

declare parse_terms.simps [simp del]

definition ParseDuration :: "string \<Rightarrow> duration option" where
  "ParseDuration orig =
     (let neg = (orig \<noteq> [] \<and> hd orig = CHR ''-'');
          s = (if orig \<noteq> [] \<and> (hd orig = CHR ''-'' \<or> hd orig = CHR ''+'') then tl orig else orig)
      in if s = ''0'' then Some 0
         else if s = [] then None
         else case parse_terms 0 s of
           None \<Rightarrow> None
         | Some d \<Rightarrow>
             if neg then Some (- int d)
             else if d > 2 ^ 63 - 1 then None else Some (int d))"

lemma parse_terms_bound: "d \<le> 2 ^ 63 \<Longrightarrow> parse_terms d s = Some n \<Longrightarrow> n \<le> 2 ^ 63"
proof (induction d s rule: parse_terms.induct)
  case (1 d s)
  from 1(3) have "s = [] \<and> n = d \<or>
      (\<exists>w r. s \<noteq> [] \<and> parse_term s = Some (w, r) \<and> d + w \<le> 2 ^ 63 \<and> parse_terms (d + w) r = Some n)"
    by (simp add: parse_terms.simps [of d s] split: if_splits option.splits prod.splits)
  with 1 show ?case by fastforce
qed

text \<open>Whatever it accepts is an \<^verbatim>\<open>int64\<close>.\<close>

lemma ParseDuration_range:
  assumes "ParseDuration s = Some d"
  shows "min_duration \<le> d \<and> d \<le> max_duration"
  using assms parse_terms_bound [of 0]
  by (fastforce simp: ParseDuration_def min_duration_def max_duration_def Let_def split: if_splits option.splits)

end
