(* ===== verification/Config.thy ===== *)
theory Config
  imports GoDuration
begin

text \<open>
  The configuration of the server (\<^verbatim>\<open>src/config/\<close>): its defaults, its normalization, the
  home directory in the store path, and its validation. Reading the file and the environment
  is the koanf library, a parameter of \<^verbatim>\<open>Load\<close>; the file system and the home directory are
  those of the operating system, parameters as well.
\<close>

section \<open>The configuration\<close>

record TelemetryConfig =
  tc_Enabled :: bool
  tc_OTLPEndpoint :: string
  tc_Insecure :: bool

record LoggingConfig =
  lc_Level :: string
  lc_Format :: string
  lc_AddSource :: bool

record NATSConfig =
  nc_ServerName :: string
  nc_Mode :: string
  nc_URL :: string
  nc_ConfigFile :: string
  nc_Port :: int
  nc_StoreDir :: string
  nc_SyncInterval :: string
  nc_Storage :: string

record DefaultsConfig =
  dc_StepTimeout :: duration
  dc_WaitTimeout :: duration

record Config =
  cfg_NATS :: NATSConfig
  cfg_Defaults :: DefaultsConfig
  cfg_Logging :: LoggingConfig
  cfg_Telemetry :: TelemetryConfig

abbreviation "NATSModeEmbedded \<equiv> ''embedded''"
abbreviation "NATSModeExternal \<equiv> ''external''"

definition InMemory :: "NATSConfig \<Rightarrow> bool" where
  "InMemory n \<longleftrightarrow> nc_Storage n = ''memory''"

section \<open>Paths\<close>

text \<open>\<^verbatim>\<open>filepath.Clean\<close> and \<^verbatim>\<open>filepath.Join\<close> for the separator \<^verbatim>\<open>/\<close>.\<close>

fun split_slashes :: "string \<Rightarrow> string list" where
  "split_slashes [] = [[]]"
| "split_slashes (c # s) =
     (if c = CHR ''/'' then [] # split_slashes s
      else case split_slashes s of
        [] \<Rightarrow> [[c]]
      | t # ts \<Rightarrow> (c # t) # ts)"

text \<open>The elements kept so far, in reverse; \<^verbatim>\<open>..\<close> removes one if it can.\<close>

fun clean_elements :: "bool \<Rightarrow> string list \<Rightarrow> string list \<Rightarrow> string list" where
  "clean_elements rooted acc [] = rev acc"
| "clean_elements rooted acc (e # es) =
     (if e = [] \<or> e = ''.'' then clean_elements rooted acc es
      else if e = ''..'' then
        (if acc \<noteq> [] \<and> hd acc \<noteq> ''..'' then clean_elements rooted (tl acc) es
         else if rooted then clean_elements rooted acc es
         else clean_elements rooted (e # acc) es)
      else clean_elements rooted (e # acc) es)"

definition Clean :: "string \<Rightarrow> string" where
  "Clean path =
     (let rooted = (path \<noteq> [] \<and> hd path = CHR ''/'');
          body = Join (clean_elements rooted [] (split_slashes path)) ''/''
      in if rooted then ''/'' @ body else if body = [] then ''.'' else body)"

definition filepath_Join :: "string \<Rightarrow> string \<Rightarrow> string" where
  "filepath_Join a b =
     (if a \<noteq> [] then Clean (a @ ''/'' @ b) else if b \<noteq> [] then Clean b else [])"

definition ResolveStoreDir :: "string res \<Rightarrow> NATSConfig \<Rightarrow> NATSConfig" where
  "ResolveStoreDir UserHomeDir n =
     (if \<not> HasPrefix (nc_StoreDir n) ''~/'' then n
      else case UserHomeDir of
        Ok home \<Rightarrow> n\<lparr>nc_StoreDir := filepath_Join home (drop 2 (nc_StoreDir n))\<rparr>
      | _ \<Rightarrow> n\<lparr>nc_StoreDir := ''./data''\<rparr>)"

section \<open>Normalization and validation\<close>

definition Normalized :: "Config \<Rightarrow> Config" where
  "Normalized c =
     (let n = cfg_NATS c in
      c\<lparr>cfg_NATS := n\<lparr>nc_Mode := ToLower (TrimSpace (nc_Mode n)),
                      nc_Storage := ToLower (TrimSpace (nc_Storage n))\<rparr>\<rparr>)"

definition validateSyncInterval :: "string \<Rightarrow> gerr option" where
  "validateSyncInterval s =
     (if s = ''always'' then None
      else case ParseDuration s of
        None \<Rightarrow> Some (Errorf (''nats.sync_interval must be '' @ go_quote ''always'' @
          '' or a valid duration (e.g. '' @ go_quote ''1s'' @ ''), got '' @ go_quote s))
      | Some d \<Rightarrow> None)"

definition Validate :: "Config \<Rightarrow> gerr option" where
  "Validate c =
     (let n = cfg_NATS c in
      case
        (if nc_Mode n = NATSModeEmbedded then
           if nc_Port n < 1 \<or> nc_Port n > 65535
           then Some (Errorf ''port must be in range 1..65535 for embedded mode'')
           else if nc_StoreDir n = ''''
           then Some (Errorf ''nats.store_dir must be non-empty in embedded mode'')
           else None
         else if nc_Mode n = NATSModeExternal then
           if nc_URL n = '''' then Some (Errorf ''nats.url is required for external mode'') else None
         else Some (Errorf (''nats.mode must be '' @ go_quote NATSModeEmbedded @ '' or '' @
                            go_quote NATSModeExternal)))
      of Some e \<Rightarrow> Some e
      | None \<Rightarrow>
          (case validateSyncInterval (nc_SyncInterval n) of
             Some e \<Rightarrow> Some e
           | None \<Rightarrow>
               if \<not> (nc_Storage n = ''memory'' \<or> nc_Storage n = ''file'')
               then Some (Errorf (''nats.storage must be '' @ go_quote ''memory'' @ '' or '' @ go_quote ''file''))
               else if dc_StepTimeout (cfg_Defaults c) \<le> 0
               then Some (Errorf ''defaults.step_timeout must be positive'')
               else if dc_WaitTimeout (cfg_Defaults c) \<le> 0
               then Some (Errorf ''defaults.wait_timeout must be positive'')
               else None))"

section \<open>Loading\<close>

datatype config_value = CStr string | CInt int | CBool bool

definition defaultConfigMap :: "(string \<times> config_value) list" where
  "defaultConfigMap =
     [(''nats.server_name'', CStr ''grctl''),
      (''nats.mode'', CStr NATSModeEmbedded),
      (''nats.port'', CInt 4225),
      (''nats.store_dir'', CStr ''~/.grctl/data''),
      (''nats.sync_interval'', CStr ''always''),
      (''nats.storage'', CStr ''file''),
      (''defaults.step_timeout'', CStr ''5m''),
      (''defaults.wait_timeout'', CStr ''1h''),
      (''logging.level'', CStr ''info''),
      (''logging.format'', CStr ''''),
      (''logging.add_source'', CBool False),
      (''telemetry.enabled'', CBool False),
      (''telemetry.otlp_endpoint'', CStr ''localhost:4317''),
      (''telemetry.insecure'', CBool True)]"

text \<open>The names of environment variables: the first underscore after the prefix separates the section.\<close>

definition TrimPrefix :: "string \<Rightarrow> string \<Rightarrow> string" where
  "TrimPrefix s p = (if HasPrefix s p then drop (length p) s else s)"

definition envKeyMapper :: "string \<Rightarrow> string" where
  "envKeyMapper key0 =
     (let key = TrimPrefix (ToLower key0) ''grctl_'';
          pre = takeWhile (\<lambda>c. c \<noteq> CHR ''_'') key
      in if length pre = length key then key else pre @ ''.'' @ drop (length pre + 1) key)"

text \<open>The koanf library and the file system, as \<^verbatim>\<open>Load\<close> calls them.\<close>

datatype stat_result = Exists | NotExist | StatError gerr

record 'k koanf =
  kf_New :: 'k
  kf_LoadMap :: "'k \<Rightarrow> (string \<times> config_value) list \<Rightarrow> 'k res"
  kf_LoadFile :: "'k \<Rightarrow> string \<Rightarrow> 'k res"
  kf_LoadEnv :: "'k \<Rightarrow> string \<Rightarrow> (string \<Rightarrow> string) \<Rightarrow> 'k res"
  kf_Unmarshal :: "'k \<Rightarrow> Config res"
  os_Stat :: "string \<Rightarrow> stat_result"
  os_UserHomeDir :: "string res"

definition loadConfigFile :: "'k koanf \<Rightarrow> 'k \<Rightarrow> string \<Rightarrow> 'k res" where
  "loadConfigFile kf k path =
     (case os_Stat kf path of
        NotExist \<Rightarrow> Ok k
      | StatError e \<Rightarrow> Err (Wrapf (''stat config file '' @ go_quote path @ '': '') e '''')
      | Exists \<Rightarrow> orErrorf (''load config file '' @ go_quote path @ '': '') (kf_LoadFile kf k path) Ok)"

definition unmarshalConfig :: "'k koanf \<Rightarrow> 'k \<Rightarrow> Config res" where
  "unmarshalConfig kf k = orErrorf ''unmarshal config: '' (kf_Unmarshal kf k) Ok"

definition Load :: "'k koanf \<Rightarrow> string \<Rightarrow> Config res" where
  "Load kf path =
     orErrorf ''load default config: '' (kf_LoadMap kf (kf_New kf) defaultConfigMap) (\<lambda>k1.
     andThen (if path \<noteq> '''' then loadConfigFile kf k1 path else Ok k1) (\<lambda>k2.
     orErrorf ''load env config: '' (kf_LoadEnv kf k2 ''GRCTL_'' envKeyMapper) (\<lambda>k3.
     andThen (unmarshalConfig kf k3) (\<lambda>c0.
     (let c1 = Normalized c0;
          c2 = c1\<lparr>cfg_NATS := ResolveStoreDir (os_UserHomeDir kf) (cfg_NATS c1)\<rparr>
      in case Validate c2 of Some e \<Rightarrow> Err e | None \<Rightarrow> Ok c2)))))"

end
