(* ===== verification/Service.thy ===== *)
theory Service
  imports Registry Config Metrics
begin

text \<open>
  The service behind the API (\<^verbatim>\<open>src/run/service.go\<close>): starting a run, sending it an event,
  cancelling, terminating and describing it, registering workflow types. The Go interfaces
  \<^verbatim>\<open>RunStore\<close> and \<^verbatim>\<open>TypeRegistry\<close> are records of operations; the state store and the type
  registry implement them. An operation that fails after a call leaves the state of that call.
\<close>

section \<open>The interfaces\<close>

record 's RunStore =
  rst_CreateRunInfo :: "'s \<Rightarrow> RunInfo \<Rightarrow> 's \<times> unit res"
  rst_GetRunByWFID :: "'s \<Rightarrow> WFID \<Rightarrow> (RunInfo \<times> u64) res"
  rst_PublishDirective :: "'s \<Rightarrow> Directive \<Rightarrow> 's \<times> unit res"

record 's TypeRegistry =
  treg_PutTypes :: "'s \<Rightarrow> string \<Rightarrow> WorkflowTypeDef list \<Rightarrow> 's \<times> unit res"
  treg_GetStartStepTimeout :: "'s \<Rightarrow> WFType \<Rightarrow> u32 res"
  treg_GetEventDef :: "'s \<Rightarrow> WFType \<Rightarrow> string \<Rightarrow> EventDef res"

record 's Service =
  svc_store :: "'s RunStore"
  svc_config :: DefaultsConfig
  svc_registry :: "'s TypeRegistry"

text \<open>\<^verbatim>\<open>uint32(d.Milliseconds())\<close>: the conversion keeps the low 32 bits.\<close>

definition uint32_ms :: "duration \<Rightarrow> u32" where
  "uint32_ms d = word_of_int (milliseconds d)"

text \<open>A nil pointer to a value is encoded as nil.\<close>

fun any_of_ptr :: "go_any option \<Rightarrow> go_any" where
  "any_of_ptr None = MNil"
| "any_of_ptr (Some v) = v"

section \<open>The operations\<close>

definition Register :: "'s Service \<Rightarrow> 's \<Rightarrow> string \<Rightarrow> WorkflowTypeDef list \<Rightarrow> 's \<times> unit res" where
  "Register m s workerID types = treg_PutTypes (svc_registry m) s workerID types"

definition start_directive :: "runtime \<Rightarrow> RunInfo \<Rightarrow> go_any option \<Rightarrow> u32 \<Rightarrow> Directive" where
  "start_directive rt info inp timeout =
     \<lparr>d_ID = ulid rt At_StartRun_ID, d_Timestamp = now rt At_StartRun_Timestamp,
      d_Kind = DirectiveKindStart, d_RunInfo = info, d_Attempt = 0,
      d_Msg = Some (Start (any_of_ptr inp) timeout)\<rparr>"

definition StartRun ::
  "runtime \<Rightarrow> 's Service \<Rightarrow> 's \<Rightarrow> RunInfo \<Rightarrow> go_any option \<Rightarrow> 's \<times> metric list \<times> unit res" where
  "StartRun rt m s info inp =
     (case treg_GetStartStepTimeout (svc_registry m) s (ri_WFType info) of
        Err e \<Rightarrow> (s, [], Err e)
      | Panic p \<Rightarrow> (s, [], Panic p)
      | Ok registered \<Rightarrow>
          (let timeout = (if registered = 0 then uint32_ms (dc_StepTimeout (svc_config m)) else registered);
               directive = start_directive rt info inp timeout
           in case rst_CreateRunInfo (svc_store m) s info of
                (s1, Err e) \<Rightarrow>
                  (s1, [], Err (if errors_is e ErrWorkflowAlreadyRunning then e
                                else Wrapf ''failed to create run in store: '' e ''''))
              | (s1, Panic p) \<Rightarrow> (s1, [], Panic p)
              | (s1, Ok _) \<Rightarrow>
                  (case rst_PublishDirective (svc_store m) s1 directive of
                     (s2, Err e) \<Rightarrow> (s2, [], Err (Wrapf ''failed to enqueue start directive: '' e ''''))
                   | (s2, Panic p) \<Rightarrow> (s2, [], Panic p)
                   | (s2, Ok _) \<Rightarrow> (s2, [RecordRunStarted (ri_WFType info)], Ok ()))))"

text \<open>
  The common part of \<^verbatim>\<open>Send\<close>, \<^verbatim>\<open>Terminate\<close> and \<^verbatim>\<open>Cancel\<close>: the run is looked up by its workflow
  and must not be finished; then a directive made from its run info is published.
\<close>

definition active_run :: "'s Service \<Rightarrow> 's \<Rightarrow> WFID \<Rightarrow> RunInfo res" where
  "active_run m s wfID =
     orErrorf ''failed to get run info from store: '' (rst_GetRunByWFID (svc_store m) s wfID) (\<lambda>(runInfo, _).
     if RunStatus_IsTerminal (ri_Status runInfo) then Err (Sentinel ErrRunTerminal) else Ok runInfo)"

definition enqueue :: "'s Service \<Rightarrow> 's \<Rightarrow> string \<Rightarrow> Directive \<Rightarrow> 's \<times> unit res" where
  "enqueue m s what d =
     (case rst_PublishDirective (svc_store m) s d of
        (s', Err e) \<Rightarrow> (s', Err (Wrapf (''failed to enqueue '' @ what @ '' directive: '') e ''''))
      | (s', r) \<Rightarrow> (s', r))"

definition event_timeout :: "'s Service \<Rightarrow> 's \<Rightarrow> WFType \<Rightarrow> string \<Rightarrow> u32 res" where
  "event_timeout m s wfType eventName =
     (case treg_GetEventDef (svc_registry m) s wfType eventName of
        Ok eventDef \<Rightarrow> Ok (if evd_TimeoutMS eventDef > 0 then evd_TimeoutMS eventDef else 0)
      | Err e \<Rightarrow> Ok 0
      | Panic p \<Rightarrow> Panic p)"

text \<open>\<^verbatim>\<open>%T\<close> of a command message.\<close>

fun go_cmd_type :: "CommandMessage option \<Rightarrow> string" where
  "go_cmd_type None = ''<nil>''"
| "go_cmd_type (Some (StartCmd _ _)) = ''*external.StartCmd''"
| "go_cmd_type (Some (CancelCmd _ _)) = ''*external.CancelCmd''"
| "go_cmd_type (Some (TerminateCmd _ _)) = ''*external.TerminateCmd''"
| "go_cmd_type (Some (DescribeCmd _)) = ''*external.DescribeCmd''"
| "go_cmd_type (Some (EventCmd _ _ _)) = ''*external.EventCmd''"
| "go_cmd_type (Some (RegisterCmd _ _)) = ''*external.RegisterCmd''"
| "go_cmd_type (Some (WorkerTerminateRunCmd _)) = ''*external.WorkerTerminateRunCmd''"

definition Send :: "runtime \<Rightarrow> 's Service \<Rightarrow> 's \<Rightarrow> Command \<Rightarrow> 's \<times> unit res" where
  "Send rt m s cmd =
     (case c_Msg cmd of
        Some (EventCmd wfID eventName payload) \<Rightarrow>
          (case andThen (active_run m s wfID) (\<lambda>runInfo.
                andThen (event_timeout m s (ri_WFType runInfo) eventName) (\<lambda>timeout.
                Ok \<lparr>d_ID = ulid rt At_Send_ID, d_Timestamp = now rt At_Send_Timestamp,
                    d_Kind = DirectiveKindEvent, d_RunInfo = runInfo, d_Attempt = 0,
                    d_Msg = Some (Event None eventName (any_of_ptr payload) timeout)\<rparr>)) of
             Err e \<Rightarrow> (s, Err e)
           | Panic p \<Rightarrow> (s, Panic p)
           | Ok directive \<Rightarrow> enqueue m s ''event'' directive)
      | msg \<Rightarrow> (s, Err (Errorf (''expected EventCmd message but got '' @ go_cmd_type msg))))"

definition DescribeRun :: "'s Service \<Rightarrow> 's \<Rightarrow> WFID \<Rightarrow> RunInfo res" where
  "DescribeRun m s wfID =
     orErrorf ''failed to get run info: '' (rst_GetRunByWFID (svc_store m) s wfID) (\<lambda>(runInfo, _). Ok runInfo)"

definition Terminate_run :: "runtime \<Rightarrow> 's Service \<Rightarrow> 's \<Rightarrow> Command \<Rightarrow> 's \<times> unit res" where
  "Terminate_run rt m s cmd =
     (case c_Msg cmd of
        Some (TerminateCmd wfID reason) \<Rightarrow>
          (case active_run m s wfID of
             Err e \<Rightarrow> (s, Err e)
           | Panic p \<Rightarrow> (s, Panic p)
           | Ok runInfo \<Rightarrow>
               enqueue m s ''terminate''
                 \<lparr>d_ID = ulid rt At_Terminate_ID, d_Timestamp = now rt At_Terminate_Timestamp,
                  d_Kind = DirectiveKindTerminate, d_RunInfo = runInfo, d_Attempt = 0,
                  d_Msg = Some (Terminate reason)\<rparr>)
      | msg \<Rightarrow> (s, Err (Errorf (''expected TerminateCmd message but got '' @ go_cmd_type msg))))"

definition Cancel_run :: "runtime \<Rightarrow> 's Service \<Rightarrow> 's \<Rightarrow> Command \<Rightarrow> 's \<times> unit res" where
  "Cancel_run rt m s cmd =
     (case c_Msg cmd of
        Some (CancelCmd wfID reason) \<Rightarrow>
          (case active_run m s wfID of
             Err e \<Rightarrow> (s, Err e)
           | Panic p \<Rightarrow> (s, Panic p)
           | Ok runInfo \<Rightarrow>
               enqueue m s ''cancel''
                 \<lparr>d_ID = ulid rt At_Cancel_ID, d_Timestamp = now rt At_Cancel_Timestamp,
                  d_Kind = DirectiveKindCancel, d_RunInfo = runInfo, d_Attempt = 0,
                  d_Msg = Some (Cancel reason)\<rparr>)
      | msg \<Rightarrow> (s, Err (Errorf (''expected CancelCmd message but got '' @ go_cmd_type msg))))"

section \<open>The store and the registry behind the service\<close>

definition store_run_store :: "runtime \<Rightarrow> ('s, 'b) jetstream \<Rightarrow> 's RunStore" where
  "store_run_store rt js =
     \<lparr>rst_CreateRunInfo = CreateRunInfo rt js, rst_GetRunByWFID = GetRunByWFID rt js,
      rst_PublishDirective = PublishDirective rt js\<rparr>"

definition store_type_registry :: "runtime \<Rightarrow> ('s, 'b) jetstream \<Rightarrow> 's TypeRegistry" where
  "store_type_registry rt js =
     \<lparr>treg_PutTypes = PutTypes rt js, treg_GetStartStepTimeout = GetStartStepTimeout rt js,
      treg_GetEventDef = GetEventDef rt js\<rparr>"

definition NewService :: "runtime \<Rightarrow> ('s, 'b) jetstream \<Rightarrow> DefaultsConfig \<Rightarrow> 's Service" where
  "NewService rt js config =
     \<lparr>svc_store = store_run_store rt js, svc_config = config, svc_registry = store_type_registry rt js\<rparr>"

section \<open>The contract of a run store\<close>

text \<open>
  \<open>abs\<close> is what a run store holds, \<open>created\<close> and \<open>published\<close> the effects of its two writes.
  A write that returns an error may still have had its effect; a run is only created when the
  last run of its workflow is finished or there is none.
\<close>

locale run_store =
  fixes rst :: "'s RunStore"
    and abs :: "'s \<Rightarrow> 'a"
    and created :: "'a \<Rightarrow> RunInfo \<Rightarrow> 'a option"
    and published :: "'a \<Rightarrow> Directive \<Rightarrow> 'a option"
  assumes publish_done:
      "rst_PublishDirective rst s d = (s', Ok u) \<Longrightarrow> published (abs s) d = Some (abs s')"
    and publish_error:
      "rst_PublishDirective rst s d = (s', Err e) \<Longrightarrow>
       abs s' = abs s \<or> published (abs s) d = Some (abs s')"
    and publish_panic: "rst_PublishDirective rst s d = (s', Panic p) \<Longrightarrow> abs s' = abs s"
    and create_done:
      "rst_CreateRunInfo rst s info = (s', Ok u) \<Longrightarrow>
       created (abs s) info = Some (abs s') \<and>
       (\<forall>ri q. rst_GetRunByWFID rst s (ri_WFID info) = Ok (ri, q) \<longrightarrow> RunInfo_IsTerminal ri)"
    and create_error:
      "rst_CreateRunInfo rst s info = (s', Err e) \<Longrightarrow>
       abs s' = abs s \<or> created (abs s) info = Some (abs s')"
    and create_refused:
      "rst_GetRunByWFID rst s (ri_WFID info) = Ok (ri, q) \<Longrightarrow> \<not> RunInfo_IsTerminal ri \<Longrightarrow>
       rst_CreateRunInfo rst s info =
         (s, Err (Wrapf '''' (Sentinel ErrWorkflowAlreadyRunning) ('': '' @ ri_ID ri)))"
    and create_panic: "rst_CreateRunInfo rst s info = (s', Panic p) \<Longrightarrow> abs s' = abs s"
begin

lemma enqueue_effect:
  assumes "enqueue m s what d = (s', r)" and "svc_store m = rst"
  shows "(abs s' = abs s \<or> published (abs s) d = Some (abs s')) \<and>
    (r = Ok () \<longrightarrow> published (abs s) d = Some (abs s'))"
  using assms publish_done publish_error publish_panic
  by (fastforce simp: enqueue_def split: prod.splits res.splits)

lemma StartRun_running:
  assumes "svc_store m = rst" and "rst_GetRunByWFID rst s (ri_WFID info) = Ok (ri, q)"
    and "\<not> RunInfo_IsTerminal ri" and "treg_GetStartStepTimeout (svc_registry m) s (ri_WFType info) = Ok t"
  shows "StartRun rt m s info inp =
    (s, [], Err (Wrapf '''' (Sentinel ErrWorkflowAlreadyRunning) ('': '' @ ri_ID ri)))"
  using assms create_refused [OF assms(2,3)] by (simp add: StartRun_def Let_def)

lemma StartRun_started:
  assumes "StartRun rt m s info inp = (s', ms, Ok ())" and "svc_store m = rst"
  shows "\<exists>t0 t a. treg_GetStartStepTimeout (svc_registry m) s (ri_WFType info) = Ok t0 \<and>
    t = (if t0 = 0 then uint32_ms (dc_StepTimeout (svc_config m)) else t0) \<and>
    (\<forall>ri q. rst_GetRunByWFID rst s (ri_WFID info) = Ok (ri, q) \<longrightarrow> RunInfo_IsTerminal ri) \<and>
    created (abs s) info = Some a \<and> published a (start_directive rt info inp t) = Some (abs s')"
proof -
  from assms obtain t0 s1 where t0: "treg_GetStartStepTimeout (svc_registry m) s (ri_WFType info) = Ok t0" and
    c: "rst_CreateRunInfo rst s info = (s1, Ok ())" and
    p: "rst_PublishDirective rst s1
      (start_directive rt info inp (if t0 = 0 then uint32_ms (dc_StepTimeout (svc_config m)) else t0)) = (s', Ok ())"
    by (auto simp: StartRun_def Let_def split: res.splits prod.splits)
  with create_done [OF c] publish_done [OF p] show ?thesis by blast
qed

lemma StartRun_effect:
  assumes "StartRun rt m s info inp = (s', ms, r)" and "svc_store m = rst"
  shows "abs s' = abs s \<or>
    (\<exists>t a. created (abs s) info = Some a \<and>
       (abs s' = a \<or> published a (start_directive rt info inp t) = Some (abs s')))"
proof (cases "treg_GetStartStepTimeout (svc_registry m) s (ri_WFType info)")
  case (Ok t0)
  let ?t = "if t0 = 0 then uint32_ms (dc_StepTimeout (svc_config m)) else t0"
  obtain s1 r1 where c: "rst_CreateRunInfo rst s info = (s1, r1)" by (cases "rst_CreateRunInfo rst s info")
  show ?thesis
  proof (cases r1)
    case created: (Ok u)
    obtain s2 r2 where p: "rst_PublishDirective rst s1 (start_directive rt info inp ?t) = (s2, r2)"
      by (cases "rst_PublishDirective rst s1 (start_directive rt info inp ?t)")
    with assms Ok c created have "s' = s2"
      by (auto simp: StartRun_def Let_def split: res.splits)
    with create_done [of s info s1 u] p publish_done publish_error publish_panic c created show ?thesis
      by (cases r2) fastforce+
  qed (use assms c Ok create_error [of s info s1] create_panic [of s info s1] in
      \<open>fastforce simp: StartRun_def Let_def\<close>)+
qed (use assms in \<open>auto simp: StartRun_def\<close>)

end

section \<open>The state store as a run store\<close>

definition write_msg :: "stream \<Rightarrow> bytes res \<Rightarrow> (bytes \<Rightarrow> nats_msg) \<Rightarrow> stream option" where
  "write_msg st data mk =
     (case data of
        Ok b \<Rightarrow> if publish_accepted st (mk b) then Some (publish_msg st (mk b)) else None
      | _ \<Rightarrow> None)"

definition run_info_msg :: "RunInfo \<Rightarrow> bytes \<Rightarrow> nats_msg" where
  "run_info_msg info data =
     \<lparr>nm_Subject = RunInfoKey Manifest (ri_WFType info) (ri_WFID info) (ri_ID info), nm_Header = [],
      nm_Data = data\<rparr>"

definition write_run_info :: "runtime \<Rightarrow> stream \<Rightarrow> RunInfo \<Rightarrow> stream option" where
  "write_run_info rt st info = write_msg st (marshal_RunInfo rt info) (run_info_msg info)"

definition write_directive :: "runtime \<Rightarrow> stream \<Rightarrow> Directive \<Rightarrow> stream option" where
  "write_directive rt st d = write_msg st (marshal_Directive rt d) (directive_msg d)"

context state_stream
begin

lemma PublishDirective_cases:
  assumes "PublishDirective rt js s d = (s', r)"
  shows "(case r of Ok u \<Rightarrow> write_directive rt (view s) d = Some (view s')
    | Err e \<Rightarrow> view s' = view s \<or> write_directive rt (view s) d = Some (view s')
    | Panic p \<Rightarrow> view s' = view s)"
proof (cases "marshal_Directive rt d")
  case (Ok data)
  obtain s1 e where "js_publish js s (directive_msg d data) = (s1, e)"
    by (cases "js_publish js s (directive_msg d data)")
  with assms Ok publish_ok [of s "directive_msg d data" s1] publish_failed [of s "directive_msg d data" s1]
  show ?thesis
    by (cases e) (auto simp: PublishDirective_def write_directive_def write_msg_def)
qed (use assms in \<open>auto simp: PublishDirective_def\<close>)

lemma CreateRunInfo_error:
  assumes "CreateRunInfo rt js s info = (s', r)"
  shows "(case r of Ok u \<Rightarrow> write_run_info rt (view s) info = Some (view s')
    | Err e \<Rightarrow> view s' = view s \<or> write_run_info rt (view s) info = Some (view s')
    | Panic p \<Rightarrow> view s' = view s)"
proof (cases "marshal_RunInfo rt info")
  case (Ok data)
  obtain s1 e where p: "js_publish js s (run_info_msg info data) = (s1, e)"
    by (cases "js_publish js s (run_info_msg info data)")
  then have "s' = s \<and> (\<forall>u. r \<noteq> Ok u) \<or> s' = s1 \<and> (r = Ok () \<and> e = None \<or> (\<exists>x. e = Some x) \<and> (\<exists>x. r = Err x))"
    using assms Ok by (auto simp: CreateRunInfo_def run_info_msg_def Let_def split: res.splits option.splits if_splits)
  with p Ok publish_ok [of s "run_info_msg info data" s1] publish_failed [of s "run_info_msg info data" s1]
  show ?thesis
    by (cases r) (auto simp: write_run_info_def write_msg_def)
qed (use assms in \<open>auto simp: CreateRunInfo_def Let_def split: res.splits if_splits\<close>)

lemma store_is_run_store:
  "run_store (store_run_store rt js) view (write_run_info rt) (write_directive rt)"
proof (unfold_locales, goal_cases)
  case (1 s d s' u)
  then show ?case using PublishDirective_cases [of rt s d s' "Ok u"] by (simp add: store_run_store_def)
next
  case (2 s d s' e)
  then show ?case using PublishDirective_cases [of rt s d s' "Err e"] by (simp add: store_run_store_def)
next
  case (3 s d s' p)
  then show ?case using PublishDirective_cases [of rt s d s' "Panic p"] by (simp add: store_run_store_def)
next
  case (4 s info s' u)
  then have "CreateRunInfo rt js s info = (s', Ok ())" by (simp add: store_run_store_def)
  with CreateRunInfo_error [OF this] CreateRunInfo_Ok [OF this] show ?case by (simp add: store_run_store_def)
next
  case (5 s info s' e)
  then show ?case using CreateRunInfo_error [of rt s info s' "Err e"] by (simp add: store_run_store_def)
next
  case (6 s info ri q)
  then show ?case by (simp add: store_run_store_def CreateRunInfo_def Let_def)
next
  case (7 s info s' p)
  then show ?case using CreateRunInfo_error [of rt s info s' "Panic p"] by (simp add: store_run_store_def)
qed

end

sublocale state_stream \<subseteq> runs: run_store "store_run_store rt js" view "write_run_info rt" "write_directive rt" for rt
  by (rule store_is_run_store)

section \<open>Properties of the service\<close>

lemma NewService_simps [simp]:
  "svc_store (NewService rt js c) = store_run_store rt js"
  "svc_config (NewService rt js c) = c"
  "svc_registry (NewService rt js c) = store_type_registry rt js"
  by (simp_all add: NewService_def)

lemma store_interfaces [simp]:
  "rst_GetRunByWFID (store_run_store rt js) = GetRunByWFID rt js"
  "rst_CreateRunInfo (store_run_store rt js) = CreateRunInfo rt js"
  "rst_PublishDirective (store_run_store rt js) = PublishDirective rt js"
  "treg_GetStartStepTimeout (store_type_registry rt js) = GetStartStepTimeout rt js"
  "treg_GetEventDef (store_type_registry rt js) = GetEventDef rt js"
  "treg_PutTypes (store_type_registry rt js) = PutTypes rt js"
  by (simp_all add: store_run_store_def store_type_registry_def)

text \<open>
  C21. A run is started only if its type is registered and its workflow has no active run, and
  then completely: a successful call has stored the run info and, after it, a start directive
  with the input of the client and the timeout of the type, or the default of the server if the
  type has none. A call for an unregistered type or for a running workflow changes nothing.
\<close>

theorem StartRun_starts:
  assumes "state_stream js view staged" and "StartRun rt (NewService rt js cfg) s info inp = (s', metrics, result)"
  shows "(result = Ok () \<longrightarrow>
      (\<exists>t0 st. GetStartStepTimeout rt js s (ri_WFType info) = Ok t0 \<and>
         (\<forall>ri q. GetRunByWFID rt js s (ri_WFID info) = Ok (ri, q) \<longrightarrow> RunInfo_IsTerminal ri) \<and>
         write_run_info rt (view s) info = Some st \<and>
         write_directive rt st (start_directive rt info inp
           (if t0 = 0 then uint32_ms (dc_StepTimeout cfg) else t0)) = Some (view s'))) \<and>
    (\<forall>e. GetStartStepTimeout rt js s (ri_WFType info) = Err e \<longrightarrow> s' = s \<and> result = Err e) \<and>
    (\<forall>t ri q. GetStartStepTimeout rt js s (ri_WFType info) = Ok t \<and>
       GetRunByWFID rt js s (ri_WFID info) = Ok (ri, q) \<and> \<not> RunInfo_IsTerminal ri \<longrightarrow>
       s' = s \<and> result = Err (Wrapf '''' (Sentinel ErrWorkflowAlreadyRunning) ('': '' @ ri_ID ri)))"
proof (intro conjI allI impI)
  note rs = state_stream.store_is_run_store [OF assms(1), of rt]
  assume "result = Ok ()"
  with run_store.StartRun_started [OF rs, of rt "NewService rt js cfg" s info inp s' metrics] assms(2)
  show "\<exists>t0 st. GetStartStepTimeout rt js s (ri_WFType info) = Ok t0 \<and>
         (\<forall>ri q. GetRunByWFID rt js s (ri_WFID info) = Ok (ri, q) \<longrightarrow> RunInfo_IsTerminal ri) \<and>
         write_run_info rt (view s) info = Some st \<and>
         write_directive rt st (start_directive rt info inp
           (if t0 = 0 then uint32_ms (dc_StepTimeout cfg) else t0)) = Some (view s')"
    by fastforce
next
  fix e
  assume "GetStartStepTimeout rt js s (ri_WFType info) = Err e"
  with assms(2) show "s' = s" "result = Err e" by (simp_all add: StartRun_def)
next
  note rs = state_stream.store_is_run_store [OF assms(1), of rt]
  fix t ri q
  assume "GetStartStepTimeout rt js s (ri_WFType info) = Ok t \<and>
       GetRunByWFID rt js s (ri_WFID info) = Ok (ri, q) \<and> \<not> RunInfo_IsTerminal ri"
  with run_store.StartRun_running [OF rs, of "NewService rt js cfg" s info ri q t] assms(2)
  show "s' = s" "result = Err (Wrapf '''' (Sentinel ErrWorkflowAlreadyRunning) ('': '' @ ri_ID ri))"
    by simp_all
qed

definition sample_registry :: stream where
  "sample_registry =
     \<lparr>st_msgs = [\<lparr>sm_Sequence = 1, sm_Subject = WorkflowTypeRegistrySubject Manifest ''order'', sm_Header = [],
        sm_Data = put_mp (enc_RegistryEntry
          \<lparr>re_WorkflowTypeDef = sample_type ''order'' 7, re_WorkerID = ''wk'', re_RegisteredAt = 5\<rparr>)\<rparr>],
      st_last = 1, st_ids = []\<rparr>"

lemma sample_registry_types:
  assumes "filter (\<lambda>x. sm_Subject x = WorkflowTypeRegistrySubject Manifest ''order'') (st_msgs st) = st_msgs sample_registry"
  shows "GetStartStepTimeout sample_rt mem_js st ''order'' = Ok 7"
proof -
  let ?e = "\<lparr>re_WorkflowTypeDef = sample_type ''order'' 7, re_WorkerID = ''wk'', re_RegisteredAt = 5\<rparr>"
  have "fits (enc_RegistryEntry ?e)"
    by (simp add: sample_type_def enc_RegistryEntry_def WorkflowTypeDef_fields_def enc_EventDef_def enc_u_def)
  moreover have "marshal_RegistryEntry sample_rt ?e = Ok (put_mp (enc_RegistryEntry ?e))"
    by (simp add: marshal_RegistryEntry_def sample_rt_def)
  ultimately have u: "unmarshal_RegistryEntry sample_rt (put_mp (enc_RegistryEntry ?e)) = Ok ?e"
    using unmarshal_marshal_RegistryEntry [OF codec_ok_sample] by blast
  have "last_match st (WorkflowTypeRegistrySubject Manifest ''order'') = Some (hd (st_msgs sample_registry))"
    using assms by (intro last_match_single) (simp_all add: sample_registry_def subject_literals sample_tokens)
  with u show ?thesis
    by (simp add: GetStartStepTimeout_def GetType_def mem_js_def) (simp add: sample_registry_def sample_type_def)
qed

lemma sample_registry_type: "GetStartStepTimeout sample_rt mem_js sample_registry ''order'' = Ok 7"
  by (rule sample_registry_types) (simp add: sample_registry_def)

lemma sample_registry_run: "last_match sample_registry (ListRunInfoByWFIDPattern Manifest ''*'' ''w1'') = None"
  by (simp add: last_match_def sample_registry_def subject_matches_def subject_tokens
      sample_tokens [unfolded token_def] star_plain)

lemma mem_js_ops:
  "js_publish mem_js st m = (if publish_accepted st m then (publish_msg st m, None)
     else (st, Some (APIError 10071 ''wrong last sequence'')))"
  "js_get_last mem_js st p =
     (case last_match st p of None \<Rightarrow> Err (LibErr ErrMsgNotFound ''nats: message not found'') | Some x \<Rightarrow> Ok x)"
  by (simp_all add: mem_js_def)

lemma sample_rt_ops:
  "mp_marshal sample_rt v = Ok (put_mp v)" "ulid sample_rt x = ''01J''" "now sample_rt x = 5"
  by (simp_all add: sample_rt_def)

lemma sample_registry_sel: "st_last sample_registry = 1" "st_ids sample_registry = []"
  by (simp_all add: sample_registry_def)

lemmas start_run_eval =
  StartRun_def sample_registry_type GetRunByWFID_def CreateRunInfo_def marshal_RunInfo_def PublishDirective_def
  marshal_Directive_def Directive_EncodeMsgpack_def start_directive_def Let_def

theorem StartRun_starts_witness:
  "\<exists>st' st. StartRun sample_rt (NewService sample_rt mem_js \<lparr>dc_StepTimeout = 1, dc_WaitTimeout = 1\<rparr>)
       sample_registry sample_ri None = (st', [RecordRunStarted ''order''], Ok ()) \<and>
     write_run_info sample_rt sample_registry sample_ri = Some st \<and>
     write_directive sample_rt st (start_directive sample_rt sample_ri None 7) = Some st'"
proof -
  let ?m = "NewService sample_rt mem_js \<lparr>dc_StepTimeout = 1, dc_WaitTimeout = 1\<rparr>"
  have t: "ri_WFType sample_ri = ''order''" "ri_WFID sample_ri = ''w1''" by (simp_all add: sample_ri_def)
  have "\<exists>st'. StartRun sample_rt ?m sample_registry sample_ri None = (st', [RecordRunStarted ''order''], Ok ())"
    by (simp add: start_run_eval t mem_js_ops sample_registry_run publish_accepted_def expectation_met_def
        is_duplicate_def directive_msg_def publish_msg_def sample_rt_ops sample_registry_sel store_msg_def
        del: put_mp.simps)
  then obtain st' where s: "StartRun sample_rt ?m sample_registry sample_ri None = (st', [RecordRunStarted ''order''], Ok ())" ..
  from StartRun_starts [OF mem.state_stream_axioms s, THEN conjunct1] s show ?thesis
    by (auto simp: t sample_registry_type)
qed

text \<open>
  C22. Starting a run is not atomic: if the start directive is lost after the run info was
  stored, the workflow is blocked. The client gets an error, no directive will ever start the
  run, and every later start of the same workflow is refused because of it.
\<close>

theorem lost_start_blocks_workflow:
  assumes "state_stream js view staged" and "codec_ok rt"
    and "list_all token [ri_WFType info, ri_WFID info, ri_ID info]"
    and "canonical_run_status (ri_Status info)" and "fits (enc_RunInfo info)" and "\<not> RunInfo_IsTerminal info"
    and "CreateRunInfo rt js s info = (s1, Ok ())"
    and "StartRun rt (NewService rt js cfg) s info inp = (s', metrics, Err e)" and "view s' = view s1"
    and "GetRunByWFID rt js s' (ri_WFID info) = Ok (ri, q)"
    and "ri_WFID info' = ri_WFID info" and "GetStartStepTimeout rt js s' (ri_WFType info') = Ok t"
  shows "StartRun rt (NewService rt js cfg) s' info' inp' =
    (s', [], Err (Wrapf '''' (Sentinel ErrWorkflowAlreadyRunning) ('': '' @ ri_ID info)))"
proof -
  note rs = state_stream.store_is_run_store [OF assms(1), of rt]
  have "ri = info"
    by (rule state_stream.CreateRunInfo_read [OF assms(1-5,7,9,10)])
  with run_store.StartRun_running [OF rs, of "NewService rt js cfg" s' info' info q t] assms(6,10-12)
  show ?thesis by simp
qed

text \<open>A stream that answers every published directive with a timeout.\<close>

definition deaf_js :: "(stream, nats_msg list) jetstream" where
  "deaf_js = mem_js\<lparr>js_publish := (\<lambda>st m.
     if HasPrefix (nm_Subject m) ''grctl_directive.'' then (st, Some (LibErr ErrTimeout ''nats: timeout''))
     else js_publish mem_js st m)\<rparr>"

lemma deaf_js_ops:
  "js_publish deaf_js st m = (if HasPrefix (nm_Subject m) ''grctl_directive.''
     then (st, Some (LibErr ErrTimeout ''nats: timeout'')) else js_publish mem_js st m)"
  "js_new_batch deaf_js = js_new_batch mem_js" "js_add_msg deaf_js = js_add_msg mem_js"
  "js_commit_msg deaf_js = js_commit_msg mem_js" "js_get_last deaf_js = js_get_last mem_js"
  "js_get_batch deaf_js = js_get_batch mem_js" "js_get_lasts deaf_js = js_get_lasts mem_js"
  "js_delete deaf_js = js_delete mem_js" "js_purge deaf_js = js_purge mem_js"
  by (simp_all add: deaf_js_def)

interpretation deaf: state_stream deaf_js "\<lambda>st. st" "\<lambda>b. b"
  using mem.publish_ok mem.publish_failed mem.new_batch mem.add_msg mem.commit_ok mem.commit_failed
    mem.get_last_ok mem.get_last_none mem.get_last_total mem.get_batch_ok mem.get_batch_total mem.get_lasts_ok
    mem.get_lasts_total mem.delete_ok mem.delete_failed mem.purge_ok mem.purge_failed
  by unfold_locales (auto simp: deaf_js_ops split: if_splits)

lemma deaf_reads:
  "GetStartStepTimeout rt deaf_js = GetStartStepTimeout rt mem_js" "GetRunByWFID rt deaf_js = GetRunByWFID rt mem_js"
  by (simp_all add: fun_eq_iff GetStartStepTimeout_def GetType_def GetRunByWFID_def deaf_js_ops)

lemma sample_created:
  "CreateRunInfo sample_rt deaf_js sample_registry sample_ri =
     (store_msg sample_registry (run_info_msg sample_ri (put_mp (enc_RunInfo sample_ri))), Ok ())"
proof -
  have ids: "ri_WFType sample_ri = ''order''" "ri_WFID sample_ri = ''w1''" "ri_ID sample_ri = ''r1''"
    by (simp_all add: sample_ri_def)
  have "\<not> HasPrefix (RunInfoKey Manifest ''order'' ''w1'' ''r1'') ''grctl_directive.''"
    by (simp add: subjects plain_def)
  then show ?thesis
    by (simp add: CreateRunInfo_def deaf_reads GetRunByWFID_def mem_js_ops deaf_js_ops ids sample_registry_run
        marshal_RunInfo_def sample_rt_ops publish_accepted_def publish_msg_def is_duplicate_def expectation_met_def
        sample_registry_sel run_info_msg_def Let_def)
qed

lemma sample_ri_wire:
  "list_all token [ri_WFType sample_ri, ri_WFID sample_ri, ri_ID sample_ri]"
  "canonical_run_status (ri_Status sample_ri)" "fits (enc_RunInfo sample_ri)" "\<not> RunInfo_IsTerminal sample_ri"
  by (simp_all add: sample_ri_def RunInfo_zero_def token_def plain_def dot_free_def canonical_run_status_def
      run_status_of_def enc_RunInfo_def omit_str_def omit_u_def RunInfo_IsTerminal_def RunStatus_IsTerminal_def)

theorem lost_start_blocks_workflow_witness:
  "\<exists>st' e. StartRun sample_rt (NewService sample_rt deaf_js \<lparr>dc_StepTimeout = 1, dc_WaitTimeout = 1\<rparr>)
       sample_registry sample_ri None = (st', [], Err e) \<and>
     StartRun sample_rt (NewService sample_rt deaf_js \<lparr>dc_StepTimeout = 1, dc_WaitTimeout = 1\<rparr>)
       st' (sample_ri\<lparr>ri_ID := ''r2''\<rparr>) None =
       (st', [], Err (Wrapf '''' (Sentinel ErrWorkflowAlreadyRunning) '': r1''))"
proof -
  let ?m = "NewService sample_rt deaf_js \<lparr>dc_StepTimeout = 1, dc_WaitTimeout = 1\<rparr>"
  let ?st = "store_msg sample_registry (run_info_msg sample_ri (put_mp (enc_RunInfo sample_ri)))"
  have ids: "ri_WFType sample_ri = ''order''" "ri_WFID sample_ri = ''w1''" "ri_ID sample_ri = ''r1''"
    by (simp_all add: sample_ri_def)
  have "HasPrefix (DirectiveSubject Manifest ''order'' ''w1'' ''r1'') ''grctl_directive.''"
    by (simp add: subjects plain_def)
  then obtain e where e: "StartRun sample_rt ?m sample_registry sample_ri None = (?st, [], Err e)"
    by (simp add: StartRun_def deaf_reads ids sample_registry_type sample_created PublishDirective_def deaf_js_ops
        directive_msg_def start_directive_def marshal_Directive_def Directive_EncodeMsgpack_def sample_rt_ops Let_def
        del: put_mp.simps)
  have msgs: "st_msgs ?st = st_msgs sample_registry @
      assign 1 [run_info_msg sample_ri (put_mp (enc_RunInfo sample_ri))]"
    using store_msg_msgs [of "run_info_msg sample_ri (put_mp (enc_RunInfo sample_ri))" sample_registry]
    by (simp add: run_info_msg_def no_rollup_def sample_registry_sel)
  have "RunInfoKey Manifest ''order'' ''w1'' ''r1'' \<noteq> WorkflowTypeRegistrySubject Manifest ''order''"
    by (simp add: subjects plain_def)
  then have t: "GetStartStepTimeout sample_rt deaf_js ?st ''order'' = Ok 7"
    using msgs by (simp add: deaf_reads, intro sample_registry_types) (simp add: run_info_msg_def ids sample_registry_def)
  obtain b where "marshal_RunInfo sample_rt sample_ri = Ok b" "unmarshal_RunInfo sample_rt b = Ok sample_ri"
    using RunInfo_wire_roundtrip [OF codec_ok_sample sample_ri_wire(2,3)] by blast
  then have "unmarshal_RunInfo sample_rt (put_mp (enc_RunInfo sample_ri)) = Ok sample_ri"
    by (simp add: marshal_RunInfo_def sample_rt_ops)
  moreover have "subject_matches (ListRunInfoByWFIDPattern Manifest ''*'' ''w1'') (RunInfoKey Manifest ''order'' ''w1'' ''r1'')"
    by (simp add: subject_matches_def subject_tokens sample_tokens [unfolded token_def] star_plain)
  ultimately obtain q where "GetRunByWFID sample_rt deaf_js ?st ''w1'' = Ok (sample_ri, q)"
    using last_match_append [OF msgs] by (simp add: deaf_reads GetRunByWFID_def mem_js_ops run_info_msg_def ids)
  with lost_start_blocks_workflow [OF deaf.state_stream_axioms codec_ok_sample sample_ri_wire sample_created e refl,
      of sample_ri q "sample_ri\<lparr>ri_ID := ''r2''\<rparr>" 7 None] e t ids
  show ?thesis by auto
qed

section \<open>A stream with an active run\<close>

definition sample_parent :: stream where
  "sample_parent = store_msg sample_registry (run_info_msg sample_ri (put_mp (enc_RunInfo sample_ri)))"

lemma sample_parent_run: "\<exists>q. GetRunByWFID sample_rt mem_js sample_parent ''w1'' = Ok (sample_ri, q)"
proof -
  have ids: "ri_WFType sample_ri = ''order''" "ri_WFID sample_ri = ''w1''" "ri_ID sample_ri = ''r1''"
    by (simp_all add: sample_ri_def)
  have msgs: "st_msgs sample_parent = st_msgs sample_registry @
      assign 1 [run_info_msg sample_ri (put_mp (enc_RunInfo sample_ri))]"
    using store_msg_msgs [of "run_info_msg sample_ri (put_mp (enc_RunInfo sample_ri))" sample_registry]
    by (simp add: sample_parent_def run_info_msg_def no_rollup_def sample_registry_sel)
  obtain b where "marshal_RunInfo sample_rt sample_ri = Ok b" "unmarshal_RunInfo sample_rt b = Ok sample_ri"
    using RunInfo_wire_roundtrip [OF codec_ok_sample sample_ri_wire(2,3)] by blast
  then have "unmarshal_RunInfo sample_rt (put_mp (enc_RunInfo sample_ri)) = Ok sample_ri"
    by (simp add: marshal_RunInfo_def sample_rt_ops)
  moreover have "subject_matches (ListRunInfoByWFIDPattern Manifest ''*'' ''w1'') (RunInfoKey Manifest ''order'' ''w1'' ''r1'')"
    by (simp add: subject_matches_def subject_tokens sample_tokens [unfolded token_def] star_plain)
  ultimately show ?thesis
    using last_match_append [OF msgs] by (simp add: GetRunByWFID_def mem_js_ops run_info_msg_def ids)
qed

end
