(* ===== verification/Api.thy ===== *)
theory Api
  imports Service
begin

text \<open>
  The command API (\<^verbatim>\<open>src/api/\<close>): the switch over the kinds of commands, the table of error
  codes, and the subscriber that decodes a request and answers it. The answer is the list of
  calls of \<^verbatim>\<open>msg.Respond\<close>; how Go prints a recovered panic is a parameter.
\<close>

section \<open>Errors of the API\<close>

record grctlError =
  ge_Code :: int
  ge_Message :: string
  ge_Detail :: string

definition grctlError_Error :: "grctlError \<Rightarrow> string" where
  "grctlError_Error e = ge_Message e @ '': '' @ ge_Detail e"

definition ApiErrorMap :: "(sentinel \<times> grctlError) list" where
  "ApiErrorMap =
     [(ErrUnknownAPICommand, \<lparr>ge_Code = 4000, ge_Message = ''Unknown API command'', ge_Detail = ''''\<rparr>),
      (ErrWorkflowAlreadyRunning,
       \<lparr>ge_Code = 4001, ge_Message = ''Workflow already has an active run'', ge_Detail = ''''\<rparr>),
      (ErrWorkflowRunNotFound, \<lparr>ge_Code = 4002, ge_Message = ''Workflow run not found'', ge_Detail = ''''\<rparr>),
      (ErrRunTerminal,
       \<lparr>ge_Code = 4003,
        ge_Message = ''Workflow run has already finished and cannot accept new commands'', ge_Detail = ''''\<rparr>),
      (ErrWorkflowTypeNotRegistered,
       \<lparr>ge_Code = 4004, ge_Message = ''Workflow type not registered'', ge_Detail = ''''\<rparr>),
      (ErrInvalidMessageType, \<lparr>ge_Code = 4005, ge_Message = ''Invalid message type'', ge_Detail = ''''\<rparr>)]"

text \<open>
  The loop over the table. Go iterates over a map in an unspecified order, so the entries are
  an argument of the loop.
\<close>

fun find_mapped :: "(sentinel \<times> grctlError) list \<Rightarrow> gerr \<Rightarrow> grctlError option" where
  "find_mapped [] err = None"
| "find_mapped ((sentinelErr, mappedErr) # entries) err =
     (if errors_is err sentinelErr then Some (mappedErr\<lparr>ge_Detail := err_text err\<rparr>)
      else find_mapped entries err)"

definition NewgrctlError_in :: "(sentinel \<times> grctlError) list \<Rightarrow> gerr option \<Rightarrow> grctlError" where
  "NewgrctlError_in entries err =
     (case err of
        None \<Rightarrow> \<lparr>ge_Code = 5000, ge_Message = ''Unknown error'', ge_Detail = ''''\<rparr>
      | Some e \<Rightarrow>
          (case find_mapped entries e of
             Some mapped \<Rightarrow> mapped
           | None \<Rightarrow> \<lparr>ge_Code = 5000, ge_Message = err_text e, ge_Detail = ''''\<rparr>))"

definition NewgrctlError :: "gerr option \<Rightarrow> grctlError" where
  "NewgrctlError = NewgrctlError_in ApiErrorMap"

section \<open>The handler of commands\<close>

text \<open>The error of a command whose message is not the one of its kind.\<close>

definition invalid_message :: "string \<Rightarrow> Command \<Rightarrow> gerr" where
  "invalid_message expected cmd =
     Wrapf '''' (Sentinel ErrInvalidMessageType)
       ('': expected '' @ expected @ '' for kind '' @ cmd_kind_str (c_Kind cmd) @ '', got '' @ go_cmd_type (c_Msg cmd))"

definition handleStart :: "runtime \<Rightarrow> 's Service \<Rightarrow> 's \<Rightarrow> Command \<Rightarrow> 's \<times> metric list \<times> unit res" where
  "handleStart rt svc s cmd =
     (case c_Msg cmd of
        Some (StartCmd info inp) \<Rightarrow> StartRun rt svc s info inp
      | _ \<Rightarrow> (s, [], Err (invalid_message ''StartCmd'' cmd)))"

definition handleCancel :: "runtime \<Rightarrow> 's Service \<Rightarrow> 's \<Rightarrow> Command \<Rightarrow> 's \<times> unit res" where
  "handleCancel rt svc s cmd =
     (case c_Msg cmd of
        Some (CancelCmd _ _) \<Rightarrow> Cancel_run rt svc s cmd
      | _ \<Rightarrow> (s, Err (invalid_message ''CancelCmd'' cmd)))"

definition handleDescribe :: "'s Service \<Rightarrow> 's \<Rightarrow> Command \<Rightarrow> RunInfo res" where
  "handleDescribe svc s cmd =
     (case c_Msg cmd of
        Some (DescribeCmd wfID) \<Rightarrow> DescribeRun svc s wfID
      | _ \<Rightarrow> Err (invalid_message ''DescribeCmd'' cmd))"

definition handleTerminate :: "runtime \<Rightarrow> 's Service \<Rightarrow> 's \<Rightarrow> Command \<Rightarrow> 's \<times> unit res" where
  "handleTerminate rt svc s cmd =
     (case c_Msg cmd of
        Some (TerminateCmd _ _) \<Rightarrow> Terminate_run rt svc s cmd
      | _ \<Rightarrow> (s, Err (invalid_message ''TerminateCmd'' cmd)))"

definition handleEvent :: "runtime \<Rightarrow> 's Service \<Rightarrow> 's \<Rightarrow> Command \<Rightarrow> 's \<times> unit res" where
  "handleEvent rt svc s cmd =
     (case c_Msg cmd of
        Some (EventCmd _ _ _) \<Rightarrow> Send rt svc s cmd
      | _ \<Rightarrow> (s, Err (invalid_message ''EventCmd'' cmd)))"

definition handleRegister :: "'s Service \<Rightarrow> 's \<Rightarrow> Command \<Rightarrow> 's \<times> unit res" where
  "handleRegister svc s cmd =
     (case c_Msg cmd of
        Some (RegisterCmd workerID types) \<Rightarrow> Register svc s workerID types
      | _ \<Rightarrow> (s, Err (invalid_message ''RegisterCmd'' cmd)))"

text \<open>
  The deferred call of the metrics sees the named result \<^verbatim>\<open>err\<close>; a panic has not set it, so a
  command that panics is counted as a success. The payload \<open>None\<close> is nil.
\<close>

definition no_payload :: "'s \<times> metric list \<times> unit res \<Rightarrow> 's \<times> metric list \<times> RunInfo option res" where
  "no_payload x = (case x of (s, ms, r) \<Rightarrow> (s, ms, andThen r (\<lambda>_. Ok None)))"

definition no_metrics :: "'s \<times> 'a res \<Rightarrow> 's \<times> metric list \<times> 'a res" where
  "no_metrics x = (case x of (s, r) \<Rightarrow> (s, [], r))"

definition dispatch_command ::
  "runtime \<Rightarrow> 's Service \<Rightarrow> 's \<Rightarrow> Command \<Rightarrow> 's \<times> metric list \<times> RunInfo option res" where
  "dispatch_command rt svc s msg =
     (case c_Kind msg of
        CmdKindRunStart \<Rightarrow> no_payload (handleStart rt svc s msg)
      | CmdKindRunCancel \<Rightarrow> no_payload (no_metrics (handleCancel rt svc s msg))
      | CmdKindRunDescribe \<Rightarrow> (s, [], andThen (handleDescribe svc s msg) (\<lambda>info. Ok (Some info)))
      | CmdKindRunTerminate \<Rightarrow> no_payload (no_metrics (handleTerminate rt svc s msg))
      | CmdKindRunEvent \<Rightarrow> no_payload (no_metrics (handleEvent rt svc s msg))
      | CmdKindWorkerRegister \<Rightarrow> no_payload (no_metrics (handleRegister svc s msg))
      | _ \<Rightarrow> (s, [], Err (Sentinel ErrUnknownAPICommand)))"

definition handleMessage ::
  "runtime \<Rightarrow> 's Service \<Rightarrow> 's \<Rightarrow> Command \<Rightarrow> 's \<times> metric list \<times> RunInfo option res" where
  "handleMessage rt svc s msg =
     (case dispatch_command rt svc s msg of
        (s', ms, r) \<Rightarrow>
          (s', ms @ [RecordAPICommand (cmd_kind_str (c_Kind msg)) (case r of Err e \<Rightarrow> False | _ \<Rightarrow> True)], r))"

section \<open>The subscriber\<close>

record GrctlAPIResponse =
  res_Success :: bool
  res_Payload :: "RunInfo option"
  res_Error :: "grctlError option"

definition enc_grctlError :: "grctlError \<Rightarrow> mp" where
  "enc_grctlError e = MMap
     ([(''code'', MInt (ge_Code e)), (''message'', MStr (ge_Message e))] @ omit_str ''detail'' (ge_Detail e))"

definition enc_GrctlAPIResponse :: "GrctlAPIResponse \<Rightarrow> mp" where
  "enc_GrctlAPIResponse r = MMap
     ([(''success'', MBool (res_Success r))]
      @ omit_nil ''payload'' enc_RunInfo (res_Payload r)
      @ omit_nil ''error'' enc_grctlError (res_Error r))"

definition error_response :: "grctlError \<Rightarrow> GrctlAPIResponse" where
  "error_response e = \<lparr>res_Success = False, res_Payload = None, res_Error = Some e\<rparr>"

definition success_response :: "RunInfo option \<Rightarrow> GrctlAPIResponse" where
  "success_response payload = \<lparr>res_Success = True, res_Payload = payload, res_Error = None\<rparr>"

definition respondWithError :: "runtime \<Rightarrow> grctlError \<Rightarrow> bytes list res" where
  "respondWithError rt grctlErr =
     (case mp_marshal rt (enc_GrctlAPIResponse (error_response grctlErr)) of
        Err e \<Rightarrow> Ok []
      | Panic p \<Rightarrow> Panic p
      | Ok resBytes \<Rightarrow> Ok [resBytes])"

text \<open>The body of the subscription callback, without its recovery.\<close>

definition handler_body ::
  "runtime \<Rightarrow> 's Service \<Rightarrow> 's \<Rightarrow> bytes \<Rightarrow> 's \<times> metric list \<times> bytes list res" where
  "handler_body rt svc s data =
     (case unmarshal_Command rt data of
        Err e \<Rightarrow> (s, [], respondWithError rt (NewgrctlError (Some e)))
      | Panic p \<Rightarrow> (s, [], Panic p)
      | Ok c \<Rightarrow>
          (case handleMessage rt svc s c of
             (s', ms, Err e) \<Rightarrow> (s', ms, respondWithError rt (NewgrctlError (Some e)))
           | (s', ms, Panic p) \<Rightarrow> (s', ms, Panic p)
           | (s', ms, Ok payload) \<Rightarrow>
               (s', ms,
                case mp_marshal rt (enc_GrctlAPIResponse (success_response payload)) of
                  Err e \<Rightarrow> respondWithError rt (NewgrctlError (Some e))
                | Panic p \<Rightarrow> Panic p
                | Ok resBytes \<Rightarrow> Ok [resBytes])))"

definition panic_response :: "(string \<Rightarrow> string) \<Rightarrow> string \<Rightarrow> GrctlAPIResponse" where
  "panic_response sprint p =
     error_response \<lparr>ge_Code = 0, ge_Message = ''internal error: '' @ sprint p, ge_Detail = ''''\<rparr>"

definition api_handler ::
  "runtime \<Rightarrow> (string \<Rightarrow> string) \<Rightarrow> 's Service \<Rightarrow> 's \<Rightarrow> bytes \<Rightarrow> 's \<times> metric list \<times> bytes list res" where
  "api_handler rt sprint svc s data =
     (case handler_body rt svc s data of
        (s', ms, Panic p) \<Rightarrow>
          (s', ms,
           case mp_marshal rt (enc_GrctlAPIResponse (panic_response sprint p)) of
             Ok resBytes \<Rightarrow> Ok [resBytes]
           | Err e \<Rightarrow> Ok []
           | Panic q \<Rightarrow> Panic q)
      | x \<Rightarrow> x)"

text \<open>\<^verbatim>\<open>Start\<close> subscribes to the subject of the API; \<^verbatim>\<open>nc.Subscribe\<close> is a parameter.\<close>

definition api_Start :: "('s \<Rightarrow> string \<Rightarrow> 's \<times> 'x res) \<Rightarrow> 's \<Rightarrow> 's \<times> 'x res" where
  "api_Start subscribe s =
     (case subscribe s (APISubjectListener Manifest) of
        (s', Err e) \<Rightarrow>
          (s', Err (Wrapf (''failed to subscribe to API subject '' @ APISubjectListener Manifest @ '': '') e ''''))
      | (s', r) \<Rightarrow> (s', r))"

section \<open>Error codes\<close>

lemma find_mapped_Some:
  assumes "find_mapped entries err = Some e"
  shows "\<exists>s m. (s, m) \<in> set entries \<and> errors_is err s \<and> e = m\<lparr>ge_Detail := err_text err\<rparr>"
  using assms by (induction entries err rule: find_mapped.induct) (auto split: if_splits)

lemma find_mapped_hit:
  assumes "(s, m) \<in> set entries" and "errors_is err s" and "\<forall>m'. (s, m') \<in> set entries \<longrightarrow> m' = m"
  shows "find_mapped entries err = Some (m\<lparr>ge_Detail := err_text err\<rparr>)"
  using assms
proof (induction entries err rule: find_mapped.induct)
  case (2 t m' entries err)
  show ?case
  proof (cases "errors_is err t")
    case True
    with errors_is_unique [OF True "2.prems"(2)] "2.prems"(3) have "m' = m" by (meson list.set_intros(1))
    with True show ?thesis by simp
  next
    case False
    with "2.prems"(1,2) have "(s, m) \<in> set entries" by auto
    moreover have "\<forall>m'. (s, m') \<in> set entries \<longrightarrow> m' = m" using "2.prems"(3) by (meson list.set_intros(2))
    ultimately have "find_mapped entries err = Some (m\<lparr>ge_Detail := err_text err\<rparr>)"
      using "2.IH" [OF False] "2.prems"(2) by blast
    with False show ?thesis by simp
  qed
qed simp

lemma find_mapped_none: "find_mapped entries err = None \<longleftrightarrow> (\<forall>s m. (s, m) \<in> set entries \<longrightarrow> \<not> errors_is err s)"
  by (induction entries err rule: find_mapped.induct) auto

lemma ApiErrorMap_keys: "(s, m) \<in> set ApiErrorMap \<Longrightarrow> (s, m') \<in> set ApiErrorMap \<Longrightarrow> m' = m"
  by (auto simp: ApiErrorMap_def)

lemma NewgrctlError_hit:
  assumes "set entries = set ApiErrorMap" and "(s, m) \<in> set ApiErrorMap" and "errors_is err s"
  shows "NewgrctlError_in entries (Some err) = m\<lparr>ge_Detail := err_text err\<rparr>"
proof -
  have "\<forall>m'. (s, m') \<in> set entries \<longrightarrow> m' = m" using ApiErrorMap_keys [OF assms(2)] assms(1) by blast
  from find_mapped_hit [OF _ assms(3) this] assms(1,2) have "find_mapped entries err = Some (m\<lparr>ge_Detail := err_text err\<rparr>)"
    by blast
  then show ?thesis by (simp add: NewgrctlError_in_def)
qed

text \<open>
  The code a client sees does not depend on the order in which Go iterates over the error
  table, although the loop stops at the first match: every order of the entries gives the same
  answer, an error that wraps a listed sentinel has the code and the message of its entry with
  the whole text as detail, and any other error has the code 5000.
\<close>

lemma error_table_order_irrelevant:
  assumes "set entries = set ApiErrorMap"
  shows "NewgrctlError_in entries err = NewgrctlError err \<and>
    (\<forall>e s m. err = Some e \<longrightarrow> (s, m) \<in> set ApiErrorMap \<longrightarrow> errors_is e s \<longrightarrow>
       NewgrctlError err = m\<lparr>ge_Detail := err_text e\<rparr>) \<and>
    (\<forall>e. err = Some e \<longrightarrow> (\<forall>s m. (s, m) \<in> set ApiErrorMap \<longrightarrow> \<not> errors_is e s) \<longrightarrow>
       NewgrctlError err = \<lparr>ge_Code = 5000, ge_Message = err_text e, ge_Detail = ''''\<rparr>)"
proof (intro conjI allI impI)
  show "NewgrctlError_in entries err = NewgrctlError err"
  proof (cases err)
    case None
    then show ?thesis by (simp add: NewgrctlError_def NewgrctlError_in_def)
  next
    case (Some e)
    show ?thesis
    proof (cases "find_mapped ApiErrorMap e")
      case None
      with assms have "find_mapped entries e = None" unfolding find_mapped_none by simp
      with None Some show ?thesis by (simp add: NewgrctlError_def NewgrctlError_in_def)
    next
      case (Some x)
      then obtain s m where "(s, m) \<in> set ApiErrorMap" "errors_is e s"
        using find_mapped_Some by blast
      with \<open>err = Some e\<close> NewgrctlError_hit [OF assms] NewgrctlError_hit [OF refl] show ?thesis
        unfolding NewgrctlError_def by metis
    qed
  qed
next
  fix e s m
  assume "err = Some e" "(s, m) \<in> set ApiErrorMap" "errors_is e s"
  then show "NewgrctlError err = m\<lparr>ge_Detail := err_text e\<rparr>"
    using NewgrctlError_hit [OF refl] unfolding NewgrctlError_def by metis
next
  fix e
  assume "err = Some e" "\<forall>s m. (s, m) \<in> set ApiErrorMap \<longrightarrow> \<not> errors_is e s"
  then show "NewgrctlError err = \<lparr>ge_Code = 5000, ge_Message = err_text e, ge_Detail = ''''\<rparr>"
    using find_mapped_none [of ApiErrorMap e] by (simp add: NewgrctlError_def NewgrctlError_in_def)
qed

lemma error_table_order_irrelevant_witness:
  "NewgrctlError_in (rev ApiErrorMap) (Some (Wrapf ''failed: '' (Sentinel ErrRunTerminal) '''')) =
     NewgrctlError (Some (Wrapf ''failed: '' (Sentinel ErrRunTerminal) '''')) \<and>
   ge_Code (NewgrctlError (Some (Wrapf ''failed: '' (Sentinel ErrRunTerminal) ''''))) = 4003"
proof -
  let ?e = "Wrapf ''failed: '' (Sentinel ErrRunTerminal) ''''"
  let ?m = "\<lparr>ge_Code = 4003, ge_Message = ''Workflow run has already finished and cannot accept new commands'',
    ge_Detail = ''''\<rparr>"
  have m: "(ErrRunTerminal, ?m) \<in> set ApiErrorMap" by (simp add: ApiErrorMap_def)
  have "set (rev ApiErrorMap) = set ApiErrorMap" by simp
  note order = error_table_order_irrelevant [OF this, of "Some ?e"]
  from order [THEN conjunct2, THEN conjunct1, rule_format, OF refl m] order [THEN conjunct1] show ?thesis by simp
qed

section \<open>Every request is answered\<close>

text \<open>
  What the answers to a request may be: one error response; one success response, for a
  command that was decoded and carried out; or nothing, if an error response could not be
  encoded.
\<close>

definition proper_answers :: "runtime \<Rightarrow> 's Service \<Rightarrow> 's \<Rightarrow> bytes \<Rightarrow> 's \<Rightarrow> bytes list \<Rightarrow> bool" where
  "proper_answers rt svc s data s' answers \<longleftrightarrow>
     (case answers of
        [] \<Rightarrow> (\<exists>ge e. mp_marshal rt (enc_GrctlAPIResponse (error_response ge)) = Err e)
      | [b] \<Rightarrow>
          (\<exists>ge. mp_marshal rt (enc_GrctlAPIResponse (error_response ge)) = Ok b) \<or>
          (\<exists>c payload ms. unmarshal_Command rt data = Ok c \<and> handleMessage rt svc s c = (s', ms, Ok payload) \<and>
             mp_marshal rt (enc_GrctlAPIResponse (success_response payload)) = Ok b)
      | _ \<Rightarrow> False)"

lemma respondWithError_proper:
  assumes "\<And>v p. mp_marshal rt v \<noteq> Panic p" and "r = respondWithError rt ge"
  shows "\<exists>answers. r = Ok answers \<and> proper_answers rt svc s data s' answers"
  using assms by (cases "mp_marshal rt (enc_GrctlAPIResponse (error_response ge))")
    (auto simp: respondWithError_def proper_answers_def)

lemma success_proper:
  assumes "\<And>v p. mp_marshal rt v \<noteq> Panic p"
    and "unmarshal_Command rt data = Ok c" and "handleMessage rt svc s c = (s', ms, Ok payload)"
    and "r = (case mp_marshal rt (enc_GrctlAPIResponse (success_response payload)) of
      Err e \<Rightarrow> respondWithError rt (NewgrctlError (Some e)) | Panic p \<Rightarrow> Panic p | Ok b \<Rightarrow> Ok [b])"
  shows "\<exists>answers. r = Ok answers \<and> proper_answers rt svc s data s' answers"
proof (cases "mp_marshal rt (enc_GrctlAPIResponse (success_response payload))")
  case (Ok b)
  with assms(2,3) have "proper_answers rt svc s data s' [b]" unfolding proper_answers_def by auto
  with Ok assms(4) show ?thesis by simp
qed (use assms respondWithError_proper [OF assms(1)] in auto)

lemma handler_body_proper:
  assumes "\<And>v p. mp_marshal rt v \<noteq> Panic p" and "handler_body rt svc s data = (s', ms, r)"
    and "\<forall>p. r \<noteq> Panic p"
  shows "\<exists>answers. r = Ok answers \<and> proper_answers rt svc s data s' answers"
proof (cases "unmarshal_Command rt data")
  case (Ok c)
  obtain s1 ms1 r1 where h: "handleMessage rt svc s c = (s1, ms1, r1)" by (cases "handleMessage rt svc s c")
  show ?thesis
  proof (cases r1)
    case carried: (Ok payload)
    with Ok h assms(2) have h': "handleMessage rt svc s c = (s', ms1, Ok payload)" and r: "r = (case mp_marshal rt (enc_GrctlAPIResponse (success_response payload)) of
        Err e \<Rightarrow> respondWithError rt (NewgrctlError (Some e)) | Panic p \<Rightarrow> Panic p | Ok b \<Rightarrow> Ok [b])"
      by (simp_all add: handler_body_def)
    show ?thesis by (rule success_proper [OF assms(1) Ok h' r])
  next
    case (Err e)
    with Ok h assms(2) have "r = respondWithError rt (NewgrctlError (Some e))" by (simp add: handler_body_def)
    then show ?thesis by (rule respondWithError_proper [OF assms(1)])
  qed (use Ok h assms(2,3) in \<open>auto simp: handler_body_def\<close>)
next
  case (Err e)
  with assms(2) have "r = respondWithError rt (NewgrctlError (Some e))" by (simp add: handler_body_def)
  then show ?thesis by (rule respondWithError_proper [OF assms(1)])
qed (use assms(2,3) in \<open>auto simp: handler_body_def\<close>)

lemma panic_proper:
  assumes "\<And>v p. mp_marshal rt v \<noteq> Panic p"
    and "r = (case mp_marshal rt (enc_GrctlAPIResponse (panic_response sprint p)) of
      Ok resBytes \<Rightarrow> Ok [resBytes] | Err e \<Rightarrow> Ok [] | Panic q \<Rightarrow> Panic q)"
  shows "\<exists>answers. r = Ok answers \<and> proper_answers rt svc s data s' answers"
  using assms by (cases "mp_marshal rt (enc_GrctlAPIResponse (panic_response sprint p))")
    (auto simp: proper_answers_def panic_response_def)

text \<open>
  C34. A request to the API is answered at most once, and an answer is missing only when an
  error response itself could not be encoded: malformed requests, unknown commands, failed
  commands, responses that cannot be encoded and panics in a handler all end in one answer.
  It says success only if the command was decoded and carried out, and a command that was
  carried out is answered with success whenever its response can be encoded.
\<close>

theorem api_request_answered:
  assumes "\<And>v p. mp_marshal rt v \<noteq> Panic p" and "api_handler rt sprint svc s data = (s', ms, r)"
  shows "\<exists>answers. r = Ok answers \<and> proper_answers rt svc s data s' answers \<and>
    (\<forall>c payload s1 ms1 b. unmarshal_Command rt data = Ok c \<longrightarrow> handleMessage rt svc s c = (s1, ms1, Ok payload) \<longrightarrow>
       mp_marshal rt (enc_GrctlAPIResponse (success_response payload)) = Ok b \<longrightarrow> answers = [b] \<and> s' = s1)"
proof -
  obtain s1 ms1 r1 where b: "handler_body rt svc s data = (s1, ms1, r1)" by (cases "handler_body rt svc s data")
  have "\<exists>answers. r = Ok answers \<and> proper_answers rt svc s data s' answers"
  proof (cases "\<exists>p. r1 = Panic p")
    case True
    then obtain p where "r1 = Panic p" ..
    with assms(2) b have "r = (case mp_marshal rt (enc_GrctlAPIResponse (panic_response sprint p)) of
        Ok resBytes \<Rightarrow> Ok [resBytes] | Err e \<Rightarrow> Ok [] | Panic q \<Rightarrow> Panic q)"
      by (simp add: api_handler_def)
    then show ?thesis by (rule panic_proper [OF assms(1)])
  next
    case False
    then have "s' = s1" "r = r1" using assms(2) b by (auto simp: api_handler_def split: res.splits)
    moreover have "\<exists>answers. r1 = Ok answers \<and> proper_answers rt svc s data s1 answers"
      by (rule handler_body_proper [OF assms(1) b]) (use False in blast)
    ultimately show ?thesis by simp
  qed
  with assms(2) show ?thesis by (fastforce simp: api_handler_def handler_body_def)
qed

theorem api_request_answered_witness:
  "\<exists>b. api_handler sample_rt (\<lambda>p. p) (NewService sample_rt mem_js \<lparr>dc_StepTimeout = 1, dc_WaitTimeout = 1\<rparr>)
       stream_empty [] = (stream_empty, [], Ok [b]) \<and>
     proper_answers sample_rt (NewService sample_rt mem_js \<lparr>dc_StepTimeout = 1, dc_WaitTimeout = 1\<rparr>)
       stream_empty [] stream_empty [b]"
proof -
  let ?svc = "NewService sample_rt mem_js \<lparr>dc_StepTimeout = 1, dc_WaitTimeout = 1\<rparr>"
  have "\<exists>b. api_handler sample_rt (\<lambda>p. p) ?svc stream_empty [] = (stream_empty, [], Ok [b])"
    by (simp add: api_handler_def handler_body_def unmarshal_Command_def respondWithError_def sample_rt_def
        unput_mp_def del: put_mp.simps)
  then obtain b where b: "api_handler sample_rt (\<lambda>p. p) ?svc stream_empty [] = (stream_empty, [], Ok [b])" ..
  have "\<And>v p. mp_marshal sample_rt v \<noteq> Panic p" by (simp add: sample_rt_ops)
  from api_request_answered [OF this b] b show ?thesis by auto
qed

section \<open>Commands to a run\<close>

text \<open>The workflow and the kind of directive of a well-formed command to a run.\<close>

definition run_command :: "Command \<Rightarrow> (WFID \<times> DirectiveKind) option" where
  "run_command c =
     (case (c_Kind c, c_Msg c) of
        (CmdKindRunCancel, Some (CancelCmd w _)) \<Rightarrow> Some (w, DirectiveKindCancel)
      | (CmdKindRunTerminate, Some (TerminateCmd w _)) \<Rightarrow> Some (w, DirectiveKindTerminate)
      | (CmdKindRunEvent, Some (EventCmd w _ _)) \<Rightarrow> Some (w, DirectiveKindEvent)
      | _ \<Rightarrow> None)"

text \<open>
  Such a command looks up the run and then publishes one directive made from its run info, or
  ends in an error before anything is published.
\<close>

lemma answer_simps:
  "no_payload (no_metrics (s, Err e)) = (s, [], Err e)" "no_payload (no_metrics (s, Panic p)) = (s, [], Panic p)"
  "no_payload (no_metrics (s, Ok u)) = (s, [], Ok None)"
  by (simp_all add: no_payload_def no_metrics_def)

lemma run_command_dispatch:
  assumes "run_command c = Some (w, dk)"
  shows "(\<exists>e. active_run svc s w = Err e \<and> dispatch_command rt svc s c = (s, [], Err e)) \<or>
    (\<exists>p. (\<forall>e. active_run svc s w \<noteq> Err e) \<and> dispatch_command rt svc s c = (s, [], Panic p)) \<or>
    (\<exists>ri what d. active_run svc s w = Ok ri \<and> d_RunInfo d = ri \<and> d_Kind d = dk \<and>
       dispatch_command rt svc s c = no_payload (no_metrics (enqueue svc s what d)))"
proof -
  consider reason where "c_Kind c = CmdKindRunCancel" "c_Msg c = Some (CancelCmd w reason)" "dk = DirectiveKindCancel"
    | reason where "c_Kind c = CmdKindRunTerminate" "c_Msg c = Some (TerminateCmd w reason)"
        "dk = DirectiveKindTerminate"
    | name payload where "c_Kind c = CmdKindRunEvent" "c_Msg c = Some (EventCmd w name payload)"
        "dk = DirectiveKindEvent"
    using assms by (auto simp: run_command_def split: CmdKind.splits option.splits CommandMessage.splits)
  then show ?thesis
  proof cases
    case 1
    let ?d = "\<lambda>ri. \<lparr>d_ID = ulid rt At_Cancel_ID, d_Timestamp = now rt At_Cancel_Timestamp,
      d_Kind = DirectiveKindCancel, d_RunInfo = ri, d_Attempt = 0, d_Msg = Some (Cancel reason)\<rparr>"
    from 1 show ?thesis
      by (cases "active_run svc s w")
        (auto simp: dispatch_command_def handleCancel_def Cancel_run_def answer_simps
          intro!: exI [of _ "?d _"] exI [of _ "''cancel''"])
  next
    case 2
    let ?d = "\<lambda>ri. \<lparr>d_ID = ulid rt At_Terminate_ID, d_Timestamp = now rt At_Terminate_Timestamp,
      d_Kind = DirectiveKindTerminate, d_RunInfo = ri, d_Attempt = 0, d_Msg = Some (Terminate reason)\<rparr>"
    from 2 show ?thesis
      by (cases "active_run svc s w")
        (auto simp: dispatch_command_def handleTerminate_def Terminate_run_def answer_simps
          intro!: exI [of _ "?d _"] exI [of _ "''terminate''"])
  next
    case 3
    let ?d = "\<lambda>ri t. \<lparr>d_ID = ulid rt At_Send_ID, d_Timestamp = now rt At_Send_Timestamp,
      d_Kind = DirectiveKindEvent, d_RunInfo = ri, d_Attempt = 0,
      d_Msg = Some (Event None name (any_of_ptr payload) t)\<rparr>"
    note defs = dispatch_command_def handleEvent_def Send_def answer_simps
    show ?thesis
    proof (cases "active_run svc s w")
      case (Ok ri)
      with 3 show ?thesis
        by (cases "event_timeout svc s (ri_WFType ri) name")
          (auto simp: defs event_timeout_def intro!: exI [of _ "?d _ _"] exI [of _ "''event''"] split: res.splits)
    qed (use 3 in \<open>auto simp: defs\<close>)
  qed
qed

lemma api_code:
  "(s, m) \<in> set ApiErrorMap \<Longrightarrow> errors_is e s \<Longrightarrow> ge_Code (NewgrctlError (Some e)) = ge_Code m"
  using NewgrctlError_hit [OF refl] by (simp add: NewgrctlError_def)

lemma api_codes:
  "errors_is e ErrRunTerminal \<Longrightarrow> ge_Code (NewgrctlError (Some e)) = 4003"
  "errors_is e ErrWorkflowRunNotFound \<Longrightarrow> ge_Code (NewgrctlError (Some e)) = 4002"
  using api_code [of ErrRunTerminal _ e] api_code [of ErrWorkflowRunNotFound _ e]
  by (auto simp: ApiErrorMap_def)

text \<open>
  C33. A command to a run - cancel, terminate or an event - takes effect only on a run that is
  there and has not finished: when it is answered with success, exactly one directive of its
  kind was added to the stream, and it carries the run info of the last run of the workflow.
  If that run has finished, the stream is unchanged and the client sees the code 4003; if
  the workflow has no run, it sees 4002.
\<close>

theorem command_needs_active_run:
  assumes "state_stream js view staged" and "run_command c = Some (w, dk)"
    and "handleMessage rt (NewService rt js cfg) s c = (s', ms, r)"
  shows "(\<forall>p. r = Ok p \<longrightarrow> p = None \<and>
       (\<exists>ri q d. GetRunByWFID rt js s w = Ok (ri, q) \<and> \<not> RunStatus_IsTerminal (ri_Status ri) \<and>
          d_RunInfo d = ri \<and> d_Kind d = dk \<and> write_directive rt (view s) d = Some (view s'))) \<and>
    (\<forall>ri q. GetRunByWFID rt js s w = Ok (ri, q) \<longrightarrow> RunStatus_IsTerminal (ri_Status ri) \<longrightarrow>
       s' = s \<and> (\<exists>e. r = Err e \<and> ge_Code (NewgrctlError (Some e)) = 4003)) \<and>
    (\<forall>e. GetRunByWFID rt js s w = Err e \<longrightarrow> errors_is e ErrWorkflowRunNotFound \<longrightarrow>
       s' = s \<and> (\<exists>e. r = Err e \<and> ge_Code (NewgrctlError (Some e)) = 4002))"
proof -
  let ?svc = "NewService rt js cfg"
  from assms(3) obtain ms0 where d: "dispatch_command rt ?svc s c = (s', ms0, r)"
    by (auto simp: handleMessage_def split: prod.splits)
  note cases = run_command_dispatch [OF assms(2), of ?svc s rt, unfolded d]
  have "p = None \<and> (\<exists>ri q d. GetRunByWFID rt js s w = Ok (ri, q) \<and> \<not> RunStatus_IsTerminal (ri_Status ri) \<and>
      d_RunInfo d = ri \<and> d_Kind d = dk \<and> write_directive rt (view s) d = Some (view s'))" if r: "r = Ok p" for p
  proof -
    from cases r obtain ri what d where a: "active_run ?svc s w = Ok ri" "d_RunInfo d = ri" "d_Kind d = dk"
      and e: "(s', ms0, r) = no_payload (no_metrics (enqueue ?svc s what d))" by auto
    obtain s1 r1 where q: "enqueue ?svc s what d = (s1, r1)" by fastforce
    with e r have "r1 = Ok ()" "s1 = s'" "p = None"
      by (cases r1; simp add: answer_simps)+
    with run_store.enqueue_effect [OF state_stream.store_is_run_store [OF assms(1)] q] a show ?thesis
      by (auto simp: active_run_def split: if_splits)
  qed
  moreover have "s' = s \<and> r = Err e" if "active_run ?svc s w = Err e" for e
    using cases that by auto
  ultimately show ?thesis
    using api_codes by (auto simp: active_run_def)
qed

theorem command_needs_active_run_witness:
  "\<exists>st d. handleMessage sample_rt (NewService sample_rt mem_js \<lparr>dc_StepTimeout = 1, dc_WaitTimeout = 1\<rparr>) sample_parent
       \<lparr>c_ID = ''c1'', c_Kind = CmdKindRunTerminate, c_Timestamp = 5, c_Msg = Some (TerminateCmd ''w1'' ''stop''),
        c_SenderID = ''me''\<rparr> = (st, [RecordAPICommand ''run.terminate'' True], Ok None) \<and>
     d_Kind d = DirectiveKindTerminate \<and> d_RunInfo d = sample_ri \<and>
     write_directive sample_rt sample_parent d = Some st"
proof -
  let ?svc = "NewService sample_rt mem_js \<lparr>dc_StepTimeout = 1, dc_WaitTimeout = 1\<rparr>"
  let ?c = "\<lparr>c_ID = ''c1'', c_Kind = CmdKindRunTerminate, c_Timestamp = 5,
    c_Msg = Some (TerminateCmd ''w1'' ''stop''), c_SenderID = ''me''\<rparr>"
  obtain q where g: "GetRunByWFID sample_rt mem_js sample_parent ''w1'' = Ok (sample_ri, q)"
    using sample_parent_run ..
  have a: "\<not> RunStatus_IsTerminal (ri_Status sample_ri)"
    by (simp add: sample_ri_def RunInfo_zero_def RunStatus_IsTerminal_def)
  have ids: "st_last sample_parent = 2" "st_ids sample_parent = []"
    by (simp_all add: sample_parent_def store_msg_def run_info_msg_def sample_registry_sel)
  have "\<exists>st. handleMessage sample_rt ?svc sample_parent ?c = (st, [RecordAPICommand ''run.terminate'' True], Ok None)"
    using g a
    by (simp add: handleMessage_def dispatch_command_def handleTerminate_def Terminate_run_def active_run_def
        enqueue_def PublishDirective_def marshal_Directive_def Directive_EncodeMsgpack_def sample_rt_ops mem_js_ops
        publish_accepted_def expectation_met_def is_duplicate_def directive_msg_def ids answer_simps
        del: put_mp.simps)
  then obtain st where h: "handleMessage sample_rt ?svc sample_parent ?c =
      (st, [RecordAPICommand ''run.terminate'' True], Ok None)" ..
  have "run_command ?c = Some (''w1'', DirectiveKindTerminate)" by (simp add: run_command_def)
  from command_needs_active_run [OF mem.state_stream_axioms this h, THEN conjunct1] g h show ?thesis by auto
qed

end
