(* ===== verification/Timers.thy ===== *)
theory Timers
  imports Manager Service
begin

text \<open>
  Timers: scheduling, cancelling and reading them on the state stream
  (\<^verbatim>\<open>src/ingress/timer.go\<close>), and what a fired timer does (\<^verbatim>\<open>src/run/timer.go\<close>). The Go
  interface \<^verbatim>\<open>DirectivePublisher\<close> is one operation; the state store implements it.
\<close>

section \<open>Timers on the stream\<close>

definition timer_msg :: "Timer \<Rightarrow> time \<Rightarrow> bytes \<Rightarrow> nats_msg" where
  "timer_msg timer expiresAt data =
     \<lparr>nm_Subject = TimerSubject Manifest (t_WFID timer) (t_Kind timer) (t_ID timer),
      nm_Header =
        [(hdr_schedule, ''@at '' @ Format_RFC3339Nano expiresAt),
         (hdr_schedule_target, TimerFiredSubject Manifest)],
      nm_Data = data\<rparr>"

definition AddTimer ::
  "runtime \<Rightarrow> ('s, 'b) jetstream \<Rightarrow> 's \<Rightarrow> Timer \<Rightarrow> time \<Rightarrow> 's \<times> unit res" where
  "AddTimer rt js s timer expiresAt =
     (let hasDirective = d_ID (t_Directive timer) \<noteq> ''''; hasCommand = c_ID (t_Command timer) \<noteq> '''' in
      if \<not> hasDirective \<and> \<not> hasCommand
      then (s, Err (Errorf ''timer must have either Directive or Command set''))
      else case marshal_Timer rt timer of
        Err e \<Rightarrow> (s, Err (Wrapf ''failed to marshal timer: '' e ''''))
      | Panic p \<Rightarrow> (s, Panic p)
      | Ok data \<Rightarrow>
          (case js_publish js s (timer_msg timer expiresAt data) of
             (s', Some e) \<Rightarrow> (s', Err (Wrapf ''failed to publish timer message: '' e ''''))
           | (s', None) \<Rightarrow> (s', Ok ())))"

definition CancelTimer ::
  "('s, 'b) jetstream \<Rightarrow> 's \<Rightarrow> WFID \<Rightarrow> TimerKind \<Rightarrow> TimerID \<Rightarrow> 's \<times> unit res" where
  "CancelTimer js s wfID kind timerID =
     (case js_purge js s (TimerSubject Manifest wfID kind timerID) of
        (s', Some e) \<Rightarrow>
          if errors_is_lib e ErrMsgNotFound then (s', Ok ())
          else (s', Err (Wrapf ''failed to purge timer subject: '' e ''''))
      | (s', None) \<Rightarrow> (s', Ok ()))"

definition GetTimer ::
  "runtime \<Rightarrow> ('s, 'b) jetstream \<Rightarrow> 's \<Rightarrow> WFID \<Rightarrow> TimerKind \<Rightarrow> TimerID \<Rightarrow> Timer res" where
  "GetTimer rt js s wfID kind timerID =
     (case js_get_last js s (TimerSubject Manifest wfID kind timerID) of
        Err e \<Rightarrow>
          if errors_is_lib e ErrMsgNotFound then Ok Timer_zero
          else Err (Wrapf ''failed to get timer message: '' e '''')
      | Panic p \<Rightarrow> Panic p
      | Ok msg \<Rightarrow>
          orErrorf ''failed to unmarshal timer message: '' (unmarshal_Timer rt (sm_Data msg)) Ok)"

section \<open>Fired timers\<close>

type_synonym 's DirectivePublisher = "'s \<Rightarrow> Directive \<Rightarrow> 's \<times> unit res"

record TimerMsgHandler =
  tmh_maxDeliveries :: u64

definition buildStepTimeoutDirective :: "runtime \<Rightarrow> Timer \<Rightarrow> Directive res" where
  "buildStepTimeoutDirective rt timer =
     (case as_DispatchableMessage (d_Msg (t_Directive timer)) of
        None \<Rightarrow> Err (Errorf (''expected DispatchableMessage directive but got '' @ go_type (d_Msg (t_Directive timer))))
      | Some (stepName, _) \<Rightarrow>
          Ok \<lparr>d_ID = ulid rt At_buildStepTimeoutDirective_ID, d_Timestamp = 0,
              d_Kind = DirectiveKindStepTimeout, d_RunInfo = d_RunInfo (t_Directive timer), d_Attempt = 0,
              d_Msg = Some (StepTimeout stepName (d_ID (t_Directive timer)))\<rparr>)"

definition buildWaitTimeoutDirective :: "runtime \<Rightarrow> Timer \<Rightarrow> Directive res" where
  "buildWaitTimeoutDirective rt timer =
     (case as_Wait (d_Msg (t_Directive timer)) of
        None \<Rightarrow> Err (Errorf (''expected Wait but got '' @ go_type (d_Msg (t_Directive timer))))
      | Some (_, timeoutStepName) \<Rightarrow>
          Ok \<lparr>d_ID = ulid rt At_buildWaitTimeoutDirective_ID, d_Timestamp = 0,
              d_Kind = DirectiveKindWaitTimeout, d_RunInfo = d_RunInfo (t_Directive timer), d_Attempt = 0,
              d_Msg = Some (WaitTimeout timeoutStepName (d_ID (t_Directive timer)))\<rparr>)"

text \<open>An error of the publisher is answered by another delivery.\<close>

definition publish_or_retry ::
  "'s DirectivePublisher \<Rightarrow> 's \<Rightarrow> Directive \<Rightarrow> 's \<times> HandleResult res" where
  "publish_or_retry publisher s d =
     (case publisher s d of
        (s', Err e) \<Rightarrow> (s', Ok (Retryable RetryDelay))
      | (s', Panic p) \<Rightarrow> (s', Panic p)
      | (s', Ok _) \<Rightarrow> (s', Ok Processed))"

definition failure_directive :: "runtime \<Rightarrow> Directive \<Rightarrow> string \<Rightarrow> Directive" where
  "failure_directive rt d cause =
     \<lparr>d_ID = ulid rt At_applyFailure_ID, d_Timestamp = now rt At_applyFailure_Timestamp,
      d_Kind = DirectiveKindFail, d_RunInfo = d_RunInfo d, d_Attempt = 0,
      d_Msg = Some (Fail \<lparr>ed_Message = cause, ed_StackTrace = '''', ed_Type = ''TimerExhausted''\<rparr>)\<rparr>"

definition applyFailure ::
  "runtime \<Rightarrow> 's DirectivePublisher \<Rightarrow> 's \<Rightarrow> Directive \<Rightarrow> string \<Rightarrow> 's \<times> HandleResult res" where
  "applyFailure rt publisher s d cause = publish_or_retry publisher s (failure_directive rt d cause)"

definition handleStepTimeout ::
  "runtime \<Rightarrow> 's DirectivePublisher \<Rightarrow> 's \<Rightarrow> Timer \<Rightarrow> 's \<times> HandleResult res" where
  "handleStepTimeout rt publisher s timer =
     (case buildStepTimeoutDirective rt timer of
        Err e \<Rightarrow>
          applyFailure rt publisher s (t_Directive timer)
            (''failed to build step timeout directive: '' @ err_text e)
      | Panic p \<Rightarrow> (s, Panic p)
      | Ok directive \<Rightarrow> publish_or_retry publisher s directive)"

definition handleWaitTimeout ::
  "runtime \<Rightarrow> 's DirectivePublisher \<Rightarrow> 's \<Rightarrow> Timer \<Rightarrow> 's \<times> HandleResult res" where
  "handleWaitTimeout rt publisher s timer =
     (case buildWaitTimeoutDirective rt timer of
        Err e \<Rightarrow>
          applyFailure rt publisher s (t_Directive timer)
            (''failed to build wait timeout directive: '' @ err_text e)
      | Panic p \<Rightarrow> (s, Panic p)
      | Ok directive \<Rightarrow> publish_or_retry publisher s directive)"

definition handleDirectiveTimer ::
  "runtime \<Rightarrow> TimerMsgHandler \<Rightarrow> 's DirectivePublisher \<Rightarrow> 's \<Rightarrow> Timer \<Rightarrow> u64 \<Rightarrow> 's \<times> HandleResult res" where
  "handleDirectiveTimer rt h publisher s timer numDelivered =
     (if numDelivered > tmh_maxDeliveries h then
        applyFailure rt publisher s (t_Directive timer)
          (''timer '' @ t_ID timer @ '' exceeded max delivery count '' @ decimal (unat (tmh_maxDeliveries h)))
      else case t_Kind timer of
        TimerKindStepTimeout \<Rightarrow> handleStepTimeout rt publisher s timer
      | TimerKindWaitTimeout \<Rightarrow> handleWaitTimeout rt publisher s timer
      | _ \<Rightarrow> (s, Ok Processed))"

definition Timer_Handle ::
  "runtime \<Rightarrow> TimerMsgHandler \<Rightarrow> 's DirectivePublisher \<Rightarrow> 's \<Rightarrow> Timer \<Rightarrow> u64 \<Rightarrow> 's \<times> HandleResult res" where
  "Timer_Handle rt h publisher s timer numDelivered =
     (if d_ID (t_Directive timer) \<noteq> '''' then handleDirectiveTimer rt h publisher s timer numDelivered
      else if c_ID (t_Command timer) \<noteq> '''' then (s, Ok Processed)
      else (s, Ok Processed))"

section \<open>Timers on the stream are kept\<close>

lemma timer_subject_literal:
  assumes "token w" and "plain (timer_kind_str k)" and "dot_free (timer_kind_str k)"
    and "timer_kind_str k \<noteq> ''*'' \<and> timer_kind_str k \<noteq> ''>''"
    and "plain i" and "list_all (\<lambda>t. t \<noteq> ''*'' \<and> t \<noteq> ''>'') (split_dots i)"
  shows "literal (TimerSubject Manifest w k i)"
  using assms by (simp add: literal_def subject_tokens token_def)

lemma publish_new_message:
  assumes "publish_accepted st m" and "map_of (nm_Header m) hdr_msg_id = None" and "no_rollup m"
    and "literal (nm_Subject m)"
  shows "last_match (publish_msg st m) (nm_Subject m) =
    Some \<lparr>sm_Sequence = of_nat (Suc (st_last st)), sm_Subject = nm_Subject m, sm_Header = nm_Header m,
          sm_Data = nm_Data m\<rparr>"
proof -
  have "publish_msg st m = store_msg st m" using assms(2) by (simp add: publish_msg_def is_duplicate_def)
  with last_match_append [of "store_msg st m" st "assign (st_last st) [m]" "nm_Subject m"] store_msg_msgs [OF assms(3)]
  show ?thesis using assms(4) by (simp add: subject_matches_literal)
qed

lemma purged_no_match: "last_match (purge_subject st p) p = None"
  by (simp add: last_match_def purge_subject_def Let_def)



section \<open>A timer that was armed and fires\<close>

text \<open>The step or the timeout step that a directive's message names.\<close>

definition names_step :: "Directive \<Rightarrow> string \<Rightarrow> bool" where
  "names_step d step \<longleftrightarrow>
     (\<exists>timeout. as_DispatchableMessage (d_Msg d) = Some (step, timeout) \<or> as_Wait (d_Msg d) = Some (timeout, step))"

lemma step_timer_fires:
  assumes "StepTimeoutTimer rt d dflt = Ok t" and "d_ID d \<noteq> ''''" and "n \<le> tmh_maxDeliveries h"
  shows "\<exists>td step. Timer_Handle rt h publisher s t n = publish_or_retry publisher s td \<and>
    names_step d step \<and> d_RunInfo td = d_RunInfo d \<and> d_Kind td = DirectiveKindStepTimeout \<and>
    d_Msg td = Some (StepTimeout step (d_ID d))"
proof -
  from assms(1) obtain step timeout where m: "as_DispatchableMessage (d_Msg d) = Some (step, timeout)"
      and t: "t_Kind t = TimerKindStepTimeout" "t_Directive t = d"
    by (auto simp: StepTimeoutTimer_def Let_def split: option.splits)
  then have "names_step d step" unfolding names_step_def by blast
  with m t assms(2) leD [OF assms(3)] show ?thesis
    by (intro exI [of _ "\<lparr>d_ID = ulid rt At_buildStepTimeoutDirective_ID, d_Timestamp = 0,
          d_Kind = DirectiveKindStepTimeout, d_RunInfo = d_RunInfo d, d_Attempt = 0,
          d_Msg = Some (StepTimeout step (d_ID d))\<rparr>"] exI [of _ step])
      (simp add: Timer_Handle_def handleDirectiveTimer_def handleStepTimeout_def
        buildStepTimeoutDirective_def)
qed

lemma wait_timer_fires:
  assumes "createWaitTimeoutTimer rt d timeout step = Ok t" and "d_Msg d = Some (Wait timeout' step)"
    and "d_ID d \<noteq> ''''" and "n \<le> tmh_maxDeliveries h"
  shows "\<exists>td. Timer_Handle rt h publisher s t n = publish_or_retry publisher s td \<and>
    names_step d step \<and> d_RunInfo td = d_RunInfo d \<and> d_Kind td = DirectiveKindWaitTimeout \<and>
    d_Msg td = Some (WaitTimeout step (d_ID d))"
proof -
  from assms(1) have t: "t_Kind t = TimerKindWaitTimeout" "t_Directive t = d"
    by (auto simp: createWaitTimeoutTimer_def Let_def)
  with assms(2,3) leD [OF assms(4)] show ?thesis
    by (intro exI [of _ "\<lparr>d_ID = ulid rt At_buildWaitTimeoutDirective_ID, d_Timestamp = 0,
          d_Kind = DirectiveKindWaitTimeout, d_RunInfo = d_RunInfo d, d_Attempt = 0,
          d_Msg = Some (WaitTimeout step (d_ID d))\<rparr>"])
      (simp add: Timer_Handle_def handleDirectiveTimer_def handleWaitTimeout_def
        buildWaitTimeoutDirective_def names_step_def)
qed

lemma fired_timeout_plan:
  assumes "codec_ok rt" and "short_info ri" and "ri_StartedAt ri \<noteq> None" and "length step < 2 ^ 31"
    and "d_RunInfo td = ri"
    and "d_Kind td = DirectiveKindStepTimeout \<and> d_Msg td = Some (StepTimeout step oid) \<and> k = RunStateStep \<or>
      d_Kind td = DirectiveKindWaitTimeout \<and> d_Msg td = Some (WaitTimeout step oid) \<and> k = RunStateWait"
    and "rs_Kind (sn_RunState sn) = k \<and> rs_ActiveDirectiveID (sn_RunState sn) = oid \<and> short_state (sn_RunState sn)"
  shows "\<exists>rs d'. plan rt td sn dflt dfltw = Ok rs \<and> d_RunInfo d' = ri \<and>
    (finishes rt d' (sn_RunState sn) RunStateFail rs \<or> starts_step d' (sn_RunState sn) dflt rs)"
proof -
  have "\<exists>rs d'. plan rt td sn dflt dfltw = Ok rs \<and> d_RunInfo d' = d_RunInfo td \<and>
    (if d_Kind td = DirectiveKindWaitTimeout \<and> step \<noteq> ''''
     then starts_step d' (sn_RunState sn) dflt rs \<and> d_Msg d' = Some (Step step 0)
     else finishes rt d' (sn_RunState sn) RunStateFail rs)"
    by (rule active_timeout_plan [OF assms(1)]) (use assms in blast)+
  then obtain rs d' where "plan rt td sn dflt dfltw = Ok rs" "d_RunInfo d' = ri"
      "if d_Kind td = DirectiveKindWaitTimeout \<and> step \<noteq> ''''
       then starts_step d' (sn_RunState sn) dflt rs \<and> d_Msg d' = Some (Step step 0)
       else finishes rt d' (sn_RunState sn) RunStateFail rs"
    using assms(5) by metis
  then show ?thesis by metis
qed



end
