(* ===== verification/BgTasks.thy ===== *)
theory BgTasks
  imports Timers
begin

text \<open>
  What the server does after a commit: the handler of background tasks
  (\<^verbatim>\<open>src/run/bgtask.go\<close>) and the request it sends to a worker
  (\<^verbatim>\<open>src/server/worker_cmd.go\<close>). The interfaces the handler is made of are one record of
  operations; the core NATS request of the client library is a parameter.
\<close>

section \<open>Commands to a worker\<close>

text \<open>\<^verbatim>\<open>nc.Request(subject, data, timeout)\<close>, of which only the error is used.\<close>

type_synonym 's nats_request = "'s \<Rightarrow> string \<Rightarrow> bytes \<Rightarrow> duration \<Rightarrow> 's \<times> gerr option"

definition workerCmdTimeout :: duration where
  "workerCmdTimeout = 5000 * millisecond"

definition PublishWorkerCommand ::
  "runtime \<Rightarrow> 's nats_request \<Rightarrow> string \<Rightarrow> 's \<Rightarrow> string \<Rightarrow> Command \<Rightarrow> 's \<times> unit res" where
  "PublishWorkerCommand rt request senderID s workerID cmd =
     (case marshal_Command rt (cmd\<lparr>c_SenderID := senderID\<rparr>) of
        Err e \<Rightarrow> (s, Err (Wrapf ''failed to marshal worker command: '' e ''''))
      | Panic p \<Rightarrow> (s, Panic p)
      | Ok data \<Rightarrow>
          (case request s (WorkerCmdSubject Manifest workerID) data workerCmdTimeout of
             (s', None) \<Rightarrow> (s', Ok ())
           | (s', Some e) \<Rightarrow>
               (s', Err (if errors_is_lib e ErrNoResponders \<or> errors_is_lib e ErrTimeout
                         then Sentinel ErrWorkerUnreachable
                         else Wrapf ''worker command request failed: '' e ''''))))"

section \<open>The handler\<close>

record 's BgTaskHandler =
  bth_CancelTimer :: "'s \<Rightarrow> WFID \<Rightarrow> TimerKind \<Rightarrow> TimerID \<Rightarrow> 's \<times> unit res"
  bth_DeleteInboxEvent :: "'s \<Rightarrow> u64 \<Rightarrow> 's \<times> gerr option"
  bth_PurgeRunResidue :: "'s \<Rightarrow> WFID \<Rightarrow> 's \<times> gerr option"
  bth_GetRunByWFID :: "'s \<Rightarrow> WFID \<Rightarrow> (RunInfo \<times> u64) res"
  bth_PublishDirective :: "'s DirectivePublisher"
  bth_PublishWorkerCommand :: "'s \<Rightarrow> string \<Rightarrow> Command \<Rightarrow> 's \<times> unit res"
  bth_maxDeliveries :: u64

text \<open>
  \<^verbatim>\<open>msgpack.Unmarshal(task.Payload, &payload)\<close>: a payload that cannot be read is discarded.
\<close>

definition with_payload ::
  "runtime \<Rightarrow> (mp \<Rightarrow> 'p res) \<Rightarrow> BackgroundTask \<Rightarrow> 's \<Rightarrow> ('p \<Rightarrow> 's \<times> HandleResult res) \<Rightarrow> 's \<times> HandleResult res" where
  "with_payload rt dec task s k =
     (case andThen (mp_unmarshal rt (bt_Payload task)) dec of
        Err e \<Rightarrow> (s, Ok Processed)
      | Panic p \<Rightarrow> (s, Panic p)
      | Ok payload \<Rightarrow> k payload)"

fun retry_on_error :: "'s \<times> gerr option \<Rightarrow> 's \<times> HandleResult res" where
  "retry_on_error (s, Some e) = (s, Ok (Retryable RetryDelay))"
| "retry_on_error (s, None) = (s, Ok Processed)"

definition handleDeleteTimer ::
  "runtime \<Rightarrow> 's BgTaskHandler \<Rightarrow> 's \<Rightarrow> BackgroundTask \<Rightarrow> 's \<times> HandleResult res" where
  "handleDeleteTimer rt h s task =
     with_payload rt dec_DeleteTimerPayload task s (\<lambda>payload.
       case bth_CancelTimer h s (dtp_WFID payload) (dtp_Kind payload) (dtp_TimerID payload) of
         (s', Err e) \<Rightarrow> (s', Ok (Retryable RetryDelay))
       | (s', Panic p) \<Rightarrow> (s', Panic p)
       | (s', Ok _) \<Rightarrow> (s', Ok Processed))"

definition handleDeleteInboxEvent ::
  "runtime \<Rightarrow> 's BgTaskHandler \<Rightarrow> 's \<Rightarrow> BackgroundTask \<Rightarrow> 's \<times> HandleResult res" where
  "handleDeleteInboxEvent rt h s task =
     with_payload rt dec_DeleteInboxEventPayload task s (\<lambda>payload.
       retry_on_error (bth_DeleteInboxEvent h s (diep_SeqID payload)))"

definition handlePurgeRunResidue ::
  "runtime \<Rightarrow> 's BgTaskHandler \<Rightarrow> 's \<Rightarrow> BackgroundTask \<Rightarrow> 's \<times> HandleResult res" where
  "handlePurgeRunResidue rt h s task =
     with_payload rt dec_PurgeRunResiduePayload task s (\<lambda>payload.
       retry_on_error (bth_PurgeRunResidue h s (prrp_WFID payload)))"

text \<open>The payload of the callback is a Go map; its entries are in the order of the literal.\<close>

definition callback_directive ::
  "runtime \<Rightarrow> DirectiveID \<Rightarrow> RunInfo \<Rightarrow> NotifyParentCompletePayload \<Rightarrow> Directive" where
  "callback_directive rt dedupID parent payload =
     \<lparr>d_ID = ''notify.'' @ dedupID, d_Timestamp = now rt At_handleNotifyParentComplete_Timestamp,
      d_Kind = DirectiveKindEvent, d_RunInfo = parent, d_Attempt = 0,
      d_Msg = Some (Event None (npcp_StepName payload)
        (MMap [(''status'', MStr (run_status_str (npcp_Status payload))),
               (''result'', npcp_Result payload),
               (''error'', enc_opt enc_ErrorDetails (npcp_Error payload))]) 0)\<rparr>"

definition handleNotifyParentComplete ::
  "runtime \<Rightarrow> 's BgTaskHandler \<Rightarrow> 's \<Rightarrow> BackgroundTask \<Rightarrow> 's \<times> HandleResult res" where
  "handleNotifyParentComplete rt h s task =
     with_payload rt dec_NotifyParentCompletePayload task s (\<lambda>payload.
       case bth_GetRunByWFID h s (npcp_ParentWFID payload) of
         Err e \<Rightarrow> (s, Ok (Retryable RetryDelay))
       | Panic p \<Rightarrow> (s, Panic p)
       | Ok (parent, _) \<Rightarrow>
           if RunStatus_IsTerminal (ri_Status parent) then (s, Ok Processed)
           else publish_or_retry (bth_PublishDirective h) s
                  (callback_directive rt (bt_DeduplicationID task) parent payload))"

definition terminate_cmd :: "runtime \<Rightarrow> RunID \<Rightarrow> Command" where
  "terminate_cmd rt runID =
     \<lparr>c_ID = ulid rt At_handleWorkerTerminateRun_ID, c_Kind = CmdKindWorkerTerminateRun,
      c_Timestamp = now rt At_handleWorkerTerminateRun_Timestamp,
      c_Msg = Some (WorkerTerminateRunCmd runID), c_SenderID = ''''\<rparr>"

definition handleWorkerTerminateRun ::
  "runtime \<Rightarrow> 's BgTaskHandler \<Rightarrow> 's \<Rightarrow> BackgroundTask \<Rightarrow> 's \<times> HandleResult res" where
  "handleWorkerTerminateRun rt h s task =
     with_payload rt dec_WorkerTerminateRunPayload task s (\<lambda>payload.
       case bth_PublishWorkerCommand h s (wtrp_WorkerID payload) (terminate_cmd rt (wtrp_RunID payload)) of
         (s', Err e) \<Rightarrow>
           (s', Ok (if errors_is e ErrWorkerUnreachable then Processed else Retryable RetryDelay))
       | (s', Panic p) \<Rightarrow> (s', Panic p)
       | (s', Ok _) \<Rightarrow> (s', Ok Processed))"

text \<open>The switch over the known kinds; \<open>None\<close> is its default branch.\<close>

fun bg_dispatch ::
  "runtime \<Rightarrow> 's BgTaskHandler \<Rightarrow> 's \<Rightarrow> BackgroundTask \<Rightarrow> BackgroundTaskKind \<Rightarrow> ('s \<times> HandleResult res) option" where
  "bg_dispatch rt h s task BackgroundTaskKindDeleteTimer = Some (handleDeleteTimer rt h s task)"
| "bg_dispatch rt h s task BackgroundTaskKindDeleteInboxEvent = Some (handleDeleteInboxEvent rt h s task)"
| "bg_dispatch rt h s task BackgroundTaskKindPurgeRunResidue = Some (handlePurgeRunResidue rt h s task)"
| "bg_dispatch rt h s task BackgroundTaskKindNotifyParentComplete = Some (handleNotifyParentComplete rt h s task)"
| "bg_dispatch rt h s task BackgroundTaskKindWorkerTerminateRun = Some (handleWorkerTerminateRun rt h s task)"
| "bg_dispatch rt h s task (BackgroundTaskKindOther k) = None"

definition BgTask_Handle ::
  "runtime \<Rightarrow> 's BgTaskHandler \<Rightarrow> 's \<Rightarrow> BackgroundTask \<Rightarrow> u64 \<Rightarrow> 's \<times> metric list \<times> HandleResult res" where
  "BgTask_Handle rt h s task numDelivered =
     (let kind = bg_task_kind_str (bt_Kind task) in
      if numDelivered > bth_maxDeliveries h then (s, [RecordBgTask kind ''discarded''], Ok Processed)
      else case bg_dispatch rt h s task (bt_Kind task) of
        None \<Rightarrow> (s, [RecordBgTask kind ''discarded''], Ok Processed)
      | Some (s', Ok result) \<Rightarrow>
          (s', [RecordBgTask kind (if hr_Action result = ActionRetryable then ''retried'' else ''processed'')],
           Ok result)
      | Some (s', r) \<Rightarrow> (s', [], r))"

section \<open>The handler on the state store\<close>

definition store_bg_handler ::
  "runtime \<Rightarrow> ('s, 'b) jetstream \<Rightarrow> 's nats_request \<Rightarrow> string \<Rightarrow> u64 \<Rightarrow> 's BgTaskHandler" where
  "store_bg_handler rt js request senderID maxDeliveries =
     \<lparr>bth_CancelTimer = CancelTimer js, bth_DeleteInboxEvent = DeleteInboxEvent js,
      bth_PurgeRunResidue = PurgeRunResidue js, bth_GetRunByWFID = GetRunByWFID rt js,
      bth_PublishDirective = PublishDirective rt js,
      bth_PublishWorkerCommand = PublishWorkerCommand rt request senderID,
      bth_maxDeliveries = maxDeliveries\<rparr>"

lemma store_bg_handler_simps [simp]:
  "bth_CancelTimer (store_bg_handler rt js rq i n) = CancelTimer js"
  "bth_DeleteInboxEvent (store_bg_handler rt js rq i n) = DeleteInboxEvent js"
  "bth_PurgeRunResidue (store_bg_handler rt js rq i n) = PurgeRunResidue js"
  "bth_GetRunByWFID (store_bg_handler rt js rq i n) = GetRunByWFID rt js"
  "bth_PublishDirective (store_bg_handler rt js rq i n) = PublishDirective rt js"
  "bth_PublishWorkerCommand (store_bg_handler rt js rq i n) = PublishWorkerCommand rt rq i"
  "bth_maxDeliveries (store_bg_handler rt js rq i n) = n"
  by (simp_all add: store_bg_handler_def)

section \<open>Message identifiers are remembered\<close>

lemma stream_step_ids: "stream_step st st' \<Longrightarrow> set (st_ids st) \<subseteq> set (st_ids st')"
proof (induction rule: stream_step.induct)
  case (publish st m)
  show ?case by (auto simp: publish_msg_def store_msg_def Let_def split: option.splits)
next
  case (batch st ms)
  show ?case using store_batch_ids by blast
qed (simp_all add: delete_seq_def purge_subject_def)

lemma stream_evolves_ids: "stream_evolves st st' \<Longrightarrow> set (st_ids st) \<subseteq> set (st_ids st')"
  by (induction rule: rtranclp_induct) (auto dest: stream_step_ids)

lemma write_directive_id: "write_directive rt st d = Some st' \<Longrightarrow> d_ID d \<in> set (st_ids st')"
  by (auto simp: write_directive_def write_msg_def publish_msg_def store_msg_def Let_def is_duplicate_def
      directive_msg_def split: res.splits if_splits)

lemma write_directive_known:
  "d_ID d \<in> set (st_ids st) \<Longrightarrow> write_directive rt st d = Some st' \<Longrightarrow> st' = st"
  by (auto simp: write_directive_def write_msg_def publish_msg_def is_duplicate_def directive_msg_def
      split: res.splits if_splits)

context state_stream
begin

lemma PublishDirective_known:
  assumes "PublishDirective rt js s d = (s', r)" and "d_ID d \<in> set (st_ids (view s))"
  shows "view s' = view s"
  using PublishDirective_cases [OF assms(1)] write_directive_known [OF assms(2)]
  by (auto split: res.splits)

lemma notify_task_known:
  assumes "handleNotifyParentComplete rt (store_bg_handler rt js rq i n) s task = (s', r)"
    and "''notify.'' @ bt_DeduplicationID task \<in> set (st_ids (view s))"
  shows "view s' = view s"
  using assms PublishDirective_known [of rt s _ s']
  by (auto simp: handleNotifyParentComplete_def with_payload_def publish_or_retry_def callback_directive_def
      split: res.splits prod.splits if_splits)

end

lemma BgTask_Handle_notify:
  assumes "BgTask_Handle rt h s task n = (s', ms, r)" and "bt_Kind task = BackgroundTaskKindNotifyParentComplete"
  shows "s' = s \<or> (\<exists>r'. handleNotifyParentComplete rt h s task = (s', r'))"
  using assms by (auto simp: BgTask_Handle_def Let_def split: if_splits prod.splits res.splits)

section \<open>Tasks take effect\<close>

lemma with_payload_encoded:
  assumes "codec_ok rt" and "fits v" and "mp_marshal rt v = Ok (bt_Payload task)" and "dec v = Ok p"
  shows "with_payload rt dec task s k = k p"
proof -
  obtain b where "mp_marshal rt v = Ok b" "mp_unmarshal rt b = Ok v"
    using assms(1,2) by (rule codec_marshal)
  with assms(3,4) show ?thesis by (simp add: with_payload_def)
qed

lemma BgTask_Handle_done:
  assumes "BgTask_Handle rt h s task n = (s', ms, Ok Processed)" and "n \<le> bth_maxDeliveries h"
    and "bg_dispatch rt h s task (bt_Kind task) = Some x"
  shows "x = (s', Ok Processed) \<and> ms = [RecordBgTask (bg_task_kind_str (bt_Kind task)) ''processed'']"
  using assms leD [OF assms(2)] by (cases x; cases "snd x") (auto simp: BgTask_Handle_def Let_def)

lemma bg_task_kind_mem: "t \<in> set (bg_tasks rs) \<Longrightarrow> t \<in> set (tasks_of (bt_Kind t) rs)"
  by (simp add: tasks_of_def)

lemma finishing_purge_payload:
  assumes "finishes rt d st k rs" and "t \<in> set (bg_tasks rs)" and "bt_Kind t = BackgroundTaskKindPurgeRunResidue"
  shows "mp_marshal rt (enc_PurgeRunResiduePayload \<lparr>prrp_WFID = ri_WFID (d_RunInfo d)\<rparr>) = Ok (bt_Payload t)"
  using assms bg_task_kind_mem [OF assms(2)] by (auto simp: finishes_def purges_residue_def)

lemma finishing_worker_payload:
  assumes "finishes rt d st k rs" and "t \<in> set (bg_tasks rs)" and "bt_Kind t = BackgroundTaskKindWorkerTerminateRun"
  obtains w where "rs_WorkerID st = Some w"
    and "mp_marshal rt (enc_WorkerTerminateRunPayload \<lparr>wtrp_WorkerID = w, wtrp_RunID = rs_RunID st\<rparr>) = Ok (bt_Payload t)"
  using assms bg_task_kind_mem [OF assms(2)]
  by (auto simp: finishes_def stops_worker_def split: option.splits if_splits)




definition sample_notify :: NotifyParentCompletePayload where
  "sample_notify =
     \<lparr>npcp_ParentWFID = ''w1'', npcp_StepName = ''joined'', npcp_ChildWFID = ''c1'',
      npcp_Status = RunStatusCompleted, npcp_Result = MInt 1, npcp_Error = None\<rparr>"


end
