(* ===== verification/Ingress.thy ===== *)
theory Ingress
  imports BgTasks
begin

text \<open>
  The three consumers of the state stream (\<^verbatim>\<open>src/ingress/\<close>): directives, fired timers and
  background tasks. Each has a durable consumer with a filter subject, decodes a delivered
  message, calls its handler and answers the stream. The JetStream calls that create a
  consumer and start its callback are parameters.
\<close>

section \<open>Results of handlers\<close>

definition Failed :: "string \<Rightarrow> HandleResult" where
  "Failed msg =
     \<lparr>hr_Action = ActionFailed, hr_RetryDelay = 0,
      hr_Message = (if TrimSpace msg = '''' then ''unknown permanent failure'' else msg)\<rparr>"

section \<open>Consumers\<close>

text \<open>The fields of a consumer configuration that differ; all deliver everything and want explicit answers.\<close>

record ConsumerConfig =
  cc_Name :: string
  cc_Durable :: string
  cc_FilterSubject :: string

type_synonym ('s, 'c) create_consumer = "'s \<Rightarrow> ConsumerConfig \<Rightarrow> 's \<times> 'c res"

definition directive_ensureConsumer :: "('s, 'c) create_consumer \<Rightarrow> 's \<Rightarrow> 's \<times> 'c res" where
  "directive_ensureConsumer create s =
     (case create s \<lparr>cc_Name = DirectiveConsumerName Manifest, cc_Durable = DirectiveConsumerName Manifest,
                     cc_FilterSubject = DirectiveListenerPattern Manifest\<rparr> of
        (s', Err e) \<Rightarrow> (s', Err (Wrapf ''failed to create directive consumer: '' e ''''))
      | (s', r) \<Rightarrow> (s', r))"

definition ensureTimerFiredConsumer :: "('s, 'c) create_consumer \<Rightarrow> 's \<Rightarrow> 's \<times> 'c res" where
  "ensureTimerFiredConsumer create s =
     (case create s \<lparr>cc_Name = TimerFiredConsumerName Manifest, cc_Durable = TimerFiredConsumerName Manifest,
                     cc_FilterSubject = TimerFiredSubject Manifest\<rparr> of
        (s', Err e) \<Rightarrow> (s', Err (Wrapf ''failed to create timer fired consumer: '' e ''''))
      | (s', r) \<Rightarrow> (s', r))"

definition bgtask_ensureConsumer :: "('s, 'c) create_consumer \<Rightarrow> 's \<Rightarrow> 's \<times> 'c res" where
  "bgtask_ensureConsumer create s =
     (case create s \<lparr>cc_Name = BgTaskConsumerName Manifest, cc_Durable = BgTaskConsumerName Manifest,
                     cc_FilterSubject = BgTaskSubject Manifest\<rparr> of
        (s', Err e) \<Rightarrow> (s', Err (Wrapf ''failed to create background task consumer: '' e ''''))
      | (s', r) \<Rightarrow> (s', r))"

text \<open>A queue: its consumer, its handler once started, and the running subscription.\<close>

record ('c, 'h, 'x) queue =
  q_consumer :: "'c option"
  q_handler :: "'h option"
  q_consumeCtx :: "'x option"

definition new_queue :: "'s \<times> 'c res \<Rightarrow> 's \<times> ('c, 'h, 'x) queue res" where
  "new_queue created =
     (case created of
        (s, Ok consumer) \<Rightarrow> (s, Ok \<lparr>q_consumer = Some consumer, q_handler = None, q_consumeCtx = None\<rparr>)
      | (s, Err e) \<Rightarrow> (s, Err e)
      | (s, Panic p) \<Rightarrow> (s, Panic p))"

definition NewDirectiveQueue :: "('s, 'c) create_consumer \<Rightarrow> 's \<Rightarrow> 's \<times> ('c, 'h, 'x) queue res" where
  "NewDirectiveQueue create s = new_queue (directive_ensureConsumer create s)"

definition NewTimerStream :: "('s, 'c) create_consumer \<Rightarrow> 's \<Rightarrow> 's \<times> ('c, 'h, 'x) queue res" where
  "NewTimerStream create s = new_queue (ensureTimerFiredConsumer create s)"

definition NewBgTaskQueue :: "('s, 'c) create_consumer \<Rightarrow> 's \<Rightarrow> 's \<times> ('c, 'h, 'x) queue res" where
  "NewBgTaskQueue create s = new_queue (bgtask_ensureConsumer create s)"

text \<open>
  \<^verbatim>\<open>Start\<close>, the same in the three files up to the word in its errors: the handler is set before
  the subscription is tried.
\<close>

definition queue_Start ::
  "string \<Rightarrow> ('s \<Rightarrow> 'c \<Rightarrow> 's \<times> 'x res) \<Rightarrow> ('c, 'h, 'x) queue \<Rightarrow> 's \<Rightarrow> 'h option \<Rightarrow>
   's \<times> ('c, 'h, 'x) queue \<times> unit res" where
  "queue_Start what consume q s handler =
     (case q_consumer q of
        None \<Rightarrow> (s, q, Err (Errorf (what @ '' consumer is not initialized'')))
      | Some consumer \<Rightarrow>
          if handler = None then (s, q, Err (Errorf (what @ '' handler is not provided'')))
          else let q' = q\<lparr>q_handler := handler\<rparr> in
            case consume s consumer of
              (s', Err e) \<Rightarrow> (s', q', Err (Wrapf (''failed to start '' @ what @ '' consumer: '') e ''''))
            | (s', Panic p) \<Rightarrow> (s', q', Panic p)
            | (s', Ok ctx) \<Rightarrow> (s', q'\<lparr>q_consumeCtx := Some ctx\<rparr>, Ok ()))"

definition directive_Start ::
  "('s \<Rightarrow> 'c \<Rightarrow> 's \<times> 'x res) \<Rightarrow> ('c, 'h, 'x) queue \<Rightarrow> 's \<Rightarrow> 'h option \<Rightarrow> 's \<times> ('c, 'h, 'x) queue \<times> unit res" where
  "directive_Start = queue_Start ''directive''"

definition timer_Start ::
  "('s \<Rightarrow> 'c \<Rightarrow> 's \<times> 'x res) \<Rightarrow> ('c, 'h, 'x) queue \<Rightarrow> 's \<Rightarrow> 'h option \<Rightarrow> 's \<times> ('c, 'h, 'x) queue \<times> unit res" where
  "timer_Start = queue_Start ''timer''"

definition bgtask_Start ::
  "('s \<Rightarrow> 'c \<Rightarrow> 's \<times> 'x res) \<Rightarrow> ('c, 'h, 'x) queue \<Rightarrow> 's \<Rightarrow> 'h option \<Rightarrow> 's \<times> ('c, 'h, 'x) queue \<times> unit res" where
  "bgtask_Start = queue_Start ''background task''"

section \<open>Messages\<close>

text \<open>
  A delivered message; its delivery count is missing when its metadata cannot be read. The
  answer is the call made on the message; an error of that call is only logged.
\<close>

record delivery =
  dm_Data :: bytes
  dm_NumDelivered :: "u64 option"

datatype answer = Ack | NakWithDelay duration | Nak

definition numDelivered :: "delivery \<Rightarrow> u64" where
  "numDelivered msg = (case dm_NumDelivered msg of None \<Rightarrow> 1 | Some n \<Rightarrow> n)"

definition answer_of :: "HandleResult \<Rightarrow> answer" where
  "answer_of result =
     (case hr_Action result of
        ActionProcessed \<Rightarrow> Ack
      | ActionRetryable \<Rightarrow> NakWithDelay (hr_RetryDelay result)
      | _ \<Rightarrow> Nak)"

fun answered :: "'s \<times> metric list \<times> HandleResult res \<Rightarrow> 's \<times> metric list \<times> answer res" where
  "answered (s, ms, Ok result) = (s, ms, Ok (answer_of result))"
| "answered (s, ms, Err e) = (s, ms, Err e)"
| "answered (s, ms, Panic p) = (s, ms, Panic p)"

definition directive_processMessage ::
  "runtime \<Rightarrow> ('s \<Rightarrow> Directive \<Rightarrow> u64 \<Rightarrow> 's \<times> metric list \<times> HandleResult res) \<Rightarrow> 's \<Rightarrow> delivery \<Rightarrow>
   's \<times> metric list \<times> answer res" where
  "directive_processMessage rt handler s msg =
     (case unmarshal_Directive rt (dm_Data msg) of
        Err e \<Rightarrow> (s, [], Ok Ack)
      | Panic p \<Rightarrow> (s, [], Panic p)
      | Ok directive \<Rightarrow> answered (handler s directive (numDelivered msg)))"

definition timer_processMessage ::
  "runtime \<Rightarrow> ('s \<Rightarrow> Timer \<Rightarrow> u64 \<Rightarrow> 's \<times> HandleResult res) \<Rightarrow> 's \<Rightarrow> delivery \<Rightarrow>
   's \<times> metric list \<times> answer res" where
  "timer_processMessage rt handler s msg =
     (case unmarshal_Timer rt (dm_Data msg) of
        Err e \<Rightarrow> (s, [], Ok Ack)
      | Panic p \<Rightarrow> (s, [], Panic p)
      | Ok timer \<Rightarrow> (let (s', result) = handler s timer (numDelivered msg) in answered (s', [], result)))"

definition unmarshal_BackgroundTask :: "runtime \<Rightarrow> bytes \<Rightarrow> BackgroundTask res" where
  "unmarshal_BackgroundTask rt b = andThen (mp_unmarshal rt b) dec_BackgroundTask"

definition bgtask_processMessage ::
  "runtime \<Rightarrow> ('s \<Rightarrow> BackgroundTask \<Rightarrow> u64 \<Rightarrow> 's \<times> metric list \<times> HandleResult res) \<Rightarrow> 's \<Rightarrow> delivery \<Rightarrow>
   's \<times> metric list \<times> answer res" where
  "bgtask_processMessage rt handler s msg =
     (case unmarshal_BackgroundTask rt (dm_Data msg) of
        Err e \<Rightarrow> (s, [], Ok Ack)
      | Panic p \<Rightarrow> (s, [], Panic p)
      | Ok task \<Rightarrow> answered (handler s task (numDelivered msg)))"

section \<open>What the consumers answer\<close>

text \<open>The results the handlers of the server return.\<close>

definition settled :: "HandleResult res \<Rightarrow> bool" where
  "settled r \<longleftrightarrow> (case r of Ok result \<Rightarrow> result = Processed \<or> result = Retryable RetryDelay
                         | Err e \<Rightarrow> False | Panic p \<Rightarrow> True)"

lemma settled_simps [simp]:
  "settled (Ok result) \<longleftrightarrow> result = Processed \<or> result = Retryable RetryDelay" "settled (Panic p)" "\<not> settled (Err e)"
  by (simp_all add: settled_def)

lemma manager_commit_settled: "settled (snd (manager_commit rcd s rs))"
  by (auto simp: manager_commit_def split: prod.splits res.splits option.splits)

lemma Handle_settled: "settled (snd (snd (Handle rt m rcd s d n)))"
  using manager_commit_settled [of rcd s]
  by (auto simp: Handle_def failAndCommit_def Let_def split: res.splits prod.splits)
    (metis snd_conv)+

lemma publish_or_retry_settled: "settled (snd (publish_or_retry publisher s d))"
  by (auto simp: publish_or_retry_def split: prod.splits res.splits)

lemma Timer_Handle_settled: "settled (snd (Timer_Handle rt h publisher s t n))"
  by (auto simp: Timer_Handle_def handleDirectiveTimer_def handleStepTimeout_def handleWaitTimeout_def
      applyFailure_def publish_or_retry_settled split: TimerKind.splits res.splits)

lemma retry_on_error_settled: "settled (snd (retry_on_error x))"
  by (cases x rule: retry_on_error.cases) auto

lemma bg_dispatch_settled: "bg_dispatch rt h s task k = Some x \<Longrightarrow> settled (snd x)"
  by (cases k) (auto simp: handleDeleteTimer_def handleDeleteInboxEvent_def handlePurgeRunResidue_def
      handleNotifyParentComplete_def handleWorkerTerminateRun_def with_payload_def retry_on_error_settled
      publish_or_retry_settled split: res.splits prod.splits)

lemma BgTask_Handle_settled: "settled (snd (snd (BgTask_Handle rt h s task n)))"
  by (auto simp: BgTask_Handle_def Let_def split: option.splits prod.splits res.splits
      dest: bg_dispatch_settled)

definition well_answered :: "answer res \<Rightarrow> bool" where
  "well_answered r \<longleftrightarrow>
     (case r of Ok a \<Rightarrow> a = Ack \<or> a = NakWithDelay RetryDelay | Err e \<Rightarrow> False | Panic p \<Rightarrow> True)"

lemma well_answered_simps [simp]: "well_answered (Ok Ack)" "well_answered (Panic p)"
  by (simp_all add: well_answered_def)

lemma answered_settled: "settled (snd (snd x)) \<Longrightarrow> well_answered (snd (snd (answered x)))"
  by (cases x rule: answered.cases) (auto simp: well_answered_def answer_of_def)

lemma directive_answer: "well_answered (snd (snd (directive_processMessage rt (Handle rt m rcd) s msg)))"
  by (simp add: directive_processMessage_def answered_settled [OF Handle_settled] split: res.split)

lemma bgtask_answer: "well_answered (snd (snd (bgtask_processMessage rt (BgTask_Handle rt h) s msg)))"
  by (simp add: bgtask_processMessage_def answered_settled [OF BgTask_Handle_settled] split: res.split)

lemma timer_answer: "well_answered (snd (snd (timer_processMessage rt (Timer_Handle rt h publisher) s msg)))"
proof (cases "unmarshal_Timer rt (dm_Data msg)")
  case (Ok t)
  obtain s' r where h: "Timer_Handle rt h publisher s t (numDelivered msg) = (s', r)" by fastforce
  then have "settled (snd (snd (s', [] :: metric list, r)))"
    using Timer_Handle_settled [of rt h publisher s t "numDelivered msg"] by simp
  from answered_settled [OF this] Ok h show ?thesis by (simp add: timer_processMessage_def)
qed (simp_all add: timer_processMessage_def)



section \<open>A start directive delivered twice\<close>

lemma unguarded_accepted:
  assumes "list_all (\<lambda>m. map_of (nm_Header m) hdr_expected = None \<and> map_of (nm_Header m) hdr_msg_id = None) ms"
    and "st_last st + length ms < 2 ^ 64"
  shows "batch_accepted st ms"
  using assms by (auto simp: batch_accepted_def expectation_met_def is_duplicate_def list_all_iff list_ex_iff)

text \<open>The headers of the messages a record becomes, when it is one of a start.\<close>

lemma start_record_headers:
  assumes "recordToNats rt r = Ok ms"
    and "(\<exists>i. r = RunInfoRecord i 0) \<or> (\<exists>w i x. r = RunInputRecord w i x) \<or> (\<exists>h. r = HistoryRecord h) \<or>
      (\<exists>x. r = RunStateRecord x 0) \<or> (\<exists>t. r = TimerRecord t) \<or> (\<exists>d. r = WorkerTaskDispatch d)"
  shows "list_all (\<lambda>m. map_of (nm_Header m) hdr_expected = None \<and> map_of (nm_Header m) hdr_msg_id = None) ms"
  using assms
  by (auto simp: record_to_nats_defs expected_header_def split: if_splits)

lemma start_records:
  assumes "planFromRunStart rt d dflt = Ok rs" and "r \<in> set rs"
  shows "(\<exists>i. r = RunInfoRecord i 0) \<or> (\<exists>w i x. r = RunInputRecord w i x) \<or> (\<exists>h. r = HistoryRecord h) \<or>
      (\<exists>x. r = RunStateRecord x 0) \<or> (\<exists>t. r = TimerRecord t) \<or> (\<exists>d. r = WorkerTaskDispatch d)"
  using assms
  by (auto simp: planFromRunStart_def record_Start_def record_StepStart_def NewRunState_def Let_def
      inherit_run_info_def step_run_state_def RunState_zero_def
      split: option.splits if_splits prod.splits)

lemma start_messages_unguarded:
  assumes "planFromRunStart rt d dflt = Ok rs" and "commit_messages rt rs = Ok ms"
  shows "list_all (\<lambda>m. map_of (nm_Header m) hdr_expected = None \<and> map_of (nm_Header m) hdr_msg_id = None) ms"
proof -
  have "map_of (nm_Header m) hdr_expected = None \<and> map_of (nm_Header m) hdr_msg_id = None" if "m \<in> set ms" for m
  proof -
    from commit_messages_mem [OF assms(2) that] obtain r ms' where
      r: "r \<in> set rs" "recordToNats rt r = Ok ms'" "m \<in> set ms'" by blast
    from start_record_headers [OF r(2) start_records [OF assms(1) r(1)]] r(3) show ?thesis
      by (simp add: list_all_iff)
  qed
  then show ?thesis by (simp add: list_all_iff)
qed

text \<open>
  C35. A start directive that is delivered again restarts the run: on the snapshot of a run that
  is in any state but a terminal one, however far it has come, the planner answers it with
  the batch of a new start, and no stream refuses this batch, because none of its messages has
  an expected sequence number or a message identifier. The step of the start is dispatched a
  second time, and the state of the run, its inbox position and a pending cancellation are lost.
\<close>

theorem redelivered_start_restarts:
  assumes "d_Kind d = DirectiveKindStart" and "d_Msg d = Some (Start inp timeout)"
    and "\<not> terminal_kind (rs_Kind (sn_RunState sn))"
  shows "\<exists>rs. plan rt d sn dflt dfltw = Ok rs \<and> starts_run rt d dflt rs \<and>
    (\<forall>ms st. commit_messages rt rs = Ok ms \<longrightarrow> st_last st + length ms < 2 ^ 64 \<longrightarrow>
       write_records rt st rs = Some (store_batch st ms))"
proof -
  obtain rs where rs: "planFromRunStart rt d dflt = Ok rs" "starts_run rt d dflt rs"
    using planFromRunStart_total [OF assms(2)] by blast
  then have "plan rt d sn dflt dfltw = Ok rs"
    using assms(1,3) by (simp add: plan_def RunState_IsTerminal_def)
  moreover have "write_records rt st rs = Some (store_batch st ms)"
    if ms: "commit_messages rt rs = Ok ms" and "st_last st + length ms < 2 ^ 64" for ms st
  proof -
    obtain h rs' where "rs = HistoryRecord h # rs'"
      using rs(1) by (auto simp: planFromRunStart_def record_Start_def Let_def split: option.splits)
    with ms have "ms \<noteq> []" by (auto simp: HistoryRecordToNatsMsgs_def)
    with ms unguarded_accepted [OF start_messages_unguarded [OF rs(1) ms] that(2)] show ?thesis
      by (simp add: write_records_def)
  qed
  ultimately show ?thesis using rs(2) by blast
qed

theorem redelivered_start_restarts_witness:
  "\<exists>rs ms. plan sample_rt (sample_d ''d0'' DirectiveKindStart (Start MNil 0)) (sample_sn RunStateWait) 1000 1000 = Ok rs \<and>
     starts_run sample_rt (sample_d ''d0'' DirectiveKindStart (Start MNil 0)) 1000 rs \<and>
     commit_messages sample_rt rs = Ok ms \<and>
     write_records sample_rt (sample_stream (sample_state RunStateWait)) rs =
       Some (store_batch (sample_stream (sample_state RunStateWait)) ms)"
proof -
  let ?d = "sample_d ''d0'' DirectiveKindStart (Start MNil 0)" and ?st = "sample_stream (sample_state RunStateWait)"
  have "d_Kind ?d = DirectiveKindStart" "d_Msg ?d = Some (Start MNil 0)"
    "\<not> terminal_kind (rs_Kind (sn_RunState (sample_sn RunStateWait)))"
    by (simp_all add: sample_defs)
  from redelivered_start_restarts [OF this, of sample_rt 1000 1000] obtain rs where
    rs: "plan sample_rt ?d (sample_sn RunStateWait) 1000 1000 = Ok rs" "starts_run sample_rt ?d 1000 rs" and
    w: "\<And>ms. commit_messages sample_rt rs = Ok ms \<Longrightarrow> st_last ?st + length ms < 2 ^ 64 \<Longrightarrow>
       write_records sample_rt ?st rs = Some (store_batch ?st ms)" by blast
  have "case plan sample_rt ?d (sample_sn RunStateWait) 1000 1000 of
      Ok rs \<Rightarrow> (case commit_messages sample_rt rs of Ok ms \<Rightarrow> length ms = 7 | _ \<Rightarrow> False) | _ \<Rightarrow> False"
    by (simp add: plan_eval sample_defs record_to_nats_defs marshal_HistoryEvent_def HistoryEvent_EncodeMsgpack_def
        marshal_RunState_def marshal_RunInfo_def marshal_Timer_def enc_Timer_def marshal_Directive_def
        Directive_EncodeMsgpack_def Command_EncodeMsgpack_def Timer_zero_def Command_zero_def enc_RunState_def
        del: put_mp.simps)
  with rs(1) obtain ms where ms: "commit_messages sample_rt rs = Ok ms" "length ms = 7"
    by (auto split: res.splits)
  then have "st_last ?st + length ms < 2 ^ 64" by (simp add: sample_stream_def)
  with rs ms w show ?thesis by blast
qed

end
