(* ===== verification/Logging.thy ===== *)
theory Logging
  imports Prelude
begin

text \<open>
  The logger of the daemon (\<^verbatim>\<open>src/grctld/srvlog/\<close>): the choice of level and format, and the
  text handler. The attributes of a text handler are a Go slice, so a handler and the handlers
  made from it may share a backing array; the arrays are an explicit store. How the Go runtime
  grows an array, how slog resolves a value and how a time is formatted are parameters.
\<close>

section \<open>Configuration of the logger\<close>

type_synonym level = int

abbreviation (input) "LevelDebug \<equiv> - 4 :: level"
abbreviation (input) "LevelInfo \<equiv> 0 :: level"
abbreviation (input) "LevelWarn \<equiv> 4 :: level"
abbreviation (input) "LevelError \<equiv> 8 :: level"

record log_config =
  log_Level :: string
  log_Format :: string
  log_AddSource :: bool

definition parseLevel :: "string \<Rightarrow> level" where
  "parseLevel l =
     (if l = ''debug'' then LevelDebug
      else if l = ''info'' then LevelInfo
      else if l = ''warn'' then LevelWarn
      else if l = ''error'' then LevelError
      else LevelInfo)"

text \<open>\<open>stdout_mode\<close> is the mode of the standard output, an error or whether it is a character device.\<close>

definition isTerminal :: "bool res \<Rightarrow> bool" where
  "isTerminal stdout_mode = (case stdout_mode of Ok is_char_device \<Rightarrow> is_char_device | _ \<Rightarrow> False)"

definition detectFormat :: "bool res \<Rightarrow> string" where
  "detectFormat stdout_mode = (if isTerminal stdout_mode then ''text'' else ''json'')"

datatype handler_kind = TextHandler | JSONHandler

record handler_options =
  ho_Kind :: handler_kind
  ho_Level :: level
  ho_AddSource :: bool

definition initWithWriter :: "bool res \<Rightarrow> log_config \<Rightarrow> handler_options" where
  "initWithWriter stdout_mode cfg =
     (let level = parseLevel (log_Level cfg);
          format = (if log_Format cfg = '''' then detectFormat stdout_mode else log_Format cfg)
      in \<lparr>ho_Kind = (if format = ''text'' then TextHandler else JSONHandler),
          ho_Level = level,
          ho_AddSource = log_AddSource cfg \<or> level \<le> LevelDebug\<rparr>)"

section \<open>Slices\<close>

text \<open>
  An attribute is its key, whether its resolved value is a group, and the text of the value.
  A slice starts at the beginning of its array; the nil slice has no array and no capacity.
\<close>

record attr =
  at_Key :: string
  at_IsGroup :: bool
  at_Text :: string

definition attr_zero :: attr where
  "attr_zero = \<lparr>at_Key = '''', at_IsGroup = False, at_Text = ''''\<rparr>"

type_synonym arrays = "attr list list"

record slice =
  sl_array :: nat
  sl_len :: nat
  sl_cap :: nat

definition nil_slice :: slice where
  "nil_slice = \<lparr>sl_array = 0, sl_len = 0, sl_cap = 0\<rparr>"

definition elements :: "arrays \<Rightarrow> slice \<Rightarrow> attr list" where
  "elements hp s = (if sl_cap s = 0 then [] else take (sl_len s) (hp ! sl_array s))"

text \<open>
  \<^verbatim>\<open>append(s, xs...)\<close>: in place if the capacity is enough, else in a new array whose capacity
  the runtime chooses.
\<close>

definition append_slice :: "(nat \<Rightarrow> nat \<Rightarrow> nat) \<Rightarrow> arrays \<Rightarrow> slice \<Rightarrow> attr list \<Rightarrow> arrays \<times> slice" where
  "append_slice grow hp s xs =
     (let n = sl_len s + length xs in
      if n \<le> sl_cap s
      then (if sl_cap s = 0 then hp
            else hp[sl_array s := take (sl_len s) (hp ! sl_array s) @ xs @ drop n (hp ! sl_array s)],
            s\<lparr>sl_len := n\<rparr>)
      else let cap = grow (sl_cap s) n in
        (hp @ [elements hp s @ xs @ replicate (cap - n) attr_zero],
         \<lparr>sl_array = length hp, sl_len = n, sl_cap = cap\<rparr>))"

definition wf_slice :: "arrays \<Rightarrow> slice \<Rightarrow> bool" where
  "wf_slice hp s \<longleftrightarrow> sl_len s \<le> sl_cap s \<and>
     (sl_cap s \<noteq> 0 \<longrightarrow> sl_array s < length hp \<and> length (hp ! sl_array s) = sl_cap s)"

section \<open>The text handler\<close>

record textHandler =
  th_level :: level
  th_addSource :: bool
  th_attrs :: slice

definition newTextHandler :: "(level \<times> bool) option \<Rightarrow> textHandler" where
  "newTextHandler opts =
     (case opts of
        None \<Rightarrow> \<lparr>th_level = LevelInfo, th_addSource = False, th_attrs = nil_slice\<rparr>
      | Some (level, addSource) \<Rightarrow> \<lparr>th_level = level, th_addSource = addSource, th_attrs = nil_slice\<rparr>)"

definition clone :: "textHandler \<Rightarrow> textHandler" where
  "clone h = \<lparr>th_level = th_level h, th_addSource = th_addSource h, th_attrs = th_attrs h\<rparr>"

definition Enabled :: "textHandler \<Rightarrow> level \<Rightarrow> bool" where
  "Enabled h level \<longleftrightarrow> level \<ge> th_level h"

definition appendLevel :: "string \<Rightarrow> level \<Rightarrow> string" where
  "appendLevel buf level =
     (if level < LevelInfo then buf @ ''DEBUG''
      else if level < LevelWarn then buf @ ''INFO''
      else if level < LevelError then buf @ ''WARN''
      else buf @ ''ERROR'')"

definition appendAttr :: "string \<Rightarrow> attr \<Rightarrow> string" where
  "appendAttr buf a = (if at_IsGroup a then buf else buf @ '' '' @ at_Key a @ ''='' @ at_Text a)"

text \<open>A log record; its source is missing when it has no program counter.\<close>

record log_record =
  lr_Time :: string
  lr_Level :: level
  lr_Source :: "(string \<times> nat) option"
  lr_Message :: string
  lr_Attrs :: "attr list"

definition trim_root :: "string \<Rightarrow> string \<Rightarrow> string" where
  "trim_root sourceRoot file =
     (if take (length sourceRoot) file = sourceRoot then drop (length sourceRoot) file else file)"

definition text_Handle :: "string \<Rightarrow> arrays \<Rightarrow> textHandler \<Rightarrow> log_record \<Rightarrow> string" where
  "text_Handle sourceRoot hp h r =
     (let buf0 = appendLevel (lr_Time r @ '' '') (lr_Level r) @ '' '';
          buf1 = (case lr_Source r of
                    Some (file, line) \<Rightarrow>
                      if th_addSource h
                      then buf0 @ ''['' @ trim_root sourceRoot file @ '':'' @ decimal line @ ''] ''
                      else buf0
                  | None \<Rightarrow> buf0);
          buf2 = buf1 @ lr_Message r;
          buf3 = foldl appendAttr buf2 (elements hp (th_attrs h));
          buf4 = foldl appendAttr buf3 (lr_Attrs r)
      in buf4 @ [CHR 0x0A])"

definition WithAttrs ::
  "(nat \<Rightarrow> nat \<Rightarrow> nat) \<Rightarrow> arrays \<Rightarrow> textHandler \<Rightarrow> attr list \<Rightarrow> arrays \<times> textHandler" where
  "WithAttrs grow hp h attrs =
     (let h2 = clone h; (hp', s) = append_slice grow hp (th_attrs h2) attrs in (hp', h2\<lparr>th_attrs := s\<rparr>))"

definition WithGroup :: "textHandler \<Rightarrow> string \<Rightarrow> textHandler" where
  "WithGroup h name = clone h"

section \<open>Handlers made from a handler\<close>

definition handler_attrs :: "arrays \<Rightarrow> textHandler \<Rightarrow> attr list" where
  "handler_attrs hp h = elements hp (th_attrs h)"

lemma elements_length: "wf_slice hp s \<Longrightarrow> length (elements hp s) = sl_len s"
  by (auto simp: wf_slice_def elements_def)

lemma append_in_place:
  assumes "wf_slice hp s" and "sl_len s + length xs \<le> sl_cap s" and "append_slice grow hp s xs = (hp', s')"
  shows "wf_slice hp' s' \<and> elements hp' s' = elements hp s @ xs \<and> length hp' = length hp \<and>
    (\<forall>t. wf_slice hp t \<longrightarrow> wf_slice hp' t \<and>
       elements hp' t = (if sl_cap t \<noteq> 0 \<and> sl_array t = sl_array s
         then take (sl_len t) (elements hp s @ xs @ drop (sl_len s + length xs) (hp ! sl_array s))
         else elements hp t))"
proof (cases "sl_cap s = 0")
  case True
  with assms have "xs = []" "hp' = hp" "s' = s" "sl_len s = 0"
    by (auto simp: append_slice_def wf_slice_def Let_def)
  with True assms(1) show ?thesis
    by (auto simp: elements_def)
next
  case False
  with assms show ?thesis
    by (auto simp: append_slice_def wf_slice_def elements_def Let_def nth_list_update)
qed

lemma append_new_array:
  assumes "wf_slice hp s" and "\<not> sl_len s + length xs \<le> sl_cap s" and "append_slice grow hp s xs = (hp', s')"
    and "\<And>c n. n \<le> grow c n"
  shows "wf_slice hp' s' \<and> elements hp' s' = elements hp s @ xs \<and>
    (\<forall>t. wf_slice hp t \<longrightarrow> wf_slice hp' t \<and> elements hp' t = elements hp t)"
proof -
  have "sl_len s + length xs \<le> grow (sl_cap s) (sl_len s + length xs)" by (rule assms(4))
  with assms(1-3) elements_length [OF assms(1)] show ?thesis
    by (auto simp: append_slice_def wf_slice_def elements_def Let_def nth_append)
qed

lemma WithAttrs_append:
  "WithAttrs grow hp h a = (hp', h') \<longleftrightarrow>
     (\<exists>s. append_slice grow hp (th_attrs h) a = (hp', s) \<and> h' = h\<lparr>th_attrs := s\<rparr>)"
  by (cases h) (auto simp: WithAttrs_def clone_def Let_def split: prod.splits)

lemma append_self:
  assumes "wf_slice hp s" and "append_slice grow hp s xs = (hp', s')" and "\<And>c n. n \<le> grow c n"
  shows "wf_slice hp' s' \<and> elements hp' s' = elements hp s @ xs \<and> wf_slice hp' s \<and> elements hp' s = elements hp s"
proof (cases "sl_len s + length xs \<le> sl_cap s")
  case True
  from append_in_place [OF assms(1) this assms(2)] assms(1) elements_length [OF assms(1)] show ?thesis by auto
next
  case False
  from append_new_array [OF assms(1) this assms(2,3)] assms(1) show ?thesis by blast
qed

lemma append_sibling:
  assumes "wf_slice hp s" and "append_slice grow hp s xs = (hp1, s1)" and "append_slice grow hp1 s ys = (hp2, s2)"
    and "\<And>c n. n \<le> grow c n"
  shows "elements hp2 s1 = elements hp s @
    (if sl_len s + length xs \<le> sl_cap s \<and> sl_len s + length ys \<le> sl_cap s
     then take (length xs) (ys @ drop (length ys) xs) else xs)"
proof -
  note first = append_self [OF assms(1,2,4)]
  have len: "length (elements hp s) = sl_len s" by (rule elements_length [OF assms(1)])
  show ?thesis
  proof (cases "sl_len s + length ys \<le> sl_cap s")
    case room: True
    note second = append_in_place [OF _ room assms(3)]
    show ?thesis
    proof (cases "sl_len s + length xs \<le> sl_cap s")
      case True
      then have s1: "s1 = s\<lparr>sl_len := sl_len s + length xs\<rparr>"
        using assms(2) by (auto simp: append_slice_def Let_def)
      show ?thesis
      proof (cases "sl_cap s = 0")
        case False
        then have arr: "hp1 ! sl_array s = elements hp s @ xs @ drop (sl_len s + length xs) (hp ! sl_array s)"
          using assms(1,2) True by (auto simp: append_slice_def Let_def elements_def wf_slice_def)
        with second first s1 False True room len show ?thesis by (simp add: drop_append)
      qed (use True room s1 assms in \<open>auto simp: elements_def append_slice_def Let_def\<close>)
    next
      case False
      show ?thesis
      proof (cases "sl_cap s = 0")
        case True
        with room assms(3) first False show ?thesis by (simp add: append_slice_def)
      next
        case cap: False
        have "sl_array s1 = length hp" "sl_array s < length hp"
          using assms(1,2) False cap by (auto simp: append_slice_def Let_def wf_slice_def)
        with second first False show ?thesis by simp
      qed
    qed
  next
    case False
    from append_new_array [OF _ False assms(3,4)] first False show ?thesis by auto
  qed
qed

text \<open>
  Deriving a logger from a logger adds its attributes and leaves the parent as it is, but
  two loggers derived from the same parent may share their attributes: if the array of the
  parent has room for both, the second derivation overwrites the attributes of the first, and
  log lines of the first one carry attributes of the second. If there is no room for one of
  them, both keep what they were given.
\<close>

lemma derived_loggers_share:
  assumes "wf_slice hp (th_attrs h)" and "\<And>c n. n \<le> grow c n"
    and "WithAttrs grow hp h a = (hp1, h1)" and "WithAttrs grow hp1 h b = (hp2, h2)"
  shows "handler_attrs hp1 h1 = handler_attrs hp h @ a \<and> handler_attrs hp1 h = handler_attrs hp h \<and>
    handler_attrs hp2 h2 = handler_attrs hp h @ b \<and>
    handler_attrs hp2 h1 = handler_attrs hp h @
      (if sl_len (th_attrs h) + length a \<le> sl_cap (th_attrs h) \<and> sl_len (th_attrs h) + length b \<le> sl_cap (th_attrs h)
       then take (length a) (b @ drop (length b) a) else a)"
proof -
  from assms(3,4) obtain s1 s2 where
    s1: "append_slice grow hp (th_attrs h) a = (hp1, s1)" "h1 = h\<lparr>th_attrs := s1\<rparr>" and
    s2: "append_slice grow hp1 (th_attrs h) b = (hp2, s2)" "h2 = h\<lparr>th_attrs := s2\<rparr>"
    by (auto simp: WithAttrs_append)
  note first = append_self [OF assms(1) s1(1) assms(2)]
  with append_self [OF _ s2(1) assms(2)] append_sibling [OF assms(1) s1(1) s2(1) assms(2)] s1(2) s2(2)
  show ?thesis by (simp add: handler_attrs_def)
qed

text \<open>
  A logger with three attributes whose array has four elements, and two loggers derived from it.
\<close>

definition sample_attr :: "string \<Rightarrow> attr" where
  "sample_attr k = \<lparr>at_Key = k, at_IsGroup = False, at_Text = ''v''\<rparr>"

lemma derived_loggers_share_witness:
  "\<exists>hp1 h1 hp2 h2. WithAttrs max [map sample_attr [''a'', ''b'', ''c'', ''d'']]
       \<lparr>th_level = 0, th_addSource = False, th_attrs = \<lparr>sl_array = 0, sl_len = 3, sl_cap = 4\<rparr>\<rparr>
       [sample_attr ''x''] = (hp1, h1) \<and>
     WithAttrs max hp1 \<lparr>th_level = 0, th_addSource = False, th_attrs = \<lparr>sl_array = 0, sl_len = 3, sl_cap = 4\<rparr>\<rparr>
       [sample_attr ''y''] = (hp2, h2) \<and>
     handler_attrs hp1 h1 = map sample_attr [''a'', ''b'', ''c'', ''x''] \<and>
     handler_attrs hp2 h1 = map sample_attr [''a'', ''b'', ''c'', ''y'']"
proof -
  let ?hp = "[map sample_attr [''a'', ''b'', ''c'', ''d'']]"
  let ?h = "\<lparr>th_level = 0, th_addSource = False, th_attrs = \<lparr>sl_array = 0, sl_len = 3, sl_cap = 4\<rparr>\<rparr>"
  obtain hp1 h1 where 1: "WithAttrs max ?hp ?h [sample_attr ''x''] = (hp1, h1)" by fastforce
  obtain hp2 h2 where 2: "WithAttrs max hp1 ?h [sample_attr ''y''] = (hp2, h2)" by fastforce
  have "wf_slice ?hp (th_attrs ?h)" by (simp add: wf_slice_def)
  from derived_loggers_share [OF this _ 1 2] 1 2 show ?thesis
    by (simp add: handler_attrs_def elements_def)
qed

end
