(* ===== verification/Daemon.thy ===== *)
theory Daemon
  imports Config Logging Service
begin

text \<open>
  The daemon around the server: the embedded NATS server (\<^verbatim>\<open>src/natsembd/\<close>), the command line
  and the start-up of \<^verbatim>\<open>grctld\<close> (\<^verbatim>\<open>src/grctld/\<close>), and the configuration of the state
  stream (\<^verbatim>\<open>src/jsstore/streams.go\<close>). The libraries of NATS, the command line library, the
  environment and the clock are parameters.
\<close>

section \<open>The embedded NATS server\<close>

text \<open>The fields of the options of the NATS server that the source reads or sets.\<close>

record Options =
  op_ServerName :: string
  op_Host :: string
  op_Port :: int
  op_StoreDir :: string
  op_JetStream :: bool
  op_NoLog :: bool
  op_NoSigs :: bool
  op_SyncAlways :: bool
  op_SyncInterval :: duration

definition applySyncInterval :: "Options \<Rightarrow> string \<Rightarrow> Options" where
  "applySyncInterval opts syncInterval =
     (if syncInterval = ''always'' then opts\<lparr>op_SyncAlways := True, op_SyncInterval := 0\<rparr>
      else case ParseDuration syncInterval of
        Some d \<Rightarrow> opts\<lparr>op_SyncAlways := False, op_SyncInterval := d\<rparr>
      | None \<Rightarrow> opts)"

definition resolveEmbeddedOptions :: "(string \<Rightarrow> Options res) \<Rightarrow> NATSConfig \<Rightarrow> Options res" where
  "resolveEmbeddedOptions processConfigFile natsCfg =
     (let opts =
        \<lparr>op_ServerName = nc_ServerName natsCfg, op_Host = ''127.0.0.1'', op_Port = 0, op_StoreDir = '''',
         op_JetStream = True, op_NoLog = True, op_NoSigs = True, op_SyncAlways = False, op_SyncInterval = 0\<rparr>
      in andThen
        (if TrimSpace (nc_ConfigFile natsCfg) \<noteq> ''''
         then orErrorf ''process NATS config file: '' (processConfigFile (nc_ConfigFile natsCfg)) (\<lambda>fileOpts.
              if \<not> op_JetStream fileOpts then Err (Errorf ''JetStream must be enabled in NATS config'')
              else Ok fileOpts)
         else Ok opts)
        (\<lambda>opts. Ok (applySyncInterval
           (opts\<lparr>op_ServerName := nc_ServerName natsCfg, op_Port := nc_Port natsCfg,
                 op_StoreDir := nc_StoreDir natsCfg\<rparr>) (nc_SyncInterval natsCfg))))"

text \<open>
  Waiting for JetStream: \<open>accountInfo\<close> asks the server, \<open>sleep\<close> lets the given time pass. The
  loop runs over the indices \<open>i\<close> below \<open>maxRetries\<close>.
\<close>

abbreviation (input) "maxRetries \<equiv> 10 :: nat"

definition retryDelay :: duration where
  "retryDelay = 500 * millisecond"

function account_loop ::
  "('s \<Rightarrow> 's \<times> gerr option) \<Rightarrow> ('s \<Rightarrow> duration \<Rightarrow> 's) \<Rightarrow> 'j \<Rightarrow> 's \<Rightarrow> nat \<Rightarrow> 's \<times> 'j res" where
  "account_loop accountInfo sleep js s i =
     (if i \<ge> maxRetries then (s, Ok js)
      else case accountInfo s of
        (s', None) \<Rightarrow> (s', Ok js)
      | (s', Some e) \<Rightarrow>
          if i = maxRetries - 1
          then (s', Err (Wrapf (''jetstream not ready after '' @ decimal maxRetries @ '' retries: '') e ''''))
          else account_loop accountInfo sleep js (sleep s' retryDelay) (Suc i))"
  by pat_completeness auto

termination by (relation "measure (\<lambda>(_, _, _, _, i). maxRetries - i)") auto

declare account_loop.simps [simp del]

definition NewJetStreamContext ::
  "'j res \<Rightarrow> ('s \<Rightarrow> 's \<times> gerr option) \<Rightarrow> ('s \<Rightarrow> duration \<Rightarrow> 's) \<Rightarrow> 's \<Rightarrow> 's \<times> 'j res" where
  "NewJetStreamContext jetstream_New accountInfo sleep s =
     (case jetstream_New of
        Err e \<Rightarrow> (s, Err e)
      | Panic p \<Rightarrow> (s, Panic p)
      | Ok js \<Rightarrow> account_loop accountInfo sleep js s 0)"

section \<open>The command line\<close>

text \<open>A flag is present when it was changed on the command line.\<close>

record start_flags =
  fl_port :: "int option"
  fl_store_dir :: "string option"
  fl_in_memory :: "bool option"
  fl_log_level :: "string option"
  fl_log_format :: "string option"

definition applyStartConfigOverrides :: "start_flags \<Rightarrow> Config \<Rightarrow> Config res" where
  "applyStartConfigOverrides flags cfg =
     andThen
       (case fl_port flags of
          None \<Rightarrow> Ok cfg
        | Some startPort \<Rightarrow>
            (let cfg' = cfg\<lparr>cfg_NATS := (cfg_NATS cfg)\<lparr>nc_Port := startPort\<rparr>\<rparr> in
             case Validate cfg' of
               Some e \<Rightarrow> Err (Wrapf ''invalid --port value: '' e '''')
             | None \<Rightarrow> Ok cfg'))
       (\<lambda>cfg1.
          (let cfg2 = (case fl_store_dir flags of
                         None \<Rightarrow> cfg1
                       | Some startDataDir \<Rightarrow> cfg1\<lparr>cfg_NATS := (cfg_NATS cfg1)\<lparr>nc_StoreDir := startDataDir\<rparr>\<rparr>);
               cfg3 = (case fl_in_memory flags of
                         None \<Rightarrow> cfg2
                       | Some _ \<Rightarrow> cfg2\<lparr>cfg_NATS := (cfg_NATS cfg2)\<lparr>nc_Storage := ''memory''\<rparr>\<rparr>)
           in Ok cfg3))"

text \<open>The logging before and after the configuration is loaded; \<open>getenv\<close> gives the empty string for unset variables.\<close>

definition getLogLevel :: "(string \<Rightarrow> string) \<Rightarrow> string \<Rightarrow> string" where
  "getLogLevel getenv logLevel =
     (if logLevel \<noteq> '''' then logLevel
      else if getenv ''LOG_LEVEL'' \<noteq> '''' then getenv ''LOG_LEVEL'' else ''info'')"

definition getLogFormat :: "(string \<Rightarrow> string) \<Rightarrow> string \<Rightarrow> string" where
  "getLogFormat getenv logFormat = (if logFormat \<noteq> '''' then logFormat else getenv ''GRCTL_LOG_FORMAT'')"

definition initLogging :: "(string \<Rightarrow> string) \<Rightarrow> string \<Rightarrow> string \<Rightarrow> log_config" where
  "initLogging getenv logLevel logFormat =
     \<lparr>log_Level = getLogLevel getenv logLevel, log_Format = getLogFormat getenv logFormat, log_AddSource = False\<rparr>"

definition reinitLogging :: "(string \<Rightarrow> string) \<Rightarrow> start_flags \<Rightarrow> Config \<Rightarrow> log_config" where
  "reinitLogging getenv flags cfg =
     (let override = (\<lambda>base var flag.
        case flag of Some v \<Rightarrow> v | None \<Rightarrow> if getenv var \<noteq> '''' then getenv var else base)
      in \<lparr>log_Level = override (lc_Level (cfg_Logging cfg)) ''LOG_LEVEL'' (fl_log_level flags),
          log_Format = override (lc_Format (cfg_Logging cfg)) ''GRCTL_LOG_FORMAT'' (fl_log_format flags),
          log_AddSource = lc_AddSource (cfg_Logging cfg)\<rparr>)"

text \<open>The reload on a hang-up signal: only the logging changes, and only if the configuration is good.\<close>

definition reload_on_sighup ::
  "'k koanf \<Rightarrow> string \<Rightarrow> (string \<Rightarrow> string) \<Rightarrow> start_flags \<Rightarrow> log_config \<Rightarrow> log_config" where
  "reload_on_sighup kf configPath getenv flags current =
     (case andThen (Load kf configPath) (applyStartConfigOverrides flags) of
        Ok newCfg \<Rightarrow> reinitLogging getenv flags newCfg
      | _ \<Rightarrow> current)"

section \<open>The state stream\<close>

datatype retention = LimitsPolicy

datatype storage = FileStorage | MemoryStorage

record StreamConfig =
  sc_Name :: string
  sc_Retention :: retention
  sc_Subjects :: "string list"
  sc_Storage :: storage
  sc_AllowDirect :: bool
  sc_AllowMsgSchedules :: bool
  sc_AllowAtomicPublish :: bool
  sc_AllowRollup :: bool

definition EnsureStateStream :: "('s \<Rightarrow> StreamConfig \<Rightarrow> 's \<times> 'x res) \<Rightarrow> 's \<Rightarrow> bool \<Rightarrow> 's \<times> 'x res" where
  "EnsureStateStream createOrUpdateStream s inMemory =
     (case createOrUpdateStream s
        \<lparr>sc_Name = StateStreamName Manifest, sc_Retention = LimitsPolicy, sc_Subjects = EnsureStateStream_Subjects,
         sc_Storage = (if inMemory then MemoryStorage else FileStorage),
         sc_AllowDirect = True, sc_AllowMsgSchedules = True, sc_AllowAtomicPublish = True, sc_AllowRollup = True\<rparr> of
        (s', Err e) \<Rightarrow> (s', Err (Wrapf ''failed to create state stream: '' e ''''))
      | (s', r) \<Rightarrow> (s', r))"

section \<open>Waiting for JetStream\<close>

text \<open>The state before the given call of \<open>accountInfo\<close>, when all calls before it have failed.\<close>

fun attempt :: "('s \<Rightarrow> 's \<times> gerr option) \<Rightarrow> ('s \<Rightarrow> duration \<Rightarrow> 's) \<Rightarrow> 's \<Rightarrow> nat \<Rightarrow> 's" where
  "attempt accountInfo sleep s 0 = s"
| "attempt accountInfo sleep s (Suc n) = attempt accountInfo sleep (sleep (fst (accountInfo s)) retryDelay) n"

lemma decimal_maxRetries: "decimal maxRetries = ''10''"
  by code_simp

lemma account_loop_attempts:
  assumes "i < maxRetries"
  shows "(\<exists>k s'. i + k < maxRetries \<and> (\<forall>j<k. snd (ai (attempt ai sl s j)) \<noteq> None) \<and>
      ai (attempt ai sl s k) = (s', None) \<and> account_loop ai sl js s i = (s', Ok js)) \<or>
    ((\<forall>j. i + j < maxRetries \<longrightarrow> snd (ai (attempt ai sl s j)) \<noteq> None) \<and>
     (\<exists>s' e. ai (attempt ai sl s (maxRetries - 1 - i)) = (s', Some e) \<and>
        account_loop ai sl js s i = (s', Err (Wrapf ''jetstream not ready after 10 retries: '' e ''''))))"
  using assms
proof (induction "maxRetries - 1 - i" arbitrary: i s)
  case 0
  then have i: "i = 9" by simp
  obtain s' r where a: "ai s = (s', r)" by fastforce
  show ?case
  proof (cases r)
    case None
    with a i show ?thesis by (auto simp: account_loop.simps [of ai sl js s 9] intro!: exI [of _ 0])
  next
    case (Some e)
    with a i show ?thesis by (auto simp: account_loop.simps [of ai sl js s 9] decimal_maxRetries)
  qed
next
  case (Suc n)
  obtain s' r where a: "ai s = (s', r)" by fastforce
  show ?case
  proof (cases r)
    case None
    with a Suc.prems show ?thesis by (auto simp: account_loop.simps [of ai sl js s i] intro!: exI [of _ 0])
  next
    case (Some e)
    let ?s = "sl s' retryDelay"
    have step: "account_loop ai sl js s i = account_loop ai sl js ?s (Suc i)"
      using a Some Suc.prems Suc.hyps(2) by (auto simp: account_loop.simps [of ai sl js s i])
    have att: "attempt ai sl s (Suc k) = attempt ai sl ?s k" for k using a by simp
    have "n = maxRetries - 1 - Suc i" "Suc i < maxRetries" using Suc.hyps(2) by simp_all
    from Suc.hyps(1) [OF this, of ?s] show ?thesis
    proof (elim disjE exE conjE)
      fix k t
      assume k: "Suc i + k < maxRetries" "\<forall>j<k. snd (ai (attempt ai sl ?s j)) \<noteq> None"
        "ai (attempt ai sl ?s k) = (t, None)" "account_loop ai sl js ?s (Suc i) = (t, Ok js)"
      have "\<forall>j<Suc k. snd (ai (attempt ai sl s j)) \<noteq> None"
        using k(2) a Some att by (auto simp: less_Suc_eq_0_disj)
      with k step att show ?thesis by (intro disjI1 exI [of _ "Suc k"] exI [of _ t]) simp
    next
      fix t x
      assume all: "\<forall>j. Suc i + j < maxRetries \<longrightarrow> snd (ai (attempt ai sl ?s j)) \<noteq> None"
        and last: "ai (attempt ai sl ?s (maxRetries - 1 - Suc i)) = (t, Some x)"
          "account_loop ai sl js ?s (Suc i) = (t, Err (Wrapf ''jetstream not ready after 10 retries: '' x ''''))"
      have "snd (ai (attempt ai sl s j)) \<noteq> None" if "i + j < maxRetries" for j
        using all a Some att that by (cases j) auto
      moreover have "ai (attempt ai sl s (maxRetries - 1 - i)) = (t, Some x)"
      proof -
        have "maxRetries - 1 - i = Suc (maxRetries - 1 - Suc i)" using Suc.hyps(2) by simp
        then show ?thesis using last(1) att by metis
      qed
      ultimately show ?thesis using step last(2) by auto
    qed
  qed
qed

text \<open>
  C37. Waiting for JetStream ends: the server is asked at most ten times, with a pause of 500
  milliseconds after each failure but the last, and the context is returned exactly if one of
  the ten answers was good, with the state of the first good one. Otherwise the error of the
  tenth answer is returned; the return behind the loop is never reached.
\<close>

theorem jetstream_wait_bounded:
  shows "(\<exists>k s'. k < 10 \<and> (\<forall>j<k. snd (accountInfo (attempt accountInfo sleep s j)) \<noteq> None) \<and>
      accountInfo (attempt accountInfo sleep s k) = (s', None) \<and>
      NewJetStreamContext (Ok js) accountInfo sleep s = (s', Ok js)) \<or>
    ((\<forall>j<10. snd (accountInfo (attempt accountInfo sleep s j)) \<noteq> None) \<and>
     (\<exists>s' e. accountInfo (attempt accountInfo sleep s 9) = (s', Some e) \<and>
        NewJetStreamContext (Ok js) accountInfo sleep s =
          (s', Err (Wrapf ''jetstream not ready after 10 retries: '' e ''''))))"
  using account_loop_attempts [of 0 accountInfo sleep s js] by (simp add: NewJetStreamContext_def)

theorem jetstream_wait_bounded_witness:
  "\<exists>s'. NewJetStreamContext (Ok ()) (\<lambda>n. (Suc n, if n < 2 then Some (Errorf ''not ready'') else None)) (\<lambda>n _. n) (0 :: nat) =
     (s', Ok ())"
proof -
  let ?ai = "\<lambda>n :: nat. (Suc n, if n < 2 then Some (Errorf ''not ready'') else None)" and ?sl = "\<lambda>(n :: nat) (_ :: duration). n"
  have "snd (?ai (attempt ?ai ?sl 0 2)) = None" by (simp add: numeral_2_eq_2)
  moreover have "(2 :: nat) < 10" by simp
  ultimately have "\<not> (\<forall>j<10. snd (?ai (attempt ?ai ?sl 0 j)) \<noteq> None)" by blast
  with jetstream_wait_bounded [of ?ai ?sl 0 "()"] show ?thesis by blast
qed

section \<open>Configurations\<close>

lemma Validate_iff:
  "Validate c = None \<longleftrightarrow>
     (nc_Mode (cfg_NATS c) = NATSModeEmbedded \<and> 1 \<le> nc_Port (cfg_NATS c) \<and> nc_Port (cfg_NATS c) \<le> 65535 \<and>
        nc_StoreDir (cfg_NATS c) \<noteq> '''' \<or>
      nc_Mode (cfg_NATS c) = NATSModeExternal \<and> nc_URL (cfg_NATS c) \<noteq> '''') \<and>
     (nc_SyncInterval (cfg_NATS c) = ''always'' \<or> ParseDuration (nc_SyncInterval (cfg_NATS c)) \<noteq> None) \<and>
     (nc_Storage (cfg_NATS c) = ''memory'' \<or> nc_Storage (cfg_NATS c) = ''file'') \<and>
     0 < dc_StepTimeout (cfg_Defaults c) \<and> 0 < dc_WaitTimeout (cfg_Defaults c)"
proof -
  have sync: "(nc_SyncInterval n = ''always'' \<or> ParseDuration (nc_SyncInterval n) \<noteq> None) \<longleftrightarrow>
      validateSyncInterval (nc_SyncInterval n) = None" for n
    by (auto simp: validateSyncInterval_def split: option.splits)
  have "NATSModeEmbedded \<noteq> NATSModeExternal" by simp
  then show ?thesis
    unfolding sync Validate_def Let_def
    by (cases "validateSyncInterval (nc_SyncInterval (cfg_NATS c))";
        cases "nc_Mode (cfg_NATS c) = NATSModeEmbedded"; cases "nc_Mode (cfg_NATS c) = NATSModeExternal")
      (simp_all add: not_less not_le conj_ac)
qed

text \<open>
  A configuration the daemon works with is a good one: what \<^verbatim>\<open>Load\<close> returns has passed the
  validation, whatever the file and the environment contain, so the mode is one of two, the
  port of an embedded server is a port and it has a store directory, an external server has an
  address, the storage is one of two, the default timeouts are positive, and the interval of
  the disk synchronization is understood by the embedded server as well.
\<close>

lemma Load_valid:
  assumes "Load kf path = Ok cfg"
  shows "Validate cfg = None \<and>
    (nc_Mode (cfg_NATS cfg) = NATSModeEmbedded \<and> 1 \<le> nc_Port (cfg_NATS cfg) \<and> nc_Port (cfg_NATS cfg) \<le> 65535 \<and>
       nc_StoreDir (cfg_NATS cfg) \<noteq> '''' \<or>
     nc_Mode (cfg_NATS cfg) = NATSModeExternal \<and> nc_URL (cfg_NATS cfg) \<noteq> '''') \<and>
    (InMemory (cfg_NATS cfg) \<or> nc_Storage (cfg_NATS cfg) = ''file'') \<and>
    0 < dc_StepTimeout (cfg_Defaults cfg) \<and> 0 < dc_WaitTimeout (cfg_Defaults cfg) \<and>
    (\<forall>opts. op_SyncAlways (applySyncInterval opts (nc_SyncInterval (cfg_NATS cfg))) \<longleftrightarrow>
       nc_SyncInterval (cfg_NATS cfg) = ''always'')"
proof -
  have v: "Validate cfg = None"
    using assms by (auto simp: Load_def Let_def split: option.splits)
  then show ?thesis by (auto simp: Validate_iff InMemory_def applySyncInterval_def)
qed

text \<open>The configuration of the defaults, and a koanf that yields it.\<close>

definition sample_config :: Config where
  "sample_config =
     \<lparr>cfg_NATS = \<lparr>nc_ServerName = ''grctl'', nc_Mode = '' Embedded'', nc_URL = '''', nc_ConfigFile = '''', nc_Port = 4225,
        nc_StoreDir = ''~/.grctl/data'', nc_SyncInterval = ''always'', nc_Storage = ''file''\<rparr>,
      cfg_Defaults = \<lparr>dc_StepTimeout = 300000 * millisecond, dc_WaitTimeout = 3600000 * millisecond\<rparr>,
      cfg_Logging = \<lparr>lc_Level = ''info'', lc_Format = '''', lc_AddSource = False\<rparr>,
      cfg_Telemetry = \<lparr>tc_Enabled = False, tc_OTLPEndpoint = ''localhost:4317'', tc_Insecure = True\<rparr>\<rparr>"

definition sample_koanf :: "unit koanf" where
  "sample_koanf =
     \<lparr>kf_New = (), kf_LoadMap = (\<lambda>_ _. Ok ()), kf_LoadFile = (\<lambda>_ _. Ok ()), kf_LoadEnv = (\<lambda>_ _ _. Ok ()),
      kf_Unmarshal = (\<lambda>_. Ok sample_config), os_Stat = (\<lambda>_. NotExist), os_UserHomeDir = Ok ''/root''\<rparr>"

lemma sample_load:
  "case Load sample_koanf '''' of
     Ok cfg \<Rightarrow> nc_Mode (cfg_NATS cfg) = NATSModeEmbedded \<and> nc_StoreDir (cfg_NATS cfg) = ''/root/.grctl/data''
   | _ \<Rightarrow> False"
proof -
  have "ToLower (TrimSpace '' Embedded'') = NATSModeEmbedded" "ToLower (TrimSpace ''file'') = ''file''"
    "filepath_Join ''/root'' ''.grctl/data'' = ''/root/.grctl/data''"
    by code_simp+
  then show ?thesis
    by (simp add: Load_def sample_koanf_def sample_config_def unmarshalConfig_def Normalized_def ResolveStoreDir_def
        HasPrefix_def Validate_def validateSyncInterval_def millisecond_def)
qed

lemma Load_valid_witness:
  "\<exists>cfg. Load sample_koanf '''' = Ok cfg \<and> Validate cfg = None \<and> nc_StoreDir (cfg_NATS cfg) = ''/root/.grctl/data''"
proof -
  obtain cfg where cfg: "Load sample_koanf '''' = Ok cfg" "nc_StoreDir (cfg_NATS cfg) = ''/root/.grctl/data''"
    using sample_load by (auto split: res.splits)
  from Load_valid [OF cfg(1)] cfg show ?thesis by blast
qed



lemma no_store_dir_refused:
  "nc_Mode (cfg_NATS cfg) = NATSModeEmbedded \<Longrightarrow> nc_StoreDir (cfg_NATS cfg) = '''' \<Longrightarrow> Validate cfg \<noteq> None"
  by (simp add: Validate_iff)

lemma Validate_port:
  assumes "Validate cfg = None" and "nc_Mode (cfg_NATS cfg) = NATSModeEmbedded"
  shows "Validate (cfg\<lparr>cfg_NATS := cfg_NATS cfg\<lparr>nc_Port := p\<rparr>\<rparr>) = None \<longleftrightarrow> 1 \<le> p \<and> p \<le> 65535"
  using assms by (auto simp: Validate_iff)

text \<open>
  Flags of the command line can undo the validation: the port is validated again, but after
  that the store directory is taken as it is, and the flag for memory storage takes effect
  whatever its value. So a good configuration with an empty store directory on the command line
  is accepted although the validation would refuse it, and \<^verbatim>\<open>--in-memory=false\<close> loses the data
  on the next restart.
\<close>

lemma flags_bypass_validation:
  assumes "Validate cfg = None"
  shows "(nc_Mode (cfg_NATS cfg) = NATSModeEmbedded \<longrightarrow> fl_port flags = None \<longrightarrow> fl_store_dir flags = Some '''' \<longrightarrow>
       (\<exists>cfg'. applyStartConfigOverrides flags cfg = Ok cfg' \<and> Validate cfg' \<noteq> None)) \<and>
    (\<forall>b cfg'. fl_in_memory flags = Some b \<longrightarrow> applyStartConfigOverrides flags cfg = Ok cfg' \<longrightarrow>
       InMemory (cfg_NATS cfg')) \<and>
    (\<forall>p. fl_port flags = Some p \<longrightarrow> nc_Mode (cfg_NATS cfg) = NATSModeEmbedded \<longrightarrow>
       ((\<exists>cfg'. applyStartConfigOverrides flags cfg = Ok cfg') \<longleftrightarrow> 1 \<le> p \<and> p \<le> 65535))"
proof (intro conjI allI impI)
  assume a: "nc_Mode (cfg_NATS cfg) = NATSModeEmbedded" "fl_port flags = None" "fl_store_dir flags = Some ''''"
  have "\<exists>cfg'. applyStartConfigOverrides flags cfg = Ok cfg' \<and> nc_Mode (cfg_NATS cfg') = NATSModeEmbedded \<and>
      nc_StoreDir (cfg_NATS cfg') = ''''"
    using a by (cases "fl_in_memory flags") (simp_all add: applyStartConfigOverrides_def)
  with no_store_dir_refused show "\<exists>cfg'. applyStartConfigOverrides flags cfg = Ok cfg' \<and> Validate cfg' \<noteq> None" by blast
next
  fix b cfg'
  assume "fl_in_memory flags = Some b" "applyStartConfigOverrides flags cfg = Ok cfg'"
  then show "InMemory (cfg_NATS cfg')" by (auto simp: applyStartConfigOverrides_def InMemory_def Let_def)
next
  fix p
  assume p: "fl_port flags = Some p" "nc_Mode (cfg_NATS cfg) = NATSModeEmbedded"
  show "(\<exists>cfg'. applyStartConfigOverrides flags cfg = Ok cfg') \<longleftrightarrow> 1 \<le> p \<and> p \<le> 65535"
    using Validate_port [OF assms p(2), of p] p(1)
    by (cases "Validate (cfg\<lparr>cfg_NATS := cfg_NATS cfg\<lparr>nc_Port := p\<rparr>\<rparr>)")
      (simp_all add: applyStartConfigOverrides_def Let_def)
qed

lemma flags_bypass_validation_witness:
  "\<exists>cfg cfg'. Validate cfg = None \<and>
     applyStartConfigOverrides \<lparr>fl_port = None, fl_store_dir = Some '''', fl_in_memory = Some False, fl_log_level = None,
       fl_log_format = None\<rparr> cfg = Ok cfg' \<and> Validate cfg' \<noteq> None \<and> InMemory (cfg_NATS cfg')"
proof -
  let ?c = "sample_config\<lparr>cfg_NATS := (cfg_NATS sample_config)\<lparr>nc_Mode := NATSModeEmbedded\<rparr>\<rparr>"
  let ?f = "\<lparr>fl_port = None, fl_store_dir = Some '''', fl_in_memory = Some False, fl_log_level = None,
    fl_log_format = None\<rparr>"
  have v: "Validate ?c = None"
    by (simp add: Validate_iff sample_config_def millisecond_def)
  from flags_bypass_validation [OF v, of ?f] v show ?thesis by auto
qed

end
