(* ===== verification/Server.thy ===== *)
theory Server
  imports RunMachine Api Ingress Daemon
begin

text \<open>
  The server put together (\<^verbatim>\<open>src/server/server.go\<close>, \<^verbatim>\<open>src/server/identity.go\<close>): its
  construction on the state stream, its start, and what it does with a request of the API or a
  delivered message. Every reaction of the started server is a sequence of steps of the run
  machine, for any JetStream that keeps the contract of the state stream.
\<close>

section \<open>What the server is built on\<close>

text \<open>
  The calls of the NATS client and of the operating system that are not part of the state
  stream; \<open>pf_url_Port\<close> is the port of a parsed URL.
\<close>

record ('s, 'c, 'x, 'y) platform =
  pf_CreateOrUpdateStream :: "'s \<Rightarrow> StreamConfig \<Rightarrow> 's \<times> unit res"
  pf_CreateOrUpdateConsumer :: "('s, 'c) create_consumer"
  pf_Consume :: "'s \<Rightarrow> 'c \<Rightarrow> 's \<times> 'x res"
  pf_StopConsume :: "'s \<Rightarrow> 'x \<Rightarrow> 's"
  pf_Subscribe :: "'s \<Rightarrow> string \<Rightarrow> 's \<times> 'y res"
  pf_Drain :: "'s \<Rightarrow> 'y \<Rightarrow> 's \<times> gerr option"
  pf_Request :: "'s nats_request"
  pf_Hostname :: "string res"
  pf_url_Port :: "string \<Rightarrow> string res"

definition deriveServerID :: "('s, 'c, 'x, 'y) platform \<Rightarrow> Config \<Rightarrow> string res" where
  "deriveServerID pf cfg =
     orErrorf ''get hostname: '' (pf_Hostname pf) (\<lambda>hostname.
     andThen
       (if nc_Mode (cfg_NATS cfg) = NATSModeEmbedded then Ok (Itoa (nc_Port (cfg_NATS cfg)))
        else if nc_Mode (cfg_NATS cfg) = NATSModeExternal
        then orErrorf ''parse NATS URL: '' (pf_url_Port pf (nc_URL (cfg_NATS cfg))) Ok
        else Ok '''') (\<lambda>port.
     Ok (''s:'' @ hostname @ '':'' @ port)))"

section \<open>The server\<close>

text \<open>
  A handler is installed when its queue is started; it reads the clock when it is called. The
  state store is the pair of codec and JetStream that the handlers are applied to.
\<close>

type_synonym 's directive_handler = "runtime \<Rightarrow> 's \<Rightarrow> Directive \<Rightarrow> u64 \<Rightarrow> 's \<times> metric list \<times> HandleResult res"
type_synonym 's timer_handler = "runtime \<Rightarrow> 's \<Rightarrow> Timer \<Rightarrow> u64 \<Rightarrow> 's \<times> HandleResult res"
type_synonym 's bgtask_handler = "runtime \<Rightarrow> 's \<Rightarrow> BackgroundTask \<Rightarrow> u64 \<Rightarrow> 's \<times> metric list \<times> HandleResult res"

record ('s, 'c, 'x, 'y) Server =
  srv_senderID :: string
  srv_runAPI :: "runtime \<Rightarrow> 's Service"
  srv_subscription :: "'y option"
  srv_directiveQueue :: "('c, 's directive_handler, 'x) queue"
  srv_directiveHandler :: "'s directive_handler"
  srv_timerStream :: "('c, 's timer_handler, 'x) queue"
  srv_timerHandler :: "'s timer_handler"
  srv_bgTaskQueue :: "('c, 's bgtask_handler, 'x) queue"
  srv_bgTaskHandler :: "'s bgtask_handler"

abbreviation (input) "maxTimerDeliveries \<equiv> 10 :: u64"
abbreviation (input) "maxBgTaskDeliveries \<equiv> 5 :: u64"

definition NewManager :: "Config \<Rightarrow> Manager" where
  "NewManager cfg =
     \<lparr>mgr_defaultStepTimeoutMS = uint32_ms (dc_StepTimeout (cfg_Defaults cfg)),
      mgr_defaultWaitTimeoutMS = uint32_ms (dc_WaitTimeout (cfg_Defaults cfg))\<rparr>"

text \<open>A call that may fail: its error is wrapped and ends the construction, its state stays.\<close>

definition stage :: "string \<Rightarrow> 's \<times> 'a res \<Rightarrow> ('s \<Rightarrow> 'a \<Rightarrow> 's \<times> 'b res) \<Rightarrow> 's \<times> 'b res" where
  "stage ctx x k =
     (case x of
        (s, Ok a) \<Rightarrow> k s a
      | (s, Err e) \<Rightarrow> (s, Err (Wrapf ctx e ''''))
      | (s, Panic p) \<Rightarrow> (s, Panic p))"

definition NewServer ::
  "('s, 'b) jetstream \<Rightarrow> ('s, 'c, 'x, 'y) platform \<Rightarrow> Config \<Rightarrow> bool \<Rightarrow> 's \<Rightarrow> 's \<times> ('s, 'c, 'x, 'y) Server res" where
  "NewServer js pf cfg inMemory s =
     stage ''failed to initialize state stream: ''
       (EnsureStateStream (pf_CreateOrUpdateStream pf) s inMemory) (\<lambda>s1 _.
     stage ''failed to initialize directive queue: ''
       (NewDirectiveQueue (pf_CreateOrUpdateConsumer pf) s1) (\<lambda>s2 directiveQueue.
     stage ''failed to initialize timer stream: ''
       (NewTimerStream (pf_CreateOrUpdateConsumer pf) s2) (\<lambda>s3 timerStream.
     stage ''derive server ID: '' (s3, deriveServerID pf cfg) (\<lambda>s3 senderID.
     stage ''failed to initialize background task queue: ''
       (NewBgTaskQueue (pf_CreateOrUpdateConsumer pf) s3) (\<lambda>s4 bgTaskQueue.
     (s4, Ok
        \<lparr>srv_senderID = senderID,
         srv_runAPI = (\<lambda>rt. NewService rt js (cfg_Defaults cfg)),
         srv_subscription = None,
         srv_directiveQueue = directiveQueue,
         srv_directiveHandler = (\<lambda>rt. Handle rt (NewManager cfg) (store_recorder rt js)),
         srv_timerStream = timerStream,
         srv_timerHandler = (\<lambda>rt. Timer_Handle rt \<lparr>tmh_maxDeliveries = maxTimerDeliveries\<rparr> (PublishDirective rt js)),
         srv_bgTaskQueue = bgTaskQueue,
         srv_bgTaskHandler =
           (\<lambda>rt. BgTask_Handle rt (store_bg_handler rt js (pf_Request pf) senderID maxBgTaskDeliveries))\<rparr>))))))"

text \<open>
  \<^verbatim>\<open>Start\<close>: the queue of directives, the API, the timers, the tasks. When one of them fails, the
  ones before it stay started.
\<close>

definition start_failed :: "string \<Rightarrow> 's \<Rightarrow> 'v \<Rightarrow> gerr \<Rightarrow> 's \<times> 'v \<times> unit res" where
  "start_failed what s srv e = (s, srv, Err (Wrapf (''failed to start '' @ what @ '': '') e ''''))"

definition server_Start ::
  "('s, 'c, 'x, 'y) platform \<Rightarrow> ('s, 'c, 'x, 'y) Server \<Rightarrow> 's \<Rightarrow> 's \<times> ('s, 'c, 'x, 'y) Server \<times> unit res" where
  "server_Start pf srv s =
     (case directive_Start (pf_Consume pf) (srv_directiveQueue srv) s (Some (srv_directiveHandler srv)) of
        (s1, dq, Err e) \<Rightarrow> start_failed ''directive queue'' s1 (srv\<lparr>srv_directiveQueue := dq\<rparr>) e
      | (s1, dq, Panic p) \<Rightarrow> (s1, srv\<lparr>srv_directiveQueue := dq\<rparr>, Panic p)
      | (s1, dq, Ok _) \<Rightarrow>
     (let srv1 = srv\<lparr>srv_directiveQueue := dq\<rparr> in
      case api_Start (pf_Subscribe pf) s1 of
        (s2, Err e) \<Rightarrow> start_failed ''API handler'' s2 srv1 e
      | (s2, Panic p) \<Rightarrow> (s2, srv1, Panic p)
      | (s2, Ok sub) \<Rightarrow>
     (let srv2 = srv1\<lparr>srv_subscription := Some sub\<rparr> in
      case timer_Start (pf_Consume pf) (srv_timerStream srv2) s2 (Some (srv_timerHandler srv2)) of
        (s3, ts, Err e) \<Rightarrow> start_failed ''timer consumer'' s3 (srv2\<lparr>srv_timerStream := ts\<rparr>) e
      | (s3, ts, Panic p) \<Rightarrow> (s3, srv2\<lparr>srv_timerStream := ts\<rparr>, Panic p)
      | (s3, ts, Ok _) \<Rightarrow>
     (let srv3 = srv2\<lparr>srv_timerStream := ts\<rparr> in
      case bgtask_Start (pf_Consume pf) (srv_bgTaskQueue srv3) s3 (Some (srv_bgTaskHandler srv3)) of
        (s4, bq, Err e) \<Rightarrow> start_failed ''background task consumer'' s4 (srv3\<lparr>srv_bgTaskQueue := bq\<rparr>) e
      | (s4, bq, Panic p) \<Rightarrow> (s4, srv3\<lparr>srv_bgTaskQueue := bq\<rparr>, Panic p)
      | (s4, bq, Ok _) \<Rightarrow> (s4, srv3\<lparr>srv_bgTaskQueue := bq\<rparr>, Ok ())))))"

text \<open>
  \<^verbatim>\<open>Stop\<close>: the subscription is drained, then the consumers are stopped in the order of the source;
  the calls wait for the handlers in progress. \<open>timeout\<close> is the error of a context that ends before
  that; the stopping goes on without the caller.
\<close>

definition api_Stop :: "('s \<Rightarrow> 'y \<Rightarrow> 's \<times> gerr option) \<Rightarrow> 'y option \<Rightarrow> 's \<Rightarrow> 's" where
  "api_Stop drain sub s = (case sub of None \<Rightarrow> s | Some x \<Rightarrow> fst (drain s x))"

definition queue_Stop :: "('s \<Rightarrow> 'x \<Rightarrow> 's) \<Rightarrow> ('c, 'h, 'x) queue \<Rightarrow> 's \<Rightarrow> 's" where
  "queue_Stop stop q s = (case q_consumeCtx q of None \<Rightarrow> s | Some ctx \<Rightarrow> stop s ctx)"

definition directive_Stop :: "('s \<Rightarrow> 'x \<Rightarrow> 's) \<Rightarrow> ('c, 'h, 'x) queue \<Rightarrow> 's \<Rightarrow> 's" where
  "directive_Stop = queue_Stop"

definition timer_Stop :: "('s \<Rightarrow> 'x \<Rightarrow> 's) \<Rightarrow> ('c, 'h, 'x) queue \<Rightarrow> 's \<Rightarrow> 's" where
  "timer_Stop = queue_Stop"

definition bgtask_Stop :: "('s \<Rightarrow> 'x \<Rightarrow> 's) \<Rightarrow> ('c, 'h, 'x) queue \<Rightarrow> 's \<Rightarrow> 's" where
  "bgtask_Stop = queue_Stop"

definition server_Stop ::
  "('s, 'c, 'x, 'y) platform \<Rightarrow> ('s, 'c, 'x, 'y) Server \<Rightarrow> 's \<Rightarrow> gerr option \<Rightarrow> 's \<times> unit res" where
  "server_Stop pf srv s timeout =
     (let s1 = api_Stop (pf_Drain pf) (srv_subscription srv) s;
          s2 = directive_Stop (pf_StopConsume pf) (srv_directiveQueue srv) s1;
          s3 = timer_Stop (pf_StopConsume pf) (srv_timerStream srv) s2;
          s4 = bgtask_Stop (pf_StopConsume pf) (srv_bgTaskQueue srv) s3
      in (s4, case timeout of None \<Rightarrow> Ok () | Some e \<Rightarrow> Err (Wrapf ''shutdown timed out: '' e '''')))"

section \<open>The running server\<close>

text \<open>
  What reaches the server: a request of the API, or a message of one of its consumers. Nothing
  reaches a part that was not started. Every reaction has its own clock.
\<close>

datatype incoming =
    ApiRequest bytes
  | DirectiveMsg delivery
  | TimerMsg delivery
  | BgTaskMsg delivery

datatype outgoing = Responses "bytes list res" | Answer "answer res" | NotDelivered

definition serve ::
  "runtime \<Rightarrow> (string \<Rightarrow> string) \<Rightarrow> ('s, 'c, 'x, 'y) Server \<Rightarrow> 's \<Rightarrow> incoming \<Rightarrow> 's \<times> metric list \<times> outgoing" where
  "serve rt sprint srv s inc =
     (case inc of
        ApiRequest data \<Rightarrow>
          (case srv_subscription srv of
             None \<Rightarrow> (s, [], NotDelivered)
           | Some _ \<Rightarrow>
               (case api_handler rt sprint (srv_runAPI srv rt) s data of (s', ms, r) \<Rightarrow> (s', ms, Responses r)))
      | DirectiveMsg msg \<Rightarrow>
          (case (q_consumeCtx (srv_directiveQueue srv), q_handler (srv_directiveQueue srv)) of
             (Some _, Some h) \<Rightarrow>
               (case directive_processMessage rt (h rt) s msg of (s', ms, r) \<Rightarrow> (s', ms, Answer r))
           | _ \<Rightarrow> (s, [], NotDelivered))
      | TimerMsg msg \<Rightarrow>
          (case (q_consumeCtx (srv_timerStream srv), q_handler (srv_timerStream srv)) of
             (Some _, Some h) \<Rightarrow>
               (case timer_processMessage rt (h rt) s msg of (s', ms, r) \<Rightarrow> (s', ms, Answer r))
           | _ \<Rightarrow> (s, [], NotDelivered))
      | BgTaskMsg msg \<Rightarrow>
          (case (q_consumeCtx (srv_bgTaskQueue srv), q_handler (srv_bgTaskQueue srv)) of
             (Some _, Some h) \<Rightarrow>
               (case bgtask_processMessage rt (h rt) s msg of (s', ms, r) \<Rightarrow> (s', ms, Answer r))
           | _ \<Rightarrow> (s, [], NotDelivered)))"

section \<open>The codec does not depend on the clock\<close>

abbreviation at_clock :: "runtime \<Rightarrow> (site \<Rightarrow> time) \<Rightarrow> (site \<Rightarrow> string) \<Rightarrow> runtime" where
  "at_clock rt n u \<equiv> rt\<lparr>now := n, ulid := u\<rparr>"

named_theorems clockless

lemma enc_DirectiveMessage_clock [clockless]:
  "enc_DirectiveMessage (at_clock rt n u) m = enc_DirectiveMessage rt m"
  by (induction rt m rule: enc_DirectiveMessage.induct) (simp_all split: option.split)

lemma decode_directive_clock: "Directive_DecodeMsgpack (at_clock rt n u) = Directive_DecodeMsgpack rt"
  by (simp add: fun_eq_iff Directive_DecodeMsgpack_def case_prod_unfold cong: if_cong)

lemma decode_clock [clockless]:
  "Directive_DecodeMsgpack (at_clock rt n u) = Directive_DecodeMsgpack rt"
  "dec_RunState (at_clock rt n u) = dec_RunState rt"
  by (simp_all add: fun_eq_iff dec_RunState_def decode_directive_clock)

lemma codec_clock [clockless]:
  "marshal_Directive (at_clock rt n u) = marshal_Directive rt"
  "unmarshal_Directive (at_clock rt n u) = unmarshal_Directive rt"
  "marshal_RunState (at_clock rt n u) = marshal_RunState rt"
  "unmarshal_RunState (at_clock rt n u) = unmarshal_RunState rt"
  "marshal_RunInfo (at_clock rt n u) = marshal_RunInfo rt"
  "unmarshal_RunInfo (at_clock rt n u) = unmarshal_RunInfo rt"
  "marshal_HistoryEvent (at_clock rt n u) = marshal_HistoryEvent rt"
  "marshal_Timer (at_clock rt n u) = marshal_Timer rt"
  by (simp_all add: fun_eq_iff marshal_Directive_def unmarshal_Directive_def Directive_EncodeMsgpack_def
      decode_clock enc_DirectiveMessage_clock marshal_RunState_def unmarshal_RunState_def
      enc_RunState_def marshal_RunInfo_def unmarshal_RunInfo_def marshal_HistoryEvent_def HistoryEvent_EncodeMsgpack_def
      marshal_Timer_def enc_Timer_def Command_EncodeMsgpack_def split: option.split)

lemma KVRecordToNatsMsgs_clock [clockless]:
  "KVRecordToNatsMsgs (at_clock rt n u) w r kvs = KVRecordToNatsMsgs rt w r kvs"
  by (induction kvs) (auto simp: split_paired_all)

lemma recordToNats_clock [clockless]: "recordToNats (at_clock rt n u) r = recordToNats rt r"
  by (cases r) (simp_all add: record_to_nats_defs clockless)

lemma commit_messages_clock [clockless]: "commit_messages (at_clock rt n u) rs = commit_messages rt rs"
  by (induction rs) (simp_all add: clockless)

lemma write_clock [clockless]:
  "write_records (at_clock rt n u) = write_records rt"
  "write_directive (at_clock rt n u) = write_directive rt"
  "write_run_info (at_clock rt n u) = write_run_info rt"
  by (simp_all add: fun_eq_iff write_records_def write_directive_def write_run_info_def clockless)

lemma first_event_clock [clockless]: "first_event (at_clock rt n u) items = first_event rt items"
  by (cases items) (simp_all add: clockless)

lemma next_event_clock [clockless]: "GetNextEvent (at_clock rt n u) = GetNextEvent rt"
  by (simp add: fun_eq_iff GetNextEvent_def first_event_clock [abs_def])

lemma run_state_clock [clockless]: "GetRunState (at_clock rt n u) = GetRunState rt"
  by (simp add: fun_eq_iff GetRunState_def clockless split: res.split)

lemma snapshot_clock [clockless]: "GetStateSnapshot (at_clock rt n u) = GetStateSnapshot rt"
  by (simp add: fun_eq_iff GetStateSnapshot_def clockless)

section \<open>Writes of the server as steps of the machine\<close>

text \<open>A change of the stream that the machine can make, whatever is in flight.\<close>

definition refines :: "runtime \<Rightarrow> Manager \<Rightarrow> stream \<Rightarrow> stream \<Rightarrow> bool" where
  "refines rt m st st' \<longleftrightarrow> (\<forall>fs. (machine_step rt m)\<^sup>*\<^sup>* (st, fs) (st', fs))"

lemma refines_refl [simp, intro]: "refines rt m st st"
  by (simp add: refines_def)

lemma refines_trans: "refines rt m a b \<Longrightarrow> refines rt m b c \<Longrightarrow> refines rt m a c"
  unfolding refines_def by (meson rtranclp_trans)

lemma refines_step: "(\<And>fs. machine_step rt m (st, fs) (st', fs)) \<Longrightarrow> refines rt m st st'"
  by (auto simp: refines_def)

text \<open>A subject or pattern whose first token is a word other than that of the run states.\<close>

definition off_state :: "string \<Rightarrow> bool" where
  "off_state p \<longleftrightarrow> (\<exists>t. HasPrefix p (t @ ''.'') \<and> dot_free t \<and> t \<noteq> ''grctl_state'' \<and> t \<noteq> ''*'' \<and> t \<noteq> ''>'')"

lemma HasPrefix_shorter: "HasPrefix s (p @ q) \<Longrightarrow> HasPrefix s p"
  by (metis HasPrefix_append HasPrefix_def append.assoc append_take_drop_id)

lemma first_token:
  assumes "HasPrefix s (t @ ''.'')" and "dot_free t"
  shows "\<exists>ts. split_dots s = t # ts \<and> ts \<noteq> []"
proof -
  obtain z where "s = t @ CHR ''.'' # z"
    using assms(1) by (metis HasPrefix_def append.assoc append_Cons append_Nil append_take_drop_id)
  with assms(2) show ?thesis by (simp add: split_dots_join)
qed

lemma off_state_tokens:
  assumes "off_state p"
  shows "\<exists>t ts. split_dots p = t # ts \<and> t \<noteq> ''grctl_state'' \<and> t \<noteq> ''*'' \<and> t \<noteq> ''>''"
  using assms first_token by (fastforce simp: off_state_def)

lemma state_tokens: "HasPrefix s ''grctl_state.run_state.'' \<Longrightarrow> \<exists>ts. split_dots s = ''grctl_state'' # ts"
  using first_token [of s "''grctl_state''"] HasPrefix_shorter [of s "''grctl_state.''" "''run_state.''"]
  by (auto simp: dot_free_def)

lemma off_state_no_match:
  assumes "off_state p" and "HasPrefix s ''grctl_state.run_state.''"
  shows "\<not> subject_matches p s"
  using off_state_tokens [OF assms(1)] state_tokens [OF assms(2)] by (auto simp: subject_matches_def)

lemma off_state_not_state: "off_state (nm_Subject msg) \<Longrightarrow> \<not> on_state_subject msg"
  using off_state_tokens state_tokens by (fastforce simp: on_state_subject_def)

lemma off_state_prefix:
  assumes "HasPrefix p (t @ ''.'' @ q)" and "dot_free t" and "t \<noteq> ''grctl_state''" and "t \<noteq> ''*''" and "t \<noteq> ''>''"
  shows "off_state p"
  using assms HasPrefix_shorter [of p "t @ ''.''" q] by (auto simp: off_state_def)

lemma purge_prefixes:
  "HasPrefix (DirectivePurgePattern Manifest w) ''grctl_directive.*.''"
  "HasPrefix (TimerPurgePattern Manifest w) ''grctl_timers.''"
  "HasPrefix (EventInboxPurgePattern Manifest w) ''grctl_events.''"
  "HasPrefix (WorkerTaskPurgePattern Manifest w) ''grctl_worker_task.*.''"
  by (simp_all add: DirectivePurgePattern_def TimerPurgePattern_def EventInboxPurgePattern_def
      WorkerTaskPurgePattern_def manifest_patterns substituteParams_HasPrefix plain_def del: substituteParams.simps)

lemma off_state_subjects:
  "off_state (DirectiveSubject Manifest t w r)" "off_state (RunInfoKey Manifest t w r)"
  "off_state (TimerSubject Manifest w k i)" "off_state (WorkflowTypeRegistrySubject Manifest t)"
  "off_state (DirectivePurgePattern Manifest w)" "off_state (TimerPurgePattern Manifest w)"
  "off_state (EventInboxPurgePattern Manifest w)" "off_state (WorkerTaskPurgePattern Manifest w)"
  using subject_prefixes(1,3,9,12) purge_prefixes
    off_state_prefix [of _ "''grctl_run''" "''''"]
    off_state_prefix [of _ "''grctl_timers''" "''''"] off_state_prefix [of _ "''grctl_registry''" "''''"]
    off_state_prefix [of _ "''grctl_events''" "''''"] off_state_prefix [of _ "''grctl_worker_task''" "''*.''"]
    off_state_prefix [of _ "''grctl_directive''" "''''"] off_state_prefix [of _ "''grctl_directive''" "''*.''"]
  by (simp_all add: dot_free_def)

lemma purge_refines: "off_state p \<Longrightarrow> refines rt m st (purge_subject st p)"
  using off_state_no_match by (intro refines_step machine_step.purge) (auto simp: list_ex_iff)

lemma publish_refines: "publish_accepted st msg \<Longrightarrow> off_state (nm_Subject msg) \<Longrightarrow> refines rt m st (publish_msg st msg)"
  using off_state_not_state by (intro refines_step machine_step.publish)

lemma write_directive_refines: "write_directive rt st d = Some st' \<Longrightarrow> refines rt m st st'"
  by (auto simp: write_directive_def write_msg_def directive_msg_def off_state_subjects
      intro: publish_refines split: res.splits if_splits)

lemma write_run_info_refines: "write_run_info rt st info = Some st' \<Longrightarrow> refines rt m st st'"
  by (auto simp: write_run_info_def write_msg_def run_info_msg_def off_state_subjects
      intro: publish_refines split: res.splits if_splits)

text \<open>A commit of a manager: it reads, plans and writes while others go on.\<close>

lemma commit_refines:
  assumes "may_read rt st (ri_WFID (d_RunInfo d)) (ri_ID (d_RunInfo d)) sn"
    and "planned (at_clock rt n u) m d sn rs" and "write_records rt st rs = Some st'"
  shows "refines rt m st st'"
  unfolding refines_def
proof
  fix fs
  have "machine_step rt m (st, fs) (st, (d, sn) # fs)" using assms(1) by (rule machine_step.deliver)
  moreover have "machine_step rt m (st, [] @ (d, sn) # fs) (st', [] @ fs)"
    using assms(2,3) by (rule machine_step.finish)
  ultimately show "(machine_step rt m)\<^sup>*\<^sup>* (st, fs) (st', fs)" by (simp add: converse_rtranclp_into_rtranclp)
qed

context state_stream
begin

lemma PublishDirective_refines:
  assumes "PublishDirective (at_clock rt n u) js s d = (s', r)"
  shows "refines rt m (view s) (view s')"
  using PublishDirective_cases [OF assms] by (auto simp: clockless write_directive_refines split: res.splits)

lemma CreateRunInfo_refines:
  assumes "CreateRunInfo (at_clock rt n u) js s info = (s', r)"
  shows "refines rt m (view s) (view s')"
  using CreateRunInfo_error [OF assms] by (auto simp: clockless write_run_info_refines split: res.splits)

lemma Handle_refines:
  assumes "Handle (at_clock rt n u) m (store_recorder (at_clock rt n u) js) s d k = (s', ms, r)"
  shows "refines rt m (view s) (view s')"
proof (cases "view s' = view s")
  case False
  then obtain sn rs where
    "GetStateSnapshot rt js s (ri_WFID (d_RunInfo d)) (ri_ID (d_RunInfo d)) = Ok sn"
    "planned (at_clock rt n u) m d sn rs" "write_records rt (view s) rs = Some (view s')"
    using recorder.Handle_writes [OF store_is_recorder assms] by (auto simp: clockless store_recorder_def)
  then show ?thesis using commit_refines snapshot_may_read by blast
qed simp

lemma js_purge_refines:
  assumes "js_purge js s p = (s', r)" and "off_state p"
  shows "refines rt m (view s) (view s')"
  using assms(1) purge_ok purge_failed purge_refines [OF assms(2), of rt m "view s"]
  by (cases r) (metis refines_refl)+

end

lemma publish_or_retry_publishes: "publish_or_retry publisher s d = (s', r) \<Longrightarrow> \<exists>r'. publisher s d = (s', r')"
  by (auto simp: publish_or_retry_def split: prod.splits res.splits)

lemma Timer_Handle_publishes:
  assumes "Timer_Handle rt h publisher s t k = (s', r)"
  shows "s' = s \<or> (\<exists>d r'. publisher s d = (s', r'))"
  using assms publish_or_retry_publishes [of publisher s _ s']
  by (auto simp: Timer_Handle_def handleDirectiveTimer_def handleStepTimeout_def handleWaitTimeout_def applyFailure_def
      split: if_splits TimerKind.splits res.splits)

lemma enqueue_publishes: "enqueue m s what d = (s', r) \<Longrightarrow> \<exists>r'. rst_PublishDirective (svc_store m) s d = (s', r')"
  by (auto simp: enqueue_def split: prod.splits res.splits)

lemma StartRun_writes:
  assumes "StartRun rt m s info inp = (s', ms, r)"
  shows "s' = s \<or> (\<exists>s1 r1. rst_CreateRunInfo (svc_store m) s info = (s1, r1) \<and>
     (s' = s1 \<or> (\<exists>d r2. rst_PublishDirective (svc_store m) s1 d = (s', r2))))"
  using assms by (auto simp: StartRun_def Let_def split: prod.splits res.splits)

text \<open>The tasks that are allowed to delete a message delete no run state.\<close>

definition spares_states :: "runtime \<Rightarrow> stream \<Rightarrow> BackgroundTask \<Rightarrow> bool" where
  "spares_states rt st task \<longleftrightarrow>
     (\<forall>p. bt_Kind task = BackgroundTaskKindDeleteInboxEvent \<longrightarrow>
        andThen (mp_unmarshal rt (bt_Payload task)) dec_DeleteInboxEventPayload = Ok p \<longrightarrow>
        \<not> list_ex (\<lambda>x. sm_Sequence x = diep_SeqID p \<and> HasPrefix (sm_Subject x) ''grctl_state.run_state.'') (st_msgs st))"

lemma entry_msgs_other:
  assumes "entry_msgs rt w t defs = Ok ms"
  shows "\<not> list_ex on_state_subject ms"
proof -
  have "off_state (nm_Subject msg)" if "msg \<in> set ms" for msg
    using assms that by (induction defs arbitrary: ms) (auto simp: entry_msg_def off_state_subjects)
  then show ?thesis using off_state_not_state by (auto simp: list_ex_iff)
qed

context state_stream
begin

lemma PutTypes_refines:
  assumes "PutTypes (at_clock rt n u) js s w defs = (s', r)"
  shows "refines rt m (view s) (view s')"
proof (cases "entry_msgs (at_clock rt n u) w (n At_PutTypes_registeredAt) defs")
  case (Ok ms)
  show ?thesis
  proof (cases "defs = []")
    case False
    with assms Ok have p: "publish_entries js s ms = (s', r)" by (simp add: PutTypes_def)
    moreover have "ms \<noteq> []" using Ok False by (cases defs) auto
    ultimately have "view s' = view s \<or> batch_accepted (view s) ms \<and> view s' = store_batch (view s) ms"
      by (rule publish_entries_view)
    then show ?thesis
      using entry_msgs_other [OF Ok] machine_step.batch refines_step by (metis refines_refl)
  qed (use assms in \<open>simp add: PutTypes_def\<close>)
qed (use assms in \<open>auto simp: PutTypes_def split: if_splits\<close>)

lemma purge_loop_refines:
  assumes "purge_loop js s ps = (s', r)" and "list_all off_state ps"
  shows "refines rt m (view s) (view s')"
  using assms
proof (induction ps arbitrary: s)
  case (Cons p ps)
  obtain s1 r1 where p: "js_purge js s p = (s1, r1)" by fastforce
  then have "refines rt m (view s) (view s1)" using Cons.prems(2) js_purge_refines by simp
  with Cons p show ?case by (cases r1) (auto intro: refines_trans)
qed simp

lemma PurgeRunResidue_refines:
  "PurgeRunResidue js s w = (s', r) \<Longrightarrow> refines rt m (view s) (view s')"
  by (rule purge_loop_refines [where ps = "residue_patterns w"])
    (simp_all add: PurgeRunResidue_def residue_patterns_def off_state_subjects)

lemma CancelTimer_refines:
  assumes "CancelTimer js s w k i = (s', r)"
  shows "refines rt m (view s) (view s')"
proof -
  obtain r' where "js_purge js s (TimerSubject Manifest w k i) = (s', r')"
    using assms by (auto simp: CancelTimer_def split: prod.splits option.splits if_splits)
  then show ?thesis by (rule js_purge_refines) (rule off_state_subjects)
qed

end

context state_stream
begin

lemma DeleteInboxEvent_refines:
  assumes "DeleteInboxEvent js s q = (s', r)"
    and "\<not> list_ex (\<lambda>x. sm_Sequence x = q \<and> HasPrefix (sm_Subject x) ''grctl_state.run_state.'') (st_msgs (view s))"
  shows "refines rt m (view s) (view s')"
proof -
  obtain r' where d: "js_delete js s q = (s', r')"
    using assms(1) by (auto simp: DeleteInboxEvent_def split: prod.splits option.splits)
  have "refines rt m (view s) (delete_seq (view s) q)"
    using assms(2) by (intro refines_step machine_step.delete)
  with d delete_ok [of s q s'] delete_failed [of s q s'] show ?thesis by (cases r') (metis refines_refl)+
qed

lemma bg_dispatch_refines:
  assumes "bg_dispatch (at_clock rt n u) (store_bg_handler (at_clock rt n u) js rq i k) s task kind = Some (s', r)"
    and "kind = bt_Kind task" and "spares_states rt (view s) task" and "\<And>s w d t. view (fst (rq s w d t)) = view s"
  shows "refines rt m (view s) (view s')"
proof (cases kind)
  case BackgroundTaskKindDeleteTimer
  with assms(1) show ?thesis
    using CancelTimer_refines [of s]
    by (fastforce simp: handleDeleteTimer_def with_payload_def split: res.splits prod.splits)
next
  case BackgroundTaskKindDeleteInboxEvent
  show ?thesis
  proof (cases "andThen (mp_unmarshal rt (bt_Payload task)) dec_DeleteInboxEventPayload")
    case (Ok p)
    obtain r' where "DeleteInboxEvent js s (diep_SeqID p) = (s', r')"
      using assms(1) BackgroundTaskKindDeleteInboxEvent Ok
      by (cases "DeleteInboxEvent js s (diep_SeqID p)"; cases "snd (DeleteInboxEvent js s (diep_SeqID p))")
        (auto simp: handleDeleteInboxEvent_def with_payload_def)
    with DeleteInboxEvent_refines assms(2,3) BackgroundTaskKindDeleteInboxEvent Ok show ?thesis
      by (auto simp: spares_states_def)
  qed (use assms(1) BackgroundTaskKindDeleteInboxEvent in \<open>auto simp: handleDeleteInboxEvent_def with_payload_def\<close>)
next
  case BackgroundTaskKindPurgeRunResidue
  show ?thesis
  proof (cases "andThen (mp_unmarshal rt (bt_Payload task)) dec_PurgeRunResiduePayload")
    case (Ok p)
    obtain r' where "PurgeRunResidue js s (prrp_WFID p) = (s', r')"
      using assms(1) BackgroundTaskKindPurgeRunResidue Ok
      by (cases "PurgeRunResidue js s (prrp_WFID p)"; cases "snd (PurgeRunResidue js s (prrp_WFID p))")
        (auto simp: handlePurgeRunResidue_def with_payload_def)
    then show ?thesis by (rule PurgeRunResidue_refines)
  qed (use assms(1) BackgroundTaskKindPurgeRunResidue in \<open>auto simp: handlePurgeRunResidue_def with_payload_def\<close>)
next
  case BackgroundTaskKindNotifyParentComplete
  with assms(1) have "s' = s \<or> (\<exists>d r'. PublishDirective (at_clock rt n u) js s d = (s', r'))"
    by (auto simp: handleNotifyParentComplete_def with_payload_def split: res.splits prod.splits if_splits
        dest!: publish_or_retry_publishes)
  then show ?thesis using PublishDirective_refines by auto
next
  case BackgroundTaskKindWorkerTerminateRun
  with assms(1) have "s' = s \<or> (\<exists>w d t e. rq s w d t = (s', e))"
    by (auto simp: handleWorkerTerminateRun_def with_payload_def PublishWorkerCommand_def
        split: res.splits prod.splits option.splits if_splits)
  then show ?thesis using assms(4) [of s] by (metis fst_conv refines_refl)
qed (use assms(1) in auto)

lemma BgTask_Handle_refines:
  assumes "BgTask_Handle (at_clock rt n u) (store_bg_handler (at_clock rt n u) js rq i k) s task c = (s', ms, r)"
    and "spares_states rt (view s) task" and "\<And>s w d t. view (fst (rq s w d t)) = view s"
  shows "refines rt m (view s) (view s')"
  using assms(1) bg_dispatch_refines [OF _ refl assms(2,3), where s' = s']
  by (fastforce simp: BgTask_Handle_def Let_def split: if_splits option.splits prod.splits res.splits)

end

context state_stream
begin

lemma enqueue_refines:
  assumes "enqueue (NewService (at_clock rt n u) js cfg) s what d = (s', r)"
  shows "refines rt m (view s) (view s')"
  using enqueue_publishes [OF assms] PublishDirective_refines by auto

lemma StartRun_refines:
  assumes "StartRun rt' (NewService (at_clock rt n u) js cfg) s info inp = (s', ms, r)"
  shows "refines rt m (view s) (view s')"
proof (cases "s' = s")
  case False
  with StartRun_writes [OF assms] obtain s1 r1 where c: "CreateRunInfo (at_clock rt n u) js s info = (s1, r1)"
    and p: "s' = s1 \<or> (\<exists>d r2. PublishDirective (at_clock rt n u) js s1 d = (s', r2))" by auto
  have "refines rt m (view s1) (view s')" using p PublishDirective_refines by auto
  then show ?thesis by (rule refines_trans [OF CreateRunInfo_refines [OF c]])
qed simp

lemma dispatch_refines:
  assumes "dispatch_command rt' (NewService (at_clock rt n u) js cfg) s c = (s', ms, r)"
  shows "refines rt m (view s) (view s')"
proof (cases "c_Kind c")
  case CmdKindRunStart
  with assms show ?thesis
    using StartRun_refines
    by (fastforce simp: dispatch_command_def no_payload_def handleStart_def split: option.splits CommandMessage.splits prod.splits)
next
  case CmdKindWorkerRegister
  with assms show ?thesis
    using PutTypes_refines
    by (fastforce simp: dispatch_command_def no_payload_def no_metrics_def handleRegister_def Register_def
        split: option.splits CommandMessage.splits prod.splits)
next
  case CmdKindRunCancel
  with assms have "s' = s \<or> (\<exists>what d r. enqueue (NewService (at_clock rt n u) js cfg) s what d = (s', r))"
    by (auto simp: dispatch_command_def no_payload_def no_metrics_def handleCancel_def Cancel_run_def
        split: option.splits CommandMessage.splits prod.splits res.splits)
  then show ?thesis using enqueue_refines by auto
next
  case CmdKindRunTerminate
  with assms have "s' = s \<or> (\<exists>what d r. enqueue (NewService (at_clock rt n u) js cfg) s what d = (s', r))"
    by (auto simp: dispatch_command_def no_payload_def no_metrics_def handleTerminate_def Terminate_run_def
        split: option.splits CommandMessage.splits prod.splits res.splits)
  then show ?thesis using enqueue_refines by auto
next
  case CmdKindRunEvent
  with assms have "s' = s \<or> (\<exists>what d r. enqueue (NewService (at_clock rt n u) js cfg) s what d = (s', r))"
    by (auto simp: dispatch_command_def no_payload_def no_metrics_def handleEvent_def Send_def
        split: option.splits CommandMessage.splits prod.splits res.splits)
  then show ?thesis using enqueue_refines by auto
qed (use assms in \<open>auto simp: dispatch_command_def\<close>)

lemma api_handler_refines:
  assumes "api_handler rt' sprint (NewService (at_clock rt n u) js cfg) s data = (s', ms, r)"
  shows "refines rt m (view s) (view s')"
proof -
  obtain ms' r' where "handler_body rt' (NewService (at_clock rt n u) js cfg) s data = (s', ms', r')"
    using assms by (auto simp: api_handler_def split: prod.splits res.splits)
  then have "s' = s \<or> (\<exists>c ms r. dispatch_command rt' (NewService (at_clock rt n u) js cfg) s c = (s', ms, r))"
    by (auto simp: handler_body_def handleMessage_def split: prod.splits res.splits)
  then show ?thesis using dispatch_refines by auto
qed

end

section \<open>A server as it was built\<close>

text \<open>The handlers of a server on \<open>js\<close>, and that its queues have these handlers or none.\<close>

definition built ::
  "('s, 'b) jetstream \<Rightarrow> ('s, 'c, 'x, 'y) platform \<Rightarrow> Config \<Rightarrow> ('s, 'c, 'x, 'y) Server \<Rightarrow> bool" where
  "built js pf cfg srv \<longleftrightarrow>
     srv_runAPI srv = (\<lambda>rt. NewService rt js (cfg_Defaults cfg)) \<and>
     srv_directiveHandler srv = (\<lambda>rt. Handle rt (NewManager cfg) (store_recorder rt js)) \<and>
     srv_timerHandler srv =
       (\<lambda>rt. Timer_Handle rt \<lparr>tmh_maxDeliveries = maxTimerDeliveries\<rparr> (PublishDirective rt js)) \<and>
     srv_bgTaskHandler srv =
       (\<lambda>rt. BgTask_Handle rt (store_bg_handler rt js (pf_Request pf) (srv_senderID srv) maxBgTaskDeliveries)) \<and>
     (\<forall>h. q_handler (srv_directiveQueue srv) = Some h \<longrightarrow> h = srv_directiveHandler srv) \<and>
     (\<forall>h. q_handler (srv_timerStream srv) = Some h \<longrightarrow> h = srv_timerHandler srv) \<and>
     (\<forall>h. q_handler (srv_bgTaskQueue srv) = Some h \<longrightarrow> h = srv_bgTaskHandler srv)"

lemma stage_Ok: "stage ctx x k = (s', Ok b) \<Longrightarrow> \<exists>s a. x = (s, Ok a) \<and> k s a = (s', Ok b)"
  by (auto simp: stage_def split: prod.splits res.splits)

lemma new_queue_Ok: "new_queue x = (s', Ok q) \<Longrightarrow> q_handler q = None \<and> q_consumeCtx q = None \<and> q_consumer q \<noteq> None"
  by (auto simp: new_queue_def split: prod.splits res.splits)

lemma NewServer_built:
  assumes "NewServer js pf cfg inMemory s = (s', Ok srv)"
  shows "built js pf cfg srv"
  using assms unfolding NewServer_def
  by (auto dest!: stage_Ok new_queue_Ok simp: built_def NewDirectiveQueue_def NewTimerStream_def NewBgTaskQueue_def)

lemma queue_Start_handler:
  assumes "queue_Start what consume q s (Some h) = (s', q', r)"
  shows "q_handler q' = q_handler q \<or> q_handler q' = Some h"
  using assms by (auto simp: queue_Start_def Let_def split: option.splits prod.splits res.splits)

lemma queue_Start_started:
  assumes "queue_Start what consume q s (Some h) = (s', q', Ok u)"
  shows "q_handler q' = Some h \<and> q_consumeCtx q' \<noteq> None"
  using assms by (auto simp: queue_Start_def Let_def split: option.splits prod.splits res.splits)

lemmas start_defs = server_Start_def directive_Start_def timer_Start_def bgtask_Start_def start_failed_def Let_def

lemma built_update:
  assumes "built js pf cfg srv"
  shows "q_handler dq = q_handler (srv_directiveQueue srv) \<or> q_handler dq = Some (srv_directiveHandler srv) \<Longrightarrow>
      built js pf cfg (srv\<lparr>srv_directiveQueue := dq\<rparr>)"
    and "q_handler ts = q_handler (srv_timerStream srv) \<or> q_handler ts = Some (srv_timerHandler srv) \<Longrightarrow>
      built js pf cfg (srv\<lparr>srv_timerStream := ts\<rparr>)"
    and "q_handler bq = q_handler (srv_bgTaskQueue srv) \<or> q_handler bq = Some (srv_bgTaskHandler srv) \<Longrightarrow>
      built js pf cfg (srv\<lparr>srv_bgTaskQueue := bq\<rparr>)"
    and "built js pf cfg (srv\<lparr>srv_subscription := sub\<rparr>)"
  using assms by (auto simp: built_def)

lemma Start_built:
  assumes "built js pf cfg srv" and "server_Start pf srv s = (s', srv', r)"
  shows "built js pf cfg srv'"
proof -
  obtain s1 dq r1 where d: "queue_Start ''directive'' (pf_Consume pf) (srv_directiveQueue srv) s
      (Some (srv_directiveHandler srv)) = (s1, dq, r1)" by (metis prod_cases3)
  let ?srv1 = "srv\<lparr>srv_directiveQueue := dq\<rparr>"
  have b1: "built js pf cfg ?srv1" using queue_Start_handler [OF d] by (rule built_update(1) [OF assms(1)])
  let ?srv2 = "\<lambda>sub. ?srv1\<lparr>srv_subscription := Some sub\<rparr>"
  have b2: "built js pf cfg (?srv2 sub)" for sub by (rule built_update(4) [OF b1])
  have b3: "built js pf cfg (?srv2 sub\<lparr>srv_timerStream := ts\<rparr>)"
    if "queue_Start ''timer'' c (srv_timerStream srv) s2 (Some (srv_timerHandler srv)) = (s3, ts, r3)"
    for sub c s2 s3 ts r3
    using queue_Start_handler [OF that] by (intro built_update(2) [OF b2]) simp
  have b4: "built js pf cfg (?srv2 sub\<lparr>srv_timerStream := ts, srv_bgTaskQueue := bq\<rparr>)"
    if "built js pf cfg (?srv2 sub\<lparr>srv_timerStream := ts\<rparr>)"
      "queue_Start ''background task'' c (srv_bgTaskQueue srv) s3 (Some (srv_bgTaskHandler srv)) = (s4, bq, r4)"
    for sub ts c s3 s4 bq r4
    using queue_Start_handler [OF that(2)] by (intro built_update(3) [OF that(1)]) simp
  from assms(2) d b1 b2 show ?thesis
    by (auto simp: start_defs split: prod.splits res.splits intro: b3 b4 [OF b3])
qed

definition started :: "('s, 'c, 'x, 'y) Server \<Rightarrow> bool" where
  "started srv \<longleftrightarrow> srv_subscription srv \<noteq> None \<and>
     q_handler (srv_directiveQueue srv) \<noteq> None \<and> q_consumeCtx (srv_directiveQueue srv) \<noteq> None \<and>
     q_handler (srv_timerStream srv) \<noteq> None \<and> q_consumeCtx (srv_timerStream srv) \<noteq> None \<and>
     q_handler (srv_bgTaskQueue srv) \<noteq> None \<and> q_consumeCtx (srv_bgTaskQueue srv) \<noteq> None"

lemma Start_started: "server_Start pf srv s = (s', srv', Ok u) \<Longrightarrow> started srv'"
  by (auto simp: start_defs started_def split: prod.splits res.splits dest!: queue_Start_started)

section \<open>The server refines the machine\<close>

lemma answered_state: "answered x = (s', ms, r) \<Longrightarrow> \<exists>ms r. x = (s', ms, r)"
  by (cases x rule: answered.cases) auto

lemma directive_processMessage_state:
  assumes "directive_processMessage rt h s msg = (s', ms, r)"
  shows "s' = s \<or> (\<exists>d k ms r. h s d k = (s', ms, r))"
  using assms by (auto simp: directive_processMessage_def split: res.splits dest!: answered_state)

lemma timer_processMessage_state:
  assumes "timer_processMessage rt h s msg = (s', ms, r)"
  shows "s' = s \<or> (\<exists>t k r. h s t k = (s', r))"
  using assms by (auto simp: timer_processMessage_def split: res.splits prod.splits dest!: answered_state)

lemma bgtask_processMessage_state:
  assumes "bgtask_processMessage rt h s msg = (s', ms, r)"
  shows "s' = s \<or> (\<exists>task k ms r. unmarshal_BackgroundTask rt (dm_Data msg) = Ok task \<and> h s task k = (s', ms, r))"
  using assms by (auto simp: bgtask_processMessage_def split: res.splits dest!: answered_state)

context state_stream
begin

lemma serve_refines:
  assumes "built js pf cfg srv" and "serve (at_clock rt n u) sprint srv s inc = (s', ms, out)"
    and "\<And>msg task. inc = BgTaskMsg msg \<Longrightarrow> unmarshal_BackgroundTask rt (dm_Data msg) = Ok task \<Longrightarrow>
      spares_states rt (view s) task"
    and "\<And>s w d t. view (fst (pf_Request pf s w d t)) = view s"
  shows "refines rt (NewManager cfg) (view s) (view s')"
proof (cases inc)
  case (ApiRequest data)
  with assms(1,2) have "s' = s \<or> (\<exists>ms r. api_handler (at_clock rt n u) sprint
      (NewService (at_clock rt n u) js (cfg_Defaults cfg)) s data = (s', ms, r))"
    by (auto simp: serve_def built_def split: option.splits prod.splits)
  then show ?thesis using api_handler_refines by auto
next
  case (DirectiveMsg msg)
  with assms(1,2) have "s' = s \<or> (\<exists>ms r. directive_processMessage (at_clock rt n u) (Handle (at_clock rt n u)
      (NewManager cfg) (store_recorder (at_clock rt n u) js)) s msg = (s', ms, r))"
    by (auto simp: serve_def built_def split: option.splits prod.splits)
  then show ?thesis using Handle_refines by (auto dest!: directive_processMessage_state)
next
  case (TimerMsg msg)
  with assms(1,2) have "s' = s \<or> (\<exists>ms r. timer_processMessage (at_clock rt n u) (Timer_Handle (at_clock rt n u)
      \<lparr>tmh_maxDeliveries = maxTimerDeliveries\<rparr> (PublishDirective (at_clock rt n u) js)) s msg = (s', ms, r))"
    by (auto simp: serve_def built_def split: option.splits prod.splits)
  then have "s' = s \<or> (\<exists>d r. PublishDirective (at_clock rt n u) js s d = (s', r))"
    by (auto dest!: timer_processMessage_state Timer_Handle_publishes)
  then show ?thesis using PublishDirective_refines by auto
next
  case (BgTaskMsg msg)
  have b: "unmarshal_BackgroundTask (at_clock rt n u) = unmarshal_BackgroundTask rt"
    by (simp add: fun_eq_iff unmarshal_BackgroundTask_def)
  from BgTaskMsg assms(1,2) have "s' = s \<or> (\<exists>ms r. bgtask_processMessage (at_clock rt n u)
      (BgTask_Handle (at_clock rt n u) (store_bg_handler (at_clock rt n u) js (pf_Request pf) (srv_senderID srv)
        maxBgTaskDeliveries)) s msg = (s', ms, r))"
    by (auto simp: serve_def built_def split: option.splits prod.splits)
  then show ?thesis
    using BgTask_Handle_refines [OF _ assms(3) [OF BgTaskMsg] assms(4)]
    by (auto simp: b dest!: bgtask_processMessage_state)
qed

end

text \<open>
  A run of the server from the state \<open>s\<close>: it reacts to what reaches it, each time with another
  clock, and the workers publish in between.
\<close>

inductive server_run ::
  "runtime \<Rightarrow> ('s \<Rightarrow> stream) \<Rightarrow> (string \<Rightarrow> string) \<Rightarrow> ('s, 'c, 'x, 'y) Server \<Rightarrow> 's \<Rightarrow> 's \<Rightarrow> bool"
  for rt :: runtime and view :: "'s \<Rightarrow> stream" and sprint :: "string \<Rightarrow> string"
    and srv :: "('s, 'c, 'x, 'y) Server" and s :: 's where
  idle: "server_run rt view sprint srv s s"
| react:
    "server_run rt view sprint srv s s1 \<Longrightarrow> serve (at_clock rt n u) sprint srv s1 inc = (s2, ms, out) \<Longrightarrow>
     (\<And>msg task. inc = BgTaskMsg msg \<Longrightarrow> unmarshal_BackgroundTask rt (dm_Data msg) = Ok task \<Longrightarrow>
        spares_states rt (view s1) task) \<Longrightarrow>
     server_run rt view sprint srv s s2"
| worker:
    "server_run rt view sprint srv s s1 \<Longrightarrow> publish_accepted (view s1) msg \<Longrightarrow> \<not> on_state_subject msg \<Longrightarrow>
     view s2 = publish_msg (view s1) msg \<Longrightarrow> server_run rt view sprint srv s s2"

lemma server_run_refines:
  assumes "server_run rt view sprint srv s s'" and "state_stream js view staged" and "built js pf cfg srv"
    and "\<And>s w d t. view (fst (pf_Request pf s w d t)) = view s"
  shows "refines rt (NewManager cfg) (view s) (view s')"
  using assms(1)
proof (induction rule: server_run.induct)
  case (react s1 n u inc s2 ms out)
  have "refines rt (NewManager cfg) (view s1) (view s2)"
    by (rule state_stream.serve_refines [OF assms(2,3) react(2)]) (use react(3) assms(4) in blast)+
  with react.IH show ?case by (rule refines_trans)
next
  case (worker s1 msg s2)
  then have "refines rt (NewManager cfg) (view s1) (view s2)"
    by (auto intro!: refines_step machine_step.publish)
  with worker.IH show ?case by (rule refines_trans)
qed simp

text \<open>
  C9. The whole server refines the run machine: after it was built on any JetStream that keeps the
  contract of the state stream, and started completely or in part, every sequence of requests of
  the API, directives, fired timers and background tasks it reacts to, and of messages that the
  workers publish in between, changes the stream only by steps of the machine. So the run states
  it leaves behind follow the state diagram. Every reaction has its own clock; the tasks that
  delete a message by its number are assumed to delete no run state.
\<close>

theorem server_refines_machine:
  assumes "state_stream js view staged" and "NewServer js pf cfg inMemory s0 = (s1, Ok srv0)"
    and "server_Start pf srv0 s1 = (s2, srv, result)"
    and "\<And>s w d t. view (fst (pf_Request pf s w d t)) = view s"
    and "server_run rt view sprint srv s2 s3"
  shows "refines rt (NewManager cfg) (view s2) (view s3) \<and>
    (machine_reachable rt (NewManager cfg) (view s2, []) \<longrightarrow>
       machine_reachable rt (NewManager cfg) (view s3, []) \<and>
       (\<forall>w r xs x y ys. filter (\<lambda>x. sm_Subject x = RunStateSubject Manifest w r) (st_msgs (view s3)) = xs @ x # y # ys \<longrightarrow>
          guarded_msg y \<longrightarrow> diagram_edge rt x y))"
proof -
  have r: "refines rt (NewManager cfg) (view s2) (view s3)"
    by (rule server_run_refines [OF assms(5,1) Start_built [OF NewServer_built [OF assms(2)] assms(3)] assms(4)])
  moreover have "machine_reachable rt (NewManager cfg) (view s3, [])"
    if "machine_reachable rt (NewManager cfg) (view s2, [])"
    using that r unfolding machine_reachable_def refines_def by (meson rtranclp_trans)
  ultimately show ?thesis
    using machine_inv_edge [OF machine_reachable_inv] by blast
qed

subsection \<open>A server in memory\<close>

definition sample_pf :: "(stream, string, unit, unit) platform" where
  "sample_pf =
     \<lparr>pf_CreateOrUpdateStream = (\<lambda>s _. (s, Ok ())), pf_CreateOrUpdateConsumer = (\<lambda>s c. (s, Ok (cc_Name c))),
      pf_Consume = (\<lambda>s _. (s, Ok ())), pf_StopConsume = (\<lambda>s _. s),
      pf_Subscribe = (\<lambda>s _. (s, Ok ())), pf_Drain = (\<lambda>s _. (s, None)), pf_Request = (\<lambda>s _ _ _. (s, None)),
      pf_Hostname = Ok ''h'', pf_url_Port = (\<lambda>_. Ok '''')\<rparr>"

definition sample_cfg :: Config where
  "sample_cfg = sample_config
     \<lparr>cfg_Defaults := \<lparr>dc_StepTimeout = 1000 * millisecond, dc_WaitTimeout = 1000 * millisecond\<rparr>\<rparr>"

lemma sample_server:
  "\<exists>srv0 srv. NewServer mem_js sample_pf sample_cfg True st = (st, Ok srv0) \<and>
     server_Start sample_pf srv0 st = (st, srv, Ok ())"
  by (simp add: NewServer_def sample_pf_def EnsureStateStream_def NewDirectiveQueue_def NewTimerStream_def
      NewBgTaskQueue_def directive_ensureConsumer_def ensureTimerFiredConsumer_def bgtask_ensureConsumer_def
      new_queue_def stage_def deriveServerID_def sample_cfg_def sample_config_def start_defs queue_Start_def api_Start_def)

lemma sample_manager: "NewManager sample_cfg = \<lparr>mgr_defaultStepTimeoutMS = 1000, mgr_defaultWaitTimeoutMS = 1000\<rparr>"
  by (simp add: NewManager_def sample_cfg_def uint32_ms_def milliseconds_def millisecond_def)

lemma mem_add_messages: "add_messages mem_js st b ms = (st, Ok (b @ ms))"
  by (induction ms arbitrary: b) (simp_all add: mem_js_def)

lemma mem_Commit:
  assumes "commit_messages rt rs = Ok ms" and "ms \<noteq> []" and "batch_accepted st ms"
  shows "Commit rt mem_js st rs = (store_batch st ms, Ok (CommitResult_zero, None))"
proof -
  have "rs \<noteq> []" using assms(1,2) by auto
  moreover have "publish_batch mem_js st ms = (store_batch st ms, Ok (CommitResult_zero, None))"
  proof -
    have "js_new_batch mem_js st = (st, Ok [])" "js_commit_msg mem_js = mem_commit" by (simp_all add: mem_js_def)
    moreover have "mem_commit st (butlast ms) (last ms) = (store_batch st ms, None)"
      using assms(2,3) append_butlast_last_id [OF assms(2)] by (simp only: mem_commit_def Let_def) (simp add: batch_accepted_def)
    ultimately show ?thesis using mem_add_messages [of st "[]" "butlast ms"] by (simp add: publish_batch_def)
  qed
  ultimately show ?thesis using assms(1,2) by (simp add: Commit_def)
qed

lemma sample_start_wire: "wf_directive sample_start" "fits_directive sample_rt sample_start"
  by (simp_all add: wire_eval sample_start_def)

lemma sample_start_handled:
  assumes "built mem_js sample_pf sample_cfg srv" and "started srv"
  shows "\<exists>b st ms. marshal_Directive sample_rt sample_start = Ok b \<and> st_last st = 7 \<and>
    serve sample_rt sprint srv stream_empty (DirectiveMsg \<lparr>dm_Data = b, dm_NumDelivered = Some 1\<rparr>) = (st, ms, Answer (Ok Ack))"
proof -
  obtain b where b: "marshal_Directive sample_rt sample_start = Ok b"
    by (simp add: marshal_Directive_def Directive_EncodeMsgpack_def sample_start_def sample_d_def sample_rt_ops)
  from Directive_decoded [OF codec_ok_sample sample_start_wire b]
  have u: "unmarshal_Directive sample_rt b = Ok sample_start" .
  obtain rs ms where r: "plan sample_rt sample_start zero_snapshot 1000 1000 = Ok rs"
      "commit_messages sample_rt rs = Ok ms" "batch_accepted stream_empty ms" "length ms = 7"
    using sample_started by blast
  then have c: "Commit sample_rt mem_js stream_empty rs = (store_batch stream_empty ms, Ok (CommitResult_zero, None))"
    by (intro mem_Commit) auto
  have ids: "ri_WFID (d_RunInfo sample_start) = ''w1''" "ri_ID (d_RunInfo sample_start) = ''r1''"
    by (simp_all add: sample_start_def sample_d_def sample_ri_def)
  have h: "\<exists>metrics. Handle sample_rt (NewManager sample_cfg) (store_recorder sample_rt mem_js) stream_empty sample_start 1 =
      (store_batch stream_empty ms, metrics, Ok Processed)"
    by (simp add: Handle_def store_recorder_def snapshot_empty ids sample_manager r(1) manager_commit_def c)
  have q: "q_handler (srv_directiveQueue srv) = Some (\<lambda>rt. Handle rt (NewManager sample_cfg) (store_recorder rt mem_js))"
    "q_consumeCtx (srv_directiveQueue srv) \<noteq> None"
    using assms by (auto simp: built_def started_def)
  from h q(2) have "\<exists>metrics. serve sample_rt sprint srv stream_empty (DirectiveMsg \<lparr>dm_Data = b, dm_NumDelivered = Some 1\<rparr>) =
      (store_batch stream_empty ms, metrics, Answer (Ok Ack))"
    by (auto simp: serve_def q(1) directive_processMessage_def u numDelivered_def answer_of_def Processed_def)
  moreover have "st_last (store_batch stream_empty ms) = 7" using r(4) by (simp add: stream_empty_def)
  ultimately show ?thesis using b by blast
qed

theorem server_refines_machine_witness:
  "\<exists>srv0 srv st. NewServer mem_js sample_pf sample_cfg True stream_empty = (stream_empty, Ok srv0) \<and>
     server_Start sample_pf srv0 stream_empty = (stream_empty, srv, Ok ()) \<and>
     server_run sample_rt (\<lambda>st. st) (\<lambda>p. p) srv stream_empty st \<and> st_last st = 7 \<and>
     machine_reachable sample_rt (NewManager sample_cfg) (st, [])"
proof -
  obtain srv0 srv where n: "NewServer mem_js sample_pf sample_cfg True stream_empty = (stream_empty, Ok srv0)"
    and s: "server_Start sample_pf srv0 stream_empty = (stream_empty, srv, Ok ())" using sample_server by blast
  from sample_start_handled [OF Start_built [OF NewServer_built [OF n] s] Start_started [OF s], of "\<lambda>p. p"]
  obtain b st ms where st: "st_last st = 7" "serve sample_rt (\<lambda>p. p) srv stream_empty
      (DirectiveMsg \<lparr>dm_Data = b, dm_NumDelivered = Some 1\<rparr>) = (st, ms, Answer (Ok Ack))" by blast
  have run: "server_run sample_rt (\<lambda>st. st) (\<lambda>p. p) srv stream_empty st"
    by (rule server_run.react [OF server_run.idle, where n = "now sample_rt" and u = "ulid sample_rt"])
      (use st(2) in auto)
  have "\<And>s w d t. fst (pf_Request sample_pf s w d t) = s" by (simp add: sample_pf_def)
  from server_refines_machine [OF mem.state_stream_axioms n s this run] n s run st(1) show ?thesis
    by (auto simp: machine_reachable_def)
qed

section \<open>From the command of a client to the worker\<close>

text \<open>
  A JetStream that answers truthfully why a batch was refused: it calls a batch a duplicate only
  if it knows the identifier of one of its messages.
\<close>

locale honest_stream = state_stream +
  assumes duplicate_answer:
    "js_commit_msg js s b m = (s', Some e) \<Longrightarrow> IsDuplicateMessage e \<Longrightarrow>
     list_ex (is_duplicate (view s)) (staged b @ [m])"
begin

lemma publish_batch_duplicate:
  assumes "publish_batch js s ms = (s', Ok (cr, err))" and "cr_IsDuplicateMessage cr" and "ms \<noteq> []"
  shows "list_ex (is_duplicate (view s)) ms"
proof -
  obtain s1 r1 where n: "js_new_batch js s = (s1, r1)" by fastforce
  with assms(1,2) obtain b where b: "r1 = Ok b"
    by (cases r1) (auto simp: publish_batch_def CommitResult_zero_def)
  obtain s2 r2 where a: "add_messages js s1 b (butlast ms) = (s2, r2)" by fastforce
  with assms(1,2) n b obtain b' where b': "r2 = Ok b'"
    by (cases r2) (auto simp: publish_batch_def CommitResult_zero_def)
  obtain s3 r3 where c: "js_commit_msg js s2 b' (last ms) = (s3, r3)" by fastforce
  with assms(1,2) n a b b' obtain e where "r3 = Some e" "IsDuplicateMessage e"
    by (cases r3) (auto simp: publish_batch_def CommitResult_zero_def)
  with duplicate_answer c have "list_ex (is_duplicate (view s2)) (staged b' @ [last ms])" by blast
  with add_messages_spec [OF a] new_batch [OF n] b b' append_butlast_last_id [OF assms(3)] show ?thesis
    by (metis append_Nil)
qed

lemma Commit_duplicate:
  assumes "Commit rt js s rs = (s', Ok (cr, err))" and "cr_IsDuplicateMessage cr"
  shows "\<exists>ms. commit_messages rt rs = Ok ms \<and> list_ex (is_duplicate (view s)) ms"
  using assms publish_batch_duplicate
  by (auto simp: Commit_def CommitResult_zero_def split: if_splits res.splits)

text \<open>An acknowledged start of a run that has no state yet was carried out.\<close>

lemma start_acknowledged:
  assumes "Handle rt' m (store_recorder rt' js) s d k = (s', ms, Ok Processed)"
    and "d_Kind d = DirectiveKindStart" and "d_Msg d = Some (Start inp timeout)"
    and "last_match (view s) (RunStateSubject Manifest (ri_WFID (d_RunInfo d)) (ri_ID (d_RunInfo d))) = None"
  shows "\<exists>rs. starts_run rt' d (mgr_defaultStepTimeoutMS m) rs \<and> write_records rt' (view s) rs = Some (view s')"
proof -
  obtain sn where sn: "GetStateSnapshot rt' js s (ri_WFID (d_RunInfo d)) (ri_ID (d_RunInfo d)) = Ok sn"
    using recorder.Handle_Processed [OF store_is_recorder assms(1)] by (auto simp: store_recorder_def)
  from snapshot_may_read [OF this] assms(4) mem.GetRunState_OkD have "sn_RunState sn = RunState_zero"
    by (fastforce simp: may_read_def)
  then have "\<not> RunState_IsTerminal (sn_RunState sn)" by (simp add: RunState_IsTerminal_def RunState_zero_def)
  moreover obtain rs where rs: "planFromRunStart rt' d (mgr_defaultStepTimeoutMS m) = Ok rs"
      "starts_run rt' d (mgr_defaultStepTimeoutMS m) rs"
    using planFromRunStart_total [OF assms(3)] by blast
  ultimately have p: "plan rt' d sn (mgr_defaultStepTimeoutMS m) (mgr_defaultWaitTimeoutMS m) = Ok rs"
    using assms(2) by (simp add: plan_def)
  have "\<not> list_ex (is_duplicate (view s)) xs" if "commit_messages rt' rs = Ok xs" for xs
    using start_messages_unguarded [OF rs(1) that] by (auto simp: list_ex_iff list_all_iff is_duplicate_def)
  then have "\<not> cr_IsDuplicateMessage cr" if "Commit rt' js s rs = (s', Ok (cr, Some e))" for cr e
    using Commit_duplicate [OF that] by auto
  with recorder.Handle_Processed [OF store_is_recorder assms(1)] sn p rs(2) show ?thesis
    by (auto simp: store_recorder_def planned_def)
qed

end

lemma other_refusals:
  "\<not> Contains (ToLower ''wrong last sequence'') ''duplicate message''"
  "\<not> Contains (ToLower ''maximum messages exceeded'') ''duplicate message''"
  by code_simp+

interpretation mem_honest: honest_stream mem_js "\<lambda>st. st" "\<lambda>b. b"
  by unfold_locales
    (auto simp: mem_js_def mem_commit_def IsDuplicateMessage_def other_refusals Let_def split: if_splits)

lemma directive_listened: "subject_matches (DirectiveListenerPattern Manifest) (DirectiveSubject Manifest t w r)"
proof -
  obtain ts where "split_dots (DirectiveSubject Manifest t w r) = ''grctl_directive'' # ts" "ts \<noteq> []"
    using first_token [of "DirectiveSubject Manifest t w r" "''grctl_directive''"] subject_prefixes(1)
    by (auto simp: dot_free_def)
  moreover have "split_dots (DirectiveListenerPattern Manifest) = [''grctl_directive'', ''>'']"
    by (simp add: fixed_subjects)
  ultimately show ?thesis by (simp add: subject_matches_def)
qed

lemma write_directive_stored:
  assumes "write_directive rt st d = Some st'" and "d_ID d \<notin> set (st_ids st)"
  shows "\<exists>b x. marshal_Directive rt d = Ok b \<and> x \<in> set (st_msgs st') \<and> sm_Data x = b \<and>
    sm_Subject x = DirectiveSubject Manifest (ri_WFType (d_RunInfo d)) (ri_WFID (d_RunInfo d)) (ri_ID (d_RunInfo d))"
  using assms
  by (auto simp: write_directive_def write_msg_def publish_msg_def is_duplicate_def directive_msg_def store_msg_def Let_def
      split: res.splits if_splits)

lemma write_run_info_ids: "write_run_info rt st info = Some st' \<Longrightarrow> st_ids st' = st_ids st"
  by (auto simp: write_run_info_def write_msg_def run_info_msg_def publish_msg_def is_duplicate_def store_msg_def Let_def
      split: res.splits if_splits)

lemma serve_directive_acknowledged:
  assumes "built js pf cfg srv" and "serve rt sprint srv s (DirectiveMsg msg) = (s', ms, Answer (Ok Ack))"
    and "unmarshal_Directive rt (dm_Data msg) = Ok d"
  shows "\<exists>ms. Handle rt (NewManager cfg) (store_recorder rt js) s d (numDelivered msg) = (s', ms, Ok Processed)"
proof -
  let ?h = "Handle rt (NewManager cfg) (store_recorder rt js) s d (numDelivered msg)"
  from assms obtain ms' where "answered ?h = (s', ms', Ok Ack)"
    by (auto simp: serve_def built_def directive_processMessage_def split: option.splits prod.splits)
  then obtain ms result where h: "?h = (s', ms, Ok result)" "answer_of result = Ack"
    by (cases ?h rule: answered.cases) auto
  moreover have "result = Processed"
    using Handle_settled [of rt "NewManager cfg" "store_recorder rt js" s d "numDelivered msg"] h
    by (auto simp: answer_of_def Retryable_def)
  ultimately show ?thesis by blast
qed

text \<open>
  C10. A run that a client started reaches a worker. When the server has answered a start command
  with success, its directive is on the stream, on a subject the consumer of directives listens
  to. Whenever that message is delivered to the server and acknowledged while the run has no
  state yet, the batch of the start was stored at that moment: the run is in its first step, the
  task is dispatched to the workers of its type, and the timer of the step is armed. No
  acknowledgement loses a run, and none is given for a batch that was refused.
\<close>

theorem started_run_reaches_worker:
  assumes "honest_stream js view staged" and "codec_ok rt"
    and "NewServer js pf cfg inMemory s0 = (s1, Ok srv0)" and "server_Start pf srv0 s1 = (s2, srv, Ok ())"
    and "StartRun (at_clock rt n u) (srv_runAPI srv (at_clock rt n u)) s info inp = (s', metrics, Ok ())"
    and "u At_StartRun_ID \<notin> set (st_ids (view s))"
    and "GetStartStepTimeout (at_clock rt n u) js s (ri_WFType info) = Ok t0"
    and "d = start_directive (at_clock rt n u) info inp
      (if t0 = 0 then uint32_ms (dc_StepTimeout (cfg_Defaults cfg)) else t0)"
    and "wf_directive d" and "fits_directive rt d"
  shows "\<exists>x. x \<in> set (st_msgs (view s')) \<and>
    subject_matches (DirectiveListenerPattern Manifest) (sm_Subject x) \<and> unmarshal_Directive rt (sm_Data x) = Ok d \<and>
    (\<forall>n2 u2 sprint s3 msg s4 ms. dm_Data msg = sm_Data x \<longrightarrow>
       last_match (view s3) (RunStateSubject Manifest (ri_WFID info) (ri_ID info)) = None \<longrightarrow>
       serve (at_clock rt n2 u2) sprint srv s3 (DirectiveMsg msg) = (s4, ms, Answer (Ok Ack)) \<longrightarrow>
       (\<exists>rs. starts_run (at_clock rt n2 u2) d (mgr_defaultStepTimeoutMS (NewManager cfg)) rs \<and>
          write_records rt (view s3) rs = Some (view s4)))"
proof -
  have hs: "state_stream js view staged" using assms(1) by (rule honest_stream.axioms(1))
  have b: "built js pf cfg srv" using Start_built [OF NewServer_built [OF assms(3)] assms(4)] .
  then have a: "srv_runAPI srv (at_clock rt n u) = NewService (at_clock rt n u) js (cfg_Defaults cfg)"
    by (simp add: built_def)
  from run_store.StartRun_started [OF state_stream.store_is_run_store [OF hs, of "at_clock rt n u"] assms(5) [unfolded a]]
  obtain st where st: "write_run_info (at_clock rt n u) (view s) info = Some st"
    "write_directive (at_clock rt n u) st d = Some (view s')"
    using assms(7,8) by (auto cong: if_cong)
  have d: "d_ID d = u At_StartRun_ID" "d_Kind d = DirectiveKindStart" "d_Msg d = Some (Start (any_of_ptr inp)
      (if t0 = 0 then uint32_ms (dc_StepTimeout (cfg_Defaults cfg)) else t0))"
    "d_RunInfo d = info" by (simp_all add: assms(8) start_directive_def)
  have "d_ID d \<notin> set (st_ids st)" using assms(6) write_run_info_ids [OF st(1)] d(1) by simp
  from write_directive_stored [OF st(2) this] obtain x where
    x: "marshal_Directive rt d = Ok (sm_Data x)" "x \<in> set (st_msgs (view s'))"
      "subject_matches (DirectiveListenerPattern Manifest) (sm_Subject x)"
    using directive_listened by (auto simp: clockless)
  have u: "unmarshal_Directive rt (sm_Data x) = Ok d"
    by (rule Directive_decoded [OF assms(2,9,10) x(1)])
  have start: "\<exists>rs. starts_run (at_clock rt n2 u2) d (mgr_defaultStepTimeoutMS (NewManager cfg)) rs \<and>
      write_records rt (view s3) rs = Some (view s4)"
    if m: "dm_Data msg = sm_Data x" "last_match (view s3) (RunStateSubject Manifest (ri_WFID info) (ri_ID info)) = None"
      "serve (at_clock rt n2 u2) sprint srv s3 (DirectiveMsg msg) = (s4, ms, Answer (Ok Ack))"
    for n2 u2 sprint s3 msg s4 ms
  proof -
    obtain ms' where "Handle (at_clock rt n2 u2) (NewManager cfg) (store_recorder (at_clock rt n2 u2) js) s3 d
        (numDelivered msg) = (s4, ms', Ok Processed)"
      using serve_directive_acknowledged [OF b m(3)] u m(1) by (auto simp: clockless)
    from honest_stream.start_acknowledged [OF assms(1) this d(2,3)] m(2) d(4) show ?thesis
      by (simp add: clockless)
  qed
  show ?thesis
    by (rule exI [of _ x], intro conjI allI impI)
      (rule x(2), rule x(3), rule u, rule start)
qed

lemma snapshot_fresh:
  assumes "last_match st (RunStateSubject Manifest w r) = None" and "last_match st (HistorySubject Manifest w r) = None"
    and "from_seq st (EventInboxSubject Manifest w) None = []"
  shows "GetStateSnapshot rt mem_js st w r = Ok zero_snapshot"
  using assms
  by (simp add: GetStateSnapshot_def GetRunState_def GetLastHistorySeqID_def GetNextEvent_def event_or_none_def
      zero_snapshot_def RunState_zero_def mem_js_def)

lemma sample_client_start:
  "\<exists>st'. StartRun sample_rt (NewService sample_rt mem_js (cfg_Defaults sample_cfg)) sample_registry sample_ri None =
       (st', [RecordRunStarted ''order''], Ok ()) \<and>
     map sm_Subject (st_msgs st') = [WorkflowTypeRegistrySubject Manifest ''order'', RunInfoKey Manifest ''order'' ''w1'' ''r1'',
       DirectiveSubject Manifest ''order'' ''w1'' ''r1''] \<and> st_last st' = 3"
proof -
  have t: "ri_WFType sample_ri = ''order''" "ri_WFID sample_ri = ''w1''" "ri_ID sample_ri = ''r1''" by (simp_all add: sample_ri_def)
  show ?thesis
    by (simp add: start_run_eval t mem_js_ops sample_registry_run publish_accepted_def expectation_met_def
        is_duplicate_def directive_msg_def publish_msg_def sample_rt_ops sample_registry_sel store_msg_def
        del: put_mp.simps) (simp add: sample_registry_def)
qed

lemma sample_client_batch:
  "case planFromRunStart sample_rt (start_directive sample_rt sample_ri None 7) 1000 of
     Ok rs \<Rightarrow> (case commit_messages sample_rt rs of Ok ms \<Rightarrow> length ms = 7 | _ \<Rightarrow> False) | _ \<Rightarrow> False"
  by (simp add: plan_eval sample_defs record_to_nats_defs marshal_HistoryEvent_def HistoryEvent_EncodeMsgpack_def
      marshal_RunState_def marshal_RunInfo_def marshal_Timer_def enc_Timer_def marshal_Directive_def
      Directive_EncodeMsgpack_def Command_EncodeMsgpack_def Timer_zero_def Command_zero_def enc_RunState_def
      start_directive_def del: put_mp.simps)

lemma sample_client_dispatch:
  assumes "built mem_js sample_pf sample_cfg srv" and "started srv"
    and "map sm_Subject (st_msgs st) = [WorkflowTypeRegistrySubject Manifest ''order'', RunInfoKey Manifest ''order'' ''w1'' ''r1'',
      DirectiveSubject Manifest ''order'' ''w1'' ''r1'']" and "st_last st = 3"
    and "d = start_directive sample_rt sample_ri None 7" and "unmarshal_Directive sample_rt (dm_Data msg) = Ok d"
  shows "last_match st (RunStateSubject Manifest ''w1'' ''r1'') = None \<and>
    (\<exists>st' ms. serve sample_rt sprint srv st (DirectiveMsg msg) = (st', ms, Answer (Ok Ack)))"
proof -
  have subjects: "sm_Subject ` set (st_msgs st) = set [WorkflowTypeRegistrySubject Manifest ''order'',
      RunInfoKey Manifest ''order'' ''w1'' ''r1'', DirectiveSubject Manifest ''order'' ''w1'' ''r1'']"
    using assms(3) by (metis set_map)
  have none: "filter (\<lambda>m. subject_matches p (sm_Subject m)) (st_msgs st) = []"
    if "\<not> subject_matches p (WorkflowTypeRegistrySubject Manifest ''order'')" "\<not> subject_matches p (RunInfoKey Manifest ''order'' ''w1'' ''r1'')"
      "\<not> subject_matches p (DirectiveSubject Manifest ''order'' ''w1'' ''r1'')" for p
    using that subjects by (auto simp: filter_empty_conv image_iff set_eq_iff) metis
  have f: "last_match st (RunStateSubject Manifest ''w1'' ''r1'') = None" "last_match st (HistorySubject Manifest ''w1'' ''r1'') = None"
    "from_seq st (EventInboxSubject Manifest ''w1'') None = []"
    using none [of "RunStateSubject Manifest ''w1'' ''r1''"] none [of "HistorySubject Manifest ''w1'' ''r1''"]
      none [of "EventInboxSubject Manifest ''w1''"]
    by (simp_all add: last_match_def from_seq_def subject_matches_def subject_tokens sample_tokens [unfolded token_def])
  have d: "d_Kind d = DirectiveKindStart" "ri_WFID (d_RunInfo d) = ''w1''" "ri_ID (d_RunInfo d) = ''r1''"
    by (simp_all add: assms(5) start_directive_def sample_ri_def)
  obtain rs ms where r: "planFromRunStart sample_rt d 1000 = Ok rs" "commit_messages sample_rt rs = Ok ms" "length ms = 7"
    using sample_client_batch assms(5) by (auto split: res.splits)
  have "batch_accepted st ms"
    by (rule unguarded_accepted [OF start_messages_unguarded [OF r(1,2)]]) (simp add: assms(4) r(3))
  then have c: "Commit sample_rt mem_js st rs = (store_batch st ms, Ok (CommitResult_zero, None))"
    using r by (intro mem_Commit) auto
  have p: "plan sample_rt d zero_snapshot 1000 1000 = Ok rs"
    using r(1) d(1) by (simp add: plan_def zero_snapshot_def RunState_IsTerminal_def RunState_zero_def)
  have "\<exists>metrics. Handle sample_rt (NewManager sample_cfg) (store_recorder sample_rt mem_js) st d (numDelivered msg) =
      (store_batch st ms, metrics, Ok Processed)"
    by (simp add: Handle_def store_recorder_def snapshot_fresh [OF f] d sample_manager p manager_commit_def c)
  moreover have "q_handler (srv_directiveQueue srv) = Some (\<lambda>rt. Handle rt (NewManager sample_cfg) (store_recorder rt mem_js))"
    "q_consumeCtx (srv_directiveQueue srv) \<noteq> None"
    using assms(1,2) by (auto simp: built_def started_def)
  ultimately have "\<exists>st' ms. serve sample_rt sprint srv st (DirectiveMsg msg) = (st', ms, Answer (Ok Ack))"
    by (auto simp: serve_def directive_processMessage_def assms(6) answer_of_def Processed_def)
  with f(1) show ?thesis ..
qed

theorem started_run_reaches_worker_witness:
  "\<exists>(srv :: (stream, string, unit, unit) Server) st x st' rs d metrics.
     StartRun sample_rt (srv_runAPI srv sample_rt) sample_registry sample_ri None = (st, [RecordRunStarted ''order''], Ok ()) \<and>
     x \<in> set (st_msgs st) \<and>
     serve sample_rt (\<lambda>p. p) srv st (DirectiveMsg \<lparr>dm_Data = sm_Data x, dm_NumDelivered = Some 1\<rparr>) =
       (st', metrics, Answer (Ok Ack)) \<and>
     starts_run sample_rt d 1000 rs \<and> write_records sample_rt st rs = Some st'"
proof -
  obtain srv0 srv where n: "NewServer mem_js sample_pf sample_cfg True stream_empty = (stream_empty, Ok srv0)"
    and s: "server_Start sample_pf srv0 stream_empty = (stream_empty, srv, Ok ())" using sample_server by blast
  note b = Start_built [OF NewServer_built [OF n] s] Start_started [OF s]
  obtain st where st: "StartRun sample_rt (srv_runAPI srv sample_rt) sample_registry sample_ri None =
      (st, [RecordRunStarted ''order''], Ok ())" "map sm_Subject (st_msgs st) = [WorkflowTypeRegistrySubject Manifest ''order'',
        RunInfoKey Manifest ''order'' ''w1'' ''r1'', DirectiveSubject Manifest ''order'' ''w1'' ''r1'']" "st_last st = 3"
    using sample_client_start b(1) by (auto simp: built_def)
  have clock: "at_clock sample_rt (now sample_rt) (ulid sample_rt) = sample_rt" by simp
  define d where "d = start_directive sample_rt sample_ri None 7"
  have w: "wf_directive d" "fits_directive sample_rt d" by (simp_all add: wire_eval start_directive_def d_def)
  have ids: "ri_WFType sample_ri = ''order''" "ri_WFID sample_ri = ''w1''" "ri_ID sample_ri = ''r1''" by (simp_all add: sample_ri_def)
  have p: "ulid sample_rt At_StartRun_ID \<notin> set (st_ids sample_registry)"
    "GetStartStepTimeout sample_rt mem_js sample_registry (ri_WFType sample_ri) = Ok 7"
    "d = start_directive sample_rt sample_ri None (if 7 = (0 :: u32) then uint32_ms (dc_StepTimeout (cfg_Defaults sample_cfg)) else 7)"
    by (simp_all add: sample_registry_sel sample_registry_type ids d_def)
  from started_run_reaches_worker [OF mem_honest.honest_stream_axioms codec_ok_sample n s,
      where n = "now sample_rt" and u = "ulid sample_rt", unfolded clock, OF st(1) p w]
  obtain x where x: "x \<in> set (st_msgs st)" "unmarshal_Directive sample_rt (sm_Data x) = Ok d" and
    start: "\<forall>n2 u2 sprint s3 msg s4 ms. dm_Data msg = sm_Data x \<longrightarrow>
       last_match s3 (RunStateSubject Manifest (ri_WFID sample_ri) (ri_ID sample_ri)) = None \<longrightarrow>
       serve (at_clock sample_rt n2 u2) sprint srv s3 (DirectiveMsg msg) = (s4, ms, Answer (Ok Ack)) \<longrightarrow>
       (\<exists>rs. starts_run (at_clock sample_rt n2 u2) d (mgr_defaultStepTimeoutMS (NewManager sample_cfg)) rs \<and>
          write_records sample_rt s3 rs = Some s4)"
    by (elim exE conjE)
  let ?msg = "\<lparr>dm_Data = sm_Data x, dm_NumDelivered = Some 1\<rparr>"
  have "unmarshal_Directive sample_rt (dm_Data ?msg) = Ok d" using x(2) by simp
  from sample_client_dispatch [OF b st(2,3) d_def this, of "\<lambda>p. p"] obtain st' ms where
    d: "last_match st (RunStateSubject Manifest ''w1'' ''r1'') = None"
      "serve sample_rt (\<lambda>p. p) srv st (DirectiveMsg ?msg) = (st', ms, Answer (Ok Ack))" by blast
  from start [rule_format, of ?msg st "ulid sample_rt" "now sample_rt" "\<lambda>p. p" st' ms, unfolded clock ids] d
  obtain rs where "starts_run sample_rt d 1000 rs" "write_records sample_rt st rs = Some st'"
    by (auto simp: sample_manager)
  with st(1) x(1) d(2) show ?thesis by blast
qed

end
