(* ===== verification/Startup.thy ===== *)
theory Startup
  imports Server
begin

text \<open>
  The life of the daemon (\<^verbatim>\<open>src/grctld/run.go\<close>, the start of the embedded NATS server in
  \<^verbatim>\<open>src/natsembd/embedded.go\<close>): loading the manifest and the configuration, starting NATS and the
  telemetry, building and starting the server, and the shutdown. What is open is kept as a list
  of resources; the calls of the NATS libraries and of the telemetry are parameters. Signals and
  logging are not modelled.
\<close>

section \<open>Resources\<close>

datatype resource = EmbeddedServer | Connection | MeterProvider

record 's world =
  wd_state :: 's
  wd_open :: "resource list"

definition opened :: "resource \<Rightarrow> 's \<Rightarrow> 's world \<Rightarrow> 's world" where
  "opened r s w = w\<lparr>wd_state := s, wd_open := r # wd_open w\<rparr>"

definition closed :: "resource \<Rightarrow> 's world \<Rightarrow> 's world" where
  "closed r w = w\<lparr>wd_open := remove1 r (wd_open w)\<rparr>"

text \<open>
  The calls of the libraries: \<open>ho_NewServer\<close> makes an embedded server, \<open>ho_Ready\<close> waits until it
  takes connections, \<open>ho_status\<close> is what its error message says about it.
\<close>

record 's host =
  ho_NewServer :: "'s \<Rightarrow> Options \<Rightarrow> 's \<times> unit res"
  ho_Ready :: "'s \<Rightarrow> duration \<Rightarrow> 's \<times> bool"
  ho_status :: "'s \<Rightarrow> string"
  ho_ClientURL :: "'s \<Rightarrow> string"
  ho_Connect :: "'s \<Rightarrow> string \<Rightarrow> 's \<times> unit res"
  ho_jetstream_New :: "unit res"
  ho_AccountInfo :: "'s \<Rightarrow> 's \<times> gerr option"
  ho_Sleep :: "'s \<Rightarrow> duration \<Rightarrow> 's"
  ho_ProcessConfigFile :: "string \<Rightarrow> Options res"
  ho_NewMeterProvider :: "'s \<Rightarrow> TelemetryConfig \<Rightarrow> 's \<times> unit res"
  ho_Shutdown :: "'s \<Rightarrow> 's \<times> bool"
  ho_WaitForShutdown :: "'s \<Rightarrow> 's"

section \<open>Starting NATS\<close>

definition embeddedServerReadyTimeout :: duration where
  "embeddedServerReadyTimeout = 15000 * millisecond"

definition js_context :: "'s host \<Rightarrow> 's world \<Rightarrow> 's world \<times> unit res" where
  "js_context ho w =
     (case NewJetStreamContext (ho_jetstream_New ho) (ho_AccountInfo ho) (ho_Sleep ho) (wd_state w) of
        (s, r) \<Rightarrow> (w\<lparr>wd_state := s\<rparr>, r))"

text \<open>The result says whether there is an embedded server.\<close>

definition runEmbeddedServer :: "'s host \<Rightarrow> 's world \<Rightarrow> Options \<Rightarrow> 's world \<times> bool res" where
  "runEmbeddedServer ho w opts =
     (case ho_NewServer ho (wd_state w) opts of
        (s, Err e) \<Rightarrow> (w\<lparr>wd_state := s\<rparr>, Err e)
      | (s, Panic p) \<Rightarrow> (w\<lparr>wd_state := s\<rparr>, Panic p)
      | (s, Ok _) \<Rightarrow>
     (let w1 = opened EmbeddedServer s w in
      case ho_Ready ho (wd_state w1) embeddedServerReadyTimeout of
        (s, False) \<Rightarrow>
          (closed EmbeddedServer (w1\<lparr>wd_state := s\<rparr>),
           Err (Errorf (''NATS server timeout after 15s '' @ ho_status ho s)))
      | (s, True) \<Rightarrow>
     (let w2 = w1\<lparr>wd_state := s\<rparr> in
      case ho_Connect ho (wd_state w2) (ho_ClientURL ho (wd_state w2)) of
        (s, Err e) \<Rightarrow> (closed EmbeddedServer (w2\<lparr>wd_state := s\<rparr>), Err e)
      | (s, Panic p) \<Rightarrow> (w2\<lparr>wd_state := s\<rparr>, Panic p)
      | (s, Ok _) \<Rightarrow>
     (case js_context ho (opened Connection s w2) of
        (w3, Err e) \<Rightarrow> (closed EmbeddedServer (closed Connection w3), Err e)
      | (w3, Panic p) \<Rightarrow> (w3, Panic p)
      | (w3, Ok _) \<Rightarrow> (w3, Ok True)))))"

definition RunEmbeddedServerWithConfig :: "'s host \<Rightarrow> 's world \<Rightarrow> NATSConfig \<Rightarrow> 's world \<times> bool res" where
  "RunEmbeddedServerWithConfig ho w natsCfg =
     (case resolveEmbeddedOptions (ho_ProcessConfigFile ho) natsCfg of
        Err e \<Rightarrow> (w, Err e)
      | Panic p \<Rightarrow> (w, Panic p)
      | Ok opts \<Rightarrow> runEmbeddedServer ho w opts)"

definition startNATS :: "'s host \<Rightarrow> 's world \<Rightarrow> Config \<Rightarrow> 's world \<times> bool res" where
  "startNATS ho w cfg =
     (if nc_Mode (cfg_NATS cfg) = NATSModeEmbedded then RunEmbeddedServerWithConfig ho w (cfg_NATS cfg)
      else case ho_Connect ho (wd_state w) (nc_URL (cfg_NATS cfg)) of
        (s, Err e) \<Rightarrow> (w\<lparr>wd_state := s\<rparr>, Err e)
      | (s, Panic p) \<Rightarrow> (w\<lparr>wd_state := s\<rparr>, Panic p)
      | (s, Ok _) \<Rightarrow>
     (case js_context ho (opened Connection s w) of
        (w1, Err e) \<Rightarrow> (closed Connection w1, Err e)
      | (w1, Panic p) \<Rightarrow> (w1, Panic p)
      | (w1, Ok _) \<Rightarrow> (w1, Ok False)))"

section \<open>Telemetry and shutdown\<close>

text \<open>The result says whether there is something to shut down.\<close>

definition initTelemetry :: "'s host \<Rightarrow> 's world \<Rightarrow> TelemetryConfig \<Rightarrow> 's world \<times> bool res" where
  "initTelemetry ho w cfg =
     (if \<not> tc_Enabled cfg then (w, Ok False)
      else case ho_NewMeterProvider ho (wd_state w) cfg of
        (s, Err e) \<Rightarrow> (w\<lparr>wd_state := s\<rparr>, Err (Wrapf ''init meter provider: '' e ''''))
      | (s, Panic p) \<Rightarrow> (w\<lparr>wd_state := s\<rparr>, Panic p)
      | (s, Ok _) \<Rightarrow> (opened MeterProvider s w, Ok True))"

definition shutdownTelemetry :: "bool \<Rightarrow> 's world \<Rightarrow> 's world" where
  "shutdownTelemetry enabled w = (if enabled then closed MeterProvider w else w)"

definition shutdownEmbeddedNATS :: "'s host \<Rightarrow> 's world \<Rightarrow> 's world" where
  "shutdownEmbeddedNATS ho w =
     (case ho_Shutdown ho (wd_state w) of
        (s, panicked) \<Rightarrow>
          closed EmbeddedServer (w\<lparr>wd_state := if \<not> panicked then ho_WaitForShutdown ho s else s\<rparr>))"

definition daemon_shutdown ::
  "'s host \<Rightarrow> ('s, 'c, 'x, 'y) platform \<Rightarrow> ('s, 'c, 'x, 'y) Server \<Rightarrow> bool \<Rightarrow> gerr option \<Rightarrow> 's world \<Rightarrow> 's world" where
  "daemon_shutdown ho pf srv embedded timeout w =
     (let w1 = closed Connection (w\<lparr>wd_state := fst (server_Stop pf srv (wd_state w) timeout)\<rparr>)
      in if embedded then shutdownEmbeddedNATS ho w1 else w1)"

section \<open>The daemon\<close>

text \<open>
  \<open>manifest\<close> is the outcome of parsing the embedded manifest, \<open>work\<close> what the started server does
  until the signal to stop, \<open>timeout\<close> the error of a shutdown that takes too long. The deferred
  shutdown of the telemetry runs on every return after its start.
\<close>

definition serve_until_signal ::
  "'s host \<Rightarrow> ('s, 'b) jetstream \<Rightarrow> ('s, 'c, 'x, 'y) platform \<Rightarrow> Config \<Rightarrow>
   (('s, 'c, 'x, 'y) Server \<Rightarrow> 's \<Rightarrow> 's) \<Rightarrow> gerr option \<Rightarrow> bool \<Rightarrow> 's world \<Rightarrow> 's world \<times> unit res" where
  "serve_until_signal ho js pf cfg work timeout embedded w =
     (case NewServer js pf cfg (InMemory (cfg_NATS cfg)) (wd_state w) of
        (s, Err e) \<Rightarrow> (w\<lparr>wd_state := s\<rparr>, Err e)
      | (s, Panic p) \<Rightarrow> (w\<lparr>wd_state := s\<rparr>, Panic p)
      | (s, Ok srv) \<Rightarrow>
          (case server_Start pf srv s of
             (s', srv', Ok _) \<Rightarrow>
               (daemon_shutdown ho pf srv' embedded timeout (w\<lparr>wd_state := work srv' s'\<rparr>), Ok ())
           | (s', srv', r) \<Rightarrow> (w\<lparr>wd_state := s'\<rparr>, r)))"

definition runServer ::
  "unit res \<Rightarrow> 'k koanf \<Rightarrow> string \<Rightarrow> start_flags \<Rightarrow> 's host \<Rightarrow> ('s, 'b) jetstream \<Rightarrow> ('s, 'c, 'x, 'y) platform \<Rightarrow>
   (('s, 'c, 'x, 'y) Server \<Rightarrow> 's \<Rightarrow> 's) \<Rightarrow> gerr option \<Rightarrow> 's world \<Rightarrow> 's world \<times> unit res" where
  "runServer manifest kf configPath flags ho js pf work timeout w =
     (case andThen manifest (\<lambda>_. andThen (Load kf configPath) (applyStartConfigOverrides flags)) of
        Err e \<Rightarrow> (w, Err e)
      | Panic p \<Rightarrow> (w, Panic p)
      | Ok cfg \<Rightarrow>
          (case startNATS ho w cfg of
             (w1, Err e) \<Rightarrow> (w1, Err e)
           | (w1, Panic p) \<Rightarrow> (w1, Panic p)
           | (w1, Ok embedded) \<Rightarrow>
               (case initTelemetry ho w1 (cfg_Telemetry cfg) of
                  (w2, Err e) \<Rightarrow> (w2, Err e)
                | (w2, Panic p) \<Rightarrow> (w2, Panic p)
                | (w2, Ok telemetry) \<Rightarrow>
                    (case serve_until_signal ho js pf cfg work timeout embedded w2 of
                       (w3, r) \<Rightarrow> (shutdownTelemetry telemetry w3, r)))))"

section \<open>What is left open\<close>

definition nats_open :: "bool \<Rightarrow> resource list" where
  "nats_open embedded = Connection # (if embedded then [EmbeddedServer] else [])"

lemma world_simps [simp]:
  "wd_open (opened r s w) = r # wd_open w" "wd_open (closed r w) = remove1 r (wd_open w)"
  "wd_state (opened r s w) = s"
  by (simp_all add: opened_def closed_def)

lemma js_context_open: "js_context ho w = (w', r) \<Longrightarrow> wd_open w' = wd_open w"
  by (auto simp: js_context_def split: prod.splits)

lemma runEmbeddedServer_open:
  assumes "runEmbeddedServer ho w opts = (w', r)"
  shows "(\<forall>emb. r = Ok emb \<longrightarrow> emb \<and> wd_open w' = nats_open True @ wd_open w) \<and> (\<forall>e. r = Err e \<longrightarrow> wd_open w' = wd_open w)"
  using assms
  by (auto simp: runEmbeddedServer_def nats_open_def Let_def split: prod.splits res.splits bool.splits dest!: js_context_open)

lemma startNATS_open:
  assumes "startNATS ho w cfg = (w', r)"
  shows "(\<forall>emb. r = Ok emb \<longrightarrow> wd_open w' = nats_open emb @ wd_open w) \<and> (\<forall>e. r = Err e \<longrightarrow> wd_open w' = wd_open w)"
proof (cases "nc_Mode (cfg_NATS cfg) = NATSModeEmbedded")
  case True
  with assms show ?thesis
    using runEmbeddedServer_open by (fastforce simp: startNATS_def RunEmbeddedServerWithConfig_def split: res.splits)
next
  case False
  with assms show ?thesis
    by (auto simp: startNATS_def nats_open_def split: prod.splits res.splits dest!: js_context_open)
qed

lemma initTelemetry_open:
  assumes "initTelemetry ho w cfg = (w', r)"
  shows "(\<forall>t. r = Ok t \<longrightarrow> wd_open w' = (if t then [MeterProvider] else []) @ wd_open w) \<and> (\<forall>e. r = Err e \<longrightarrow> wd_open w' = wd_open w)"
  using assms by (auto simp: initTelemetry_def split: prod.splits res.splits if_splits)

lemma serve_until_signal_open:
  assumes "serve_until_signal ho js pf cfg work timeout emb w = (w', r)"
    and "wd_open w = (if t then [MeterProvider] else []) @ nats_open emb @ os"
  shows "wd_open (shutdownTelemetry t w') = (if r = Ok () then os else nats_open emb @ os)"
proof -
  have "wd_open (daemon_shutdown ho pf srv emb timeout w1) = (if t then [MeterProvider] else []) @ os"
    if "wd_open w1 = wd_open w" for srv w1
    using that assms(2)
    by (auto simp: daemon_shutdown_def shutdownEmbeddedNATS_def nats_open_def Let_def split: prod.splits)
  with assms show ?thesis
    by (auto simp: serve_until_signal_def shutdownTelemetry_def nats_open_def split: prod.splits res.splits)
qed


definition sample_host :: "stream host" where
  "sample_host =
     \<lparr>ho_NewServer = (\<lambda>s _. (s, Ok ())), ho_Ready = (\<lambda>s _. (s, True)), ho_status = (\<lambda>_. ''''),
      ho_ClientURL = (\<lambda>_. ''nats://127.0.0.1:4225''), ho_Connect = (\<lambda>s _. (s, Ok ())), ho_jetstream_New = Ok (),
      ho_AccountInfo = (\<lambda>s. (s, None)), ho_Sleep = (\<lambda>s _. s), ho_ProcessConfigFile = (\<lambda>_. Err (Errorf ''none'')),
      ho_NewMeterProvider = (\<lambda>s _. (s, Ok ())), ho_Shutdown = (\<lambda>s. (s, False)), ho_WaitForShutdown = (\<lambda>s. s)\<rparr>"

definition unset_flags :: start_flags where
  "unset_flags = \<lparr>fl_port = None, fl_store_dir = None, fl_in_memory = None, fl_log_level = None, fl_log_format = None\<rparr>"

lemma sample_startup:
  "\<exists>cfg w1. andThen (Load sample_koanf '''') (applyStartConfigOverrides unset_flags) = Ok cfg \<and>
     startNATS sample_host \<lparr>wd_state = stream_empty, wd_open = []\<rparr> cfg = (w1, Ok True) \<and> \<not> tc_Enabled (cfg_Telemetry cfg)"
proof -
  have "ToLower (TrimSpace '' Embedded'') = NATSModeEmbedded" "ToLower (TrimSpace ''file'') = ''file''"
    "filepath_Join ''/root'' ''.grctl/data'' = ''/root/.grctl/data''" "TrimSpace '''' = ''''"
    by code_simp+
  then show ?thesis
    by (simp add: Load_def sample_koanf_def sample_config_def unmarshalConfig_def Normalized_def ResolveStoreDir_def
        HasPrefix_def Validate_def validateSyncInterval_def millisecond_def applyStartConfigOverrides_def unset_flags_def
        startNATS_def RunEmbeddedServerWithConfig_def resolveEmbeddedOptions_def runEmbeddedServer_def sample_host_def
        opened_def js_context_def NewJetStreamContext_def account_loop.simps [of _ _ _ _ 0])
qed


end
