(* ===== verification/Table.thy ===== *)
theory Table
  imports GoStrings
begin

text \<open>
  The table widget of the terminal interface (\<^verbatim>\<open>src/grctl/tui/table/table.go\<close>): its columns and
  their widths, its rows, the selected row, and the scrolling that keeps the selected row on the
  screen. The libraries that draw (styles, truncation, joining of cells, the scrolling viewport)
  are the parameter \<open>ui\<close>; what the widget relies on is the definition \<open>ui_ok\<close>. An \<^verbatim>\<open>int\<close> of the
  source is an \<open>int\<close> here, and its division truncates towards zero.
\<close>

section \<open>Drawing libraries\<close>

text \<open>
  The viewport of the library has the fields that the widget reads and writes, and a part of its
  own (the lines it shows).
\<close>

record 'v viewport =
  vp_Width :: int
  vp_Height :: int
  vp_YOffset :: int
  vp_rest :: 'v

text \<open>A key binding: its keys, and the two parts of its help.\<close>

record binding =
  bd_Keys :: "string list"
  bd_Help :: "string \<times> string"

record ('v, 'st) ui =
  ui_viewport_New :: "int \<Rightarrow> int \<Rightarrow> 'v viewport"
  ui_SetContent :: "'v viewport \<Rightarrow> string \<Rightarrow> 'v viewport"
  ui_SetYOffset :: "'v viewport \<Rightarrow> int \<Rightarrow> 'v viewport"
  ui_viewport_View :: "'v viewport \<Rightarrow> string"
  ui_NewStyle :: 'st
  ui_Bold :: "'st \<Rightarrow> bool \<Rightarrow> 'st"
  ui_Foreground :: "'st \<Rightarrow> string \<Rightarrow> 'st"
  ui_Padding :: "'st \<Rightarrow> int list \<Rightarrow> 'st"
  ui_Width :: "'st \<Rightarrow> int \<Rightarrow> 'st"
  ui_MaxWidth :: "'st \<Rightarrow> int \<Rightarrow> 'st"
  ui_Inline :: "'st \<Rightarrow> bool \<Rightarrow> 'st"
  ui_Background_of :: "'st \<Rightarrow> 'st \<Rightarrow> 'st"
  ui_Render :: "'st \<Rightarrow> string \<Rightarrow> string"
  ui_Truncate :: "string \<Rightarrow> int \<Rightarrow> string \<Rightarrow> string"
  ui_JoinHorizontal :: "string list \<Rightarrow> string"
  ui_JoinVertical :: "string list \<Rightarrow> string"
  ui_Height :: "string \<Rightarrow> int"
  ui_Matches :: "string \<Rightarrow> binding \<Rightarrow> bool"

section \<open>The widget\<close>

type_synonym Row = "string list"

record Column =
  col_Title :: string
  col_Width :: int
  col_Flex :: int

record KeyMap =
  LineUp :: binding
  LineDown :: binding
  PageUp :: binding
  PageDown :: binding
  HalfPageUp :: binding
  HalfPageDown :: binding
  GotoTop_key :: binding
  GotoBottom_key :: binding

definition ShortHelp :: "KeyMap \<Rightarrow> binding list" where
  "ShortHelp km = [LineUp km, LineDown km]"

definition FullHelp :: "KeyMap \<Rightarrow> binding list list" where
  "FullHelp km =
     [[LineUp km, LineDown km, GotoTop_key km, GotoBottom_key km],
      [PageUp km, PageDown km, HalfPageUp km, HalfPageDown km]]"

definition NewBinding :: "string list \<Rightarrow> string \<Rightarrow> string \<Rightarrow> binding" where
  "NewBinding ks k d = \<lparr>bd_Keys = ks, bd_Help = (k, d)\<rparr>"

text \<open>The bytes of the arrows, of the half and of the ellipsis.\<close>

definition up_arrow :: string where "up_arrow = [CHR 0xE2, CHR 0x86, CHR 0x91]"
definition down_arrow :: string where "down_arrow = [CHR 0xE2, CHR 0x86, CHR 0x93]"
definition one_half :: string where "one_half = [CHR 0xC2, CHR 0xBD]"
definition ellipsis :: string where "ellipsis = [CHR 0xE2, CHR 0x80, CHR 0xA6]"

definition DefaultKeyMap :: KeyMap where
  "DefaultKeyMap =
     \<lparr>LineUp = NewBinding [''up'', ''k''] (up_arrow @ ''/k'') ''up'',
      LineDown = NewBinding [''down'', ''j''] (down_arrow @ ''/j'') ''down'',
      PageUp = NewBinding [''b'', ''pgup''] ''b/pgup'' ''page up'',
      PageDown = NewBinding [''f'', ''pgdown'', '' ''] ''f/pgdn'' ''page down'',
      HalfPageUp = NewBinding [''u'', ''ctrl+u''] ''u'' (one_half @ '' page up''),
      HalfPageDown = NewBinding [''d'', ''ctrl+d''] ''d'' (one_half @ '' page down''),
      GotoTop_key = NewBinding [''home'', ''g''] ''g/home'' ''go to start'',
      GotoBottom_key = NewBinding [''end'', ''G''] ''G/end'' ''go to end''\<rparr>"

record 'st Styles =
  sty_Header :: 'st
  sty_Cell :: 'st
  sty_Selected :: 'st

type_synonym 'st StyleFunc = "int \<Rightarrow> int \<Rightarrow> string \<Rightarrow> 'st"

definition DefaultStyles :: "('v, 'st) ui \<Rightarrow> 'st Styles" where
  "DefaultStyles ui =
     \<lparr>sty_Header = ui_Padding ui (ui_Bold ui (ui_NewStyle ui) True) [0, 1],
      sty_Cell = ui_Padding ui (ui_NewStyle ui) [0, 1],
      sty_Selected = ui_Foreground ui (ui_Bold ui (ui_NewStyle ui) True) ''13''\<rparr>"

record ('v, 'st) Model =
  tb_KeyMap :: KeyMap
  tb_cols :: "Column list"
  tb_rows :: "Row list"
  tb_cursor :: int
  tb_focus :: bool
  tb_styles :: "'st Styles"
  tb_styleFunc :: "'st StyleFunc option"
  tb_viewport :: "'v viewport"
  tb_start :: int
  tb_end :: int

abbreviation tb_Height :: "('v, 'st) Model \<Rightarrow> int" where
  "tb_Height m \<equiv> vp_Height (tb_viewport m)"

abbreviation tb_YOffset :: "('v, 'st) Model \<Rightarrow> int" where
  "tb_YOffset m \<equiv> vp_YOffset (tb_viewport m)"

abbreviation row_count :: "('v, 'st) Model \<Rightarrow> int" where
  "row_count m \<equiv> int (length (tb_rows m))"

section \<open>Column widths\<close>

definition clamp :: "int \<Rightarrow> int \<Rightarrow> int \<Rightarrow> int" where
  "clamp v low high = min (max v low) high"

definition go_quot :: "int \<Rightarrow> int \<Rightarrow> int" where
  "go_quot a b = sgn a * sgn b * (\<bar>a\<bar> div \<bar>b\<bar>)"

definition cellPadding :: int where
  "cellPadding = 2"

text \<open>The total of the flexible columns and the width that the fixed ones and the padding take.\<close>

fun column_use :: "Column list \<Rightarrow> int \<times> int \<Rightarrow> int \<times> int" where
  "column_use [] (totalFlex, usedWidth) = (totalFlex, usedWidth)"
| "column_use (col # cols) (totalFlex, usedWidth) =
     (if col_Flex col > 0 then column_use cols (totalFlex + col_Flex col, usedWidth)
      else column_use cols (totalFlex, usedWidth + col_Width col))"

text \<open>The loop that gives each column its width: the widths so far, their flexible part, the last flexible column.\<close>

fun allocate :: "int \<Rightarrow> int \<Rightarrow> Column list \<Rightarrow> int list \<times> int \<times> int \<Rightarrow> (int list \<times> int \<times> int) res" where
  "allocate flexSpace totalFlex [] acc = Ok acc"
| "allocate flexSpace totalFlex (col # cols) (widths, allocated, lastFlexIdx) =
     (if col_Flex col = 0
      then allocate flexSpace totalFlex cols (widths @ [col_Width col], allocated, lastFlexIdx)
      else if totalFlex = 0 then Panic ''integer divide by zero''
      else let w = go_quot (flexSpace * col_Flex col) totalFlex
           in allocate flexSpace totalFlex cols (widths @ [w], allocated + w, int (length widths)))"

definition computeColumnWidths :: "('v, 'st) Model \<Rightarrow> int list res" where
  "computeColumnWidths m =
     (if vp_Width (tb_viewport m) \<le> 0 then Ok (map col_Width (tb_cols m))
      else let (totalFlex, usedWidth) = column_use (tb_cols m) (0, int (length (tb_cols m)) * cellPadding);
               flexSpace = max (vp_Width (tb_viewport m) - usedWidth) 0
           in andThen (allocate flexSpace totalFlex (tb_cols m) ([], 0, - 1)) (\<lambda>(widths, allocated, lastFlexIdx).
              Ok (if lastFlexIdx \<ge> 0
                  then widths[nat lastFlexIdx := widths ! nat lastFlexIdx + (flexSpace - allocated)]
                  else widths)))"

section \<open>Drawing\<close>

definition cell_box :: "('v, 'st) ui \<Rightarrow> int \<Rightarrow> 'st" where
  "cell_box ui w = ui_Inline ui (ui_MaxWidth ui (ui_Width ui (ui_NewStyle ui) w) w) True"

definition headersView :: "('v, 'st) ui \<Rightarrow> ('v, 'st) Model \<Rightarrow> string res" where
  "headersView ui m =
     andThen (computeColumnWidths m) (\<lambda>widths.
       Ok (ui_JoinHorizontal ui
             (map (\<lambda>(col, w). ui_Render ui (sty_Header (tb_styles m))
                                (ui_Render ui (cell_box ui w) (ui_Truncate ui (col_Title col) w ellipsis)))
                (filter (\<lambda>(col, w). w > 0) (zip (tb_cols m) widths)))))"

text \<open>The cells of row \<open>r\<close> from column \<open>i\<close> on; a cell beyond the last column is out of the range of \<open>widths\<close>.\<close>

fun render_cells :: "('v, 'st) ui \<Rightarrow> ('v, 'st) Model \<Rightarrow> int list \<Rightarrow> int \<Rightarrow> nat \<Rightarrow> string list \<Rightarrow> string list res" where
  "render_cells ui m widths r i [] = Ok []"
| "render_cells ui m widths r i (value # values) =
     (if i \<ge> length widths then Panic ''index out of range''
      else if widths ! i \<le> 0 then render_cells ui m widths r (Suc i) values
      else let cellStyle = (case tb_styleFunc m of
                              None \<Rightarrow> sty_Cell (tb_styles m)
                            | Some f \<Rightarrow> f r (int i) value);
               cellStyle = (if r = tb_cursor m then ui_Background_of ui cellStyle (sty_Selected (tb_styles m))
                            else cellStyle);
               renderedCell = ui_Render ui cellStyle
                                (ui_Render ui (cell_box ui (widths ! i))
                                   (ui_Truncate ui value (widths ! i) ellipsis))
           in andThen (render_cells ui m widths r (Suc i) values) (\<lambda>s. Ok (renderedCell # s)))"

definition renderRow :: "('v, 'st) ui \<Rightarrow> ('v, 'st) Model \<Rightarrow> int \<Rightarrow> string res" where
  "renderRow ui m r =
     andThen (computeColumnWidths m) (\<lambda>widths.
       if r < 0 \<or> r \<ge> row_count m then Panic ''index out of range''
       else andThen (render_cells ui m widths r 0 (tb_rows m ! nat r)) (\<lambda>s.
              let row = ui_JoinHorizontal ui s
              in Ok (if r = tb_cursor m then ui_Render ui (sty_Selected (tb_styles m)) row else row)))"

fun render_rows :: "('v, 'st) ui \<Rightarrow> ('v, 'st) Model \<Rightarrow> int list \<Rightarrow> string list res" where
  "render_rows ui m [] = Ok []"
| "render_rows ui m (i # is) =
     andThen (renderRow ui m i) (\<lambda>row. andThen (render_rows ui m is) (\<lambda>rows. Ok (row # rows)))"

definition UpdateViewport :: "('v, 'st) ui \<Rightarrow> ('v, 'st) Model \<Rightarrow> ('v, 'st) Model res" where
  "UpdateViewport ui m =
     (let m1 = m\<lparr>tb_start := if tb_cursor m \<ge> 0 then clamp (tb_cursor m - tb_Height m) 0 (tb_cursor m) else 0,
                 tb_end := clamp (tb_cursor m + tb_Height m) (tb_cursor m) (row_count m)\<rparr>
      in andThen (render_rows ui m1 [tb_start m1..tb_end m1 - 1]) (\<lambda>renderedRows.
         Ok (m1\<lparr>tb_viewport := ui_SetContent ui (tb_viewport m1) (ui_JoinVertical ui renderedRows)\<rparr>)))"

definition table_View :: "('v, 'st) ui \<Rightarrow> ('v, 'st) Model \<Rightarrow> string res" where
  "table_View ui m =
     andThen (headersView ui m) (\<lambda>h. Ok (h @ [CHR 0x0A] @ ui_viewport_View ui (tb_viewport m)))"

section \<open>Construction\<close>

type_synonym ('v, 'st) Option = "('v, 'st) Model \<Rightarrow> ('v, 'st) Model res"

definition WithColumns :: "Column list \<Rightarrow> ('v, 'st) Option" where
  "WithColumns cols m = Ok (m\<lparr>tb_cols := cols\<rparr>)"

definition WithRows :: "Row list \<Rightarrow> ('v, 'st) Option" where
  "WithRows rows m = Ok (m\<lparr>tb_rows := rows\<rparr>)"

definition set_height :: "('v, 'st) ui \<Rightarrow> int \<Rightarrow> ('v, 'st) Model \<Rightarrow> ('v, 'st) Model res" where
  "set_height ui h m =
     andThen (headersView ui m) (\<lambda>v. Ok (m\<lparr>tb_viewport := (tb_viewport m)\<lparr>vp_Height := h - ui_Height ui v\<rparr>\<rparr>))"

definition WithHeight :: "('v, 'st) ui \<Rightarrow> int \<Rightarrow> ('v, 'st) Option" where
  "WithHeight ui h m = set_height ui h m"

definition WithWidth :: "int \<Rightarrow> ('v, 'st) Option" where
  "WithWidth w m = Ok (m\<lparr>tb_viewport := (tb_viewport m)\<lparr>vp_Width := w\<rparr>\<rparr>)"

definition WithFocused :: "bool \<Rightarrow> ('v, 'st) Option" where
  "WithFocused f m = Ok (m\<lparr>tb_focus := f\<rparr>)"

definition WithStyles :: "'st Styles \<Rightarrow> ('v, 'st) Option" where
  "WithStyles s m = Ok (m\<lparr>tb_styles := s\<rparr>)"

definition WithKeyMap :: "KeyMap \<Rightarrow> ('v, 'st) Option" where
  "WithKeyMap km m = Ok (m\<lparr>tb_KeyMap := km\<rparr>)"

definition WithStyleFunc :: "'st StyleFunc \<Rightarrow> ('v, 'st) Option" where
  "WithStyleFunc f m = Ok (m\<lparr>tb_styleFunc := Some f\<rparr>)"

text \<open>Operations one after the other.\<close>

fun in_turn :: "('a \<Rightarrow> 'a res) list \<Rightarrow> 'a \<Rightarrow> 'a res" where
  "in_turn [] m = Ok m"
| "in_turn (op # ops) m = andThen (op m) (in_turn ops)"

definition table_New :: "('v, 'st) ui \<Rightarrow> ('v, 'st) Option list \<Rightarrow> ('v, 'st) Model res" where
  "table_New ui opts =
     (let m = \<lparr>tb_KeyMap = DefaultKeyMap, tb_cols = [], tb_rows = [], tb_cursor = 0, tb_focus = False,
               tb_styles = DefaultStyles ui, tb_styleFunc = None, tb_viewport = ui_viewport_New ui 0 20,
               tb_start = 0, tb_end = 0\<rparr>
      in andThen (in_turn opts m) (UpdateViewport ui))"

section \<open>Operations\<close>

definition SetStyles :: "('v, 'st) ui \<Rightarrow> 'st Styles \<Rightarrow> ('v, 'st) Model \<Rightarrow> ('v, 'st) Model res" where
  "SetStyles ui s m = UpdateViewport ui (m\<lparr>tb_styles := s\<rparr>)"

definition Focus :: "('v, 'st) ui \<Rightarrow> ('v, 'st) Model \<Rightarrow> ('v, 'st) Model res" where
  "Focus ui m = UpdateViewport ui (m\<lparr>tb_focus := True\<rparr>)"

definition Blur :: "('v, 'st) ui \<Rightarrow> ('v, 'st) Model \<Rightarrow> ('v, 'st) Model res" where
  "Blur ui m = UpdateViewport ui (m\<lparr>tb_focus := False\<rparr>)"

definition SelectedRow :: "('v, 'st) Model \<Rightarrow> Row option" where
  "SelectedRow m =
     (if tb_cursor m < 0 \<or> tb_cursor m \<ge> row_count m then None else Some (tb_rows m ! nat (tb_cursor m)))"

definition SetRows :: "('v, 'st) ui \<Rightarrow> Row list \<Rightarrow> ('v, 'st) Model \<Rightarrow> ('v, 'st) Model res" where
  "SetRows ui r m =
     (let m1 = m\<lparr>tb_rows := r\<rparr>;
          m2 = (if tb_cursor m1 > row_count m1 - 1 then m1\<lparr>tb_cursor := row_count m1 - 1\<rparr> else m1)
      in UpdateViewport ui m2)"

definition SetColumns :: "('v, 'st) ui \<Rightarrow> Column list \<Rightarrow> ('v, 'st) Model \<Rightarrow> ('v, 'st) Model res" where
  "SetColumns ui c m = UpdateViewport ui (m\<lparr>tb_cols := c\<rparr>)"

definition SetWidth :: "('v, 'st) ui \<Rightarrow> int \<Rightarrow> ('v, 'st) Model \<Rightarrow> ('v, 'st) Model res" where
  "SetWidth ui w m = UpdateViewport ui (m\<lparr>tb_viewport := (tb_viewport m)\<lparr>vp_Width := w\<rparr>\<rparr>)"

definition SetHeight :: "('v, 'st) ui \<Rightarrow> int \<Rightarrow> ('v, 'st) Model \<Rightarrow> ('v, 'st) Model res" where
  "SetHeight ui h m = andThen (set_height ui h m) (UpdateViewport ui)"

definition SetCursor :: "('v, 'st) ui \<Rightarrow> int \<Rightarrow> ('v, 'st) Model \<Rightarrow> ('v, 'st) Model res" where
  "SetCursor ui n m = UpdateViewport ui (m\<lparr>tb_cursor := clamp n 0 (row_count m - 1)\<rparr>)"

definition set_YOffset :: "int \<Rightarrow> ('v, 'st) Model \<Rightarrow> ('v, 'st) Model" where
  "set_YOffset y m = m\<lparr>tb_viewport := (tb_viewport m)\<lparr>vp_YOffset := y\<rparr>\<rparr>"

definition scroll_to :: "('v, 'st) ui \<Rightarrow> int \<Rightarrow> ('v, 'st) Model \<Rightarrow> ('v, 'st) Model" where
  "scroll_to ui y m = m\<lparr>tb_viewport := ui_SetYOffset ui (tb_viewport m) y\<rparr>"

definition MoveUp :: "('v, 'st) ui \<Rightarrow> int \<Rightarrow> ('v, 'st) Model \<Rightarrow> ('v, 'st) Model res" where
  "MoveUp ui n m =
     (let m1 = m\<lparr>tb_cursor := clamp (tb_cursor m - n) 0 (row_count m - 1)\<rparr>;
          m2 = (if tb_start m1 = 0 then scroll_to ui (clamp (tb_YOffset m1) 0 (tb_cursor m1)) m1
                else if tb_start m1 < tb_Height m1
                then set_YOffset (clamp (clamp (tb_YOffset m1 + n) 0 (tb_cursor m1)) 0 (tb_Height m1)) m1
                else if tb_YOffset m1 \<ge> 1 then set_YOffset (clamp (tb_YOffset m1 + n) 1 (tb_Height m1)) m1
                else m1)
      in UpdateViewport ui m2)"

definition MoveDown :: "('v, 'st) ui \<Rightarrow> int \<Rightarrow> ('v, 'st) Model \<Rightarrow> ('v, 'st) Model res" where
  "MoveDown ui n m =
     andThen (UpdateViewport ui (m\<lparr>tb_cursor := clamp (tb_cursor m + n) 0 (row_count m - 1)\<rparr>)) (\<lambda>m1.
       Ok (if tb_end m1 = row_count m1 \<and> tb_YOffset m1 > 0
           then scroll_to ui (clamp (tb_YOffset m1 - n) 1 (tb_Height m1)) m1
           else if tb_cursor m1 > go_quot (tb_end m1 - tb_start m1) 2 \<and> tb_YOffset m1 > 0
           then scroll_to ui (clamp (tb_YOffset m1 - n) 1 (tb_cursor m1)) m1
           else if tb_cursor m1 > tb_YOffset m1 + tb_Height m1 - 1
           then scroll_to ui (clamp (tb_YOffset m1 + 1) 0 1) m1
           else m1))"

definition GotoTop :: "('v, 'st) ui \<Rightarrow> ('v, 'st) Model \<Rightarrow> ('v, 'st) Model res" where
  "GotoTop ui m = MoveUp ui (tb_cursor m) m"

definition GotoBottom :: "('v, 'st) ui \<Rightarrow> ('v, 'st) Model \<Rightarrow> ('v, 'st) Model res" where
  "GotoBottom ui m = MoveDown ui (row_count m) m"

text \<open>A message is a key with its name, or something that the widget does not look at.\<close>

definition table_Update :: "('v, 'st) ui \<Rightarrow> string option \<Rightarrow> ('v, 'st) Model \<Rightarrow> ('v, 'st) Model res" where
  "table_Update ui msg m =
     (if \<not> tb_focus m then Ok m
      else case msg of
        None \<Rightarrow> Ok m
      | Some k \<Rightarrow>
          (if ui_Matches ui k (LineUp (tb_KeyMap m)) then MoveUp ui 1 m
           else if ui_Matches ui k (LineDown (tb_KeyMap m)) then MoveDown ui 1 m
           else if ui_Matches ui k (PageUp (tb_KeyMap m)) then MoveUp ui (tb_Height m) m
           else if ui_Matches ui k (PageDown (tb_KeyMap m)) then MoveDown ui (tb_Height m) m
           else if ui_Matches ui k (HalfPageUp (tb_KeyMap m)) then MoveUp ui (go_quot (tb_Height m) 2) m
           else if ui_Matches ui k (HalfPageDown (tb_KeyMap m)) then MoveDown ui (go_quot (tb_Height m) 2) m
           else if ui_Matches ui k (GotoTop_key (tb_KeyMap m)) then GotoTop ui m
           else if ui_Matches ui k (GotoBottom_key (tb_KeyMap m)) then GotoBottom ui m
           else Ok m))"

text \<open>
  \<^verbatim>\<open>strings.Split\<close>: the text before the first separator and the rest, again and again. An empty
  separator splits into characters of one byte.
\<close>

fun cut :: "string \<Rightarrow> string \<Rightarrow> (string \<times> string) option" where
  "cut sep [] = (if sep = [] then Some ([], []) else None)"
| "cut sep (c # s) =
     (if HasPrefix (c # s) sep then Some ([], drop (length sep) (c # s))
      else case cut sep s of None \<Rightarrow> None | Some (before, after) \<Rightarrow> Some (c # before, after))"

lemma cut_shorter: "cut sep s = Some (before, after) \<Longrightarrow> length after + length sep \<le> length s"
proof (induction s arbitrary: before)
  case (Cons c s)
  show ?case
  proof (cases "HasPrefix (c # s) sep")
    case True
    then have "length sep \<le> length (c # s)"
      by (auto simp: HasPrefix_def dest: arg_cong[where f = length])
    then show ?thesis using True Cons.prems by auto
  next
    case False
    then obtain b where "cut sep s = Some (b, after)"
      using Cons.prems by (auto split: option.splits)
    then show ?thesis using Cons.IH by fastforce
  qed
qed (auto split: if_splits)

function Split :: "string \<Rightarrow> string \<Rightarrow> string list" where
  "Split s sep =
     (if sep = [] then map (\<lambda>c. [c]) s
      else case cut sep s of None \<Rightarrow> [s] | Some (before, after) \<Rightarrow> before # Split after sep)"
  by auto
termination
  by (relation "measure (\<lambda>(s, _). length s)") (auto dest!: cut_shorter simp: length_greater_0_conv[symmetric] simp del: length_greater_0_conv)

definition FromValues :: "('v, 'st) ui \<Rightarrow> string \<Rightarrow> string \<Rightarrow> ('v, 'st) Model \<Rightarrow> ('v, 'st) Model res" where
  "FromValues ui value separator m =
     SetRows ui (map (\<lambda>line. Split line separator) (Split value [CHR 0x0A])) m"

section \<open>Widths that fill the screen\<close>

lemma column_use_spec:
  "column_use cols (tf, uw) =
     (tf + sum_list (map col_Flex (filter (\<lambda>c. col_Flex c > 0) cols)),
      uw + sum_list (map col_Width (filter (\<lambda>c. \<not> col_Flex c > 0) cols)))"
  by (induction cols arbitrary: tf uw) auto

definition share :: "int \<Rightarrow> int \<Rightarrow> Column \<Rightarrow> int" where
  "share flexSpace totalFlex col =
     (if col_Flex col = 0 then col_Width col else go_quot (flexSpace * col_Flex col) totalFlex)"

text \<open>The last flexible column among \<open>cols\<close>, the columns from index \<open>n\<close> on.\<close>

definition last_flex :: "Column list \<Rightarrow> nat \<Rightarrow> int \<Rightarrow> int \<Rightarrow> bool" where
  "last_flex cols n old l \<longleftrightarrow>
     (if \<forall>c \<in> set cols. col_Flex c = 0 then l = old
      else \<exists>i < length cols. l = int (n + i) \<and> col_Flex (cols ! i) \<noteq> 0)"

lemma last_flex_Cons:
  assumes "last_flex cols (Suc n) (if col_Flex c = 0 then old else int n) l"
  shows "last_flex (c # cols) n old l"
proof (cases "\<forall>c \<in> set cols. col_Flex c = 0")
  case True
  then show ?thesis using assms by (auto simp: last_flex_def split: if_splits)
next
  case False
  then obtain i where "i < length cols" "l = int (Suc n + i)" "col_Flex (cols ! i) \<noteq> 0"
    using assms unfolding last_flex_def if_not_P[OF False] by blast
  then have "Suc i < length (c # cols) \<and> l = int (n + Suc i) \<and> col_Flex ((c # cols) ! Suc i) \<noteq> 0" by simp
  then show ?thesis using False unfolding last_flex_def by (metis list.set_intros(2))
qed

lemma allocate_spec:
  assumes "totalFlex \<noteq> 0 \<or> (\<forall>c \<in> set cols. col_Flex c = 0)"
  shows "\<exists>l. allocate flexSpace totalFlex cols (ws, al, old) =
     Ok (ws @ map (share flexSpace totalFlex) cols,
         al + sum_list (map (share flexSpace totalFlex) (filter (\<lambda>c. col_Flex c \<noteq> 0) cols)), l)
     \<and> last_flex cols (length ws) old l"
  using assms
proof (induction cols arbitrary: ws al old)
  case (Cons c cols)
  let ?w = "share flexSpace totalFlex c"
  have "totalFlex \<noteq> 0 \<or> (\<forall>c \<in> set cols. col_Flex c = 0)" using Cons.prems by auto
  from Cons.IH[OF this, of "ws @ [?w]" "if col_Flex c = 0 then al else al + ?w"
      "if col_Flex c = 0 then old else int (length ws)"]
  obtain l where step: "allocate flexSpace totalFlex cols (ws @ [?w], if col_Flex c = 0 then al else al + ?w,
        if col_Flex c = 0 then old else int (length ws)) =
      Ok ((ws @ [?w]) @ map (share flexSpace totalFlex) cols, (if col_Flex c = 0 then al else al + ?w)
        + sum_list (map (share flexSpace totalFlex) (filter (\<lambda>c. col_Flex c \<noteq> 0) cols)), l)"
    and "last_flex cols (length (ws @ [?w])) (if col_Flex c = 0 then old else int (length ws)) l"
    by blast
  then have "last_flex (c # cols) (length ws) old l" by (intro last_flex_Cons) simp
  then show ?case using step Cons.prems
    by (intro exI[of _ l]) (auto simp: share_def[of _ _ c] Let_def)
qed (simp add: last_flex_def)

lemma go_quot_nonneg: "0 \<le> a \<Longrightarrow> 0 < b \<Longrightarrow> go_quot a b = a div b"
  by (cases "a = 0") (simp_all add: go_quot_def)

lemma sum_div_le: "0 \<le> (f::int) \<Longrightarrow> 0 < t \<Longrightarrow> sum_list (map (\<lambda>x. f * g x div t) xs) \<le> f * sum_list (map g xs) div t"
proof (induction xs)
  case (Cons x xs)
  have "f * g x div t + f * sum_list (map g xs) div t \<le> (f * g x + f * sum_list (map g xs)) div t"
    using Cons.prems by (simp add: div_add1_eq[of "f * g x"] pos_imp_zdiv_nonneg_iff)
  then show ?case using Cons by (simp add: distrib_left)
qed simp

lemma sum_list_split:
  "sum_list (map f (xs::'a list)) = sum_list (map f (filter P xs)) + (sum_list (map f (filter (\<lambda>x. \<not> P x) xs)) :: int)"
  by (induction xs) auto

lemma sum_list_bump:
  "i < length xs \<Longrightarrow> sum_list (xs[i := xs ! i + d]) = sum_list xs + (d::int)"
  by (induction xs arbitrary: i) (auto split: nat.split)

lemma zero_weights: "sum_list (map col_Flex (filter (\<lambda>c. col_Flex c = 0) cols)) = 0"
  by (induction cols) auto

lemma fixed_shares:
  "sum_list (map (share s t) (filter (\<lambda>c. col_Flex c = 0) cols)) = sum_list (map col_Width (filter (\<lambda>c. col_Flex c = 0) cols))"
  by (induction cols) (auto simp: share_def)

lemma positive_weights:
  "\<exists>c \<in> set cols. 0 < col_Flex c \<Longrightarrow> \<forall>c \<in> set cols. 0 \<le> col_Flex c \<Longrightarrow> 0 < sum_list (map col_Flex cols)"
proof (induction cols)
  case (Cons a cols)
  have "0 \<le> sum_list (map col_Flex cols)" by (rule sum_list_nonneg) (use Cons.prems in auto)
  moreover have "0 < sum_list (map col_Flex cols)" if "\<not> 0 < col_Flex a" using Cons that by simp
  ultimately show ?case using Cons.prems(2) by fastforce
qed simp


definition sample_columns :: "Column list" where
  "sample_columns =
     [\<lparr>col_Title = ''ID'', col_Width = 10, col_Flex = 0\<rparr>, \<lparr>col_Title = ''Name'', col_Width = 0, col_Flex = 2\<rparr>,
      \<lparr>col_Title = ''Status'', col_Width = 0, col_Flex = 1\<rparr>]"

definition sample_table :: "(unit, unit) Model" where
  "sample_table =
     \<lparr>tb_KeyMap = DefaultKeyMap, tb_cols = sample_columns, tb_rows = [], tb_cursor = 0, tb_focus = True,
      tb_styles = \<lparr>sty_Header = (), sty_Cell = (), sty_Selected = ()\<rparr>, tb_styleFunc = None,
      tb_viewport = \<lparr>vp_Width = 80, vp_Height = 20, vp_YOffset = 0, vp_rest = ()\<rparr>, tb_start = 0, tb_end = 0\<rparr>"

lemma sample_table_simps:
  "vp_Width (tb_viewport sample_table) = 80" "tb_cols sample_table = sample_columns"
  by (simp_all add: sample_table_def)


section \<open>What the widget relies on\<close>

text \<open>A style that adds no lines.\<close>

definition flat :: "('v, 'st) ui \<Rightarrow> 'st \<Rightarrow> bool" where
  "flat ui st \<longleftrightarrow> (\<forall>s. ui_Height ui s = 1 \<longrightarrow> ui_Height ui (ui_Render ui st s) = 1)"

text \<open>
  The libraries as they are documented, \<open>lines\<close> the number of lines of a viewport: a new viewport
  is at the top; setting the content keeps the size, and scrolls to the end when the offset is
  past the last line; an offset is set within the content; single lines joined are a line, and stacked
  they are as many lines (an empty text is one line); an inline style gives one line; a
  background adds none.
\<close>

definition ui_ok :: "('v, 'st) ui \<Rightarrow> ('v \<Rightarrow> int) \<Rightarrow> bool" where
  "ui_ok ui lines \<longleftrightarrow>
     (\<forall>w h. vp_YOffset (ui_viewport_New ui w h) = 0)
   \<and> (\<forall>vp s. vp_Width (ui_SetContent ui vp s) = vp_Width vp \<and> vp_Height (ui_SetContent ui vp s) = vp_Height vp)
   \<and> (\<forall>vp rows. (\<forall>r \<in> set rows. ui_Height ui r = 1) \<longrightarrow>
        (let vp' = ui_SetContent ui vp (ui_JoinVertical ui rows) in
         lines (vp_rest vp') = max 1 (int (length rows))
       \<and> vp_YOffset vp' = (if vp_YOffset vp > lines (vp_rest vp') - 1
                           then max 0 (lines (vp_rest vp') - vp_Height vp) else vp_YOffset vp)))
   \<and> (\<forall>vp y. ui_SetYOffset ui vp y =
        vp\<lparr>vp_YOffset := clamp y 0 (max 0 (lines (vp_rest vp) - vp_Height vp))\<rparr>)
   \<and> (\<forall>cells. (\<forall>s \<in> set cells. ui_Height ui s = 1) \<longrightarrow> ui_Height ui (ui_JoinHorizontal ui cells) = 1)
   \<and> (\<forall>st s. ui_Height ui (ui_Render ui (ui_Inline ui st True) s) = 1)
   \<and> (\<forall>st st'. flat ui st \<longrightarrow> flat ui (ui_Background_of ui st st'))"

text \<open>A table that can be drawn: its weights are not negative, its rows fit its columns, its cells are one line.\<close>

definition drawable :: "('v, 'st) ui \<Rightarrow> ('v, 'st) Model \<Rightarrow> bool" where
  "drawable ui m \<longleftrightarrow>
     (\<forall>c \<in> set (tb_cols m). 0 \<le> col_Flex c) \<and> (\<forall>r \<in> set (tb_rows m). length r \<le> length (tb_cols m))
   \<and> flat ui (sty_Cell (tb_styles m)) \<and> flat ui (sty_Selected (tb_styles m))
   \<and> (\<forall>f r c v. tb_styleFunc m = Some f \<longrightarrow> flat ui (f r c v))"

lemma computeColumnWidths_total:
  assumes "\<forall>c \<in> set (tb_cols m). 0 \<le> col_Flex c"
  shows "\<exists>ws. computeColumnWidths m = Ok ws \<and> length ws = length (tb_cols m)"
proof -
  define tf where "tf = sum_list (map col_Flex (filter (\<lambda>c. col_Flex c > 0) (tb_cols m)))"
  define fs where "fs = max (vp_Width (tb_viewport m) - (int (length (tb_cols m)) * cellPadding
    + sum_list (map col_Width (filter (\<lambda>c. \<not> col_Flex c > 0) (tb_cols m))))) 0"
  have "tf \<noteq> 0 \<or> (\<forall>c \<in> set (tb_cols m). col_Flex c = 0)"
  proof (cases "\<exists>c \<in> set (tb_cols m). 0 < col_Flex c")
    case True
    then have "0 < tf" unfolding tf_def by (intro positive_weights) auto
    then show ?thesis by simp
  qed (use assms in force)
  from allocate_spec[OF this, of fs "[]" 0 "- 1"] obtain l al
    where "allocate fs tf (tb_cols m) ([], 0, - 1) = Ok (map (share fs tf) (tb_cols m), al, l)" by auto
  then show ?thesis
    by (simp add: computeColumnWidths_def column_use_spec Let_def flip: tf_def fs_def)
qed

lemma render_cells_total:
  assumes ok: "ui_ok ui lines" and styles: "drawable ui m" and "i + length vs \<le> length ws"
  shows "\<exists>s. render_cells ui m ws r i vs = Ok s \<and> (\<forall>x \<in> set s. ui_Height ui x = 1)"
  using assms(3)
proof (induction vs arbitrary: i)
  case (Cons v vs)
  have "Suc i + length vs \<le> length ws" using Cons.prems by simp
  from Cons.IH[OF this] obtain s
    where s: "render_cells ui m ws r (Suc i) vs = Ok s" "\<forall>x \<in> set s. ui_Height ui x = 1" by blast
  define cs where "cs = (case tb_styleFunc m of None \<Rightarrow> sty_Cell (tb_styles m) | Some f \<Rightarrow> f r (int i) v)"
  have "flat ui cs" using styles by (auto simp: cs_def drawable_def split: option.split)
  then have "flat ui (if r = tb_cursor m then ui_Background_of ui cs (sty_Selected (tb_styles m)) else cs)"
    using ok by (simp add: ui_ok_def)
  moreover have "ui_Height ui (ui_Render ui (cell_box ui (ws ! i)) t) = 1" for t
    using ok by (simp add: ui_ok_def cell_box_def)
  ultimately show ?case using s Cons.prems by (simp add: Let_def flat_def flip: cs_def)
qed simp

lemma renderRow_total:
  assumes ok: "ui_ok ui lines" and draw: "drawable ui m" and "0 \<le> r" "r < row_count m"
  shows "\<exists>s. renderRow ui m r = Ok s \<and> ui_Height ui s = 1"
proof -
  from computeColumnWidths_total draw obtain ws
    where ws: "computeColumnWidths m = Ok ws" "length ws = length (tb_cols m)"
    unfolding drawable_def by blast
  have "length (tb_rows m ! nat r) \<le> length ws"
    using draw assms(3,4) ws(2) nth_mem[of "nat r" "tb_rows m"] by (simp add: drawable_def)
  from render_cells_total[OF ok draw, of 0 "tb_rows m ! nat r" ws r] this
  obtain s where s: "render_cells ui m ws r 0 (tb_rows m ! nat r) = Ok s" "\<forall>x \<in> set s. ui_Height ui x = 1"
    by auto
  have "ui_Height ui (ui_JoinHorizontal ui s) = 1" using ok s(2) by (simp add: ui_ok_def)
  then show ?thesis using ws(1) s(1) draw assms(3,4)
    by (auto simp: renderRow_def Let_def drawable_def flat_def)
qed

lemma render_rows_total:
  assumes "ui_ok ui lines" "drawable ui m" "\<forall>i \<in> set is. 0 \<le> i \<and> i < row_count m"
  shows "\<exists>rows. render_rows ui m is = Ok rows \<and> length rows = length is \<and> (\<forall>r \<in> set rows. ui_Height ui r = 1)"
  using assms(3)
proof (induction "is")
  case (Cons i "is")
  then show ?case using renderRow_total[OF assms(1,2), of i] by auto
qed simp

lemma clamp_in: "low \<le> high \<Longrightarrow> low \<le> clamp v low high \<and> clamp v low high \<le> high"
  by (auto simp: clamp_def)

text \<open>The window of rows that are drawn around the cursor \<open>c\<close>, \<open>h\<close> the height and \<open>n\<close> the number of rows.\<close>

definition top_row :: "int \<Rightarrow> int \<Rightarrow> int" where
  "top_row h c = max 0 (c - h)"

definition drawn :: "int \<Rightarrow> int \<Rightarrow> int \<Rightarrow> int" where
  "drawn h n c = min (c + h) n - top_row h c"

definition settle :: "int \<Rightarrow> int \<Rightarrow> int \<Rightarrow> int" where
  "settle h l y = (if y > l - 1 then max 0 (l - h) else y)"

lemma UpdateViewport_spec:
  assumes ok: "ui_ok ui lines" and draw: "drawable ui m"
    and h: "1 \<le> tb_Height m" and c: "0 \<le> tb_cursor m" "tb_cursor m < row_count m"
    and l: "l = drawn (tb_Height m) (row_count m) (tb_cursor m)"
  shows "\<exists>vp. UpdateViewport ui m = Ok (m\<lparr>tb_start := top_row (tb_Height m) (tb_cursor m),
       tb_end := min (tb_cursor m + tb_Height m) (row_count m), tb_viewport := vp\<rparr>)
     \<and> vp_Height vp = tb_Height m \<and> lines (vp_rest vp) = l \<and> vp_YOffset vp = settle (tb_Height m) l (tb_YOffset m)"
proof -
  let ?h = "tb_Height m" and ?c = "tb_cursor m" and ?n = "row_count m"
  define m1 where "m1 = m\<lparr>tb_start := top_row ?h ?c, tb_end := min (?c + ?h) ?n\<rparr>"
  have start: "clamp (?c - ?h) 0 ?c = top_row ?h ?c" "clamp (?c + ?h) ?c ?n = min (?c + ?h) ?n"
    using h c by (auto simp: clamp_def top_row_def)
  have draw1: "drawable ui m1" using draw by (simp add: m1_def drawable_def)
  have range: "\<forall>i \<in> set [top_row ?h ?c..min (?c + ?h) ?n - 1]. 0 \<le> i \<and> i < row_count m1"
    by (auto simp: m1_def top_row_def)
  from render_rows_total[OF ok draw1 range] obtain rows where
    rows: "render_rows ui m1 [top_row ?h ?c..min (?c + ?h) ?n - 1] = Ok rows"
      "length rows = length [top_row ?h ?c..min (?c + ?h) ?n - 1]" "\<forall>r \<in> set rows. ui_Height ui r = 1"
    by blast
  define vp where "vp = ui_SetContent ui (tb_viewport m) (ui_JoinVertical ui rows)"
  have "max 1 (int (length rows)) = l"
    using rows(2) h c by (auto simp: l drawn_def top_row_def)
  then have "vp_Height vp = ?h" "lines (vp_rest vp) = l" "vp_YOffset vp = settle ?h l (tb_YOffset m)"
    using ok rows(3) unfolding ui_ok_def vp_def Let_def settle_def by metis+
  moreover have "UpdateViewport ui m = Ok (m1\<lparr>tb_viewport := vp\<rparr>)"
    using c rows(1) by (simp add: UpdateViewport_def start vp_def m1_def Let_def)
  ultimately show ?thesis unfolding m1_def by (intro exI[of _ vp]) simp
qed

section \<open>The selected row stays on the screen\<close>

text \<open>On the screen: the offset \<open>y\<close> shows the rows from \<open>top_row h c + y\<close> on, \<open>h\<close> of them.\<close>

definition on_screen :: "int \<Rightarrow> int \<Rightarrow> int \<Rightarrow> bool" where
  "on_screen h c y \<longleftrightarrow> 0 \<le> y \<and> top_row h c + y \<le> c \<and> c < top_row h c + y + h"

lemma on_screen_iff:
  "1 \<le> h \<Longrightarrow> 0 \<le> c \<Longrightarrow> on_screen h c y \<longleftrightarrow> 0 \<le> y \<and> y \<le> c \<and> y \<le> h \<and> (h \<le> c \<longrightarrow> 1 \<le> y)"
  by (auto simp: on_screen_def top_row_def)

lemma on_screen_settled:
  assumes "1 \<le> h" "0 \<le> c" "c < n" "0 \<le> y" "y \<le> h" "y \<le> c" "h \<le> c \<longrightarrow> 1 \<le> y"
  shows "on_screen h c (settle h (drawn h n c) y)"
  using assms by (auto simp: on_screen_def settle_def drawn_def top_row_def)

definition visible :: "('v, 'st) ui \<Rightarrow> ('v \<Rightarrow> int) \<Rightarrow> ('v, 'st) Model \<Rightarrow> bool" where
  "visible ui lines m \<longleftrightarrow>
     drawable ui m \<and> 1 \<le> tb_Height m \<and> 0 \<le> tb_cursor m \<and> tb_cursor m < row_count m
   \<and> tb_start m = top_row (tb_Height m) (tb_cursor m)
   \<and> tb_end m = min (tb_cursor m + tb_Height m) (row_count m)
   \<and> lines (vp_rest (tb_viewport m)) = drawn (tb_Height m) (row_count m) (tb_cursor m)
   \<and> on_screen (tb_Height m) (tb_cursor m) (tb_YOffset m)"

text \<open>What moving the selection keeps.\<close>

definition same_table :: "('v, 'st) Model \<Rightarrow> ('v, 'st) Model \<Rightarrow> bool" where
  "same_table m m' \<longleftrightarrow> tb_cols m' = tb_cols m \<and> tb_rows m' = tb_rows m \<and> tb_Height m' = tb_Height m"

lemma drawable_cong [simp]:
  "drawable ui (m\<lparr>tb_cursor := c\<rparr>) = drawable ui m" "drawable ui (m\<lparr>tb_focus := b\<rparr>) = drawable ui m"
  "drawable ui (m\<lparr>tb_start := i\<rparr>) = drawable ui m" "drawable ui (m\<lparr>tb_end := i\<rparr>) = drawable ui m"
  "drawable ui (m\<lparr>tb_viewport := vp\<rparr>) = drawable ui m"
  by (simp_all add: drawable_def)

lemma UpdateViewport_visible:
  assumes ok: "ui_ok ui lines" and draw: "drawable ui m"
    and h: "1 \<le> tb_Height m" and c: "0 \<le> tb_cursor m" "tb_cursor m < row_count m"
    and on: "on_screen (tb_Height m) (tb_cursor m)
      (settle (tb_Height m) (drawn (tb_Height m) (row_count m) (tb_cursor m)) (tb_YOffset m))"
  shows "\<exists>m'. UpdateViewport ui m = Ok m' \<and> visible ui lines m' \<and> same_table m m' \<and> tb_cursor m' = tb_cursor m
     \<and> tb_YOffset m' = settle (tb_Height m) (drawn (tb_Height m) (row_count m) (tb_cursor m)) (tb_YOffset m)"
proof -
  from UpdateViewport_spec[OF ok draw h c refl] obtain vp where
    "UpdateViewport ui m = Ok (m\<lparr>tb_start := top_row (tb_Height m) (tb_cursor m),
       tb_end := min (tb_cursor m + tb_Height m) (row_count m), tb_viewport := vp\<rparr>)"
    "vp_Height vp = tb_Height m" "lines (vp_rest vp) = drawn (tb_Height m) (row_count m) (tb_cursor m)"
    "vp_YOffset vp = settle (tb_Height m) (drawn (tb_Height m) (row_count m) (tb_cursor m)) (tb_YOffset m)"
    by blast
  then show ?thesis using assms by (simp add: visible_def same_table_def)
qed

lemma scroll_to_ok:
  "ui_ok ui lines \<Longrightarrow> scroll_to ui y m =
     set_YOffset (clamp y 0 (max 0 (lines (vp_rest (tb_viewport m)) - tb_Height m))) m"
  by (simp add: ui_ok_def scroll_to_def set_YOffset_def)

text \<open>Moving up: by at most the height of the screen, or to the first row.\<close>

definition up_offset :: "int \<Rightarrow> int \<Rightarrow> int \<Rightarrow> int \<Rightarrow> int \<Rightarrow> int" where
  "up_offset h n c k y =
     (let c' = max 0 (c - k) in
      if top_row h c = 0 then clamp (clamp y 0 c') 0 (max 0 (drawn h n c - h))
      else if top_row h c < h then clamp (clamp (y + k) 0 c') 0 h
      else if y \<ge> 1 then clamp (y + k) 1 h else y)"

lemma up_on_screen:
  assumes h: "1 \<le> h" and c: "0 \<le> c" "c < n" and on: "on_screen h c y" and k: "0 \<le> k" "k \<le> h \<or> k = c"
  shows "on_screen h (max 0 (c - k)) (settle h (drawn h n (max 0 (c - k))) (up_offset h n c k y))"
proof -
  have y: "0 \<le> y" "y \<le> c" "y \<le> h" "h \<le> c \<longrightarrow> 1 \<le> y"
    using on on_screen_iff[OF h c(1)] by auto
  consider "c \<le> h" | "h < c" "c < 2 * h" | "2 * h \<le> c" "k \<le> h" | "2 * h \<le> c" "k = c" using k by linarith
  then show ?thesis
  proof cases
    case 1
    then show ?thesis using assms y
      by (intro on_screen_settled) (auto simp: up_offset_def Let_def clamp_def top_row_def drawn_def)
  next
    case 2
    then show ?thesis using assms y
      by (intro on_screen_settled) (auto simp: up_offset_def Let_def clamp_def top_row_def)
  next
    case 3
    then show ?thesis using assms y
      by (intro on_screen_settled) (auto simp: up_offset_def Let_def clamp_def top_row_def)
  next
    case 4
    then show ?thesis using assms y
      by (auto simp: up_offset_def Let_def clamp_def top_row_def drawn_def settle_def on_screen_def)
  qed
qed

lemma MoveUp_visible:
  assumes ok: "ui_ok ui lines" and vis: "visible ui lines m" and k: "0 \<le> k" "k \<le> tb_Height m \<or> k = tb_cursor m"
  shows "\<exists>m'. MoveUp ui k m = Ok m' \<and> visible ui lines m' \<and> same_table m m'
     \<and> tb_cursor m' = max 0 (tb_cursor m - k)"
proof -
  let ?h = "tb_Height m" and ?n = "row_count m" and ?c = "tb_cursor m"
  let ?c' = "max 0 (?c - k)"
  have v: "drawable ui m" "1 \<le> ?h" "0 \<le> ?c" "?c < ?n" "tb_start m = top_row ?h ?c"
    "lines (vp_rest (tb_viewport m)) = drawn ?h ?n ?c" "on_screen ?h ?c (tb_YOffset m)"
    using vis by (auto simp: visible_def)
  have c': "clamp (?c - k) 0 (?n - 1) = ?c'" using v k by (auto simp: clamp_def)
  define m2 where "m2 = set_YOffset (up_offset ?h ?n ?c k (tb_YOffset m)) (m\<lparr>tb_cursor := ?c'\<rparr>)"
  have move: "MoveUp ui k m = UpdateViewport ui m2"
    using v(5,6) by (auto simp: MoveUp_def c' m2_def up_offset_def Let_def scroll_to_ok[OF ok] set_YOffset_def)
  have m2: "drawable ui m2" "tb_Height m2 = ?h" "tb_cursor m2 = ?c'" "tb_rows m2 = tb_rows m" "tb_cols m2 = tb_cols m"
    "tb_YOffset m2 = up_offset ?h ?n ?c k (tb_YOffset m)"
    using v(1) by (simp_all add: m2_def set_YOffset_def)
  have "\<exists>m'. UpdateViewport ui m2 = Ok m' \<and> visible ui lines m' \<and> same_table m2 m' \<and> tb_cursor m' = tb_cursor m2
     \<and> tb_YOffset m' = settle (tb_Height m2) (drawn (tb_Height m2) (row_count m2) (tb_cursor m2)) (tb_YOffset m2)"
    by (rule UpdateViewport_visible[OF ok]) (use m2 v up_on_screen[OF v(2,3,4,7) k] k in auto)
  then show ?thesis using m2 by (auto simp: move same_table_def)
qed

text \<open>Moving down: by any number of rows.\<close>

definition down_offset :: "int \<Rightarrow> int \<Rightarrow> int \<Rightarrow> int \<Rightarrow> int \<Rightarrow> int" where
  "down_offset h n c k y =
     (let e = min (c + h) n; top = max 0 (drawn h n c - h) in
      if e = n \<and> y > 0 then clamp (clamp (y - k) 1 h) 0 top
      else if c > go_quot (drawn h n c) 2 \<and> y > 0 then clamp (clamp (y - k) 1 c) 0 top
      else if c > y + h - 1 then clamp (clamp (y + 1) 0 1) 0 top
      else y)"

lemma down_on_screen:
  assumes h: "1 \<le> h" and c: "0 \<le> c" "c \<le> c'" "c' < n" and on: "on_screen h c y" and k: "0 \<le> k"
  shows "settle h (drawn h n c') y = y" "on_screen h c' (down_offset h n c' k y)"
proof -
  have y: "0 \<le> y" "y \<le> c" "y \<le> h" "h \<le> c \<longrightarrow> 1 \<le> y"
    using on on_screen_iff[OF h c(1)] by auto
  show "settle h (drawn h n c') y = y" using h c y by (auto simp: settle_def drawn_def top_row_def)
  consider "c' < h" | "h \<le> c'" "n \<le> c' + h" | "h \<le> c'" "c' + h < n" by linarith
  then show "on_screen h c' (down_offset h n c' k y)"
  proof cases
    case 1
    have "on_screen h c' z" if "0 \<le> z" "z \<le> c'" for z using 1 that h by (auto simp: on_screen_def top_row_def)
    then show ?thesis using 1 h c y k by (auto simp: down_offset_def Let_def clamp_def)
  next
    case 2
    have "drawn h n c' - h = n - c'" using 2 by (simp add: drawn_def top_row_def)
    moreover have "on_screen h c' z" if "1 \<le> z" "z \<le> h" for z using 2 that h by (auto simp: on_screen_def top_row_def)
    ultimately show ?thesis using 2 h c y k by (auto simp: down_offset_def Let_def clamp_def)
  next
    case 3
    have "drawn h n c' - h = h" using 3 by (simp add: drawn_def top_row_def)
    moreover have "on_screen h c' z" if "1 \<le> z" "z \<le> h" for z using 3 that h by (auto simp: on_screen_def top_row_def)
    ultimately show ?thesis using 3 h c y k by (auto simp: down_offset_def Let_def clamp_def)
  qed
qed

lemma MoveDown_visible:
  assumes ok: "ui_ok ui lines" and vis: "visible ui lines m" and k: "0 \<le> k"
  shows "\<exists>m'. MoveDown ui k m = Ok m' \<and> visible ui lines m' \<and> same_table m m'
     \<and> tb_cursor m' = min (tb_cursor m + k) (row_count m - 1)"
proof -
  let ?h = "tb_Height m" and ?n = "row_count m" and ?c = "tb_cursor m"
  let ?c' = "min (?c + k) (?n - 1)"
  have v: "drawable ui m" "1 \<le> ?h" "0 \<le> ?c" "?c < ?n" "on_screen ?h ?c (tb_YOffset m)"
    using vis by (auto simp: visible_def)
  have c': "clamp (?c + k) 0 (?n - 1) = ?c'" "?c \<le> ?c'" "?c' < ?n" using v k by (auto simp: clamp_def)
  note down = down_on_screen[OF v(2,3) c'(2,3) v(5) k]
  define m0 where "m0 = m\<lparr>tb_cursor := ?c'\<rparr>"
  have m0: "drawable ui m0" "tb_Height m0 = ?h" "tb_cursor m0 = ?c'" "tb_rows m0 = tb_rows m" "tb_YOffset m0 = tb_YOffset m"
    using v(1) by (simp_all add: m0_def)
  have pre: "1 \<le> tb_Height m0" "0 \<le> tb_cursor m0" "tb_cursor m0 < row_count m0"
    unfolding m0(2-) using v c' k by auto
  from UpdateViewport_spec[OF ok m0(1) pre refl, unfolded m0(2-) down(1)] obtain vp where
    upd: "UpdateViewport ui m0 = Ok (m0\<lparr>tb_start := top_row ?h ?c', tb_end := min (?c' + ?h) ?n, tb_viewport := vp\<rparr>)"
    and vp: "vp_Height vp = ?h" "lines (vp_rest vp) = drawn ?h ?n ?c'" "vp_YOffset vp = tb_YOffset m"
    by blast
  define m1 where "m1 = m0\<lparr>tb_start := top_row ?h ?c', tb_end := min (?c' + ?h) ?n, tb_viewport := vp\<rparr>"
  have len: "min (?c' + ?h) ?n - top_row ?h ?c' = drawn ?h ?n ?c'" by (simp add: drawn_def)
  define m2 where "m2 = set_YOffset (down_offset ?h ?n ?c' k (tb_YOffset m)) m1"
  have f: "tb_start m1 = top_row ?h ?c'" "tb_end m1 = min (?c' + ?h) ?n" "tb_cursor m1 = ?c'" "tb_rows m1 = tb_rows m"
    "tb_Height m1 = ?h" "tb_YOffset m1 = tb_YOffset m" "lines (vp_rest (tb_viewport m1)) = drawn ?h ?n ?c'"
    by (simp_all add: m1_def m0(2-) vp)
  have "set_YOffset (tb_YOffset m) m1 = m1" using vp by (simp add: m1_def set_YOffset_def)
  then have "m2 = (if min (?c' + ?h) ?n = ?n \<and> tb_YOffset m > 0
           then scroll_to ui (clamp (tb_YOffset m - k) 1 ?h) m1
           else if ?c' > go_quot (drawn ?h ?n ?c') 2 \<and> tb_YOffset m > 0
           then scroll_to ui (clamp (tb_YOffset m - k) 1 ?c') m1
           else if ?c' > tb_YOffset m + ?h - 1
           then scroll_to ui (clamp (tb_YOffset m + 1) 0 1) m1
           else m1)"
    unfolding m2_def down_offset_def Let_def scroll_to_ok[OF ok] f
    by (simp only: if_distrib[where f = "\<lambda>y. set_YOffset y m1"])
  then have "MoveDown ui k m = Ok m2"
    unfolding MoveDown_def c'(1) m0_def[symmetric] upd andThen.simps m1_def[symmetric] f len by (simp only:)
  moreover have "visible ui lines m2"
    using m0(1) v down(2) vp k by (auto simp: visible_def m2_def m1_def m0(2-) set_YOffset_def)
  moreover have "same_table m m2" "tb_cursor m2 = ?c'"
    by (simp_all add: same_table_def m2_def m1_def m0_def set_YOffset_def vp)
  ultimately show ?thesis by blast
qed

lemma go_half: "1 \<le> h \<Longrightarrow> 0 \<le> go_quot h 2 \<and> go_quot h 2 \<le> h"
  by (simp add: go_quot_nonneg)

lemma same_table_refl [simp]: "same_table m m"
  by (simp add: same_table_def)

lemma table_Update_visible:
  assumes ok: "ui_ok ui lines" and vis: "visible ui lines m"
  shows "\<exists>m'. table_Update ui msg m = Ok m' \<and> visible ui lines m' \<and> same_table m m'"
proof -
  have v: "1 \<le> tb_Height m" "0 \<le> tb_cursor m" using vis by (auto simp: visible_def)
  have up: "\<exists>m'. MoveUp ui k m = Ok m' \<and> visible ui lines m' \<and> same_table m m'"
    if "0 \<le> k" "k \<le> tb_Height m \<or> k = tb_cursor m" for k using MoveUp_visible[OF ok vis that] by blast
  have down: "\<exists>m'. MoveDown ui k m = Ok m' \<and> visible ui lines m' \<and> same_table m m'" if "0 \<le> k" for k
    using MoveDown_visible[OF ok vis that] by blast
  have half: "0 \<le> go_quot (tb_Height m) 2" "go_quot (tb_Height m) 2 \<le> tb_Height m" using go_half[OF v(1)] by simp_all
  have moves: "\<exists>m'. MoveUp ui 1 m = Ok m' \<and> visible ui lines m' \<and> same_table m m'"
    "\<exists>m'. MoveUp ui (tb_Height m) m = Ok m' \<and> visible ui lines m' \<and> same_table m m'"
    "\<exists>m'. MoveUp ui (go_quot (tb_Height m) 2) m = Ok m' \<and> visible ui lines m' \<and> same_table m m'"
    "\<exists>m'. MoveUp ui (tb_cursor m) m = Ok m' \<and> visible ui lines m' \<and> same_table m m'"
    using up v half by simp_all
  have downs: "\<exists>m'. MoveDown ui 1 m = Ok m' \<and> visible ui lines m' \<and> same_table m m'"
    "\<exists>m'. MoveDown ui (tb_Height m) m = Ok m' \<and> visible ui lines m' \<and> same_table m m'"
    "\<exists>m'. MoveDown ui (go_quot (tb_Height m) 2) m = Ok m' \<and> visible ui lines m' \<and> same_table m m'"
    "\<exists>m'. MoveDown ui (row_count m) m = Ok m' \<and> visible ui lines m' \<and> same_table m m'"
    using down v half by simp_all
  have stay: "\<exists>m'. Ok m = Ok m' \<and> visible ui lines m' \<and> same_table m m'" using vis by simp
  show ?thesis unfolding table_Update_def GotoTop_def GotoBottom_def
    by (simp only: moves downs stay simp_thms split: option.split if_split)
qed

lemma refresh_visible:
  assumes ok: "ui_ok ui lines" and vis: "visible ui lines m"
    and same: "drawable ui m1" "tb_Height m1 = tb_Height m" "tb_YOffset m1 = tb_YOffset m"
      "tb_rows m1 = tb_rows m" "tb_cursor m1 = tb_cursor m" "tb_cols m1 = tb_cols m"
  shows "\<exists>m'. UpdateViewport ui m1 = Ok m' \<and> visible ui lines m' \<and> same_table m m'"
proof -
  have "on_screen (tb_Height m) (tb_cursor m)
      (settle (tb_Height m) (drawn (tb_Height m) (row_count m) (tb_cursor m)) (tb_YOffset m))"
    using vis down_on_screen(1)[of "tb_Height m" "tb_cursor m" "tb_cursor m" "row_count m" "tb_YOffset m" 0]
    by (simp add: visible_def)
  then show ?thesis using UpdateViewport_visible[OF ok same(1)] vis same
    by (fastforce simp: visible_def same_table_def)
qed

lemma rows_on_screen:
  assumes h: "1 \<le> h" and c: "0 \<le> c" and n: "1 \<le> n'" and on: "on_screen h c y" and c': "c' = min c (n' - 1)"
  shows "on_screen h c' (settle h (drawn h n' c') y)"
proof -
  have y: "0 \<le> y" "y \<le> c" "y \<le> h" "h \<le> c \<longrightarrow> 1 \<le> y"
    using on on_screen_iff[OF h c] by auto
  show ?thesis
  proof (cases "y \<le> c'")
    case True
    then show ?thesis using y c' h c n by (intro on_screen_settled) auto
  next
    case False
    then have "c' = n' - 1" "n' \<le> h" using c' y by auto
    then show ?thesis using y False h n by (auto simp: settle_def drawn_def top_row_def on_screen_def)
  qed
qed

lemma SetRows_visible:
  assumes ok: "ui_ok ui lines" and vis: "visible ui lines m"
    and rows: "rows \<noteq> []" "\<forall>r \<in> set rows. length r \<le> length (tb_cols m)"
  shows "\<exists>m'. SetRows ui rows m = Ok m' \<and> visible ui lines m' \<and> tb_cols m' = tb_cols m \<and> tb_rows m' = rows
     \<and> tb_Height m' = tb_Height m"
proof -
  let ?c = "min (tb_cursor m) (int (length rows) - 1)"
  define m1 where "m1 = m\<lparr>tb_rows := rows, tb_cursor := ?c\<rparr>"
  have eq: "SetRows ui rows m = UpdateViewport ui m1"
    by (cases "tb_cursor m > int (length rows) - 1") (simp_all add: SetRows_def m1_def Let_def)
  have draw: "drawable ui m1" using vis rows by (auto simp: m1_def visible_def drawable_def)
  have n: "1 \<le> int (length rows)" using rows(1) by (cases rows) auto
  have "on_screen (tb_Height m1) (tb_cursor m1)
      (settle (tb_Height m1) (drawn (tb_Height m1) (row_count m1) (tb_cursor m1)) (tb_YOffset m1))"
    using rows_on_screen[of "tb_Height m" "tb_cursor m" "int (length rows)" "tb_YOffset m" ?c] vis n
    by (simp add: visible_def m1_def)
  then have "\<exists>m'. UpdateViewport ui m1 = Ok m' \<and> visible ui lines m' \<and> same_table m1 m' \<and> tb_cursor m' = tb_cursor m1
     \<and> tb_YOffset m' = settle (tb_Height m1) (drawn (tb_Height m1) (row_count m1) (tb_cursor m1)) (tb_YOffset m1)"
    using vis n by (intro UpdateViewport_visible[OF ok draw]) (auto simp: visible_def m1_def)
  then show ?thesis unfolding eq by (auto simp: same_table_def m1_def)
qed

text \<open>The operations of a table in use: keys, focus, width and rows.\<close>

definition browse_op :: "('v, 'st) ui \<Rightarrow> nat \<Rightarrow> (('v, 'st) Model \<Rightarrow> ('v, 'st) Model res) \<Rightarrow> bool" where
  "browse_op ui n op \<longleftrightarrow>
     (\<exists>msg. op = table_Update ui msg) \<or> op = Focus ui \<or> op = Blur ui \<or> (\<exists>w. op = SetWidth ui w)
   \<or> (\<exists>rows. rows \<noteq> [] \<and> (\<forall>r \<in> set rows. length r \<le> n) \<and> op = SetRows ui rows)"

lemma browse_op_visible:
  assumes ok: "ui_ok ui lines" and vis: "visible ui lines m" and op: "browse_op ui (length (tb_cols m)) op"
  shows "\<exists>m'. op m = Ok m' \<and> visible ui lines m' \<and> tb_cols m' = tb_cols m"
proof -
  note upd = table_Update_visible[OF ok vis] and ref = refresh_visible[OF ok vis] and rows = SetRows_visible[OF ok vis]
  have "\<exists>m'. Focus ui m = Ok m' \<and> visible ui lines m' \<and> same_table m m'"
    "\<exists>m'. Blur ui m = Ok m' \<and> visible ui lines m' \<and> same_table m m'"
    "\<exists>m'. SetWidth ui w m = Ok m' \<and> visible ui lines m' \<and> same_table m m'" for w
    unfolding Focus_def Blur_def SetWidth_def by (rule ref; use vis in \<open>simp add: visible_def\<close>)+
  then show ?thesis using op upd rows by (fastforce simp: browse_op_def same_table_def)
qed

lemma browse_ops_visible:
  assumes ok: "ui_ok ui lines" and "visible ui lines m" "\<forall>op \<in> set ops. browse_op ui (length (tb_cols m)) op"
  shows "\<exists>m'. in_turn ops m = Ok m' \<and> visible ui lines m'"
  using assms(2,3)
proof (induction ops arbitrary: m)
  case (Cons op ops)
  then obtain m1 where "op m = Ok m1" "visible ui lines m1" "tb_cols m1 = tb_cols m"
    using browse_op_visible[OF ok Cons.prems(1), of op] by auto
  then show ?case using Cons by simp
qed simp

text \<open>The options of the widget.\<close>

definition stock_option :: "('v, 'st) ui \<Rightarrow> ('v, 'st) Option \<Rightarrow> bool" where
  "stock_option ui opt \<longleftrightarrow>
     (\<exists>c. opt = WithColumns c) \<or> (\<exists>r. opt = WithRows r) \<or> (\<exists>h. opt = WithHeight ui h) \<or> (\<exists>w. opt = WithWidth w)
   \<or> (\<exists>f. opt = WithFocused f) \<or> (\<exists>s. opt = WithStyles s) \<or> (\<exists>k. opt = WithKeyMap k) \<or> (\<exists>f. opt = WithStyleFunc f)"

lemma stock_option_at_top:
  assumes "stock_option ui opt" "opt m = Ok m'"
  shows "tb_cursor m' = tb_cursor m \<and> tb_YOffset m' = tb_YOffset m"
  using assms
  by (auto simp: stock_option_def WithColumns_def WithRows_def WithHeight_def set_height_def WithWidth_def
      WithFocused_def WithStyles_def WithKeyMap_def WithStyleFunc_def andThen_Ok_iff)

lemma stock_options_at_top:
  "\<forall>opt \<in> set opts. stock_option ui opt \<Longrightarrow> in_turn opts m = Ok m' \<Longrightarrow>
   tb_cursor m' = tb_cursor m \<and> tb_YOffset m' = tb_YOffset m"
proof (induction opts arbitrary: m)
  case (Cons opt opts)
  then obtain m1 where m1: "opt m = Ok m1" "in_turn opts m1 = Ok m'" by (auto simp: andThen_Ok_iff)
  show ?case using Cons.IH[OF _ m1(2)] stock_option_at_top[of ui opt m m1] m1(1) Cons.prems(1) by simp
qed simp

lemma UpdateViewport_frame:
  assumes "ui_ok ui lines" "UpdateViewport ui m = Ok m'"
  shows "tb_rows m' = tb_rows m" "tb_cols m' = tb_cols m" "tb_cursor m' = tb_cursor m" "tb_Height m' = tb_Height m"
    "drawable ui m' = drawable ui m"
  using assms by (auto simp: UpdateViewport_def Let_def andThen_Ok_iff ui_ok_def)

lemma New_visible:
  assumes ok: "ui_ok ui lines" and opts: "\<forall>opt \<in> set opts. stock_option ui opt" and new: "table_New ui opts = Ok m"
    and m: "drawable ui m" "tb_rows m \<noteq> []" "1 \<le> tb_Height m"
  shows "visible ui lines m" "tb_cursor m = 0"
proof -
  from new obtain m0 where m0: "tb_cursor m0 = 0" "tb_YOffset m0 = 0" "UpdateViewport ui m0 = Ok m"
    using stock_options_at_top[OF opts] ok
    by (fastforce simp: table_New_def Let_def andThen_Ok_iff ui_ok_def)
  note frame = UpdateViewport_frame[OF ok m0(3)]
  have "on_screen (tb_Height m0) (tb_cursor m0)
      (settle (tb_Height m0) (drawn (tb_Height m0) (row_count m0) (tb_cursor m0)) (tb_YOffset m0))"
    using m frame m0 by (intro on_screen_settled) (auto simp: Suc_le_eq)
  then obtain m' where "UpdateViewport ui m0 = Ok m'" "visible ui lines m'"
    using UpdateViewport_visible[OF ok, of m0] m frame m0 by auto
  then show "visible ui lines m" "tb_cursor m = 0" using m0 frame by simp_all
qed

text \<open>A drawing library on plain text: a style says whether it is inline, a viewport counts its lines.\<close>

definition newline :: char where "newline = CHR 0x0A"

definition text_height :: "string \<Rightarrow> int" where
  "text_height s = 1 + int (length (filter (\<lambda>c. c = newline) s))"

definition text_ui :: "(int, bool) ui" where
  "text_ui =
     \<lparr>ui_viewport_New = (\<lambda>w h. \<lparr>vp_Width = w, vp_Height = h, vp_YOffset = 0, vp_rest = 1\<rparr>),
      ui_SetContent = (\<lambda>vp s. vp\<lparr>vp_YOffset := settle (vp_Height vp) (text_height s) (vp_YOffset vp),
                                  vp_rest := text_height s\<rparr>),
      ui_SetYOffset = (\<lambda>vp y. vp\<lparr>vp_YOffset := clamp y 0 (max 0 (vp_rest vp - vp_Height vp))\<rparr>),
      ui_viewport_View = (\<lambda>vp. []), ui_NewStyle = False, ui_Bold = (\<lambda>st _. st), ui_Foreground = (\<lambda>st _. st),
      ui_Padding = (\<lambda>st _. st), ui_Width = (\<lambda>st _. st), ui_MaxWidth = (\<lambda>st _. st), ui_Inline = (\<lambda>_ b. b),
      ui_Background_of = (\<lambda>st _. st),
      ui_Render = (\<lambda>st s. if st then filter (\<lambda>c. c \<noteq> newline) s else s),
      ui_Truncate = (\<lambda>s w _. take (nat w) s), ui_JoinHorizontal = concat,
      ui_JoinVertical = (\<lambda>rows. Join rows [newline]), ui_Height = text_height,
      ui_Matches = (\<lambda>k b. k \<in> set (bd_Keys b))\<rparr>"

lemma text_height_simps [simp]:
  "text_height [] = 1" "text_height (s @ t) = text_height s + text_height t - 1" "text_height [newline] = 2"
  by (simp_all add: text_height_def)

lemma text_height_concat: "\<forall>s \<in> set cells. text_height s = 1 \<Longrightarrow> text_height (concat cells) = 1"
  by (induction cells) auto

lemma text_height_Join:
  "\<forall>r \<in> set rows. text_height r = 1 \<Longrightarrow> text_height (Join rows [newline]) = max 1 (int (length rows))"
proof (induction rows "[newline]" rule: Join.induct)
  case (3 s t ss)
  have "text_height (Join (s # t # ss) [newline]) = text_height s + (text_height [newline] - 1)
      + (text_height (Join (t # ss) [newline]) - 1)"
    by (simp only: Join.simps text_height_simps(2))
  then show ?case using 3 by simp
qed simp_all

lemma text_inline: "text_height (filter (\<lambda>c. c \<noteq> newline) s) = 1"
  by (simp add: text_height_def)

lemma text_ui_flat: "flat text_ui st"
  by (simp add: flat_def text_ui_def text_inline)

lemma text_ui_ok: "ui_ok text_ui id"
  unfolding ui_ok_def
  by (simp add: text_ui_flat) (simp add: text_ui_def text_inline text_height_concat text_height_Join settle_def Let_def)

definition sample_opts :: "(int, bool) Option list" where
  "sample_opts =
     [WithColumns [\<lparr>col_Title = ''ID'', col_Width = 4, col_Flex = 0\<rparr>],
      WithRows [[''a''], [''b''], [''c''], [''d''], [''e'']], WithWidth 20, WithHeight text_ui 3, WithFocused True]"

lemma sample_New:
  "case table_New text_ui sample_opts of
     Ok m \<Rightarrow> map col_Flex (tb_cols m) = [0] \<and> tb_rows m = [[''a''], [''b''], [''c''], [''d''], [''e'']]
       \<and> tb_styleFunc m = None \<and> tb_Height m = 2
       \<and> (case in_turn [table_Update text_ui (Some ''G''), table_Update text_ui (Some ''k'')] m of
            Ok m' \<Rightarrow> tb_cursor m' = 3 | _ \<Rightarrow> False)
   | _ \<Rightarrow> False"
  by code_simp



text \<open>
  A table that was just made is at the top. Putting its cursor on a row that is not on the first
  screen draws the rows around it, but the offset stays at the top of what is drawn, and the
  selected row is the first one below the screen.
\<close>

lemma SetCursor_hides:
  assumes ok: "ui_ok ui lines" and opts: "\<forall>opt \<in> set opts. stock_option ui opt" and new: "table_New ui opts = Ok m"
    and m: "drawable ui m" "tb_rows m \<noteq> []" "1 \<le> tb_Height m" and n: "tb_Height m \<le> n" "n < row_count m"
  shows "\<exists>m'. SetCursor ui n m = Ok m' \<and> tb_cursor m' = n \<and> tb_cursor m' = tb_start m' + tb_YOffset m' + tb_Height m'"
proof -
  note vis = New_visible[OF ok opts new m]
  have y: "tb_YOffset m = 0" using vis by (auto simp: visible_def on_screen_def top_row_def)
  define m1 where "m1 = m\<lparr>tb_cursor := n\<rparr>"
  have m1: "drawable ui m1" "1 \<le> tb_Height m1" "0 \<le> tb_cursor m1" "tb_cursor m1 < row_count m1"
    using m n by (simp_all add: m1_def)
  have c: "clamp n 0 (row_count m - 1) = n" using m n by (auto simp: clamp_def)
  from UpdateViewport_spec[OF ok m1 refl] obtain vp where
    "UpdateViewport ui m1 = Ok (m1\<lparr>tb_start := top_row (tb_Height m1) (tb_cursor m1),
       tb_end := min (tb_cursor m1 + tb_Height m1) (row_count m1), tb_viewport := vp\<rparr>)"
    "vp_Height vp = tb_Height m1"
    "vp_YOffset vp = settle (tb_Height m1) (drawn (tb_Height m1) (row_count m1) (tb_cursor m1)) (tb_YOffset m1)"
    by blast
  then show ?thesis using n m y
    by (simp add: SetCursor_def c m1_def[symmetric]) (simp add: m1_def settle_def drawn_def top_row_def)
qed

section \<open>A table of any size\<close>

text \<open>Whatever the height of the screen, a table whose rows fit its columns is drawn without a panic.\<close>

definition sized :: "('v, 'st) Model \<Rightarrow> bool" where
  "sized m \<longleftrightarrow>
     (\<forall>c \<in> set (tb_cols m). 0 \<le> col_Flex c) \<and> (\<forall>r \<in> set (tb_rows m). length r \<le> length (tb_cols m))"

definition same_data :: "('v, 'st) Model \<Rightarrow> ('v, 'st) Model \<Rightarrow> bool" where
  "same_data m m' \<longleftrightarrow> tb_cols m' = tb_cols m \<and> tb_rows m' = tb_rows m \<and> tb_focus m' = tb_focus m
     \<and> tb_KeyMap m' = tb_KeyMap m"

lemma same_data_refl [simp]: "same_data m m"
  by (simp add: same_data_def)

lemma same_data_sized: "same_data m m' \<Longrightarrow> sized m' = sized m"
  by (simp add: same_data_def sized_def)

lemma render_cells_sized:
  "i + length vs \<le> length ws \<Longrightarrow> \<exists>s. render_cells ui m ws r i vs = Ok s"
proof (induction vs arbitrary: i)
  case (Cons v vs)
  have "Suc i + length vs \<le> length ws" using Cons.prems by simp
  from Cons.IH[OF this] obtain s where "render_cells ui m ws r (Suc i) vs = Ok s" by blast
  then show ?case using Cons.prems by (simp add: Let_def)
qed simp

lemma renderRow_sized:
  assumes "sized m" "0 \<le> r" "r < row_count m"
  shows "\<exists>s. renderRow ui m r = Ok s"
proof -
  obtain ws where ws: "computeColumnWidths m = Ok ws" "length ws = length (tb_cols m)"
    using computeColumnWidths_total assms(1) unfolding sized_def by blast
  have "length (tb_rows m ! nat r) \<le> length ws"
    using assms ws(2) nth_mem[of "nat r" "tb_rows m"] by (simp add: sized_def)
  then obtain s where "render_cells ui m ws r 0 (tb_rows m ! nat r) = Ok s"
    using render_cells_sized[of 0 "tb_rows m ! nat r" ws ui m r] by auto
  then show ?thesis using ws(1) assms by (simp add: renderRow_def Let_def)
qed

lemma render_rows_sized:
  "sized m \<Longrightarrow> \<forall>i \<in> set is. 0 \<le> i \<and> i < row_count m \<Longrightarrow> \<exists>rows. render_rows ui m is = Ok rows"
proof (induction "is")
  case (Cons i "is")
  then show ?case using renderRow_sized[of m i] by auto
qed simp

lemma UpdateViewport_sized:
  assumes "sized m"
  shows "\<exists>m'. UpdateViewport ui m = Ok m' \<and> same_data m m' \<and> tb_cursor m' = tb_cursor m"
proof -
  define m1 where "m1 = m\<lparr>tb_start := if tb_cursor m \<ge> 0 then clamp (tb_cursor m - tb_Height m) 0 (tb_cursor m) else 0,
                 tb_end := clamp (tb_cursor m + tb_Height m) (tb_cursor m) (row_count m)\<rparr>"
  have "sized m1" using assms by (simp add: m1_def sized_def)
  moreover have "\<forall>i \<in> set [tb_start m1..tb_end m1 - 1]. 0 \<le> i \<and> i < row_count m1"
    by (auto simp: m1_def clamp_def)
  ultimately obtain rows where "render_rows ui m1 [tb_start m1..tb_end m1 - 1] = Ok rows"
    using render_rows_sized[of m1] by blast
  then show ?thesis by (simp add: UpdateViewport_def m1_def[symmetric] Let_def) (simp add: m1_def same_data_def)
qed

definition in_range :: "('v, 'st) Model \<Rightarrow> bool" where
  "in_range m \<longleftrightarrow> 0 \<le> tb_cursor m \<and> tb_cursor m < row_count m"

lemma clamp_in_range: "rows \<noteq> [] \<Longrightarrow> 0 \<le> clamp v 0 (int (length rows) - 1) \<and> clamp v 0 (int (length rows) - 1) < int (length rows)"
  by (cases rows) (auto simp: clamp_def)

lemma refresh_sized:
  assumes "sized m" "same_data m m1"
  shows "\<exists>m'. UpdateViewport ui m1 = Ok m' \<and> same_data m m' \<and> tb_cursor m' = tb_cursor m1"
proof -
  obtain m' where "UpdateViewport ui m1 = Ok m'" "same_data m1 m'" "tb_cursor m' = tb_cursor m1"
    using UpdateViewport_sized[of m1 ui] assms same_data_sized by blast
  then show ?thesis using assms(2) by (auto simp: same_data_def)
qed

lemma MoveUp_sized:
  assumes "sized m"
  shows "\<exists>m'. MoveUp ui k m = Ok m' \<and> same_data m m' \<and> tb_cursor m' = clamp (tb_cursor m - k) 0 (row_count m - 1)"
proof -
  let ?c = "clamp (tb_cursor m - k) 0 (row_count m - 1)"
  have "\<exists>m2. MoveUp ui k m = UpdateViewport ui m2 \<and> same_data m m2 \<and> tb_cursor m2 = ?c"
    unfolding MoveUp_def Let_def
    by (rule exI, rule conjI, rule refl) (simp add: same_data_def scroll_to_def set_YOffset_def)
  then show ?thesis using refresh_sized[OF assms] by metis
qed

lemma MoveDown_sized:
  assumes "sized m"
  shows "\<exists>m'. MoveDown ui k m = Ok m' \<and> same_data m m' \<and> tb_cursor m' = clamp (tb_cursor m + k) 0 (row_count m - 1)"
proof -
  let ?c = "clamp (tb_cursor m + k) 0 (row_count m - 1)"
  have "same_data m (m\<lparr>tb_cursor := ?c\<rparr>)" by (simp add: same_data_def)
  from refresh_sized[OF assms this, of ui] obtain m1
    where "UpdateViewport ui (m\<lparr>tb_cursor := ?c\<rparr>) = Ok m1" "same_data m m1" "tb_cursor m1 = ?c" by auto
  then show ?thesis unfolding MoveDown_def by (simp add: same_data_def scroll_to_def)
qed

lemma SetCursor_sized:
  assumes "sized m"
  shows "\<exists>m'. SetCursor ui n m = Ok m' \<and> same_data m m' \<and> tb_cursor m' = clamp n 0 (row_count m - 1)"
  unfolding SetCursor_def by (rule refresh_sized[OF assms, of "m\<lparr>tb_cursor := clamp n 0 (row_count m - 1)\<rparr>" ui, simplified])
    (simp add: same_data_def)

lemma SetWidth_sized:
  assumes "sized m"
  shows "\<exists>m'. SetWidth ui w m = Ok m' \<and> same_data m m' \<and> tb_cursor m' = tb_cursor m"
  unfolding SetWidth_def
  by (rule refresh_sized[OF assms, of "m\<lparr>tb_viewport := (tb_viewport m)\<lparr>vp_Width := w\<rparr>\<rparr>" ui, simplified])
    (simp add: same_data_def)

lemma set_height_sized:
  assumes "\<forall>c \<in> set (tb_cols m). 0 \<le> col_Flex c"
  shows "\<exists>m'. set_height ui h m = Ok m' \<and> same_data m m' \<and> tb_cursor m' = tb_cursor m"
proof -
  obtain ws where "computeColumnWidths m = Ok ws" using computeColumnWidths_total[OF assms] by blast
  then show ?thesis by (simp add: set_height_def headersView_def same_data_def)
qed

lemma SetHeight_sized:
  assumes "sized m"
  shows "\<exists>m'. SetHeight ui h m = Ok m' \<and> same_data m m' \<and> tb_cursor m' = tb_cursor m"
proof -
  obtain m1 where m1: "set_height ui h m = Ok m1" "same_data m m1" "tb_cursor m1 = tb_cursor m"
    using set_height_sized[of m ui h] assms unfolding sized_def by blast
  then show ?thesis using refresh_sized[OF assms m1(2), of ui] by (simp add: SetHeight_def)
qed

lemma table_Update_sized:
  assumes "sized m"
  shows "\<exists>m'. table_Update ui msg m = Ok m' \<and> same_data m m'
     \<and> (\<exists>v. tb_cursor m' = tb_cursor m \<or> tb_cursor m' = clamp v 0 (row_count m - 1))"
proof -
  have up: "\<exists>m'. MoveUp ui k m = Ok m' \<and> same_data m m'
      \<and> (\<exists>v. tb_cursor m' = tb_cursor m \<or> tb_cursor m' = clamp v 0 (row_count m - 1))" for k
    using MoveUp_sized[OF assms, of ui k] by blast
  have down: "\<exists>m'. MoveDown ui k m = Ok m' \<and> same_data m m'
      \<and> (\<exists>v. tb_cursor m' = tb_cursor m \<or> tb_cursor m' = clamp v 0 (row_count m - 1))" for k
    using MoveDown_sized[OF assms, of ui k] by blast
  have stay: "\<exists>m'. Ok m = Ok m' \<and> same_data m m'
      \<and> (\<exists>v. tb_cursor m' = tb_cursor m \<or> tb_cursor m' = clamp v 0 (row_count m - 1))" by simp
  show ?thesis unfolding table_Update_def GotoTop_def GotoBottom_def
    by (simp only: up down stay simp_thms split: option.split if_split)
qed

lemma table_Update_in_range:
  assumes "sized m" "in_range m" "table_Update ui msg m = Ok m'"
  shows "in_range m'" "same_data m m'"
proof -
  obtain v where *: "same_data m m'" "tb_cursor m' = tb_cursor m \<or> tb_cursor m' = clamp v 0 (row_count m - 1)"
    using table_Update_sized[OF assms(1), of ui msg] assms(3) by auto
  moreover have "tb_rows m \<noteq> []" using assms(2) by (auto simp: in_range_def)
  ultimately show "in_range m'" "same_data m m'"
    using assms(2) clamp_in_range[of "tb_rows m" v] by (auto simp: in_range_def same_data_def)
qed

text \<open>The tables of the screens are made with the same options in the same order.\<close>

definition screen_options ::
  "('v, 'st) ui \<Rightarrow> Column list \<Rightarrow> Row list \<Rightarrow> int \<Rightarrow> int \<Rightarrow> 'st Styles \<Rightarrow> 'st StyleFunc \<Rightarrow> ('v, 'st) Option list" where
  "screen_options ui columns rows width height styles f =
     [WithColumns columns, WithRows rows, WithFocused True, WithWidth width, WithHeight ui height,
      WithStyles styles, WithStyleFunc f]"

lemma screen_table:
  assumes "\<forall>c \<in> set columns. 0 \<le> col_Flex c" "\<forall>r \<in> set rows. length r \<le> length columns"
  shows "\<exists>m. table_New ui (screen_options ui columns rows width height styles f) = Ok m
     \<and> tb_cols m = columns \<and> tb_rows m = rows \<and> tb_cursor m = 0 \<and> sized m"
proof -
  define m0 where "m0 = \<lparr>tb_KeyMap = DefaultKeyMap, tb_cols = columns, tb_rows = rows, tb_cursor = 0, tb_focus = True,
     tb_styles = DefaultStyles ui, tb_styleFunc = None, tb_viewport = (ui_viewport_New ui 0 20)\<lparr>vp_Width := width\<rparr>,
     tb_start = 0, tb_end = 0\<rparr>"
  obtain m1 where m1: "set_height ui height m0 = Ok m1" "same_data m0 m1" "tb_cursor m1 = 0"
    using set_height_sized[of m0 ui height] assms(1) by (auto simp: m0_def)
  define m2 where "m2 = m1\<lparr>tb_styles := styles, tb_styleFunc := Some f\<rparr>"
  have d: "tb_cols m2 = columns" "tb_rows m2 = rows" "tb_cursor m2 = 0"
    using m1 by (simp_all add: m2_def same_data_def m0_def)
  then have "sized m2" using assms by (simp add: sized_def)
  from UpdateViewport_sized[OF this, of ui] obtain m
    where m: "UpdateViewport ui m2 = Ok m" "same_data m2 m" "tb_cursor m = tb_cursor m2" by blast
  have "table_New ui (screen_options ui columns rows width height styles f) = UpdateViewport ui m2"
    using m1(1) by (simp add: table_New_def screen_options_def WithColumns_def WithRows_def WithFocused_def WithWidth_def
        WithHeight_def WithStyles_def WithStyleFunc_def m0_def m2_def)
  then show ?thesis using m d \<open>sized m2\<close> same_data_sized[OF m(2)] by (auto simp: same_data_def)
qed

end
