(* ===== verification/Spec2Isabelle.thy ===== *)
theory Spec2Isabelle
  imports Startup Table
begin

text \<open>
  Ground Control (\<^verbatim>\<open>grctl\<close>) is a workflow engine on NATS JetStream. A client sends commands to
  the API of the server; the server turns them into directives on the state stream; the run
  manager takes one directive after the other, reads a snapshot of the run, plans a batch of
  records and commits the batch atomically, guarded by the sequence number of the run state.
  The batch dispatches steps to workers, arms timers, writes history and queues background
  tasks. Workers answer with directives; fired timers and finished tasks become directives or
  further writes. This library models the server, the daemon around it and what they share, and
  proves what makes them correct.

  \<^bold>\<open>How the parts are modelled.\<close> Go structs are records, Go interfaces that carry a kind are
  datatypes with the source's constructors, unsigned integers are words of their width,
  durations and times are nanoseconds as integers. An operation that can fail returns a \<open>res\<close>:
  a value, an error with its chain of wrapped causes, or a panic. State is passed explicitly.
  The clock, fresh identifiers and the msgpack codec are the parameter \<open>runtime\<close>, with one value
  per place in the source that reads them; what is relied on is \<open>codec_ok\<close>, that a value which fits
  the format is decoded from its encoding. JetStream is the parameter record \<open>jetstream\<close>; its
  documented effects are the locale \<open>state_stream\<close>, interpreted by a stream in memory and by one
  that loses answers. The other libraries (NATS client and server, koanf, the operating system)
  are parameters of the definitions that call them.

  \<^bold>\<open>The theories, in the order of their imports.\<close>

  \<^item> \<open>Prelude\<close>, \<open>Runtime\<close>, \<open>GoStrings\<close>, \<open>GoTime\<close>, \<open>GoDuration\<close>: results and errors
    (\<^verbatim>\<open>fmt.Errorf\<close> with \<^verbatim>\<open>%w\<close>, \<^verbatim>\<open>errors.Is\<close>, \<^verbatim>\<open>errors.As\<close>), decimal numbers, the used parts of
    \<^verbatim>\<open>strings\<close>, RFC 3339 times, \<^verbatim>\<open>time.ParseDuration\<close>.
  \<^item> \<open>Types\<close>, \<open>Tasks\<close>, \<open>HistoryTypes\<close>, \<open>Records\<close>: the external types (\<^verbatim>\<open>src/types/\<close>) with their
    constructors, status transitions and derived identifiers.
  \<^item> \<open>Msgpack\<close>, \<open>Wire\<close>: the msgpack values and the custom encodings of directives, commands, run
    infos, run states, timers, tasks and history events; that decoding inverts encoding.
  \<^item> \<open>History\<close>, \<open>Transitions\<close>, \<open>Plan\<close>: the history events (\<^verbatim>\<open>src/run/history\<close>), one definition per
    transition (\<^verbatim>\<open>src/run/record\<close>) and the planner (\<^verbatim>\<open>src/run/plan.go\<close>). The lemmas say what a
    batch is for every kind of directive: finished runs are finished completely, a step or a wait
    always has its timer, at most one state is written and it is guarded, timeouts make progress,
    events are handled in order, and exactly when the planner panics.
  \<^item> \<open>Natsreg\<close>: the subject manifest (\<^verbatim>\<open>src/natsreg\<close>) as a value, every accessor, and the
    substitution of parameters, which does not depend on Go's map order.
  \<^item> \<open>JetStream\<close>, \<open>Store\<close>, \<open>StoreProps\<close>: streams with sequence numbers, guards, message
    identifiers, rollups and purges; the state store (\<^verbatim>\<open>src/jsstore\<close>) with its conversion of
    records to messages; commits are atomic and truthful, guarded commits are current, reads after
    commits return what was committed, purges remove the residue and nothing else.
  \<^item> \<open>Metrics\<close>, \<open>Manager\<close>, \<open>RunMachine\<close>: the metrics calls (\<^verbatim>\<open>src/metrics\<close>); \<^verbatim>\<open>Handle\<close>
    (\<^verbatim>\<open>src/run/manager.go\<close>) over the locale \<open>recorder\<close>, which the store implements; and a step
    relation for any number of concurrent managers, whose invariant is that guarded run states
    follow the state diagram.
  \<^item> \<open>Config\<close>, \<open>Registry\<close>, \<open>Service\<close>: the configuration (\<^verbatim>\<open>src/config\<close>), the type registry
    (\<^verbatim>\<open>src/jsstore/registry.go\<close>) and the service behind the API (\<^verbatim>\<open>src/run/service.go\<close>) over the
    locale \<open>run_store\<close>.
  \<^item> \<open>Timers\<close>, \<open>BgTasks\<close>, \<open>Ingress\<close>, \<open>Api\<close>: timers and what they do when they fire, background
    tasks and the request to a worker, the three consumers with their answers, and the subscriber of
    the API with its error codes.
  \<^item> \<open>Logging\<close>, \<open>Daemon\<close>, \<open>Server\<close>, \<open>Startup\<close>: the text handler of the logs with the arrays its
    handlers share, options and flags of the daemon (\<^verbatim>\<open>src/grctld\<close>, \<^verbatim>\<open>src/natsembd\<close>), the server
    put together (\<^verbatim>\<open>src/server\<close>) with the theorem that all its reactions refine the run machine and
    that a started run reaches a worker, and the life of the daemon with what it leaves open.
  \<^item> \<open>SampleRuntime\<close>: a runtime with a concrete codec, on which the witnesses evaluate.

  \<^bold>\<open>Interfaces.\<close> \<open>state_stream\<close> (JetStream; \<open>honest_stream\<close> adds that a refusal as a duplicate is
  true), \<open>recorder\<close> (what the manager needs of a store) and \<open>run_store\<close> (what the service needs).
  The store implements the last two on every \<open>state_stream\<close>, by sublocales; the clients are proved
  once inside the locales.

  \<^bold>\<open>Bounds.\<close> No definition runs on fuel: loops are structural recursion, and the wait for JetStream
  and the decoder of nested messages have termination proofs by a measure. Sequence numbers are
  64-bit words; a stream takes no message beyond the last number. Timeouts are 32-bit milliseconds,
  and the conversion from the configuration truncates as the code does.

  \<^bold>\<open>Not modelled.\<close> Log output and its context values; the durations the metrics measure; signals,
  goroutine scheduling other than the interleaving of the run machine; the OTLP exporter
  (\<^verbatim>\<open>src/grctld/telemetry\<close>), which only calls its library; helpers of the tests
  (\<^verbatim>\<open>src/testutil\<close>); the parsing of the embedded YAML manifest, whose result is the value
  \<open>Manifest\<close>; the worker side of the protocol, which is not in this repository.
\<close>

end
